(* ===== verification/Prelude.thy ===== *)
theory Prelude
  imports Main "HOL-Library.Word"
begin

text \<open>
  Shared vocabulary of the development: the machine integer types of the C
  sources, the theorem collections the component theories extend, and generic
  facts on lists that are used as buffers (in-place writes of a block, reads of
  a slice, and the slice of a ring buffer).
\<close>

unbundle bit_operations_syntax

type_synonym u8 = "8 word"
type_synonym u16 = "16 word"
type_synonym u32 = "32 word"
type_synonym u64 = "64 word"
type_synonym bytes = "8 word list"

named_theorems buf_simps "facts on blocks written to and read from buffers"
named_theorems inv_intros "preservation of the component invariants"

lemma ucast_8_16_8 [simp]: "ucast (ucast (x :: u8) :: u16) = x"
  by (rule bit_word_eqI) (simp add: bit_simps)

lemma ucast_8_32_8 [simp]: "ucast (ucast (x :: u8) :: u32) = x"
  by (rule bit_word_eqI) (simp add: bit_simps)

lemma dec_mod_256: "0 < n \<Longrightarrow> n \<le> 256 \<Longrightarrow> (n + 255) mod 256 = n - (1 :: nat)"
  by (cases n) (simp_all add: mod_if)

lemma list_update_Cons_numeral [simp]:
  "(x # xs)[numeral n := y] = x # xs[pred_numeral n := y]"
  by (simp add: numeral_eq_Suc)

section \<open>C strings\<close>

text \<open>A string literal as bytes, the array \<open>char a[n] = "..."\<close> it initialises, and the
  string functions read up to the terminating zero.\<close>

definition ascii :: "string \<Rightarrow> bytes" where
  "ascii s = map of_char s"

definition char_array :: "nat \<Rightarrow> string \<Rightarrow> bytes" where
  "char_array n s = ascii s @ replicate (n - length s) 0"

definition cstr :: "bytes \<Rightarrow> bytes" where
  "cstr b = takeWhile (\<lambda>x. x \<noteq> 0) b"

lemma length_ascii [simp]: "length (ascii s) = length s"
  by (simp add: ascii_def)

lemma length_char_array [simp]: "length s \<le> n \<Longrightarrow> length (char_array n s) = n"
  by (simp add: char_array_def)

lemma cstr_append_zero [simp]: "cstr (s @ 0 # t) = cstr s"
  by (induction s) (simp_all add: cstr_def)

section \<open>Blocks of a buffer\<close>

text \<open>\<open>mem_write b off xs\<close> is \<open>memcpy(b + off, xs, n)\<close>: byte by byte, and a byte
  past the end of the array is dropped (the C code has no such byte; the lemmas
  below carry the bound).  \<open>mem_read b off n\<close> is the slice \<open>b[off .. off+n-1]\<close>.\<close>

primrec mem_write :: "'a list \<Rightarrow> nat \<Rightarrow> 'a list \<Rightarrow> 'a list" where
  "mem_write b off [] = b"
| "mem_write b off (x # xs) = mem_write (b[off := x]) (Suc off) xs"

definition mem_read :: "'a list \<Rightarrow> nat \<Rightarrow> nat \<Rightarrow> 'a list" where
  "mem_read b off n = take n (drop off b)"

lemma length_mem_write [simp, buf_simps]: "length (mem_write b off xs) = length b"
  by (induction xs arbitrary: b off) auto

lemma nth_mem_write [buf_simps]:
  "i < length b \<Longrightarrow>
   mem_write b off xs ! i = (if off \<le> i \<and> i < off + length xs then xs ! (i - off) else b ! i)"
proof (induction xs arbitrary: b off)
  case (Cons x xs)
  have "mem_write b off (x # xs) ! i =
      (if Suc off \<le> i \<and> i < Suc off + length xs then xs ! (i - Suc off) else b[off := x] ! i)"
    using Cons.IH[of "b[off := x]" "Suc off"] Cons.prems by simp
  then show ?case
    using Cons.prems by (auto simp: nth_list_update nth_Cons' Suc_diff_Suc)
qed auto

lemma nth_mem_write_outside:
  "i < off \<or> off + length xs \<le> i \<Longrightarrow> mem_write b off xs ! i = b ! i"
  by (induction xs arbitrary: b off) auto

lemma mem_write_append:
  "mem_write b off (xs @ ys) = mem_write (mem_write b off xs) (off + length xs) ys"
  by (induction xs arbitrary: b off) auto

lemma mem_write_take_drop [buf_simps]:
  "off + length xs \<le> length b \<Longrightarrow>
   mem_write b off xs = take off b @ xs @ drop (off + length xs) b"
  by (rule nth_equalityI) (auto simp: nth_mem_write nth_append min_def)

lemma mem_write_end:
  "off + length xs = length b \<Longrightarrow> mem_write b off xs = take off b @ xs"
  by (simp add: mem_write_take_drop)

lemma mem_read_write_same [simp, buf_simps]:
  "off + length xs \<le> length b \<Longrightarrow> mem_read (mem_write b off xs) off (length xs) = xs"
  by (simp add: mem_write_take_drop mem_read_def)

lemma mem_read_write_other [buf_simps]:
  assumes "off + n \<le> off' \<or> off' + length xs \<le> off"
    and "off + n \<le> length b"
  shows "mem_read (mem_write b off' xs) off n = mem_read b off n"
  using assms by (intro nth_equalityI) (auto simp: mem_read_def nth_mem_write)

lemma length_mem_read [simp, buf_simps]: "off + n \<le> length b \<Longrightarrow> length (mem_read b off n) = n"
  by (simp add: mem_read_def)

lemma nth_mem_read [simp, buf_simps]:
  "off + n \<le> length b \<Longrightarrow> i < n \<Longrightarrow> mem_read b off n ! i = b ! (off + i)"
  by (simp add: mem_read_def)

section \<open>The slice of a ring buffer\<close>

definition ring_slice :: "'a list \<Rightarrow> nat \<Rightarrow> nat \<Rightarrow> 'a list" where
  "ring_slice b rd n = map (\<lambda>i. b ! ((rd + i) mod length b)) [0..<n]"

lemma length_ring_slice [simp]: "length (ring_slice b rd n) = n"
  by (simp add: ring_slice_def)

lemma ring_slice_0 [simp]: "ring_slice b rd 0 = []"
  by (simp add: ring_slice_def)

lemma ring_slice_Suc:
  "rd < length b \<Longrightarrow>
   ring_slice b rd (Suc n) = b ! rd # ring_slice b ((rd + 1) mod length b) n"
  by (rule nth_equalityI) (auto simp: ring_slice_def nth_Cons' mod_add_left_eq simp del: upt_Suc)

lemma ring_index_inj_le:
  fixes rd i j len :: nat
  assumes "i \<le> j" "j < len" "(rd + j) mod len = (rd + i) mod len"
  shows "j = i"
proof -
  have "len dvd (rd + j) - (rd + i)"
    using assms(1,3) by (subst mod_eq_dvd_iff_nat[symmetric]) simp_all
  then have "len dvd j - i" by simp
  then show ?thesis using assms(1,2) by (cases "j - i = 0") (auto dest: dvd_imp_le)
qed

lemma ring_index_inj:
  fixes rd i j len :: nat
  assumes "i < len" "j < len" "(rd + i) mod len = (rd + j) mod len"
  shows "i = j"
proof (cases "i \<le> j")
  case True
  show ?thesis using ring_index_inj_le[OF True assms(2) assms(3)[symmetric]] by simp
next
  case False
  then show ?thesis using ring_index_inj_le[of j i len rd] assms by simp
qed

lemma ring_slice_snoc:
  assumes "n < length b"
  shows "ring_slice (b[(rd + n) mod length b := x]) rd (Suc n) = ring_slice b rd n @ [x]"
proof -
  have "(rd + n) mod length b \<noteq> (rd + i) mod length b" if "i < n" for i
    using ring_index_inj[of i "length b" n rd] that assms by auto
  moreover have "(rd + n) mod length b < length b"
    using assms by (intro mod_less_divisor) linarith
  ultimately show ?thesis
    by (auto simp: ring_slice_def nth_list_update_neq)
qed

end
