(* ===== verification/Checksum.thy ===== *)
theory Checksum
  imports Prelude
begin

text \<open>
  \<open>include/checksum.h\<close>: the X.25 checksum the serial and MAVLink protocols
  share.  The table-free byte step of the code is shown equal to eight steps of
  the bitwise shift register with the reflected polynomial 0x8408.
\<close>

definition crc_accumulate :: "u8 \<Rightarrow> u16 \<Rightarrow> u16" where
  "crc_accumulate data crcAccum =
     (let tmp = data XOR ucast (crcAccum AND 0xff);
          tmp = tmp XOR push_bit 4 tmp;
          w = (ucast tmp :: u16)
      in drop_bit 8 crcAccum XOR push_bit 8 w XOR push_bit 3 w XOR drop_bit 4 w)"

definition crc_init :: u16 where
  "crc_init = 0xffff"

fun crc_accumulate_buffer :: "u16 \<Rightarrow> bytes \<Rightarrow> u16" where
  "crc_accumulate_buffer crcAccum [] = crcAccum"
| "crc_accumulate_buffer crcAccum (p # ps) = crc_accumulate_buffer (crc_accumulate p crcAccum) ps"

definition crc_calculate :: "bytes \<Rightarrow> u16" where
  "crc_calculate pBuffer = crc_accumulate_buffer crc_init pBuffer"

section \<open>The bitwise reference\<close>

definition crc_bit :: "u16 \<Rightarrow> u16" where
  "crc_bit c = drop_bit 1 c XOR (if bit c 0 then 0x8408 else 0)"

definition crc_byte_ref :: "u8 \<Rightarrow> u16 \<Rightarrow> u16" where
  "crc_byte_ref data c = (crc_bit ^^ 8) (c XOR ucast data)"

lemma crc_bit_xor: "crc_bit (a XOR b) = crc_bit a XOR crc_bit b"
  by (rule bit_word_eqI) (auto simp: crc_bit_def bit_simps)

lemma crc_bits_xor: "(crc_bit ^^ n) (a XOR b) = (crc_bit ^^ n) a XOR (crc_bit ^^ n) b"
  by (induction n) (auto simp: crc_bit_xor)

lemma crc_bits_high:
  assumes "\<forall>i<n. \<not> bit a i"
  shows "(crc_bit ^^ n) a = drop_bit n a"
  using assms
proof (induction n arbitrary: a)
  case (Suc n)
  have "crc_bit a = drop_bit 1 a"
    using Suc.prems by (auto simp: crc_bit_def)
  moreover have "\<forall>i<n. \<not> bit (drop_bit 1 a) i"
    using Suc.prems by (auto simp: bit_simps)
  ultimately show ?case
    using Suc.IH[of "drop_bit 1 a"] by (simp add: funpow_swap1 del: funpow.simps(2) add: funpow_Suc_right)
qed simp

text \<open>Both sides of the byte table are linear for XOR, so the eight basis bytes decide it.\<close>

lemma xor_linear_eq:
  fixes f g :: "u8 \<Rightarrow> u16"
  assumes f: "\<And>a b. f (a XOR b) = f a XOR f b" and g: "\<And>a b. g (a XOR b) = g a XOR g b"
    and basis: "\<And>i. i < 8 \<Longrightarrow> f (2 ^ i) = g (2 ^ i)"
  shows "f x = g x"
proof -
  have zero: "f 0 = 0" "g 0 = 0" using f[of 0 0] g[of 0 0] by auto
  have "k \<le> 8 \<Longrightarrow> f (take_bit k x) = g (take_bit k x)" for k
  proof (induction k)
    case (Suc k)
    have "take_bit (Suc k) x = take_bit k x XOR (if bit x k then 2 ^ k else 0)"
      by (rule bit_word_eqI) (auto simp: bit_simps less_Suc_eq)
    then show ?case using Suc by (simp add: f g basis zero)
  qed (simp add: zero)
  from this[of 8] show ?thesis by (simp add: take_bit_word_eq_self)
qed

lemma crc_accumulate_xor:
  "crc_accumulate (a XOR b) 0 = crc_accumulate a 0 XOR crc_accumulate b 0"
  by (simp add: crc_accumulate_def Let_def unsigned_xor_eq push_bit_xor drop_bit_xor
      xor.assoc xor.left_commute xor.commute)

lemma crc_basis_table:
  "list_all (\<lambda>i. (crc_bit ^^ 8) (ucast (2 ^ i :: u8)) = crc_accumulate (2 ^ i) 0)
     [0, 1, 2, 3, 4, 5, 6, 7]"
  by code_simp

lemma crc_bits_byte: "(crc_bit ^^ 8) (ucast (x :: u8)) = crc_accumulate x 0"
proof (rule xor_linear_eq[where f = "\<lambda>x. (crc_bit ^^ 8) (ucast x)"])
  fix i :: nat assume "i < 8"
  then have "i \<in> {0, 1, 2, 3, 4, 5, 6, 7}" by auto
  then show "(crc_bit ^^ 8) (ucast (2 ^ i :: u8)) = crc_accumulate (2 ^ i) 0"
    using crc_basis_table by (auto simp: list_all_iff)
qed (simp_all add: crc_accumulate_xor unsigned_xor_eq crc_bits_xor)

lemma crc_accumulate_split:
  "crc_accumulate data c = drop_bit 8 c XOR crc_accumulate (data XOR ucast (c AND 0xff)) 0"
  by (simp add: crc_accumulate_def Let_def ac_simps)

lemma crc_accumulate_ref: "crc_accumulate data c = crc_byte_ref data c"
proof -
  let ?lo = "c AND mask 8" and ?hi = "c AND NOT (mask 8)"
  have lo: "c AND 0xff = ?lo" by (simp add: mask_eq_exp_minus_1)
  have c: "c XOR ucast data = ?hi XOR ucast (data XOR ucast ?lo)"
    by (rule bit_word_eqI) (auto simp: bit_simps)
  have "(crc_bit ^^ 8) ?hi = drop_bit 8 ?hi"
    by (rule crc_bits_high) (auto simp: bit_simps)
  also have "\<dots> = drop_bit 8 c"
    by (rule bit_word_eqI) (auto simp: bit_simps dest: bit_imp_le_length)
  finally show ?thesis
    by (simp only: crc_byte_ref_def c crc_bits_xor crc_bits_byte crc_accumulate_split[of data c] lo)
qed

text \<open>C19: The checksum of a buffer that the protocols compute byte by byte is the one
  of the bit-serial X.25 register (polynomial 0x8408, preset 0xffff), for every buffer.\<close>

theorem crc_calculate_bitwise: "crc_calculate bs = fold crc_byte_ref bs 0xffff"
proof -
  have "crc_accumulate_buffer c bs = fold crc_byte_ref bs c" for c
    by (induction bs arbitrary: c) (auto simp: crc_accumulate_ref)
  then show ?thesis by (simp add: crc_calculate_def crc_init_def)
qed

lemma crc_accumulate_buffer_append:
  "crc_accumulate_buffer c (xs @ ys) = crc_accumulate_buffer (crc_accumulate_buffer c xs) ys"
  by (induction xs arbitrary: c) auto

end
