(* ===== verification/Interfaces.thy ===== *)
theory Interfaces
  imports Prelude
begin

text \<open>
  The contracts several components share, as locales: a bounded first-in
  first-out queue that drops what does not fit, and a queue that can be emptied.
  The event queue interprets both in its theory; the lemmas about sequences of
  operations are proved here once.
\<close>

datatype 'a fifo_op = Put 'a | Get

text \<open>Abstract queue: the list of the elements not yet delivered.\<close>

definition fifo_put :: "nat \<Rightarrow> 'a \<Rightarrow> 'a list \<Rightarrow> 'a list" where
  "fifo_put cap x xs = (if length xs < cap then xs @ [x] else xs)"

fun fifo_get :: "'a list \<Rightarrow> 'a option \<times> 'a list" where
  "fifo_get [] = (None, [])"
| "fifo_get (x # xs) = (Some x, xs)"

text \<open>Running a sequence of operations, on the abstract queue and on any
  implementation; the outputs of the reads are collected in order.\<close>

fun spec_run :: "nat \<Rightarrow> 'a fifo_op list \<Rightarrow> 'a list \<Rightarrow> 'a option list \<times> 'a list" where
  "spec_run cap [] xs = ([], xs)"
| "spec_run cap (Put x # ops) xs = spec_run cap ops (fifo_put cap x xs)"
| "spec_run cap (Get # ops) xs =
     (let (r, xs') = fifo_get xs; (rs, xs'') = spec_run cap ops xs' in (r # rs, xs''))"

fun impl_run :: "('a \<Rightarrow> 's \<Rightarrow> 's) \<Rightarrow> ('s \<Rightarrow> 'a option \<times> 's) \<Rightarrow> 'a fifo_op list \<Rightarrow> 's \<Rightarrow> 'a option list \<times> 's" where
  "impl_run put get [] s = ([], s)"
| "impl_run put get (Put x # ops) s = impl_run put get ops (put x s)"
| "impl_run put get (Get # ops) s =
     (let (r, s') = get s; (rs, s'') = impl_run put get ops s' in (r # rs, s''))"

locale bounded_fifo =
  fixes inv :: "'s \<Rightarrow> bool"
    and contents :: "'s \<Rightarrow> 'a list"
    and cap :: nat
    and put :: "'a \<Rightarrow> 's \<Rightarrow> 's"
    and get :: "'s \<Rightarrow> 'a option \<times> 's"
  assumes bound: "inv s \<Longrightarrow> length (contents s) \<le> cap"
    and put_inv: "inv s \<Longrightarrow> inv (put x s)"
    and put_contents: "inv s \<Longrightarrow> contents (put x s) = fifo_put cap x (contents s)"
    and get_inv: "inv s \<Longrightarrow> inv (snd (get s))"
    and get_contents: "inv s \<Longrightarrow> (fst (get s), contents (snd (get s))) = fifo_get (contents s)"
begin

lemma puts_inv: "inv s \<Longrightarrow> inv (fold put xs s)"
  by (induction xs arbitrary: s) (auto intro: put_inv)

lemma puts_contents: "inv s \<Longrightarrow> contents (fold put xs s) = take cap (contents s @ xs)"
proof (induction xs arbitrary: s)
  case Nil
  then show ?case using bound by simp
next
  case (Cons x xs)
  have "contents (fold put (x # xs) s) = take cap (contents (put x s) @ xs)"
    using Cons put_inv by simp
  also have "\<dots> = take cap (contents s @ x # xs)"
    using bound[OF Cons.prems]
    by (simp add: put_contents[OF Cons.prems] fifo_put_def take_Cons')
  finally show ?case .
qed

lemma puts_lossless:
  "inv s \<Longrightarrow> length (contents s) + length xs \<le> cap \<Longrightarrow> contents (fold put xs s) = contents s @ xs"
  by (simp add: puts_contents)

lemma run_inv: "inv s \<Longrightarrow> inv (snd (impl_run put get ops s))"
proof (induction ops arbitrary: s)
  case (Cons op ops)
  then show ?case
    by (cases op) (auto simp: split_def Let_def put_inv get_inv)
qed simp

text \<open>Every sequence of operations gives the outputs of the abstract queue.\<close>

lemma run_refines:
  "inv s \<Longrightarrow>
   (fst (impl_run put get ops s), contents (snd (impl_run put get ops s))) = spec_run cap ops (contents s)"
proof (induction ops arbitrary: s)
  case (Cons op ops)
  show ?case
  proof (cases op)
    case (Put x)
    then show ?thesis
      using Cons.IH[OF put_inv[OF Cons.prems]] by (simp add: put_contents[OF Cons.prems])
  next
    case Get
    then show ?thesis
      using Cons.IH[OF get_inv[OF Cons.prems]] get_contents[OF Cons.prems, symmetric]
      by (auto simp: split_def Let_def prod_eq_iff)
  qed
qed simp

end

text \<open>A queue whose owner may also throw everything away.\<close>

locale clearable_fifo = bounded_fifo +
  fixes clear :: "'s \<Rightarrow> 's"
  assumes clear_inv: "inv s \<Longrightarrow> inv (clear s)"
    and clear_contents: "inv s \<Longrightarrow> contents (clear s) = []"
begin

lemma clear_get: "inv s \<Longrightarrow> fst (get (clear s)) = None"
  using get_contents[OF clear_inv] by (simp add: clear_contents)

lemma clear_puts: "inv s \<Longrightarrow> contents (fold put xs (clear s)) = take cap xs"
  using puts_contents[OF clear_inv] by (simp add: clear_contents)

end

end
