(* ===== verification/EventQueue.thy ===== *)
theory EventQueue
  imports Interfaces
begin

text \<open>
  \<open>app/eventManage.c\<close>: the event queue through which the interrupt-driven and
  polled parts of the firmware hand work to the main loop.  The four statics of
  \<open>EventRdWri\<close> are the record \<open>event_state\<close>; a call returns the (possibly
  overwritten) event structure and the new state.
\<close>

record STR_EVENT =
  par :: u16
  evt :: u8

definition EVENTBUFLEN :: nat where "EVENTBUFLEN = 32"

datatype event_cmd = READ_EVENT | WRITE_EVENT | CLEAR_EVENT

record event_state =
  eventcount :: nat
  eventrdpos :: nat
  eventbuffer :: bytes
  parabuffer :: bytes

definition evNON :: u8 where "evNON = 0xff"

text \<open>The counters are \<open>uint8_t\<close>: their updates are taken modulo 256.\<close>

fun EventRdWri :: "event_cmd \<Rightarrow> STR_EVENT \<Rightarrow> event_state \<Rightarrow> STR_EVENT \<times> event_state" where
  "EventRdWri READ_EVENT e st =
     (let e = e\<lparr>evt := evNON, par := 0xff\<rparr> in
      if eventcount st \<noteq> 0
      then (e\<lparr>evt := eventbuffer st ! eventrdpos st,
              par := ucast (parabuffer st ! eventrdpos st)\<rparr>,
            st\<lparr>eventrdpos := (eventrdpos st + 1) mod EVENTBUFLEN,
               eventcount := (eventcount st + 255) mod 256\<rparr>)
      else (e, st))"
| "EventRdWri WRITE_EVENT e st =
     (if eventcount st < EVENTBUFLEN
      then (let wripos = (eventrdpos st + eventcount st) mod EVENTBUFLEN in
            (e, st\<lparr>eventbuffer := (eventbuffer st)[wripos := evt e],
                   parabuffer := (parabuffer st)[wripos := ucast (par e)],
                   eventcount := (eventcount st + 1) mod 256\<rparr>))
      else (e, st))"
| "EventRdWri CLEAR_EVENT e st = (e, st\<lparr>eventcount := 0, eventrdpos := 0\<rparr>)"

definition null_event :: STR_EVENT where "null_event = \<lparr>par = 0, evt = 0\<rparr>"

definition ClearAllEvent :: "event_state \<Rightarrow> event_state" where
  "ClearAllEvent st = snd (EventRdWri CLEAR_EVENT null_event st)"

definition ReadEvent :: "event_state \<Rightarrow> STR_EVENT \<times> event_state" where
  "ReadEvent st = EventRdWri READ_EVENT null_event st"

definition WriteEvent :: "STR_EVENT \<Rightarrow> event_state \<Rightarrow> event_state" where
  "WriteEvent e st = snd (EventRdWri WRITE_EVENT e st)"

definition PushEvt_EvtPar :: "u8 \<Rightarrow> u8 \<Rightarrow> event_state \<Rightarrow> event_state" where
  "PushEvt_EvtPar event para st = WriteEvent \<lparr>par = ucast para, evt = event\<rparr> st"

definition PushEvt_OnlyEvt :: "u8 \<Rightarrow> event_state \<Rightarrow> event_state" where
  "PushEvt_OnlyEvt event st = PushEvt_EvtPar event 0xff st"

text \<open>The statics are zero when the program starts.\<close>

definition event_state0 :: event_state where
  "event_state0 = \<lparr>eventcount = 0, eventrdpos = 0,
     eventbuffer = replicate 32 0, parabuffer = replicate 32 0\<rparr>"

section \<open>The queue it implements\<close>

definition event_inv :: "event_state \<Rightarrow> bool" where
  "event_inv st \<longleftrightarrow> eventcount st \<le> EVENTBUFLEN \<and> eventrdpos st < EVENTBUFLEN \<and>
     length (eventbuffer st) = EVENTBUFLEN \<and> length (parabuffer st) = EVENTBUFLEN"

definition events :: "event_state \<Rightarrow> (u8 \<times> u8) list" where
  "events st = zip (ring_slice (eventbuffer st) (eventrdpos st) (eventcount st))
                   (ring_slice (parabuffer st) (eventrdpos st) (eventcount st))"

definition event_put :: "u8 \<times> u8 \<Rightarrow> event_state \<Rightarrow> event_state" where
  "event_put x st = PushEvt_EvtPar (fst x) (snd x) st"

text \<open>A read that finds nothing is recognised by the main loop by its event code.\<close>

definition event_get :: "event_state \<Rightarrow> (u8 \<times> u8) option \<times> event_state" where
  "event_get st =
     (let (e, st') = ReadEvent st in
      (if eventcount st = 0 then None else Some (evt e, ucast (par e)), st'))"

lemma event_inv_init: "event_inv event_state0"
  by (simp add: event_inv_def event_state0_def EVENTBUFLEN_def)

lemma length_events [simp]: "length (events st) = eventcount st"
  by (simp add: events_def)

lemma PushEvt_unfold:
  "PushEvt_EvtPar e p st =
    (if eventcount st < EVENTBUFLEN
     then (let wripos = (eventrdpos st + eventcount st) mod EVENTBUFLEN in
           st\<lparr>eventbuffer := (eventbuffer st)[wripos := e],
              parabuffer := (parabuffer st)[wripos := p],
              eventcount := (eventcount st + 1) mod 256\<rparr>)
     else st)"
  by (simp add: PushEvt_EvtPar_def WriteEvent_def Let_def)


lemma PushEvt_inv: "event_inv st \<Longrightarrow> event_inv (PushEvt_EvtPar e p st)"
  by (auto simp: PushEvt_unfold event_inv_def Let_def EVENTBUFLEN_def)

lemma PushEvt_events:
  assumes "event_inv st"
  shows "events (PushEvt_EvtPar e p st) = fifo_put EVENTBUFLEN (e, p) (events st)"
proof (cases "eventcount st < EVENTBUFLEN")
  case True
  have L: "length (eventbuffer st) = EVENTBUFLEN" "length (parabuffer st) = EVENTBUFLEN"
    using assms by (auto simp: event_inv_def)
  have "(eventcount st + 1) mod 256 = Suc (eventcount st)"
    using True by (simp add: EVENTBUFLEN_def)
  then show ?thesis
    using True ring_slice_snoc[of "eventcount st" "eventbuffer st" "eventrdpos st" e]
      ring_slice_snoc[of "eventcount st" "parabuffer st" "eventrdpos st" p] L
    by (simp add: PushEvt_unfold events_def Let_def fifo_put_def)
qed (simp add: PushEvt_unfold fifo_put_def)

lemma event_get_spec:
  assumes "event_inv st"
  shows "(fst (event_get st), events (snd (event_get st))) = fifo_get (events st)"
    and "event_inv (snd (event_get st))"
proof -
  have L: "length (eventbuffer st) = EVENTBUFLEN" "length (parabuffer st) = EVENTBUFLEN"
      "eventrdpos st < EVENTBUFLEN" "eventcount st \<le> EVENTBUFLEN"
    using assms by (auto simp: event_inv_def)
  show "(fst (event_get st), events (snd (event_get st))) = fifo_get (events st)"
  proof (cases "eventcount st")
    case 0
    then show ?thesis by (simp add: event_get_def ReadEvent_def events_def Let_def)
  next
    case (Suc n)
    have "(eventcount st + 255) mod 256 = n"
      using Suc L by (simp add: EVENTBUFLEN_def)
    then show ?thesis
      using Suc L ring_slice_Suc[of "eventrdpos st" "eventbuffer st" n]
        ring_slice_Suc[of "eventrdpos st" "parabuffer st" n]
      by (simp add: event_get_def ReadEvent_def events_def Let_def)
  qed
  show "event_inv (snd (event_get st))"
    using L by (auto simp: event_get_def ReadEvent_def event_inv_def Let_def EVENTBUFLEN_def dec_mod_256)
qed

lemma ClearAllEvent_inv: "event_inv st \<Longrightarrow> event_inv (ClearAllEvent st)"
  by (simp add: ClearAllEvent_def event_inv_def EVENTBUFLEN_def)

interpretation evq: clearable_fifo event_inv events EVENTBUFLEN event_put event_get ClearAllEvent
proof unfold_locales
  show "length (events st) \<le> EVENTBUFLEN" if "event_inv st" for st
    using that by (simp add: event_inv_def)
  show "events (ClearAllEvent st) = []" for st
    by (simp add: ClearAllEvent_def events_def)
qed (simp_all add: event_put_def PushEvt_inv PushEvt_events event_get_spec ClearAllEvent_inv)

text \<open>C5: From the start, any interleaving of pushes and reads of the event queue
  delivers exactly what a bounded list of 32 event/parameter pairs delivers: in order,
  nothing twice, an event lost only when 32 are waiting, and the queue stays well formed.\<close>

theorem event_queue_refines_fifo:
  "fst (impl_run event_put event_get ops event_state0) = fst (spec_run 32 ops []) \<and>
   events (snd (impl_run event_put event_get ops event_state0)) = snd (spec_run 32 ops []) \<and>
   event_inv (snd (impl_run event_put event_get ops event_state0))"
  using evq.run_refines[OF event_inv_init, of ops] evq.run_inv[OF event_inv_init, of ops]
  by (auto simp: prod_eq_iff EVENTBUFLEN_def event_state0_def events_def)

text \<open>A read of the empty queue returns evNON with parameter 0xff, which is what the
  main loop takes for no event.\<close>

lemma ReadEvent_empty:
  "eventcount st = 0 \<Longrightarrow> ReadEvent st = (\<lparr>par = 0xff, evt = evNON\<rparr>, st)"
  by (simp add: ReadEvent_def null_event_def)

end
