(* ===== verification/Rescale.thy ===== *)
theory Rescale
  imports Prelude
begin

text \<open>
  \<open>av_rescale_rnd\<close> and \<open>av_rescale\<close> of \<open>app/tsmux.c\<close>: \<open>a * b / c\<close> in 64-bit
  arithmetic with the rounding the caller names, the wide case by a 128-bit product
  and a 64-step shift-and-subtract division.  \<open>int64_t\<close> values are integers, the
  \<open>uint64_t\<close> ones of the wide case naturals reduced modulo \<open>2 ^ 64\<close> where the code wraps.
\<close>

section \<open>Rescaling\<close>

definition INT64_MAX :: int where "INT64_MAX = 2 ^ 63 - 1"
definition INT64_MIN :: int where "INT64_MIN = - (2 ^ 63)"
definition INT32_MAX :: int where "INT32_MAX = 2 ^ 31 - 1"
definition AV_ROUND_PASS_MINMAX :: int where "AV_ROUND_PASS_MINMAX = 8192"
definition AV_ROUND_NEAR_INF :: int where "AV_ROUND_NEAR_INF = 5"

text \<open>One round of the 64-step division on \<open>uint64_t\<close> values (naturals modulo \<open>2 ^ 64\<close>).\<close>

definition W64 :: nat where "W64 = 2 ^ 64"

definition rescale_step :: "nat \<Rightarrow> nat \<Rightarrow> nat \<Rightarrow> nat \<times> nat \<Rightarrow> nat \<times> nat" where
  "rescale_step a0 c i st =
     (let (a1, t1) = st;
          a1 = (a1 + (a1 + (a0 div 2 ^ i) mod 2)) mod W64;
          t1 = (t1 + t1) mod W64
      in if c \<le> a1 then (a1 - c, (t1 + 1) mod W64) else (a1, t1))"

definition rescale_wide :: "nat \<Rightarrow> nat \<Rightarrow> nat \<Rightarrow> nat \<Rightarrow> int" where
  "rescale_wide a b c r =
     (let a0 = a mod 2 ^ 32; a1 = a div 2 ^ 32;
          b0 = b mod 2 ^ 32; b1 = b div 2 ^ 32;
          t1 = (a0 * b1 + a1 * b0) mod W64;
          t1a = (t1 * 2 ^ 32) mod W64;
          a0 = (a0 * b0 + t1a) mod W64;
          a1 = (a1 * b1 + t1 div 2 ^ 32 + (if a0 < t1a then 1 else 0)) mod W64;
          a0 = (a0 + r) mod W64;
          a1 = (a1 + (if a0 < r then 1 else 0)) mod W64;
          (a1, t1) = fold (rescale_step a0 c) (rev [0..<64]) (a1, t1)
      in if int t1 > INT64_MAX then INT64_MIN else int t1)"

text \<open>The part of the function for a non-negative \<open>a\<close>.\<close>

definition rescale_pos :: "int \<Rightarrow> int \<Rightarrow> int \<Rightarrow> int \<Rightarrow> int" where
  "rescale_pos a b c rnd =
     (let r = (if rnd = AV_ROUND_NEAR_INF then c div 2
               else if rnd AND 1 \<noteq> 0 then c - 1 else 0)
      in if b \<le> INT32_MAX \<and> c \<le> INT32_MAX
         then (if a \<le> INT32_MAX then (a * b + r) div c
               else (let ad = a div c; a2 = (a mod c * b + r) div c
                     in if ad \<ge> INT32_MAX \<and> b \<noteq> 0 \<and> ad > (INT64_MAX - a2) div b
                        then INT64_MIN else ad * b + a2))
         else rescale_wide (nat a) (nat b) (nat c) (nat r))"

function av_rescale_rnd :: "int \<Rightarrow> int \<Rightarrow> int \<Rightarrow> int \<Rightarrow> int" where
  "av_rescale_rnd a b c rnd =
     (let m = rnd AND NOT AV_ROUND_PASS_MINMAX in
      if c \<le> 0 \<or> b < 0 \<or> \<not> (0 \<le> m \<and> m \<le> 5 \<and> m \<noteq> 4) then INT64_MIN
      else if rnd AND AV_ROUND_PASS_MINMAX \<noteq> 0 \<and> (a = INT64_MIN \<or> a = INT64_MAX) then a
      else (let rnd = (if rnd AND AV_ROUND_PASS_MINMAX \<noteq> 0 then rnd - AV_ROUND_PASS_MINMAX else rnd)
            in if a < 0
               then signed_take_bit 63
                      (- av_rescale_rnd (- max a (- INT64_MAX)) b c (rnd XOR (drop_bit 1 rnd AND 1)))
               else rescale_pos a b c rnd))"
  by pat_completeness auto
termination
  by (relation "measure (\<lambda>(a, b, c, rnd). if a < 0 then 1 else 0)") (auto simp: INT64_MAX_def)

declare av_rescale_rnd.simps [simp del]

definition av_rescale :: "int \<Rightarrow> int \<Rightarrow> int \<Rightarrow> int" where
  "av_rescale a b c = av_rescale_rnd a b c AV_ROUND_NEAR_INF"


section \<open>The 64-step division\<close>

lemma W64_pos [simp]: "0 < W64" by (simp add: W64_def)

lemma mod_absorb: "(x mod w * k + y) mod w = (x * k + y) mod w" for x :: nat
  by (metis mod_add_left_eq mod_mult_left_eq)

lemma rescale_step_eq:
  assumes "a1 < c" "2 * c \<le> W64"
  shows "rescale_step a0 c i (a1, t1) =
    ((2 * a1 + a0 div 2 ^ i mod 2) mod c,
     (2 * t1 + (2 * a1 + a0 div 2 ^ i mod 2) div c) mod W64)"
proof -
  let ?b = "a0 div 2 ^ i mod 2"
  let ?n = "2 * a1 + ?b"
  have b: "?b < 2" by simp
  have n: "?n < 2 * c" using assms(1) b by linarith
  then have n2: "?n < W64" using assms(2) by linarith
  have nm: "(a1 + (a1 + ?b)) mod W64 = ?n"
    using n2 by (simp only: mult_2 add.assoc mod_less)
  have tm: "((t1 + t1) mod W64 + 1) mod W64 = (2 * t1 + 1) mod W64"
    by (simp only: mult_2 mod_add_left_eq)
  show ?thesis
  proof (cases "c \<le> ?n")
    case True
    then have "?n div c = 1" "?n mod c = ?n - c"
      using n assms(1) by (simp_all add: div_nat_eqI le_mod_geq)
    then show ?thesis using True unfolding rescale_step_def Let_def prod.case nm
      by (simp only: if_True tm)
  next
    case False
    then have "?n div c = 0" "?n mod c = ?n" by simp_all
    then show ?thesis using False unfolding rescale_step_def Let_def prod.case nm
      by (simp only: if_False add_0_right mult_2[of t1])
  qed
qed

lemma div_step:
  fixes n c m l :: nat
  assumes "0 < c"
  shows "(n * m + l) div c = (n div c) * m + ((n mod c) * m + l) div c"
    and "(n * m + l) mod c = ((n mod c) * m + l) mod c"
proof -
  have "n * m + l = (n div c * c + n mod c) * m + l" by simp
  also have "\<dots> = (n mod c * m + l) + c * (n div c * m)"
    by (simp only: add_mult_distrib add_mult_distrib2 ac_simps)
  finally have e: "n * m + l = (n mod c * m + l) + c * (n div c * m)" .
  show "(n * m + l) div c = (n div c) * m + ((n mod c) * m + l) div c"
    by (subst e) (use assms in simp)
  show "(n * m + l) mod c = ((n mod c) * m + l) mod c"
    by (subst e) simp
qed

lemma low_bits_Suc:
  "(2 * a + x div 2 ^ m mod 2) * 2 ^ m + x mod 2 ^ m = a * 2 ^ Suc m + x mod 2 ^ Suc m" for x :: nat
proof -
  have "x mod 2 ^ Suc m = 2 ^ m * (x div 2 ^ m mod 2) + x mod 2 ^ m"
    using mod_mult2_eq[of x "2 ^ m" 2] by (simp add: mult.commute)
  then show ?thesis by (simp add: add_mult_distrib add_mult_distrib2 ac_simps)
qed

lemma rescale_loop:
  assumes "a1 < c" "2 * c \<le> W64" "t1 < W64"
  shows "fold (rescale_step a0 c) (rev [0..<m]) (a1, t1) =
    ((a1 * 2 ^ m + a0 mod 2 ^ m) mod c,
     (t1 * 2 ^ m + (a1 * 2 ^ m + a0 mod 2 ^ m) div c) mod W64)"
  using assms
proof (induction m arbitrary: a1 t1)
  case (Suc m)
  let ?n = "2 * a1 + a0 div 2 ^ m mod 2"
  let ?t = "(2 * t1 + ?n div c) mod W64"
  let ?l = "a0 mod 2 ^ m"
  have c: "0 < c" using Suc.prems by simp
  have l: "?n mod c < c" using c by simp
  have t: "?t < W64" by simp
  have q: "(?t * 2 ^ m + (?n mod c * 2 ^ m + ?l) div c) mod W64 =
      (t1 * 2 ^ Suc m + (?n * 2 ^ m + ?l) div c) mod W64"
  proof -
    have "(?t * 2 ^ m + (?n mod c * 2 ^ m + ?l) div c) mod W64 =
        ((2 * t1 + ?n div c) * 2 ^ m + (?n mod c * 2 ^ m + ?l) div c) mod W64"
      by (rule mod_absorb)
    also have "(2 * t1 + ?n div c) * 2 ^ m + (?n mod c * 2 ^ m + ?l) div c =
        t1 * 2 ^ Suc m + (?n * 2 ^ m + ?l) div c"
      using div_step(1)[OF c, of ?n "2 ^ m" ?l] by (simp add: add_mult_distrib)
    finally show ?thesis .
  qed
  have "fold (rescale_step a0 c) (rev [0..<Suc m]) (a1, t1) =
      fold (rescale_step a0 c) (rev [0..<m]) (?n mod c, ?t)"
    using rescale_step_eq[OF Suc.prems(1,2)] by simp
  also have "\<dots> = ((?n mod c * 2 ^ m + ?l) mod c,
      (?t * 2 ^ m + (?n mod c * 2 ^ m + ?l) div c) mod W64)"
    by (rule Suc.IH[OF l Suc.prems(2) t])
  also have "\<dots> = ((?n * 2 ^ m + ?l) mod c, (t1 * 2 ^ Suc m + (?n * 2 ^ m + ?l) div c) mod W64)"
    using div_step(2)[OF c, of ?n "2 ^ m" ?l] by (simp only: q)
  finally show ?case by (simp only: low_bits_Suc)
qed simp

text \<open>When the quotient does not fit 64 bits the first round already sets the top bit.\<close>

lemma rescale_step_snd:
  "snd (rescale_step a0 c i (a1, t1)) =
     (2 * t1 + (if c \<le> (a1 + (a1 + a0 div 2 ^ i mod 2)) mod W64 then 1 else 0)) mod W64"
  by (simp add: rescale_step_def Let_def mult_2 mod_Suc_eq)

lemma rescale_loop_low:
  "t1 < W64 \<Longrightarrow>
   \<exists>e < 2 ^ m. snd (fold (rescale_step a0 c) (rev [0..<m]) (a1, t1)) = (t1 * 2 ^ m + e) mod W64"
proof (induction m arbitrary: a1 t1)
  case (Suc m)
  define d :: nat where "d = (if c \<le> (a1 + (a1 + a0 div 2 ^ m mod 2)) mod W64 then 1 else 0)"
  obtain a2 where a2: "rescale_step a0 c m (a1, t1) = (a2, (2 * t1 + d) mod W64)"
    using rescale_step_snd[of a0 c m a1 t1] unfolding d_def by (metis prod.collapse)
  obtain e where e: "e < 2 ^ m" "snd (fold (rescale_step a0 c) (rev [0..<m]) (a2, (2 * t1 + d) mod W64))
      = ((2 * t1 + d) mod W64 * 2 ^ m + e) mod W64"
    using Suc.IH[of "(2 * t1 + d) mod W64" a2] by auto
  have "snd (fold (rescale_step a0 c) (rev [0..<Suc m]) (a1, t1)) =
      (t1 * 2 ^ Suc m + (d * 2 ^ m + e)) mod W64"
  proof -
    have "((2 * t1 + d) mod W64 * 2 ^ m + e) mod W64 = ((2 * t1 + d) * 2 ^ m + e) mod W64"
      by (rule mod_absorb)
    also have "(2 * t1 + d) * 2 ^ m + e = t1 * 2 ^ Suc m + (d * 2 ^ m + e)"
      by (simp add: add_mult_distrib)
    finally show ?thesis using e(2) by (simp add: a2)
  qed
  moreover have "d * 2 ^ m + e < 2 ^ Suc m"
    using e(1) by (auto simp: d_def)
  ultimately show ?case by blast
qed simp


section \<open>The 128-bit product\<close>

lemma carry_iff: "x < w \<Longrightarrow> y < w \<Longrightarrow> ((x + y) mod w < y) = (w \<le> x + y)" for x y w :: nat
  by (auto simp: mod_if not_less)

lemma add_carry:
  fixes x y w :: nat
  assumes "x < w" "y < w"
  shows "(x + y) mod w + w * (if (x + y) mod w < y then 1 else 0) = x + y"
  using assms by (auto simp: carry_iff mod_if)

text \<open>The double word \<open>a * b + r\<close> the code builds from four partial products.\<close>

definition wide_lo :: "nat \<Rightarrow> nat \<Rightarrow> nat \<Rightarrow> nat" where
  "wide_lo a b r =
     (let t1 = (a mod 2 ^ 32 * (b div 2 ^ 32) + a div 2 ^ 32 * (b mod 2 ^ 32)) mod W64;
          t1a = (t1 * 2 ^ 32) mod W64
      in ((a mod 2 ^ 32 * (b mod 2 ^ 32) + t1a) mod W64 + r) mod W64)"

definition wide_hi :: "nat \<Rightarrow> nat \<Rightarrow> nat \<Rightarrow> nat" where
  "wide_hi a b r =
     (let t1 = (a mod 2 ^ 32 * (b div 2 ^ 32) + a div 2 ^ 32 * (b mod 2 ^ 32)) mod W64;
          t1a = (t1 * 2 ^ 32) mod W64;
          a0 = (a mod 2 ^ 32 * (b mod 2 ^ 32) + t1a) mod W64;
          a1 = (a div 2 ^ 32 * (b div 2 ^ 32) + t1 div 2 ^ 32 + (if a0 < t1a then 1 else 0)) mod W64
      in (a1 + (if wide_lo a b r < r then 1 else 0)) mod W64)"

definition wide_t1 :: "nat \<Rightarrow> nat \<Rightarrow> nat" where
  "wide_t1 a b = (a mod 2 ^ 32 * (b div 2 ^ 32) + a div 2 ^ 32 * (b mod 2 ^ 32)) mod W64"

lemma rescale_wide_eq:
  "rescale_wide a b c r =
    (let (a1, t1) = fold (rescale_step (wide_lo a b r) c) (rev [0..<64]) (wide_hi a b r, wide_t1 a b)
     in if int t1 > INT64_MAX then INT64_MIN else int t1)"
  unfolding rescale_wide_def wide_lo_def wide_hi_def wide_t1_def Let_def by (rule refl)

lemma wide_split:
  fixes al ah bl bh r :: nat
  assumes "al < 2 ^ 32" "bl < 2 ^ 32" "ah < 2 ^ 31" "bh < 2 ^ 31" "r < 2 ^ 63"
  defines "t1 \<equiv> (al * bh + ah * bl) mod W64"
  defines "t1a \<equiv> (t1 * 2 ^ 32) mod W64"
  defines "a0 \<equiv> (al * bl + t1a) mod W64"
  defines "a1 \<equiv> (ah * bh + t1 div 2 ^ 32 + (if a0 < t1a then 1 else 0)) mod W64"
  defines "lo \<equiv> (a0 + r) mod W64"
  defines "hi \<equiv> (a1 + (if lo < r then 1 else 0)) mod W64"
  shows "hi * W64 + lo = (ah * 2 ^ 32 + al) * (bh * 2 ^ 32 + bl) + r" "2 * hi < W64"
proof -
  have m: "al * bh \<le> (2 ^ 32 - 1) * (2 ^ 31 - 1)" "ah * bl \<le> (2 ^ 31 - 1) * (2 ^ 32 - 1)"
    "al * bl \<le> (2 ^ 32 - 1) * (2 ^ 32 - 1)" "ah * bh \<le> (2 ^ 31 - 1) * (2 ^ 31 - 1)"
    using assms(1-4) mult_le_mono[of al "2 ^ 32 - 1" bh "2 ^ 31 - 1"]
      mult_le_mono[of ah "2 ^ 31 - 1" bl "2 ^ 32 - 1"] mult_le_mono[of al "2 ^ 32 - 1" bl "2 ^ 32 - 1"]
      mult_le_mono[of ah "2 ^ 31 - 1" bh "2 ^ 31 - 1"] by simp_all
  have t1: "t1 = al * bh + ah * bl"
    using m unfolding t1_def W64_def by (intro mod_less) simp
  have t1b: "t1 < W64" by (simp add: t1_def)
  have s: "t1 * 2 ^ 32 = (t1 div 2 ^ 32) * W64 + t1a"
  proof -
    have "t1a = (t1 mod 2 ^ 32) * 2 ^ 32"
      unfolding t1a_def W64_def using mult_mod_left[of t1 "2 ^ 32" "2 ^ 32"] by simp
    moreover have "t1 * 2 ^ 32 = t1 div 2 ^ 32 * (2 ^ 32 * 2 ^ 32) + t1 mod 2 ^ 32 * 2 ^ 32"
      by (metis add_mult_distrib div_mult_mod_eq mult.assoc)
    ultimately show ?thesis unfolding W64_def by simp
  qed
  have b: "al * bl < W64" "t1a < W64" "r < W64" "a0 < W64"
    using m(3) assms(5) by (simp_all add: W64_def t1a_def a0_def)
  have t1d: "t1 div 2 ^ 32 < 2 ^ 32"
    using t1b by (simp add: W64_def less_mult_imp_div_less)
  have a1: "a1 = ah * bh + t1 div 2 ^ 32 + (if a0 < t1a then 1 else 0)"
    unfolding a1_def W64_def using m(4) t1d by (intro mod_less) (simp split: if_splits)
  have hi: "hi = a1 + (if lo < r then 1 else 0)"
    unfolding hi_def W64_def using m(4) t1d unfolding a1 by (intro mod_less) (simp split: if_splits)
  show "2 * hi < W64"
    using m(4) t1d unfolding hi a1 W64_def by (simp split: if_splits)
  have c1: "a0 + W64 * (if a0 < t1a then 1 else 0) = al * bl + t1a"
    unfolding a0_def by (rule add_carry[OF b(1,2)])
  have c2: "lo + W64 * (if lo < r then 1 else 0) = a0 + r"
    unfolding lo_def by (rule add_carry[OF b(4,3)])
  have "hi * W64 + lo = (ah * bh + t1 div 2 ^ 32) * W64 + (W64 * (if a0 < t1a then 1 else 0) + a0) + r"
    using c2 unfolding hi a1 by (simp only: add_mult_distrib add_mult_distrib2 ac_simps)
  also have "\<dots> = ah * bh * W64 + (t1 div 2 ^ 32 * W64 + t1a) + al * bl + r"
    using c1 by (simp only: add_mult_distrib add_mult_distrib2 ac_simps)
  also have "\<dots> = ah * bh * W64 + (al * bh + ah * bl) * 2 ^ 32 + al * bl + r"
    using s t1 by simp
  also have "\<dots> = (ah * 2 ^ 32 + al) * (bh * 2 ^ 32 + bl) + r"
    unfolding W64_def by (simp add: add_mult_distrib add_mult_distrib2)
  finally show "hi * W64 + lo = (ah * 2 ^ 32 + al) * (bh * 2 ^ 32 + bl) + r" .
qed

lemma wide_product:
  assumes "a < 2 ^ 63" "b < 2 ^ 63" "r < 2 ^ 63"
  shows "wide_hi a b r * W64 + wide_lo a b r = a * b + r" "2 * wide_hi a b r < W64"
proof -
  have d: "a div 2 ^ 32 < 2 ^ 31" "b div 2 ^ 32 < 2 ^ 31" "a mod 2 ^ 32 < 2 ^ 32" "b mod 2 ^ 32 < 2 ^ 32"
    using assms by (simp_all add: less_mult_imp_div_less)
  note w = wide_split[OF d(3,4,1,2) assms(3), folded wide_lo_def[unfolded Let_def]]
  have h: "wide_hi a b r = (let w = wide_hi a b r in w)" by simp
  show "wide_hi a b r * W64 + wide_lo a b r = a * b + r"
    using w(1) unfolding wide_hi_def wide_lo_def Let_def by (simp only: div_mult_mod_eq)
  show "2 * wide_hi a b r < W64"
    using w(2) unfolding wide_hi_def wide_lo_def Let_def .
qed

lemma rescale_wide_correct:
  assumes "a < 2 ^ 63" "b < 2 ^ 63" "r < 2 ^ 63" "0 < c" "c < 2 ^ 63"
  shows "rescale_wide a b c r =
    (if int ((a * b + r) div c) > INT64_MAX then INT64_MIN else int ((a * b + r) div c))"
proof -
  let ?hi = "wide_hi a b r" and ?lo = "wide_lo a b r" and ?t = "wide_t1 a b"
  let ?q = "(a * b + r) div c"
  note P = wide_product[OF assms(1-3)]
  have lo: "?lo < W64" by (simp add: wide_lo_def Let_def)
  have t: "?t < W64" by (simp add: wide_t1_def)
  have c2: "2 * c \<le> W64" using assms(5) by (simp add: W64_def)
  show ?thesis
  proof (cases "?hi < c")
    case True
    have "a * b + r < c * W64"
    proof -
      have "?hi * W64 + ?lo < Suc ?hi * W64" using lo by simp
      also have "\<dots> \<le> c * W64" using True by (intro mult_le_mono1) simp
      finally show ?thesis using P(1) by simp
    qed
    then have q: "?q < W64" by (simp add: less_mult_imp_div_less mult.commute)
    have "snd (fold (rescale_step ?lo c) (rev [0..<64]) (?hi, ?t)) = (?t * W64 + ?q) mod W64"
      using rescale_loop[OF True c2 t, of ?lo 64] P(1) lo by (simp add: W64_def)
    then have "snd (fold (rescale_step ?lo c) (rev [0..<64]) (?hi, ?t)) = ?q"
      using q by simp
    then show ?thesis by (simp add: rescale_wide_eq split_def Let_def)
  next
    case False
    have q: "int ?q > INT64_MAX"
    proof -
      have "W64 \<le> ?q"
      proof -
        have "c * W64 \<le> ?hi * W64" using False by (intro mult_le_mono1) simp
        then have "c * W64 \<le> a * b + r" using P(1) by linarith
        then have "W64 * c \<le> a * b + r" by (simp only: mult.commute)
        then show ?thesis using assms(4) by (simp add: less_eq_div_iff_mult_less_eq)
      qed
      then show ?thesis by (simp add: INT64_MAX_def W64_def)
    qed
    define s where "s = rescale_step ?lo c 63 (?hi, ?t)"
    have "snd s = (2 * ?t + 1) mod W64"
      using False P(2) unfolding s_def rescale_step_snd
      by (subst if_P) (simp_all add: W64_def)
    then obtain x where s: "s = (x, (2 * ?t + 1) mod W64)" by (cases s) auto
    have "rev [0..<64] = 63 # rev [0..<63]" by (simp add: upt_rec numeral_eq_Suc)
    then have f: "fold (rescale_step ?lo c) (rev [0..<64]) (?hi, ?t) = fold (rescale_step ?lo c) (rev [0..<63]) s"
      by (simp add: s_def)
    obtain e where e: "e < 2 ^ 63" "snd (fold (rescale_step ?lo c) (rev [0..<63]) s) =
        ((2 * ?t + 1) mod W64 * 2 ^ 63 + e) mod W64"
      using rescale_loop_low[of "(2 * ?t + 1) mod W64" 63 ?lo c x] unfolding s by auto
    have "((2 * ?t + 1) mod W64 * 2 ^ 63 + e) mod W64 = ((2 * ?t + 1) * 2 ^ 63 + e) mod W64"
      by (rule mod_absorb)
    also have "(2 * ?t + 1) * 2 ^ 63 + e = (2 ^ 63 + e) + W64 * ?t"
      by (simp add: W64_def)
    also have "\<dots> mod W64 = 2 ^ 63 + e" using e(1) by (simp add: W64_def)
    finally have "int (snd (fold (rescale_step ?lo c) (rev [0..<64]) (?hi, ?t))) > INT64_MAX"
      using e(2) f by (simp add: INT64_MAX_def)
    then show ?thesis using q by (simp add: rescale_wide_eq split_def Let_def)
  qed
qed


section \<open>The rounding modes\<close>

text \<open>The exact quotient \<open>n / c\<close> rounded the way \<open>AVRounding\<close> documents.\<close>

definition round_div :: "int \<Rightarrow> int \<Rightarrow> int \<Rightarrow> int" where
  "round_div rnd n c =
     (if rnd = 0 then sgn n * (\<bar>n\<bar> div c)
      else if rnd = 1 then sgn n * (- ((- \<bar>n\<bar>) div c))
      else if rnd = 2 then n div c
      else if rnd = 3 then - ((- n) div c)
      else sgn n * ((2 * \<bar>n\<bar> + c) div (2 * c)))"

definition valid_rnd :: "int \<Rightarrow> bool" where
  "valid_rnd rnd \<longleftrightarrow> rnd \<in> {0, 1, 2, 3, 5}"

definition rescale_addend :: "int \<Rightarrow> int \<Rightarrow> int" where
  "rescale_addend c rnd =
     (if rnd = AV_ROUND_NEAR_INF then c div 2 else if rnd AND 1 \<noteq> 0 then c - 1 else 0)"

lemma ceil_div: "0 < c \<Longrightarrow> (n + (c - 1)) div c = - ((- n) div c)" for n c :: int
proof -
  assume c: "0 < c"
  have m: "(- n) mod c = - n - c * ((- n) div c)" by (simp add: minus_mult_div_eq_mod)
  have e: "n + (c - 1) = c * (- ((- n) div c)) + (c - 1 - (- n) mod c)"
    unfolding m by simp
  show ?thesis
    by (rule int_div_pos_eq[OF e])
      (use pos_mod_sign[OF c, of "- n"] pos_mod_bound[OF c, of "- n"] in linarith)+
qed

lemma half_div: "0 < c \<Longrightarrow> (n + c div 2) div c = (2 * n + c) div (2 * c)" for n c :: int
proof -
  assume c: "0 < c"
  have "(2 * n + c) div (2 * c) = ((2 * n + c) div 2) div c"
    using c by (simp add: zdiv_zmult2_eq)
  also have "(2 * n + c) div 2 = n + c div 2" by simp
  finally show ?thesis by simp
qed

lemma round_div_nonneg:
  assumes "0 \<le> n" "0 < c" "valid_rnd rnd"
  shows "(n + rescale_addend c rnd) div c = round_div rnd n c"
  using assms ceil_div[of c n] half_div[of c n]
  by (cases "n = 0") (auto simp: round_div_def rescale_addend_def valid_rnd_def AV_ROUND_NEAR_INF_def sgn_if)

lemma round_div_minus:
  assumes "valid_rnd rnd" "0 \<le> n" "0 < c"
  shows "- round_div (rnd XOR (drop_bit 1 rnd AND 1)) n c = round_div rnd (- n) c"
  using assms by (auto simp: round_div_def valid_rnd_def sgn_if)


section \<open>The 32-bit branches\<close>

lemma rescale_addend_bounds: "0 < c \<Longrightarrow> 0 \<le> rescale_addend c rnd \<and> rescale_addend c rnd < c"
  by (auto simp: rescale_addend_def)

lemma split_div:
  fixes a b c r :: int
  assumes "0 < c"
  shows "(a * b + r) div c = (a div c) * b + (a mod c * b + r) div c"
proof -
  have "a * b + r = (a div c * c + a mod c) * b + r" by simp
  also have "\<dots> = (a mod c * b + r) + c * (a div c * b)"
    by (simp only: distrib_right distrib_left ac_simps)
  finally have e: "a * b + r = (a mod c * b + r) + c * (a div c * b)" .
  show ?thesis by (subst e) (use assms in simp)
qed

lemma int_div_less_iff:
  fixes x n c :: int
  assumes "0 < c"
  shows "x div c < n \<longleftrightarrow> x < n * c"
proof
  assume "x div c < n"
  then have "(x div c + 1) * c \<le> n * c" using assms by (intro mult_right_mono) auto
  moreover have "x < (x div c + 1) * c"
    unfolding distrib_right mult_1
    using pos_mod_bound[OF assms, of x] div_mult_mod_eq[of x c] by linarith
  ultimately show "x < n * c" by linarith
next
  assume x: "x < n * c"
  show "x div c < n"
  proof (rule ccontr)
    assume "\<not> x div c < n"
    then have "n * c \<le> (x div c) * c" using assms by (intro mult_right_mono) auto
    also have "\<dots> \<le> x" using pos_mod_sign[OF assms, of x] div_mult_mod_eq[of x c] by linarith
    finally show False using x by simp
  qed
qed

lemma rescale_pos_correct:
  assumes "0 \<le> a" "a \<le> INT64_MAX" "0 \<le> b" "b \<le> INT64_MAX" "0 < c" "c \<le> INT64_MAX"
  shows "rescale_pos a b c rnd =
    (let q = (a * b + rescale_addend c rnd) div c in if q > INT64_MAX then INT64_MIN else q)"
proof -
  let ?r = "rescale_addend c rnd"
  let ?q = "(a * b + ?r) div c"
  note r = rescale_addend_bounds[OF assms(5), of rnd]
  have pos: "rescale_pos a b c rnd =
     (if b \<le> INT32_MAX \<and> c \<le> INT32_MAX
      then (if a \<le> INT32_MAX then ?q
            else (let ad = a div c; a2 = (a mod c * b + ?r) div c
                  in if ad \<ge> INT32_MAX \<and> b \<noteq> 0 \<and> ad > (INT64_MAX - a2) div b
                     then INT64_MIN else ad * b + a2))
      else rescale_wide (nat a) (nat b) (nat c) (nat ?r))"
    unfolding rescale_pos_def rescale_addend_def Let_def by (rule refl)
  consider (small) "b \<le> INT32_MAX" "c \<le> INT32_MAX" "a \<le> INT32_MAX"
    | (mid) "b \<le> INT32_MAX" "c \<le> INT32_MAX" "a > INT32_MAX"
    | (wide) "\<not> (b \<le> INT32_MAX \<and> c \<le> INT32_MAX)" by linarith
  then show ?thesis
  proof cases
    case small
    have "a * b \<le> INT32_MAX * INT32_MAX" using small assms by (intro mult_mono) (auto simp: INT32_MAX_def)
    then have "a * b + ?r \<le> INT64_MAX"
      using r small(2) by (simp add: INT64_MAX_def INT32_MAX_def)
    moreover have "?q \<le> a * b + ?r"
      using zdiv_mono2[of "a * b + ?r" 1 c] assms r by simp
    ultimately show ?thesis using small pos by (simp add: Let_def)
  next
    case mid
    let ?ad = "a div c" and ?a2 = "(a mod c * b + ?r) div c"
    have q: "?q = ?ad * b + ?a2" by (rule split_div[OF assms(5)])
    have a2: "0 \<le> ?a2" "?a2 \<le> b"
    proof -
      have "a mod c * b + ?r \<le> (c - 1) * b + (c - 1)"
        using assms r by (intro add_mono mult_right_mono) auto
      also have "\<dots> < c * (b + 1)"
        using assms by (simp add: algebra_simps)
      finally have "?a2 < b + 1" unfolding int_div_less_iff[OF assms(5)] by (simp only: mult.commute)
      then show "?a2 \<le> b" by simp
      show "0 \<le> ?a2" using assms r by (simp add: pos_imp_zdiv_nonneg_iff)
    qed
    have iff: "?q > INT64_MAX \<longleftrightarrow> ?ad \<ge> INT32_MAX \<and> b \<noteq> 0 \<and> ?ad > (INT64_MAX - ?a2) div b"
    proof (cases "b = 0")
      case True
      then show ?thesis using a2 unfolding q by (simp add: INT64_MAX_def)
    next
      case False
      then have b: "0 < b" using assms by simp
      have gt: "?q > INT64_MAX \<longleftrightarrow> ?ad > (INT64_MAX - ?a2) div b"
        unfolding q int_div_less_iff[OF b] by linarith
      have "?ad \<ge> INT32_MAX" if "?q > INT64_MAX"
      proof (rule ccontr)
        assume "\<not> ?ad \<ge> INT32_MAX"
        then have "?ad * b \<le> INT32_MAX * INT32_MAX"
          using mid assms by (intro mult_mono) (auto simp: INT32_MAX_def)
        then show False using that a2 mid unfolding q by (simp add: INT64_MAX_def INT32_MAX_def)
      qed
      then show ?thesis using gt b by auto
    qed
    then show ?thesis using mid unfolding pos Let_def by (auto simp: q)
  next
    case wide
    have n: "nat a < 2 ^ 63" "nat b < 2 ^ 63" "nat ?r < 2 ^ 63" "0 < nat c" "nat c < 2 ^ 63"
      using assms r by (auto simp: INT64_MAX_def)
    have i: "int ((nat a * nat b + nat ?r) div nat c) = ?q"
      using assms r by (simp add: zdiv_int)
    show ?thesis
      unfolding pos if_not_P[OF wide] rescale_wide_correct[OF n] i Let_def by (rule refl)
  qed
qed

section \<open>The whole function\<close>

lemma valid_rnd_no_pass:
  assumes "valid_rnd rnd"
  shows "rnd AND NOT AV_ROUND_PASS_MINMAX = rnd" "rnd AND AV_ROUND_PASS_MINMAX = 0"
    "0 \<le> rnd \<and> rnd \<le> 5 \<and> rnd \<noteq> 4"
  using assms by (auto simp: valid_rnd_def AV_ROUND_PASS_MINMAX_def)

lemma valid_rnd_mirror: "valid_rnd rnd \<Longrightarrow> valid_rnd (rnd XOR (drop_bit 1 rnd AND 1))"
  by (auto simp: valid_rnd_def)

lemma av_rescale_rnd_unfold:
  assumes "valid_rnd rnd" "0 \<le> b" "0 < c"
  shows "av_rescale_rnd a b c rnd =
    (if a < 0 then signed_take_bit 63
        (- av_rescale_rnd (- max a (- INT64_MAX)) b c (rnd XOR (drop_bit 1 rnd AND 1)))
     else rescale_pos a b c rnd)"
  using assms(2,3) valid_rnd_no_pass[OF assms(1)]
  by (subst av_rescale_rnd.simps) (simp add: Let_def)

lemma signed_64_id: "INT64_MIN \<le> x \<Longrightarrow> x \<le> INT64_MAX \<Longrightarrow> signed_take_bit 63 x = x"
  by (intro signed_take_bit_int_eq_self) (auto simp: INT64_MIN_def INT64_MAX_def)

text \<open>C17: \<open>av_rescale_rnd\<close> gives \<open>a * b / c\<close> rounded as the mode says whenever that value
  fits an \<open>int64_t\<close>, for every sign of \<open>a\<close> and through all three of its computation
  branches, and INT64_MIN exactly when it does not fit.\<close>

theorem av_rescale_rnd_exact:
  assumes "- INT64_MAX \<le> a" "a \<le> INT64_MAX" "0 \<le> b" "b \<le> INT64_MAX"
    and "0 < c" "c \<le> INT64_MAX" "valid_rnd rnd"
  shows "av_rescale_rnd a b c rnd =
    (let q = round_div rnd (a * b) c in if \<bar>q\<bar> > INT64_MAX then INT64_MIN else q)"
proof (cases "a < 0")
  case False
  then have q: "(a * b + rescale_addend c rnd) div c = round_div rnd (a * b) c"
    using assms by (intro round_div_nonneg) auto
  have "0 \<le> round_div rnd (a * b) c"
    unfolding q[symmetric] using False assms rescale_addend_bounds[of c rnd]
    by (simp add: pos_imp_zdiv_nonneg_iff)
  then show ?thesis
    using rescale_pos_correct[of a b c rnd] False assms
    by (simp add: av_rescale_rnd_unfold q Let_def)
next
  case True
  let ?m = "rnd XOR (drop_bit 1 rnd AND 1)"
  let ?p = "round_div ?m (- a * b) c"
  have q: "(- a * b + rescale_addend c ?m) div c = ?p"
    using True assms valid_rnd_mirror[OF assms(7)] by (intro round_div_nonneg) (auto simp: mult_nonpos_nonneg)
  have neg: "round_div rnd (a * b) c = - ?p"
    using round_div_minus[OF assms(7) _ assms(5), of "- a * b"] True assms(3)
    by (simp add: mult_nonpos_nonneg)
  have "a * b \<le> 0" using True assms(3) by (simp add: mult_nonpos_nonneg)
  then have p0: "0 \<le> ?p"
    unfolding q[symmetric] using assms(5) rescale_addend_bounds[of c ?m]
    by (simp add: pos_imp_zdiv_nonneg_iff)
  have inner: "av_rescale_rnd (- max a (- INT64_MAX)) b c ?m = (if ?p > INT64_MAX then INT64_MIN else ?p)"
    using rescale_pos_correct[of "- a" b c ?m] True assms valid_rnd_mirror[OF assms(7)] q
    by (subst av_rescale_rnd_unfold) (auto simp: Let_def max_def)
  have "signed_take_bit 63 (- INT64_MIN) = INT64_MIN"
    by (simp add: INT64_MIN_def signed_take_bit_def mask_eq_exp_minus_1 not_int_def)
  then show ?thesis
    using True p0 inner neg assms
    by (subst av_rescale_rnd_unfold)
       (auto simp: Let_def signed_64_id INT64_MIN_def INT64_MAX_def)
qed

theorem av_rescale_rnd_exact_witness:
  "av_rescale_rnd (- (2 ^ 40)) (2 ^ 35) 3 3 =
    (let q = round_div 3 (- (2 ^ 40) * 2 ^ 35) 3 in if \<bar>q\<bar> > INT64_MAX then INT64_MIN else q)"
  by (rule av_rescale_rnd_exact) (simp_all add: INT64_MAX_def valid_rnd_def)

end
