(* ===== verification/TsMux.thy ===== *)
theory TsMux
  imports Rescale "HOL-Library.Signed_Division"
begin

text \<open>
  \<open>app/tsmux.c\<close>: the MPEG transport stream multiplexer.  64-bit signed values are
  integers (\<open>>>\<close> on them is \<open>drop_bit\<close>, \<open>/\<close> and \<open>%\<close> are \<open>sdiv\<close> and \<open>smod\<close>), a
  store to a \<open>uint8_t\<close> is \<open>word_of_int\<close>.  A packet buffer on the stack is passed in
  as it happens to be (\<open>buf\<close>); a \<open>memcpy\<close> that would read past the end of the frame
  makes the result \<open>None\<close>.  The packets handed to \<open>udp_send_to_host\<close> are returned
  in order.
\<close>

definition TS_PACKET_SIZE :: nat where "TS_PACKET_SIZE = 188"

definition AV_NOPTS_VALUE :: int where "AV_NOPTS_VALUE = - (2 ^ 63)"

datatype AVMediaType = AVMEDIA_TYPE_VIDEO | AVMEDIA_TYPE_AUDIO | AVMEDIA_TYPE_OTHER

datatype AVSTATEType = START_PACKET | VIDEO_PACKET | AUIDO_PACKET | END_PACKET

text \<open>\<open>payload\<close> is the memory from the payload pointer to the end of its array.\<close>

record MpegTSWriteStream =
  codec_type :: AVMediaType
  pid :: int
  cc :: int
  is_start :: bool
  payload_size :: int
  payload_pts :: int
  payload :: bytes

section \<open>Time stamps and adaptation field\<close>

definition write_pcr_bits :: "bytes \<Rightarrow> nat \<Rightarrow> int \<Rightarrow> bytes \<times> int" where
  "write_pcr_bits buf q pcr =
     (let pcr_low = pcr smod 300; pcr_high = pcr sdiv 300 in
      (mem_write buf q
         [word_of_int (drop_bit 25 pcr_high),
          word_of_int (drop_bit 17 pcr_high),
          word_of_int (drop_bit 9 pcr_high),
          word_of_int (drop_bit 1 pcr_high),
          word_of_int (push_bit 7 pcr_high OR drop_bit 8 pcr_low OR 0x7e),
          word_of_int pcr_low], 6))"

definition write_pts :: "bytes \<Rightarrow> nat \<Rightarrow> int \<Rightarrow> int \<Rightarrow> bytes" where
  "write_pts buf q fourbits pts =
     (let v1 = push_bit 4 fourbits OR push_bit 1 (drop_bit 30 pts AND 0x07) OR 1;
          v2 = push_bit 1 (drop_bit 15 pts AND 0x7fff) OR 1;
          v3 = push_bit 1 (pts AND 0x7fff) OR 1 in
      mem_write buf q
        [word_of_int v1, word_of_int (drop_bit 8 v2), word_of_int v2,
         word_of_int (drop_bit 8 v3), word_of_int v3])"

definition set_af_flag :: "bytes \<Rightarrow> u8 \<Rightarrow> bytes" where
  "set_af_flag pkt flag =
     (let pkt = (if pkt ! 3 AND 0x20 = 0
                 then pkt[3 := pkt ! 3 OR 0x20, 4 := 1, 5 := 0]
                 else pkt)
      in pkt[5 := pkt ! 5 OR flag])"

definition extend_af :: "bytes \<Rightarrow> int \<Rightarrow> bytes" where
  "extend_af pkt n = pkt[4 := pkt ! 4 + word_of_int n]"

text \<open>The pointer result is an offset into the packet.\<close>

definition get_ts_payload_start :: "bytes \<Rightarrow> nat" where
  "get_ts_payload_start pkt =
     (if pkt ! 3 AND 0x20 \<noteq> 0 then 5 + unat (pkt ! 4) else 4)"

definition mpegts_insert_null_packet :: "bytes \<Rightarrow> bytes" where
  "mpegts_insert_null_packet buf =
     (let buf = mem_write buf 0 [0x47, 0x00 OR 0x1f, 0xff, 0x10]
      in mem_write buf 4 (replicate (TS_PACKET_SIZE - 4) 0xff))"

section \<open>Packets\<close>

text \<open>\<open>mpegts_start_packet\<close>: the packet that opens a frame.  The result is the packet
  sent and the stream; \<open>None\<close> when the copy reads past the end of the frame's array.\<close>

definition pes_flags :: "int \<Rightarrow> int \<times> int" where
  "pes_flags pts = (if pts \<noteq> AV_NOPTS_VALUE then (5, 0x80) else (0, 0))"

definition pes_length :: "MpegTSWriteStream \<Rightarrow> int \<Rightarrow> int" where
  "pes_length ts header_len =
     (let len = payload_size ts + header_len + 3;
          len = (if len > 0xffff then 0 else len)
      in if codec_type ts = AVMEDIA_TYPE_VIDEO then 0 else len)"

definition start_header :: "MpegTSWriteStream \<Rightarrow> bytes \<Rightarrow> bytes \<times> nat" where
  "start_header ts buf =
     (let pts = payload_pts ts; dts = payload_pts ts;
          buf = mem_write buf 0
            [0x47, word_of_int (drop_bit 8 (pid ts) OR 0x40), word_of_int (pid ts),
             0x10 OR word_of_int (cc ts)];
          buf = set_af_flag buf 0x40;
          buf = (if codec_type ts = AVMEDIA_TYPE_VIDEO
                 then (let buf = set_af_flag buf 0x10;
                           q = get_ts_payload_start buf;
                           (buf, n) = write_pcr_bits buf q (dts * 300)
                       in extend_af buf n)
                 else buf);
          q = get_ts_payload_start buf;
          buf = mem_write buf q [0x00, 0x00, 0x01];
          q = q + 3;
          (buf, q) = (case codec_type ts of
                        AVMEDIA_TYPE_VIDEO \<Rightarrow> (buf[q := 0xe0], q + 1)
                      | AVMEDIA_TYPE_AUDIO \<Rightarrow> (buf[q := 0xc0], q + 1)
                      | AVMEDIA_TYPE_OTHER \<Rightarrow> (buf, q));
          (header_len, flags) = pes_flags pts;
          len = pes_length ts header_len;
          buf = mem_write buf q
            [word_of_int (drop_bit 8 len), word_of_int len, 0x80,
             word_of_int flags, word_of_int header_len];
          q = q + 5
      in if pts \<noteq> AV_NOPTS_VALUE
         then (write_pts buf q (drop_bit 6 flags) pts, q + 5)
         else (buf, q))"

definition mpegts_start_packet ::
  "MpegTSWriteStream \<Rightarrow> bytes \<Rightarrow> (bytes \<times> MpegTSWriteStream) option" where
  "mpegts_start_packet ts buf =
     (let ts = ts\<lparr>cc := (cc ts + 1) AND 0xf\<rparr>;
          (buf, header_len) = start_header ts buf;
          len = TS_PACKET_SIZE - header_len
      in if length (payload ts) < len then None
         else Some (mem_write buf (TS_PACKET_SIZE - len) (take len (payload ts)),
                    ts\<lparr>payload := drop len (payload ts),
                       payload_size := payload_size ts - int len\<rparr>))"

text \<open>One round of the loop of \<open>mpegts_normal_packet\<close> (\<open>header_len\<close> is 4): the header,
  the stuffing and the copy of \<open>len\<close> bytes.\<close>

definition normal_header :: "MpegTSWriteStream \<Rightarrow> bytes \<Rightarrow> bytes" where
  "normal_header ts buf =
     mem_write buf 0
       [0x47, word_of_int (drop_bit 8 (pid ts)), word_of_int (pid ts), 0x10 OR word_of_int (cc ts)]"

definition normal_stuffing :: "bytes \<Rightarrow> nat \<Rightarrow> bytes" where
  "normal_stuffing buf stuffing_len =
     (if 0 < stuffing_len
      then (if buf ! 3 AND 0x20 \<noteq> 0
            then (let afc_len = unat (buf ! 4) + 1;
                      buf = mem_write buf (4 + afc_len + stuffing_len)
                              (mem_read buf (4 + afc_len) (4 - (4 + afc_len)));
                      buf = buf[4 := buf ! 4 + of_nat stuffing_len]
                  in mem_write buf (4 + afc_len) (replicate stuffing_len 0xff))
            else (let buf = buf[3 := buf ! 3 OR 0x20, 4 := of_nat (stuffing_len - 1)]
                  in if stuffing_len \<ge> 2
                     then mem_write (buf[5 := 0x00]) 6 (replicate (stuffing_len - 2) 0xff)
                     else buf))
      else buf)"

definition normal_round :: "MpegTSWriteStream \<Rightarrow> bytes \<Rightarrow> (bytes \<times> MpegTSWriteStream) option" where
  "normal_round ts buf =
     (let ts = ts\<lparr>cc := (cc ts + 1) AND 0xf\<rparr>;
          buf = normal_header ts buf;
          len = (if int (TS_PACKET_SIZE - 4) > payload_size ts
                 then nat (payload_size ts) else TS_PACKET_SIZE - 4);
          buf = normal_stuffing buf (TS_PACKET_SIZE - 4 - len)
      in if length (payload ts) < len then None
         else Some (mem_write buf (TS_PACKET_SIZE - len) (take len (payload ts)),
                    ts\<lparr>payload := drop len (payload ts),
                       payload_size := payload_size ts - int len\<rparr>))"

function mpegts_normal_packet ::
  "MpegTSWriteStream \<Rightarrow> bytes \<Rightarrow> (bytes list \<times> MpegTSWriteStream) option" where
  "mpegts_normal_packet ts buf =
     (if payload_size ts > 0
      then (case normal_round ts buf of
              None \<Rightarrow> None
            | Some (buf', ts') \<Rightarrow>
                (case mpegts_normal_packet ts' buf' of
                   None \<Rightarrow> None
                 | Some (ps, ts'') \<Rightarrow> Some (buf' # ps, ts'')))
      else Some ([], ts))"
  by pat_completeness auto
termination
  by (relation "measure (\<lambda>(ts, buf). nat (payload_size ts))")
     (auto simp: normal_round_def Let_def TS_PACKET_SIZE_def split: if_splits)

declare mpegts_normal_packet.simps [simp del]

section \<open>The state machine\<close>

definition mp2packt :: bytes where
  "mp2packt =
    [0xff, 0xfd, 0x84, 0x4, 0x44, 0x22, 0x22, 0x22, 0x11, 0x22, 0x11, 0x11, 0x11, 0x11, 0x11, 0x24, 0x92, 0x52, 0x24, 0x0, 0x0, 0x0, 0x0, 0x0,
     0x0, 0x0, 0xaa, 0xa0, 0xfa, 0xa0, 0xaa, 0x5a, 0xf5, 0xaa, 0x4d, 0x36, 0x9a, 0x6d, 0xb6, 0xde, 0x6d, 0xb7, 0x9b, 0x75, 0xa7, 0x5a, 0x71, 0xc7,
     0x1c, 0x65, 0xd6, 0x99, 0x75, 0xa6, 0xdb, 0x6d, 0xb7, 0x9d, 0x79, 0xd8, 0x20, 0x7e, 0x7, 0xe0, 0x92, 0x39, 0x23, 0x92, 0x59, 0x24, 0x52, 0xf4,
     0xa5, 0xe8, 0xc6, 0x63, 0xad, 0xd6, 0xd9, 0xb3, 0x39, 0xf3, 0x66, 0x52, 0x8c, 0x66, 0xb6, 0x10, 0x63, 0x25, 0x2b, 0x58, 0xe7, 0x10, 0x20, 0xe7,
     0xdd, 0x31, 0xba, 0x61, 0xb4, 0xda, 0xd, 0x86, 0xda, 0x34, 0x8c, 0x78, 0xf1, 0xa5, 0x10, 0x8b, 0x58, 0xa5, 0x0, 0x12, 0x9b, 0xde, 0x94, 0x4e,
     0x9c, 0x42, 0xdb, 0xc7, 0xb7, 0x8f, 0x3b, 0x9d, 0x85, 0xc2, 0xd2, 0xa5, 0x4a, 0x5f, 0x3e, 0x63, 0x21, 0x0, 0x86, 0xf7, 0x0, 0x2, 0x16, 0xb6,
     0xd6, 0xa7, 0x4d, 0xad, 0x2a, 0x6, 0x54, 0xd, 0x38, 0x9c, 0x65, 0xb2, 0xe6, 0xcd, 0x84, 0x5, 0x8b, 0x39, 0xe1, 0x6, 0xb4, 0x21, 0x6b, 0x5a,
     0xd6, 0xb6, 0xcd, 0x40, 0x85, 0xad, 0x12, 0x72, 0x24, 0xe5, 0xc8, 0xe4, 0x6a, 0xb5, 0x66, 0x4c, 0x6b, 0x6f, 0x5e, 0x18, 0xde, 0xf0, 0x86, 0xf7,
     0x6b, 0x5a, 0xd4, 0xa7, 0x39, 0x80, 0xb2, 0x73, 0xc2, 0xd5, 0x85, 0xa9, 0x2a, 0x95, 0x8e, 0x47, 0x2b, 0x56, 0x52, 0x90, 0x20, 0x5a, 0xe1, 0x4,
     0xa5, 0x29, 0x21, 0x21, 0x4, 0xa5, 0xad, 0x85, 0x5, 0xad, 0xad, 0xdf, 0x5b, 0xbd, 0xd6, 0xeb, 0x8a, 0x45, 0x13, 0x26, 0x6b, 0x6e, 0xdd, 0x21,
     0x0, 0xb, 0x36, 0x31, 0x6b, 0x5a, 0xd6, 0xb5, 0x2c, 0x4c, 0x98, 0x84, 0x6a, 0x50, 0xd4, 0xa2, 0x29, 0x14, 0x9a, 0xcd, 0x6a, 0xd5, 0x6b, 0x5f,
     0xbf, 0x6b, 0x54, 0xa6, 0xb5, 0x29, 0xb5, 0x9a, 0xd8, 0x41, 0xad, 0x4, 0x9, 0x4a, 0x7d, 0x60, 0xfa, 0xc1, 0xc6, 0xe3, 0xb5, 0xda, 0xcd, 0x9b,
     0xbd, 0xe1, 0xc3, 0x21, 0x27, 0x30, 0x1, 0x8, 0x6b, 0x5c, 0xe6, 0xb5, 0x8c, 0x76, 0xee, 0xd6, 0x83, 0xdd, 0x7, 0xba, 0x25, 0x12, 0x45, 0x22,
     0x9c, 0xb9, 0xb5, 0xa2, 0x44, 0x8, 0x6b, 0x56, 0xb6, 0xb5, 0x10, 0x98, 0xc2, 0x95, 0xf0, 0xb9, 0x85, 0xef, 0x8d, 0x71, 0x1a, 0xe1, 0xb4, 0xda,
     0x45, 0x22, 0x9f, 0xbf, 0xb5, 0x97, 0xaf, 0x9c, 0xed, 0x68, 0xc4, 0xa5, 0x63, 0x8, 0x46, 0xb5, 0x83, 0x3e, 0x7d, 0xad, 0x5b, 0x34, 0xb6, 0x6a,
     0x2b, 0x15, 0x8d, 0xc6, 0xdf, 0x3e, 0x6b, 0x5f, 0x3e, 0x6b, 0x6b, 0x57, 0x39, 0x8c, 0x6b, 0x5c, 0xe7, 0x39, 0xad, 0x7e, 0xfd, 0xad, 0x0, 0x0]"

definition PAT_DAT0 :: bytes where
  "PAT_DAT0 =
    [0x47, 0x40, 0x0, 0x10, 0x0, 0x0, 0xb0, 0xd, 0x0, 0x1, 0xc1,
     0x0, 0x0, 0x0, 0x1, 0xf0, 0x0, 0x2a, 0xb1, 0x4, 0xb2]
     @ replicate 167 0xff"

definition PMT_DAT0 :: bytes where
  "PMT_DAT0 =
    [0x47, 0x50, 0x0, 0x10, 0x0, 0x2, 0xb0, 0x17, 0x0, 0x1, 0xc1, 0x0, 0x0, 0xe1, 0x0, 0xf0,
     0x0, 0x1b, 0xe1, 0x0, 0xf0, 0x0, 0x3, 0xe1, 0x1, 0xf0, 0x0, 0x4e, 0x59, 0x3d, 0x1e]
     @ replicate 157 0xff"

record tsmux =
  ts_st_v :: MpegTSWriteStream
  ts_st_a :: MpegTSWriteStream
  av_state :: AVSTATEType
  pat_pmt_cc :: nat
  test_loop :: nat
  PAT_DAT :: bytes
  PMT_DAT :: bytes
  pack_quene :: "bytes list"

text \<open>\<open>h264packt_1\<close>, a table of 15156 constant bytes, is an argument.  The other 14 entries
  of \<open>pack_quene\<close> keep their null pointer and zero length.\<close>

definition tsMux_init :: "bytes \<Rightarrow> tsmux \<Rightarrow> tsmux" where
  "tsMux_init h264packt_1 m = m\<lparr>
     pat_pmt_cc := 0,
     ts_st_v := (ts_st_v m)\<lparr>codec_type := AVMEDIA_TYPE_VIDEO, pid := 256, cc := 15, payload_pts := 0\<rparr>,
     ts_st_a := (ts_st_a m)\<lparr>codec_type := AVMEDIA_TYPE_AUDIO, pid := 257, cc := 15, payload_pts := 0\<rparr>,
     av_state := START_PACKET,
     pack_quene := (pack_quene m)[0 := h264packt_1],
     test_loop := 0\<rparr>"

text \<open>Sending one piece of a stream: the opening packet or the rest, and the advance of
  the time stamp.\<close>

definition ts_send :: "int \<Rightarrow> MpegTSWriteStream \<Rightarrow> bytes \<Rightarrow> (bytes list \<times> MpegTSWriteStream) option" where
  "ts_send step ts buf =
     (if is_start ts
      then (case mpegts_start_packet (ts\<lparr>is_start := False\<rparr>) buf of
              None \<Rightarrow> None
            | Some (p, ts') \<Rightarrow> Some ([p], ts'\<lparr>payload_pts := payload_pts ts' + step\<rparr>))
      else mpegts_normal_packet ts buf)"

definition pollintTs :: "bytes \<Rightarrow> tsmux \<Rightarrow> (bytes list \<times> tsmux) option" where
  "pollintTs buf m =
     (case av_state m of
        START_PACKET \<Rightarrow>
          (let pat = (PAT_DAT m)[3 := 0x10 OR of_nat (pat_pmt_cc m)];
               pmt = (PMT_DAT m)[3 := pat ! 3];
               frame = pack_quene m ! test_loop m
           in if length (pack_quene m) \<le> test_loop m then None
              else Some ([pat, pmt],
                m\<lparr>PAT_DAT := pat, PMT_DAT := pmt,
                  pat_pmt_cc := (pat_pmt_cc m + 1) mod 16,
                  ts_st_a := (ts_st_a m)\<lparr>is_start := True, payload := mp2packt,
                                         payload_size := int (length mp2packt)\<rparr>,
                  ts_st_v := (ts_st_v m)\<lparr>is_start := True, payload := frame,
                                         payload_size := int (length frame)\<rparr>,
                  av_state := VIDEO_PACKET, test_loop := test_loop m + 1\<rparr>))
      | VIDEO_PACKET \<Rightarrow>
          (case ts_send 1500 (ts_st_v m) buf of
             None \<Rightarrow> None
           | Some (ps, ts) \<Rightarrow>
               Some (ps, m\<lparr>ts_st_v := ts,
                           av_state := (if payload_size ts = 0 then AUIDO_PACKET else VIDEO_PACKET)\<rparr>))
      | AUIDO_PACKET \<Rightarrow>
          (case ts_send 2160 (ts_st_a m) buf of
             None \<Rightarrow> None
           | Some (ps, ts) \<Rightarrow>
               Some (ps, m\<lparr>ts_st_a := ts,
                           av_state := (if payload_size ts = 0
                                        then (if test_loop m = 1 then END_PACKET else START_PACKET)
                                        else AUIDO_PACKET)\<rparr>))
      | END_PACKET \<Rightarrow> Some ([], m))"


section \<open>A transport packet as a receiver reads it\<close>

definition ts_pid :: "bytes \<Rightarrow> int" where
  "ts_pid p = (uint (p ! 1) mod 32) * 256 + uint (p ! 2)"

definition ts_start :: "bytes \<Rightarrow> bool" where
  "ts_start p = bit (p ! 1) 6"

definition ts_cc :: "bytes \<Rightarrow> int" where
  "ts_cc p = uint (p ! 3) mod 16"

definition ts_payload :: "bytes \<Rightarrow> bytes" where
  "ts_payload p = drop (get_ts_payload_start p) p"

definition ts_packet_ok :: "bytes \<Rightarrow> bool" where
  "ts_packet_ok p \<longleftrightarrow> length p = TS_PACKET_SIZE \<and> p ! 0 = 0x47 \<and> get_ts_payload_start p \<le> TS_PACKET_SIZE"

definition ts_wf :: "MpegTSWriteStream \<Rightarrow> bool" where
  "ts_wf ts \<longleftrightarrow> 0 \<le> payload_size ts \<and> payload_size ts \<le> int (length (payload ts)) \<and>
     0 \<le> pid ts \<and> pid ts < 2 ^ 13"

lemma cc_range: "0 \<le> x AND (0xf :: int)" "x AND 0xf < (16 :: int)"
proof -
  have "x AND 0xf = x AND mask 4" by (simp add: mask_eq_exp_minus_1)
  then show "0 \<le> x AND (0xf :: int)" "x AND 0xf < (16 :: int)"
    by (simp_all add: take_bit_eq_mask [symmetric] take_bit_eq_mod)
qed

lemma cc_mod: "x AND (0xf :: int) = x mod 16"
proof -
  have "x AND 0xf = x AND mask 4" by (simp add: mask_eq_exp_minus_1)
  then show ?thesis by (simp add: take_bit_eq_mask [symmetric] take_bit_eq_mod)
qed

lemma cc_cases:
  fixes c :: int
  assumes "0 \<le> c" "c < 16"
  shows "c \<in> {0, 1, 2, 3, 4, 5, 6, 7, 8, 9, 10, 11, 12, 13, 14, 15}"
  using assms by simp presburger

lemma cc_byte:
  assumes "0 \<le> c" "c < 16"
  shows "(0x10 OR word_of_int c) AND (0x20 :: u8) = 0"
    and "(0x30 OR word_of_int c) AND (0x20 :: u8) = 0x20"
    and "(0x10 OR word_of_int c) OR 0x20 = (0x30 OR word_of_int c :: u8)"
    and "uint (0x10 OR word_of_int c :: u8) mod 16 = c"
    and "uint (0x30 OR word_of_int c :: u8) mod 16 = c"
  using cc_cases[OF assms] by auto

lemma cons_of_length:
  "n < length xs \<Longrightarrow> \<exists>y ys. drop n xs = y # ys \<and> ys = drop (Suc n) xs"
  by (metis Cons_nth_drop_Suc)

text \<open>The first bytes of a buffer, one by one.\<close>

lemma buf_prefix:
  assumes "26 \<le> length buf"
  obtains b0 b1 b2 b3 b4 b5 b6 b7 b8 b9 b10 b11 b12 b13 b14 b15 b16 b17 b18 b19 b20 b21 b22 b23 b24 b25 r
  where "buf = b0 # b1 # b2 # b3 # b4 # b5 # b6 # b7 # b8 # b9 # b10 # b11 # b12 # b13 # b14 # b15 # b16 # b17 # b18 # b19 # b20 # b21 # b22 # b23 # b24 # b25 # r"
proof -
  have "take 26 buf = map ((!) buf) [0..<26]"
    using assms by (intro nth_equalityI) auto
  also have "[0..<26] = [0, 1, 2, 3, 4, 5, 6, 7, 8, 9, 10, 11, 12, 13, 14, 15, 16, 17, 18, 19, 20, 21, 22, 23, 24, 25]"
    by (simp add: upt_rec)
  finally have "take 26 buf = [buf ! 0, buf ! 1, buf ! 2, buf ! 3, buf ! 4, buf ! 5, buf ! 6, buf ! 7, buf ! 8, buf ! 9, buf ! 10, buf ! 11, buf ! 12, buf ! 13, buf ! 14, buf ! 15, buf ! 16, buf ! 17, buf ! 18, buf ! 19, buf ! 20, buf ! 21, buf ! 22, buf ! 23, buf ! 24, buf ! 25]" by simp
  then have "buf = buf ! 0 # buf ! 1 # buf ! 2 # buf ! 3 # buf ! 4 # buf ! 5 # buf ! 6 # buf ! 7 # buf ! 8 # buf ! 9 # buf ! 10 # buf ! 11 # buf ! 12 # buf ! 13 # buf ! 14 # buf ! 15 # buf ! 16 # buf ! 17 # buf ! 18 # buf ! 19 # buf ! 20 # buf ! 21 # buf ! 22 # buf ! 23 # buf ! 24 # buf ! 25 # drop 26 buf"
    by (metis append_take_drop_id append_Cons append_Nil)
  then show ?thesis by (rule that)
qed

text \<open>The bytes the two writers store, wherever they store them.\<close>

definition pts_bytes :: "int \<Rightarrow> bytes" where
  "pts_bytes pts = write_pts [0, 0, 0, 0, 0] 0 2 pts"

definition pcr_bytes :: "int \<Rightarrow> bytes" where
  "pcr_bytes pcr = fst (write_pcr_bits [0, 0, 0, 0, 0, 0] 0 pcr)"

lemma write_pts_eq: "write_pts buf q 2 pts = mem_write buf q (pts_bytes pts)"
  by (simp add: write_pts_def pts_bytes_def Let_def)

lemma write_pcr_bits_eq: "write_pcr_bits buf q pcr = (mem_write buf q (pcr_bytes pcr), 6)"
  by (simp add: write_pcr_bits_def pcr_bytes_def Let_def)

lemma length_pts_bytes [simp]: "length (pts_bytes pts) = 5"
  by (simp add: pts_bytes_def write_pts_def Let_def)

lemma length_pcr_bytes [simp]: "length (pcr_bytes pcr) = 6"
  by (simp add: pcr_bytes_def write_pcr_bits_def Let_def)

lemma list5: "length xs = 5 \<Longrightarrow> \<exists>a b c d e. xs = [a, b, c, d, e]"
  by (auto simp: numeral_eq_Suc length_Suc_conv)

lemma list6: "length xs = 6 \<Longrightarrow> \<exists>a b c d e f. xs = [a, b, c, d, e, f]"
  by (auto simp: numeral_eq_Suc length_Suc_conv)

definition video_header :: "MpegTSWriteStream \<Rightarrow> bytes" where
  "video_header ts =
     [0x47, word_of_int (drop_bit 8 (pid ts) OR 0x40), word_of_int (pid ts),
      0x30 OR word_of_int (cc ts), 7, 0x50] @ pcr_bytes (payload_pts ts * 300) @
     [0, 0, 1, 0xe0, 0, 0, 0x80, 0x80, 5] @ pts_bytes (payload_pts ts)"

definition audio_header :: "MpegTSWriteStream \<Rightarrow> bytes" where
  "audio_header ts =
     [0x47, word_of_int (drop_bit 8 (pid ts) OR 0x40), word_of_int (pid ts),
      0x30 OR word_of_int (cc ts), 1, 0x40] @
     [0, 0, 1, 0xc0, word_of_int (drop_bit 8 (pes_length ts 5)), word_of_int (pes_length ts 5),
      0x80, 0x80, 5] @ pts_bytes (payload_pts ts)"

lemma start_header_audio:
  assumes "26 \<le> length buf" "codec_type ts = AVMEDIA_TYPE_AUDIO" "0 \<le> cc ts" "cc ts < 16"
    and "payload_pts ts \<noteq> AV_NOPTS_VALUE"
  shows "start_header ts buf = (audio_header ts @ drop 20 buf, 20)"
proof -
  obtain b0 b1 b2 b3 b4 b5 b6 b7 b8 b9 b10 b11 b12 b13 b14 b15 b16 b17 b18 b19 b20 b21 b22 b23 b24 b25 r
    where b: "buf = b0 # b1 # b2 # b3 # b4 # b5 # b6 # b7 # b8 # b9 # b10 # b11 # b12 # b13 # b14 # b15 # b16 # b17 # b18 # b19 # b20 # b21 # b22 # b23 # b24 # b25 # r"
    by (rule buf_prefix[OF assms(1)])
  obtain p0 p1 p2 p3 p4 where p: "pts_bytes (payload_pts ts) = [p0, p1, p2, p3, p4]"
    using list5[OF length_pts_bytes] by blast
  note c = cc_byte(1-3)[OF assms(3,4)]
  show ?thesis
    by (simp add: b start_header_def set_af_flag_def get_ts_payload_start_def Let_def pes_flags_def
        audio_header_def assms(2,5) c p write_pts_eq )
qed

lemma start_header_video:
  assumes "26 \<le> length buf" "codec_type ts = AVMEDIA_TYPE_VIDEO" "0 \<le> cc ts" "cc ts < 16"
    and "payload_pts ts \<noteq> AV_NOPTS_VALUE"
  shows "start_header ts buf = (video_header ts @ drop 26 buf, 26)"
proof -
  obtain b0 b1 b2 b3 b4 b5 b6 b7 b8 b9 b10 b11 b12 b13 b14 b15 b16 b17 b18 b19 b20 b21 b22 b23 b24 b25 r
    where b: "buf = b0 # b1 # b2 # b3 # b4 # b5 # b6 # b7 # b8 # b9 # b10 # b11 # b12 # b13 # b14 # b15 # b16 # b17 # b18 # b19 # b20 # b21 # b22 # b23 # b24 # b25 # r"
    by (rule buf_prefix[OF assms(1)])
  obtain p0 p1 p2 p3 p4 where p: "pts_bytes (payload_pts ts) = [p0, p1, p2, p3, p4]"
    using list5[OF length_pts_bytes] by blast
  obtain g0 g1 g2 g3 g4 g5 where g: "pcr_bytes (payload_pts ts * 300) = [g0, g1, g2, g3, g4, g5]"
    using list6[OF length_pcr_bytes] by blast
  note c = cc_byte(1-3)[OF assms(3,4)]
  show ?thesis
    by (simp add: b start_header_def set_af_flag_def get_ts_payload_start_def Let_def pes_flags_def
        video_header_def assms(2,5) c p write_pts_eq g write_pcr_bits_eq extend_af_def pes_length_def)
qed

section \<open>The packet that opens a frame\<close>

definition pes_header :: "MpegTSWriteStream \<Rightarrow> bytes" where
  "pes_header ts =
     (if codec_type ts = AVMEDIA_TYPE_VIDEO
      then [0, 0, 1, 0xe0, 0, 0, 0x80, 0x80, 5] @ pts_bytes (payload_pts ts)
      else [0, 0, 1, 0xc0, word_of_int (drop_bit 8 (pes_length ts 5)), word_of_int (pes_length ts 5),
            0x80, 0x80, 5] @ pts_bytes (payload_pts ts))"

definition start_len :: "MpegTSWriteStream \<Rightarrow> nat" where
  "start_len ts = (if codec_type ts = AVMEDIA_TYPE_VIDEO then 162 else 168)"

definition stream_ok :: "MpegTSWriteStream \<Rightarrow> bool" where
  "stream_ok ts \<longleftrightarrow> codec_type ts \<in> {AVMEDIA_TYPE_VIDEO, AVMEDIA_TYPE_AUDIO} \<and>
     payload_pts ts \<noteq> AV_NOPTS_VALUE \<and> 0 \<le> pid ts \<and> pid ts < 2 ^ 13 \<and>
     payload_size ts = int (length (payload ts))"

definition start_packet :: "MpegTSWriteStream \<Rightarrow> bytes" where
  "start_packet ts =
     (if codec_type ts = AVMEDIA_TYPE_VIDEO then video_header ts else audio_header ts)
       @ take (start_len ts) (payload ts)"

lemma length_headers [simp]: "length (video_header ts) = 26" "length (audio_header ts) = 20"
  by (simp_all add: video_header_def audio_header_def)

lemma mpegts_start_packet_eq:
  assumes "length buf = 188" "stream_ok ts"
  shows "mpegts_start_packet ts buf =
    (let ts1 = ts\<lparr>cc := (cc ts + 1) mod 16\<rparr>; len = start_len ts in
     if length (payload ts) < len then None
     else Some (start_packet ts1,
                ts1\<lparr>payload := drop len (payload ts), payload_size := payload_size ts - int len\<rparr>))"
proof -
  let ?ts = "ts\<lparr>cc := (cc ts + 1) mod 16\<rparr>"
  have c: "0 \<le> cc ?ts" "cc ?ts < 16" by simp_all
  have b: "26 \<le> length buf" using assms(1) by simp
  have pts: "payload_pts ?ts \<noteq> AV_NOPTS_VALUE" using assms(2) by (simp add: stream_ok_def)
  consider (v) "codec_type ?ts = AVMEDIA_TYPE_VIDEO" | (a) "codec_type ?ts = AVMEDIA_TYPE_AUDIO"
    using assms(2) by (auto simp: stream_ok_def)
  then show ?thesis
  proof cases
    case v
    show ?thesis
      using start_header_video[OF b v c pts] v assms(1)
      by (simp add: mpegts_start_packet_def cc_mod Let_def start_len_def start_packet_def
          TS_PACKET_SIZE_def mem_write_take_drop)
  next
    case a
    show ?thesis
      using start_header_audio[OF b a c pts] a assms(1)
      by (simp add: mpegts_start_packet_def cc_mod Let_def start_len_def start_packet_def
          TS_PACKET_SIZE_def mem_write_take_drop)
  qed
qed

lemma cc_byte_mod: "(0x30 OR word_of_int (c mod 16)) AND (0x20 :: u8) = 0x20"
  "(0x10 OR word_of_int (c mod 16)) AND (0x20 :: u8) = 0"
  "(0x10 OR word_of_int (c mod 16)) OR 0x20 = (0x30 OR word_of_int (c mod 16) :: u8)"
  "uint (0x10 OR word_of_int (c mod 16) :: u8) mod 16 = c mod 16"
  "uint (0x30 OR word_of_int (c mod 16) :: u8) mod 16 = c mod 16"
  by (rule cc_byte; simp)+

lemma pid_bytes:
  assumes "0 \<le> p" "p < 2 ^ 13"
  shows "uint (word_of_int (drop_bit 8 p) :: u8) mod 32 * 256 + uint (word_of_int p :: u8) = p"
    and "uint (word_of_int (drop_bit 8 p OR 0x40) :: u8) mod 32 * 256 + uint (word_of_int p :: u8) = p"
proof -
  have d: "0 \<le> p div 256" "p div 256 < 32" using assms by auto
  have o: "(p div 256 OR 0x40) mod 32 = p div 256"
  proof -
    have "(p div 256 OR 0x40) mod 2 ^ 5 = take_bit 5 (p div 256) OR take_bit 5 0x40"
      by (simp only: take_bit_eq_mod [symmetric] take_bit_or)
    also have "\<dots> = p div 256" using d by (simp add: take_bit_int_eq_self)
    finally show ?thesis by simp
  qed
  have "(p div 256 OR 0x40) mod 256 mod 32 = (p div 256 OR 0x40) mod 32"
    by (simp add: mod_mod_cancel)
  then show "uint (word_of_int (drop_bit 8 p OR 0x40) :: u8) mod 32 * 256 + uint (word_of_int p :: u8) = p"
    using o by (simp add: uint_word_of_int drop_bit_eq_div)
  show "uint (word_of_int (drop_bit 8 p) :: u8) mod 32 * 256 + uint (word_of_int p :: u8) = p"
    using d by (simp add: uint_word_of_int drop_bit_eq_div)
qed

lemma start_packet_facts:
  assumes "stream_ok ts" "start_len ts \<le> length (payload ts)" "0 \<le> cc ts" "cc ts < 16"
  shows "ts_packet_ok (start_packet ts)"
    and "ts_payload (start_packet ts) = pes_header ts @ take (start_len ts) (payload ts)"
    and "ts_pid (start_packet ts) = pid ts" "ts_cc (start_packet ts) = cc ts" "ts_start (start_packet ts)"
proof -
  have p: "0 \<le> pid ts" "pid ts < 2 ^ 13" using assms(1) by (auto simp: stream_ok_def)
  have c: "codec_type ts = AVMEDIA_TYPE_VIDEO \<or> codec_type ts = AVMEDIA_TYPE_AUDIO"
    using assms(1) by (auto simp: stream_ok_def)
  have n3: "start_packet ts ! 3 = 0x30 OR word_of_int (cc ts)" and n4: "start_packet ts ! 4 = (if codec_type ts = AVMEDIA_TYPE_VIDEO then 7 else 1)"
    by (auto simp: start_packet_def video_header_def audio_header_def)
  have g: "get_ts_payload_start (start_packet ts) = (if codec_type ts = AVMEDIA_TYPE_VIDEO then 12 else 6)"
    using cc_byte(2)[OF assms(3,4)] by (simp add: get_ts_payload_start_def n3 n4)
  have l: "length (start_packet ts) = 188"
    using assms(2) c by (auto simp: start_packet_def start_len_def)
  show "ts_packet_ok (start_packet ts)"
    using l g by (auto simp: ts_packet_ok_def TS_PACKET_SIZE_def start_packet_def video_header_def audio_header_def)
  show "ts_payload (start_packet ts) = pes_header ts @ take (start_len ts) (payload ts)"
    unfolding ts_payload_def g using c by (auto simp: start_packet_def video_header_def audio_header_def pes_header_def)
  show "ts_pid (start_packet ts) = pid ts"
    using pid_bytes(2)[OF p] by (auto simp: ts_pid_def start_packet_def video_header_def audio_header_def)
  show "ts_cc (start_packet ts) = cc ts"
    using cc_byte(5)[OF assms(3,4)] by (simp add: ts_cc_def n3)
  show "ts_start (start_packet ts)"
    by (auto simp: ts_start_def start_packet_def video_header_def audio_header_def bit_simps)
qed

section \<open>The packets that carry the rest of a frame\<close>

definition stuffing :: "nat \<Rightarrow> bytes" where
  "stuffing s = (if s = 0 then [] else if s = 1 then [0]
                 else [of_nat (s - 1), 0] @ replicate (s - 2) 0xff)"

definition normal_packet :: "MpegTSWriteStream \<Rightarrow> nat \<Rightarrow> bytes" where
  "normal_packet ts len =
     [0x47, word_of_int (drop_bit 8 (pid ts)), word_of_int (pid ts),
      (if len < 184 then 0x30 else 0x10) OR word_of_int (cc ts)]
     @ stuffing (184 - len) @ take len (payload ts)"

lemma length_stuffing [simp]: "length (stuffing s) = s"
  by (simp add: stuffing_def) arith

lemma normal_stuffing_eq:
  assumes "length buf = 188" "buf = [x0, x1, x2, x3] @ r" "x3 AND 0x20 = 0" "s \<le> 183"
  shows "take (4 + s) (normal_stuffing buf s) =
    [x0, x1, x2, if s = 0 then x3 else x3 OR 0x20] @ stuffing s"
    and "length (normal_stuffing buf s) = 188"
proof -
  have r: "length r = 184" using assms(1,2) by simp
  then obtain a b r' where r': "r = a # b # r'" "length r' = 182"
    by (auto simp: numeral_eq_Suc length_Suc_conv)
  show "take (4 + s) (normal_stuffing buf s) =
    [x0, x1, x2, if s = 0 then x3 else x3 OR 0x20] @ stuffing s"
  proof -
    consider "s = 0" | "s = 1" | k where "s = k + 2" "k \<le> 181"
      using assms(4) by (metis One_nat_def add_2_eq_Suc' add_le_cancel_right not0_implies_Suc numeral_Bit1 eval_nat_numeral(3) numeral_plus_numeral semiring_norm)
    then show ?thesis
    proof cases
      case 3
      then show ?thesis
        using assms(3) r' by (simp add: assms(2) normal_stuffing_def Let_def stuffing_def mem_write_take_drop eval_nat_numeral)
    qed (use assms(3) r' in \<open>simp_all add: assms(2) normal_stuffing_def Let_def stuffing_def\<close>)
  qed
  show "length (normal_stuffing buf s) = 188"
    using assms(1) by (simp add: normal_stuffing_def Let_def)
qed

lemma normal_round_eq:
  assumes "length buf = 188" "0 < payload_size ts" "payload_size ts \<le> int (length (payload ts))"
  shows "normal_round ts buf =
    (let ts1 = ts\<lparr>cc := (cc ts + 1) mod 16\<rparr>; len = min 184 (nat (payload_size ts)) in
     Some (normal_packet ts1 len,
           ts1\<lparr>payload := drop len (payload ts), payload_size := payload_size ts - int len\<rparr>))"
proof -
  let ?ts = "ts\<lparr>cc := (cc ts + 1) mod 16\<rparr>"
  let ?len = "min 184 (nat (payload_size ts))"
  let ?b = "normal_header ?ts buf"
  have len: "(if int (TS_PACKET_SIZE - 4) > payload_size ts then nat (payload_size ts) else TS_PACKET_SIZE - 4) = ?len"
    using assms(2) by (auto simp: TS_PACKET_SIZE_def min_def)
  have h: "?b = [0x47, word_of_int (drop_bit 8 (pid ts)), word_of_int (pid ts),
      0x10 OR word_of_int ((cc ts + 1) mod 16)] @ drop 4 buf"
    using assms(1) by (simp add: normal_header_def mem_write_take_drop eval_nat_numeral del: mem_write.simps)
  have lb: "length ?b = 188" using assms(1) by (simp add: normal_header_def)
  have s: "TS_PACKET_SIZE - 4 - ?len = 184 - ?len" "184 - ?len \<le> 183" "?len \<le> 184" "0 < ?len"
    using assms(2) by (auto simp: TS_PACKET_SIZE_def min_def)
  have e: "TS_PACKET_SIZE - ?len = 4 + (184 - ?len)" using s(3) by (simp add: TS_PACKET_SIZE_def)
  note st = normal_stuffing_eq[OF lb h cc_byte_mod(2) s(2)]
  have sel: "payload_size ?ts = payload_size ts" "payload ?ts = payload ts" by simp_all
  have l: "\<not> length (payload ts) < ?len" using assms(2,3) by (auto simp: min_def)
  have lt: "length (take ?len (payload ts)) = ?len" using l by (simp only: length_take not_less min_absorb2)
  have w: "mem_write (normal_stuffing ?b (184 - ?len)) (4 + (184 - ?len)) (take ?len (payload ts)) =
      normal_packet ?ts ?len"
  proof -
    have "(4 + (184 - ?len)) + length (take ?len (payload ts)) = length (normal_stuffing ?b (184 - ?len))"
      unfolding lt st(2) using s(3) by simp
    then have "mem_write (normal_stuffing ?b (184 - ?len)) (4 + (184 - ?len)) (take ?len (payload ts)) =
        take (4 + (184 - ?len)) (normal_stuffing ?b (184 - ?len)) @ take ?len (payload ts)"
      by (rule mem_write_end)
    also have "\<dots> = normal_packet ?ts ?len"
      unfolding st(1) normal_packet_def using cc_byte_mod(3)[of "cc ts + 1"] by simp
    finally show ?thesis .
  qed
  show ?thesis
    unfolding normal_round_def Let_def cc_mod sel len s(1) e w if_not_P[OF l] by (rule refl)
qed

lemma stuffing_Suc: "0 < s \<Longrightarrow> \<exists>r. stuffing s = of_nat (s - 1) # r"
  by (auto simp: stuffing_def)

lemma normal_packet_facts:
  assumes "0 < len" "len \<le> 184" "len \<le> length (payload ts)" "0 \<le> pid ts" "pid ts < 2 ^ 13"
    "0 \<le> cc ts" "cc ts < 16"
  shows "ts_packet_ok (normal_packet ts len)"
    and "ts_payload (normal_packet ts len) = take len (payload ts)"
    and "ts_pid (normal_packet ts len) = pid ts" "ts_cc (normal_packet ts len) = cc ts"
proof -
  have g: "get_ts_payload_start (normal_packet ts len) = 4 + (184 - len)"
  proof (cases "len < 184")
    case True
    define k where "k = 184 - len - 1"
    obtain r where "stuffing (184 - len) = of_nat k # r"
      using stuffing_Suc[of "184 - len"] True by (auto simp: k_def)
    moreover have "k < 256" "5 + k = 4 + (184 - len)"
      using True by (simp_all add: k_def)
    moreover from this(1) have "unat (of_nat k :: u8) = k"
      by (simp add: unat_of_nat take_bit_eq_mod)
    ultimately show ?thesis
      using True cc_byte(2)[OF assms(6,7)] by (simp add: get_ts_payload_start_def normal_packet_def)
  next
    case False
    then show ?thesis
      using cc_byte(1)[OF assms(6,7)] assms(2) by (simp add: get_ts_payload_start_def normal_packet_def)
  qed
  have l: "length (normal_packet ts len) = 188"
    using assms by (simp add: normal_packet_def)
  show "ts_packet_ok (normal_packet ts len)"
    unfolding ts_packet_ok_def g l using assms(2) by (simp add: TS_PACKET_SIZE_def normal_packet_def)
  show "ts_payload (normal_packet ts len) = take len (payload ts)"
  proof -
    define h where "h = [0x47, word_of_int (drop_bit 8 (pid ts)), word_of_int (pid ts),
      (if len < 184 then 0x30 else 0x10) OR word_of_int (cc ts)] @ stuffing (184 - len)"
    have "normal_packet ts len = h @ take len (payload ts)" "length h = 4 + (184 - len)"
      by (simp_all add: normal_packet_def h_def)
    then show ?thesis unfolding ts_payload_def g by simp
  qed
  show "ts_pid (normal_packet ts len) = pid ts"
    using pid_bytes(1)[OF assms(4,5)] by (simp add: ts_pid_def normal_packet_def)
  show "ts_cc (normal_packet ts len) = cc ts"
    using cc_byte(4,5)[OF assms(6,7)] by (simp add: ts_cc_def normal_packet_def)
qed

section \<open>Frames\<close>

text \<open>What a receiver sees of a run of packets: all well formed, on one PID, the continuity
  counters consecutive modulo 16.\<close>

definition run_ok :: "int \<Rightarrow> int \<Rightarrow> bytes list \<Rightarrow> bool" where
  "run_ok p c ps \<longleftrightarrow> (\<forall>i < length ps. ts_packet_ok (ps ! i) \<and> ts_pid (ps ! i) = p \<and>
     ts_cc (ps ! i) = (c + 1 + int i) mod 16)"

lemma run_ok_Nil [simp]: "run_ok p c []"
  by (simp add: run_ok_def)

lemma run_ok_Cons:
  assumes "ts_packet_ok x" "ts_pid x = p" "ts_cc x = (c + 1) mod 16" "run_ok p ((c + 1) mod 16) xs"
  shows "run_ok p c (x # xs)"
proof -
  have "((c + 1) mod 16 + 1 + int i) mod 16 = (c + 1 + int (Suc i)) mod 16" for i
    using mod_add_left_eq[of "c + 1" 16 "1 + int i"] by (simp only: ac_simps of_nat_Suc)
  then show ?thesis
    using assms unfolding run_ok_def by (auto simp: nth_Cons' less_Suc_eq_0_disj)
qed

lemma packets_step: "0 < n \<Longrightarrow> Suc ((n - min 184 n + 183) div 184) = (n + 183) div 184" for n :: nat
proof (cases "n \<le> 184")
  case False
  then have "n + 183 = (n - min 184 n + 183) + 184" by simp
  then show ?thesis by (metis Suc_eq_plus1 div_add_self2 zero_neq_numeral)
qed (simp add: div_nat_eqI)

definition normal_wf :: "MpegTSWriteStream \<Rightarrow> bool" where
  "normal_wf ts \<longleftrightarrow> payload_size ts = int (length (payload ts)) \<and> 0 \<le> pid ts \<and> pid ts < 2 ^ 13"

lemma mpegts_normal_packet_ok:
  assumes "normal_wf ts" "length buf = 188"
  shows "\<exists>ps ts'. mpegts_normal_packet ts buf = Some (ps, ts') \<and>
     concat (map ts_payload ps) = payload ts \<and> run_ok (pid ts) (cc ts) ps \<and>
     length ps = (length (payload ts) + 183) div 184 \<and>
     payload_size ts' = 0 \<and> payload ts' = [] \<and>
     pid ts' = pid ts \<and> codec_type ts' = codec_type ts \<and> payload_pts ts' = payload_pts ts \<and>
     is_start ts' = is_start ts \<and> (ps \<noteq> [] \<longrightarrow> cc ts' = (cc ts + int (length ps)) mod 16) \<and>
     (ps = [] \<longrightarrow> cc ts' = cc ts)"
  using assms
proof (induction "length (payload ts)" arbitrary: ts buf rule: less_induct)
  case less
  show ?case
  proof (cases "payload ts = []")
    case True
    then show ?thesis
      using less.prems by (subst mpegts_normal_packet.simps) (auto simp: normal_wf_def)
  next
    case False
    let ?len = "min 184 (length (payload ts))"
    let ?t1 = "ts\<lparr>cc := (cc ts + 1) mod 16\<rparr>"
    let ?t2 = "?t1\<lparr>payload := drop ?len (payload ts), payload_size := payload_size ts - int ?len\<rparr>"
    let ?p = "normal_packet ?t1 ?len"
    have pos: "0 < payload_size ts" "payload_size ts \<le> int (length (payload ts))"
      "nat (payload_size ts) = length (payload ts)"
      using less.prems(1) False by (auto simp: normal_wf_def)
    have r: "normal_round ts buf = Some (?p, ?t2)"
      using normal_round_eq[OF less.prems(2) pos(1,2)] pos(3) by (simp add: Let_def)
    have len: "0 < ?len" "?len \<le> 184" "?len \<le> length (payload ?t1)" using False by auto
    have pid: "0 \<le> pid ?t1" "pid ?t1 < 2 ^ 13" using less.prems(1) by (auto simp: normal_wf_def)
    note f = normal_packet_facts[OF len pid, simplified]
    have wf2: "normal_wf ?t2" using less.prems(1) len by (auto simp: normal_wf_def)
    have lp: "length ?p = 188" using f(1) by (simp add: ts_packet_ok_def TS_PACKET_SIZE_def)
    have "length (payload ?t2) < length (payload ts)" using len False by simp
    from less.hyps[OF this wf2 lp] obtain ps t where ih:
      "mpegts_normal_packet ?t2 ?p = Some (ps, t)"
      "concat (map ts_payload ps) = payload ?t2" "run_ok (pid ?t2) (cc ?t2) ps"
      "length ps = (length (payload ?t2) + 183) div 184"
      "payload_size t = 0" "payload t = []" "pid t = pid ?t2" "codec_type t = codec_type ?t2"
      "payload_pts t = payload_pts ?t2" "is_start t = is_start ?t2"
      "ps \<noteq> [] \<longrightarrow> cc t = (cc ?t2 + int (length ps)) mod 16" "ps = [] \<longrightarrow> cc t = cc ?t2"
      by (elim exE conjE)
    note ih' = ih(5,6) ih(7-10)[simplified]
    have e: "mpegts_normal_packet ts buf = Some (?p # ps, t)"
      using pos(1) by (subst mpegts_normal_packet.simps) (simp add: r ih(1))
    have cat: "concat (map ts_payload (?p # ps)) = payload ts"
      using f(2) ih(2) by simp
    have run: "run_ok (pid ts) (cc ts) (?p # ps)"
      using f(1,3,4) ih(3) by (intro run_ok_Cons) auto
    have cnt: "length (?p # ps) = (length (payload ts) + 183) div 184"
      using ih(4) packets_step[of "length (payload ts)"] False by simp
    have cct: "cc t = (cc ts + int (length (?p # ps))) mod 16"
    proof (cases "ps = []")
      case False
      then show ?thesis
        using ih(11) mod_add_left_eq[of "cc ts + 1" 16 "int (length ps)"] by (simp add: ac_simps)
    qed (use ih(12) in simp)
    show ?thesis
      by (rule exI[of _ "?p # ps"], rule exI[of _ t])
        (intro conjI impI e cat run cnt ih' cct, simp)
  qed
qed

text \<open>C8: A frame handed to the multiplexer (the opening packet, then the rest) leaves it as
  188-byte packets with sync byte 0x47 on the stream's PID, with consecutive continuity
  counters modulo 16; removing the packet headers, adaptation fields and stuffing gives
  the PES header followed by exactly the bytes of the frame, whatever the stack buffers held.\<close>

theorem ts_frame_roundtrip:
  assumes "stream_ok ts" "start_len ts \<le> length (payload ts)" "length buf = 188" "length buf' = 188"
  shows "\<exists>p ts1 ps ts2.
     mpegts_start_packet ts buf = Some (p, ts1) \<and> mpegts_normal_packet ts1 buf' = Some (ps, ts2) \<and>
     ts_start p \<and> run_ok (pid ts) (cc ts) (p # ps) \<and>
     concat (map ts_payload (p # ps)) = pes_header (ts\<lparr>cc := (cc ts + 1) mod 16\<rparr>) @ payload ts \<and>
     payload_size ts2 = 0"
proof -
  let ?t = "ts\<lparr>cc := (cc ts + 1) mod 16\<rparr>" and ?n = "start_len ts"
  let ?t1 = "?t\<lparr>payload := drop ?n (payload ts), payload_size := payload_size ts - int ?n\<rparr>"
  have ok: "stream_ok ?t" "start_len ?t \<le> length (payload ?t)" "0 \<le> cc ?t" "cc ?t < 16"
    using assms(1,2) by (simp_all add: stream_ok_def start_len_def)
  have n: "start_len ?t = ?n" by (simp add: start_len_def)
  note f = start_packet_facts[OF ok]
  have s: "mpegts_start_packet ts buf = Some (start_packet ?t, ?t1)"
    using mpegts_start_packet_eq[OF assms(3,1)] assms(2) by (simp add: Let_def)
  have wf: "normal_wf ?t1"
    using assms(1,2) by (simp add: normal_wf_def stream_ok_def)
  from mpegts_normal_packet_ok[OF wf assms(4)] obtain ps ts2 where r:
    "mpegts_normal_packet ?t1 buf' = Some (ps, ts2)" "concat (map ts_payload ps) = payload ?t1"
    "run_ok (pid ?t1) (cc ?t1) ps" "payload_size ts2 = 0"
    by (elim exE conjE)
  have "run_ok (pid ts) (cc ts) (start_packet ?t # ps)"
    using f(1,3,4) r(3) by (intro run_ok_Cons) auto
  moreover have "concat (map ts_payload (start_packet ?t # ps)) = pes_header ?t @ payload ts"
    using f(2) r(2) by (simp add: n)
  ultimately show ?thesis using s r(1,4) f(5) by blast
qed

definition demo_stream :: MpegTSWriteStream where
  "demo_stream = \<lparr>codec_type = AVMEDIA_TYPE_AUDIO, pid = 257, cc = 15, is_start = True,
     payload_size = 384, payload_pts = 0, payload = mp2packt\<rparr>"

lemma length_mp2packt: "length mp2packt = 384"
  by (simp add: mp2packt_def)

theorem ts_frame_roundtrip_witness:
  "\<exists>p ts1 ps ts2.
     mpegts_start_packet demo_stream (replicate 188 0) = Some (p, ts1) \<and>
     mpegts_normal_packet ts1 (replicate 188 7) = Some (ps, ts2) \<and>
     ts_start p \<and> run_ok (pid demo_stream) (cc demo_stream) (p # ps) \<and>
     concat (map ts_payload (p # ps)) =
       pes_header (demo_stream\<lparr>cc := (cc demo_stream + 1) mod 16\<rparr>) @ payload demo_stream \<and>
     payload_size ts2 = 0"
  by (rule ts_frame_roundtrip)
    (simp_all add: demo_stream_def stream_ok_def start_len_def length_mp2packt AV_NOPTS_VALUE_def)

section \<open>Time stamps as a receiver decodes them\<close>

definition decode_pts :: "bytes \<Rightarrow> int" where
  "decode_pts bs = (uint (bs ! 0) div 2 mod 8) * 2 ^ 30 +
     ((uint (bs ! 1) * 256 + uint (bs ! 2)) div 2) * 2 ^ 15 +
     (uint (bs ! 3) * 256 + uint (bs ! 4)) div 2"

definition decode_pcr :: "bytes \<Rightarrow> int \<times> int" where
  "decode_pcr bs =
     (uint (bs ! 0) * 2 ^ 25 + uint (bs ! 1) * 2 ^ 17 + uint (bs ! 2) * 2 ^ 9 + uint (bs ! 3) * 2 +
      uint (bs ! 4) div 128,
      (uint (bs ! 4) mod 2) * 256 + uint (bs ! 5))"

lemma and_7fff: "x AND (0x7fff :: int) = x mod 2 ^ 15"
proof -
  have "x AND 0x7fff = x AND mask 15" by (simp add: mask_eq_exp_minus_1)
  then show ?thesis by (simp add: take_bit_eq_mask [symmetric] take_bit_eq_mod)
qed

lemma and_7: "x AND (7 :: int) = x mod 8"
proof -
  have "x AND 7 = x AND mask 3" by (simp add: mask_eq_exp_minus_1)
  then show ?thesis by (simp add: take_bit_eq_mask [symmetric] take_bit_eq_mod)
qed

lemma marker: "push_bit 1 x OR (1 :: int) = 2 * x + 1"
  by (simp add: or_one_eq)

lemma pts_split15:
  fixes y :: int
  assumes "0 \<le> y" "y < 2 ^ 15"
  shows "((2 * y + 1) div 256 mod 256 * 256 + (2 * y + 1) mod 256) div 2 = y"
proof -
  have "(2 * y + 1) div 256 mod 256 = (2 * y + 1) div 256"
    using assms by (intro mod_pos_pos_trivial) auto
  then have "(2 * y + 1) div 256 mod 256 * 256 + (2 * y + 1) mod 256 = 2 * y + 1" by simp
  then show ?thesis by simp
qed

lemma decode_pts_list: "decode_pts [a, b, c, d, e] = (uint a div 2 mod 8) * 2 ^ 30 +
     ((uint b * 256 + uint c) div 2) * 2 ^ 15 + (uint d * 256 + uint e) div 2"
  by (simp add: decode_pts_def)

lemma pts_bytes_list:
  "pts_bytes pts = [word_of_int (push_bit 4 2 OR push_bit 1 (pts div 2 ^ 30 AND 0x07) OR 1),
     word_of_int ((2 * (pts div 2 ^ 15 mod 2 ^ 15) + 1) div 256),
     word_of_int (2 * (pts div 2 ^ 15 mod 2 ^ 15) + 1),
     word_of_int ((2 * (pts mod 2 ^ 15) + 1) div 256),
     word_of_int (2 * (pts mod 2 ^ 15) + 1)]"
proof -
  have "drop_bit 8 x = x div 256" "drop_bit 30 x = x div 2 ^ 30" "drop_bit 15 x = x div 2 ^ 15" for x :: int
    by (simp_all add: drop_bit_eq_div)
  then show ?thesis
    unfolding pts_bytes_def write_pts_def Let_def and_7fff marker by simp
qed

lemma uint_byte: "uint (word_of_int x :: u8) = x mod 256"
  by (simp add: uint_word_of_int)

lemma decode_write_pts:
  assumes "0 \<le> pts" "pts < 2 ^ 33"
  shows "decode_pts (pts_bytes pts) = pts"
proof -
  let ?h = "pts div 2 ^ 30" and ?m = "pts div 2 ^ 15 mod 2 ^ 15" and ?l = "pts mod 2 ^ 15"
  have a: "0 \<le> ?m" "?m < 2 ^ 15" "0 \<le> ?l" "?l < 2 ^ 15" by simp_all
  have h: "0 \<le> ?h" "?h < 8" using assms by auto
  have b: "(push_bit 4 2 OR push_bit 1 (x AND 0x07) OR 1) mod 256 div 2 mod 8 = x"
    if "0 \<le> x" "x < 8" for x :: int
  proof -
    have "x \<in> {0, 1, 2, 3, 4, 5, 6, 7}" using that by auto
    then show ?thesis by auto
  qed
  have j: "h * 2 ^ 30 + m * 2 ^ 15 + l = (h * 2 ^ 15 + m) * 2 ^ 15 + l" for h m l :: int
    by simp
  have d: "?h = pts div 2 ^ 15 div 2 ^ 15" by (simp add: zdiv_zmult2_eq [symmetric])
  show ?thesis
    unfolding pts_bytes_list decode_pts_list uint_byte b[OF h] pts_split15[OF a(1,2)] pts_split15[OF a(3,4)]
    unfolding j d div_mult_mod_eq by (rule refl)
qed

lemma decode_pcr_list: "decode_pcr [a, b, c, d, e, f] =
    (uint a * 2 ^ 25 + uint b * 2 ^ 17 + uint c * 2 ^ 9 + uint d * 2 + uint e div 128,
      (uint e mod 2) * 256 + uint f)"
  by (simp add: decode_pcr_def)

lemma pcr_bytes_list:
  assumes "0 \<le> pcr"
  shows "pcr_bytes pcr = [word_of_int (pcr div 300 div 2 ^ 25), word_of_int (pcr div 300 div 2 ^ 17),
     word_of_int (pcr div 300 div 2 ^ 9), word_of_int (pcr div 300 div 2),
     word_of_int (push_bit 7 (pcr div 300) OR pcr mod 300 div 256 OR 0x7e), word_of_int (pcr mod 300)]"
proof -
  have "pcr smod 300 = pcr mod 300" "pcr sdiv 300 = pcr div 300"
    using assms by (cases "pcr = 0"; simp add: signed_modulo_int_def signed_divide_int_def sgn_if)+
  moreover have "drop_bit 25 x = x div 2 ^ 25" "drop_bit 17 x = x div 2 ^ 17" "drop_bit 9 x = x div 2 ^ 9"
    "drop_bit 1 x = x div 2" "drop_bit 8 x = x div 256" for x :: int
    by (simp_all add: drop_bit_eq_div)
  ultimately show ?thesis
    unfolding pcr_bytes_def write_pcr_bits_def Let_def by simp
qed

lemma pcr_middle:
  assumes "l = 0 \<or> l = (1 :: int)"
  shows "(push_bit 7 h OR l OR 0x7e) mod 256 = (h mod 2) * 128 + 126 + l"
proof -
  have "(push_bit 7 h OR l OR 0x7e) mod 2 ^ 8 = push_bit 7 (h mod 2) OR take_bit 8 (l OR 0x7e)"
    by (simp only: take_bit_eq_mod [symmetric] take_bit_or take_bit_push_bit) (simp add: take_bit_eq_mod)
  also have "\<dots> = (h mod 2) * 128 + 126 + l"
    using assms by (cases "h mod 2 = 0") (auto simp: not_mod_2_eq_0_eq_1)
  finally show ?thesis by simp
qed

lemma digits_256:
  fixes x :: int
  assumes "0 \<le> x" "x < 2 ^ 33"
  shows "x div 2 ^ 25 mod 256 * 2 ^ 25 + x div 2 ^ 17 mod 256 * 2 ^ 17 + x div 2 ^ 9 mod 256 * 2 ^ 9 +
      x div 2 mod 256 * 2 + x mod 2 = x"
proof -
  have e: "x div 2 ^ 9 = x div 2 div 256" "x div 2 ^ 17 = x div 2 ^ 9 div 256" "x div 2 ^ 25 = x div 2 ^ 17 div 256"
    by (simp_all add: zdiv_zmult2_eq [symmetric])
  have "x div 2 ^ 25 < 256" using assms(2) int_div_less_iff[of "2 ^ 25" x 256] by simp
  then have 4: "x div 2 ^ 25 mod 256 = x div 2 ^ 25"
    using assms(1) by (intro mod_pos_pos_trivial) (simp_all add: pos_imp_zdiv_nonneg_iff)
  have j: "a * 2 ^ 25 + b * 2 ^ 17 + c * 2 ^ 9 + d * 2 + e = (((a * 256 + b) * 256 + c) * 256 + d) * 2 + e"
    for a b c d e :: int by simp
  show ?thesis unfolding j 4 unfolding e(3) div_mult_mod_eq unfolding e(2) div_mult_mod_eq
    unfolding e(1) div_mult_mod_eq by (rule refl)
qed

lemma pcr_middle_split:
  fixes x y :: int
  assumes "y = 0 \<or> y = 1"
  shows "(x * 128 + 126 + y) div 128 = x" "(x * 128 + 126 + y) mod 2 = y"
proof -
  show "(x * 128 + 126 + y) div 128 = x"
    by (rule int_div_pos_eq[where r = "126 + y"]) (use assms in auto)
  show "(x * 128 + 126 + y) mod 2 = y"
    by (rule int_mod_pos_eq[where q = "x * 64 + 63"]) (use assms in auto)
qed

lemma ext_high: "(p mod 300) div 256 = 0 \<or> (p mod 300) div 256 = (1 :: int)"
proof -
  define r where "r = p mod 300"
  have r: "0 \<le> r" "r < 300" by (simp_all add: r_def)
  have "r div 256 = 0" if "r < 256" using r that by (intro div_pos_pos_trivial) simp_all
  moreover have "r div 256 = 1" if "\<not> r < 256"
    by (rule int_div_pos_eq[where r = "r - 256"]) (use r that in auto)
  ultimately show ?thesis unfolding r_def[symmetric] by blast
qed

lemma decode_write_pcr:
  assumes "0 \<le> pcr" "pcr < 2 ^ 33 * 300"
  shows "decode_pcr (pcr_bytes pcr) = (pcr div 300, pcr mod 300)"
proof -
  have h: "0 \<le> pcr div 300" "pcr div 300 < 2 ^ 33"
    using assms by (simp_all add: int_div_less_iff pos_imp_zdiv_nonneg_iff)
  show ?thesis
    unfolding pcr_bytes_list[OF assms(1)] decode_pcr_list uint_byte pcr_middle[OF ext_high]
      pcr_middle_split[OF ext_high]
    unfolding digits_256[OF h] div_mult_mod_eq by (rule refl)
qed

text \<open>C18: The opening packet of a video frame carries its time stamp: a receiver that decodes
  the PES header gets back the stream's \<open>payload_pts\<close>, and from the adaptation field the
  PCR base equal to it with extension 0, for every 33-bit time stamp.\<close>

theorem start_packet_times:
  assumes "stream_ok ts" "codec_type ts = AVMEDIA_TYPE_VIDEO" "162 \<le> length (payload ts)"
    and "length buf = 188" "0 \<le> payload_pts ts" "payload_pts ts < 2 ^ 33"
  shows "\<exists>p ts1. mpegts_start_packet ts buf = Some (p, ts1) \<and>
     decode_pts (drop 9 (ts_payload p)) = payload_pts ts \<and>
     decode_pcr (take 6 (drop 6 p)) = (payload_pts ts, 0)"
proof -
  let ?t = "ts\<lparr>cc := (cc ts + 1) mod 16\<rparr>"
  have n: "start_len ts = 162" using assms(2) by (simp add: start_len_def)
  have ok: "stream_ok ?t" "start_len ?t \<le> length (payload ?t)" "0 \<le> cc ?t" "cc ?t < 16"
    using assms(1-3) by (simp_all add: stream_ok_def start_len_def)
  obtain ts1 where s: "mpegts_start_packet ts buf = Some (start_packet ?t, ts1)"
    using mpegts_start_packet_eq[OF assms(4,1)] assms(3) n by (simp add: Let_def)
  have "drop 9 (ts_payload (start_packet ?t)) = pts_bytes (payload_pts ts) @ take 162 (payload ts)"
    using start_packet_facts(2)[OF ok] n assms(2) by (simp add: pes_header_def start_len_def)
  moreover have "decode_pts (xs @ ys) = decode_pts xs" if "length xs = 5" for xs ys
    using that by (simp add: decode_pts_def nth_append)
  ultimately have a: "decode_pts (drop 9 (ts_payload (start_packet ?t))) = payload_pts ts"
    using decode_write_pts[OF assms(5,6)] by simp
  have "take 6 (drop 6 (start_packet ?t)) = pcr_bytes (payload_pts ts * 300)"
    using assms(2) by (simp add: start_packet_def video_header_def)
  moreover have "decode_pcr (pcr_bytes (payload_pts ts * 300)) = (payload_pts ts, 0)"
    using decode_write_pcr[of "payload_pts ts * 300"] assms(5,6) by simp
  ultimately show ?thesis using s a by simp
qed

definition demo_video :: MpegTSWriteStream where
  "demo_video = demo_stream\<lparr>codec_type := AVMEDIA_TYPE_VIDEO, payload_pts := 5000001500\<rparr>"

theorem start_packet_times_witness:
  "\<exists>p ts1. mpegts_start_packet demo_video (replicate 188 0) = Some (p, ts1) \<and>
     decode_pts (drop 9 (ts_payload p)) = payload_pts demo_video \<and>
     decode_pcr (take 6 (drop 6 p)) = (payload_pts demo_video, 0)"
  by (rule start_packet_times)
    (simp_all add: demo_video_def demo_stream_def stream_ok_def length_mp2packt AV_NOPTS_VALUE_def)

section \<open>A whole cycle of the multiplexer\<close>

fun ts_polls :: "bytes list \<Rightarrow> tsmux \<Rightarrow> (bytes list \<times> tsmux) option" where
  "ts_polls [] m = Some ([], m)"
| "ts_polls (buf # bufs) m =
     (case pollintTs buf m of
        None \<Rightarrow> None
      | Some (ps, m') \<Rightarrow> (case ts_polls bufs m' of None \<Rightarrow> None | Some (qs, m'') \<Rightarrow> Some (ps @ qs, m'')))"

lemma ts_polls_append:
  "ts_polls (xs @ ys) m =
    (case ts_polls xs m of None \<Rightarrow> None
     | Some (ps, m') \<Rightarrow> (case ts_polls ys m' of None \<Rightarrow> None | Some (qs, m'') \<Rightarrow> Some (ps @ qs, m'')))"
  by (induction xs arbitrary: m) (auto split: option.splits)

text \<open>Sending a frame takes two polls.\<close>

lemma ts_send_frame:
  assumes "stream_ok ts" "start_len ts < length (payload ts)" "is_start ts"
    and "length buf = 188" "length buf' = 188"
  shows "\<exists>p ts1 ps ts2. ts_send step ts buf = Some ([p], ts1) \<and> payload_size ts1 \<noteq> 0 \<and> \<not> is_start ts1 \<and>
     ts_send step ts1 buf' = Some (ps, ts2) \<and> payload_size ts2 = 0 \<and>
     run_ok (pid ts) (cc ts) (p # ps) \<and>
     concat (map ts_payload (p # ps)) = pes_header (ts\<lparr>cc := (cc ts + 1) mod 16\<rparr>) @ payload ts"
proof -
  let ?ts = "ts\<lparr>is_start := False\<rparr>"
  let ?t = "?ts\<lparr>cc := (cc ts + 1) mod 16\<rparr>" and ?n = "start_len ts"
  let ?t1 = "?t\<lparr>payload := drop ?n (payload ts), payload_size := payload_size ts - int ?n\<rparr>"
  let ?t1' = "?t1\<lparr>payload_pts := payload_pts ts + step\<rparr>"
  have ok: "stream_ok ?t" "start_len ?t \<le> length (payload ?t)" "0 \<le> cc ?t" "cc ?t < 16"
    and ok0: "stream_ok ?ts" and n: "start_len ?ts = ?n" "start_len ?t = ?n"
    using assms(1,2) by (simp_all add: stream_ok_def start_len_def)
  note f = start_packet_facts[OF ok]
  have s: "ts_send step ts buf = Some ([start_packet ?t], ?t1')"
    using mpegts_start_packet_eq[OF assms(4) ok0] assms(2,3) by (simp add: Let_def ts_send_def n)
  have wf: "normal_wf ?t1'" using assms(1,2) by (simp add: normal_wf_def stream_ok_def)
  from mpegts_normal_packet_ok[OF wf assms(5)] obtain ps ts2 where r:
    "mpegts_normal_packet ?t1' buf' = Some (ps, ts2)" "concat (map ts_payload ps) = payload ?t1'"
    "run_ok (pid ?t1') (cc ?t1') ps" "payload_size ts2 = 0"
    by (elim exE conjE)
  have run: "run_ok (pid ts) (cc ts) (start_packet ?t # ps)"
    using f(1,3,4) r(3) by (intro run_ok_Cons) auto
  have "concat (map ts_payload (start_packet ?t # ps)) = pes_header ?t @ payload ts"
    using f(2) r(2) by (simp add: n)
  also have "pes_header ?t = pes_header (ts\<lparr>cc := (cc ts + 1) mod 16\<rparr>)"
    by (simp add: pes_header_def pes_length_def)
  finally have cat: "concat (map ts_payload (start_packet ?t # ps)) =
    pes_header (ts\<lparr>cc := (cc ts + 1) mod 16\<rparr>) @ payload ts" .
  have nz: "payload_size ?t1' \<noteq> 0" using assms(1,2) by (simp add: stream_ok_def)
  have s2: "ts_send step ?t1' buf' = Some (ps, ts2)" using r(1) by (simp add: ts_send_def)
  show ?thesis
    by (rule exI[of _ "start_packet ?t"], rule exI[of _ ?t1'], rule exI[of _ ps], rule exI[of _ ts2])
      (intro conjI s nz s2 r(4) run cat, simp)
qed

definition ts_init_ok :: "tsmux \<Rightarrow> bool" where
  "ts_init_ok m \<longleftrightarrow> length (pack_quene m) = 15 \<and> PAT_DAT m = PAT_DAT0 \<and> PMT_DAT m = PMT_DAT0"

text \<open>C16: After \<open>tsMux_init\<close> five calls of \<open>pollintTs\<close> reach END_PACKET: they send the PAT and
  PMT, then the video frame on PID 256 and the audio frame on PID 257, each complete and in
  order with its continuity counter running from 0.\<close>

theorem tsmux_cycle:
  assumes "ts_init_ok m" "162 < length h264" "\<forall>b \<in> set [b1, b2, b3, b4, b5]. length b = 188"
  shows "\<exists>vs as m'. ts_polls [b1, b2, b3, b4, b5] (tsMux_init h264 m) =
       Some ([PAT_DAT0, PMT_DAT0] @ vs @ as, m') \<and> av_state m' = END_PACKET \<and>
     run_ok 256 15 vs \<and> run_ok 257 15 as \<and>
     (\<exists>h. length h = 14 \<and> concat (map ts_payload vs) = h @ h264) \<and>
     (\<exists>h. length h = 14 \<and> concat (map ts_payload as) = h @ mp2packt)"
proof -
  let ?m0 = "tsMux_init h264 m"
  let ?v = "(ts_st_v ?m0)\<lparr>is_start := True, payload := h264, payload_size := int (length h264)\<rparr>"
  let ?a = "(ts_st_a ?m0)\<lparr>is_start := True, payload := mp2packt, payload_size := int (length mp2packt)\<rparr>"
  let ?m1 = "?m0\<lparr>pat_pmt_cc := 1, ts_st_a := ?a, ts_st_v := ?v, av_state := VIDEO_PACKET, test_loop := 1\<rparr>"
  have pat: "PAT_DAT0[3 := 0x10] = PAT_DAT0" "PMT_DAT0[3 := 0x10] = PMT_DAT0"
    by (simp_all add: PAT_DAT0_def PMT_DAT0_def)
  have p1: "pollintTs b1 ?m0 = Some ([PAT_DAT0, PMT_DAT0], ?m1)"
    using assms(1) pat
    by (simp add: pollintTs_def tsMux_init_def ts_init_ok_def Let_def PAT_DAT0_def)
  have okv: "stream_ok ?v" "start_len ?v < length (payload ?v)" "is_start ?v"
    using assms(2) by (simp_all add: stream_ok_def start_len_def tsMux_init_def AV_NOPTS_VALUE_def)
  have oka: "stream_ok ?a" "start_len ?a < length (payload ?a)" "is_start ?a"
    by (simp_all add: stream_ok_def start_len_def tsMux_init_def AV_NOPTS_VALUE_def length_mp2packt)
  have lb: "length b2 = 188" "length b3 = 188" "length b4 = 188" "length b5 = 188" using assms(3) by auto
  from ts_send_frame[OF okv lb(1,2), of 1500] obtain p v1 ps v2 where v:
    "ts_send 1500 ?v b2 = Some ([p], v1)" "payload_size v1 \<noteq> 0" "ts_send 1500 v1 b3 = Some (ps, v2)"
    "payload_size v2 = 0" "run_ok (pid ?v) (cc ?v) (p # ps)"
    "concat (map ts_payload (p # ps)) = pes_header (?v\<lparr>cc := (cc ?v + 1) mod 16\<rparr>) @ payload ?v"
    by (elim exE conjE)
  from ts_send_frame[OF oka lb(3,4), of 2160] obtain q a1 qs a2 where a:
    "ts_send 2160 ?a b4 = Some ([q], a1)" "payload_size a1 \<noteq> 0" "ts_send 2160 a1 b5 = Some (qs, a2)"
    "payload_size a2 = 0" "run_ok (pid ?a) (cc ?a) (q # qs)"
    "concat (map ts_payload (q # qs)) = pes_header (?a\<lparr>cc := (cc ?a + 1) mod 16\<rparr>) @ payload ?a"
    by (elim exE conjE)
  let ?m2 = "?m1\<lparr>ts_st_v := v1\<rparr>"
  let ?m3 = "?m1\<lparr>ts_st_v := v2, av_state := AUIDO_PACKET\<rparr>"
  let ?m4 = "?m3\<lparr>ts_st_a := a1\<rparr>"
  let ?m5 = "?m3\<lparr>ts_st_a := a2, av_state := END_PACKET\<rparr>"
  have p2: "pollintTs b2 ?m1 = Some ([p], ?m2)" using v(1,2) by (simp add: pollintTs_def)
  have p3: "pollintTs b3 ?m2 = Some (ps, ?m3)" using v(3,4) by (simp add: pollintTs_def)
  have p4: "pollintTs b4 ?m3 = Some ([q], ?m4)" using a(1,2) by (simp add: pollintTs_def)
  have p5: "pollintTs b5 ?m4 = Some (qs, ?m5)" using a(3,4) by (simp add: pollintTs_def)
  have run: "ts_polls [b1, b2, b3, b4, b5] ?m0 = Some ([PAT_DAT0, PMT_DAT0] @ (p # ps) @ (q # qs), ?m5)"
    using p2 p3 p4 p5 by (simp only: ts_polls.simps p1 option.case prod.case append.simps append_Nil2 append_assoc)
  have h: "length (pes_header x) = 14" for x by (simp add: pes_header_def)
  have ids: "pid ?v = 256" "cc ?v = 15" "pid ?a = 257" "cc ?a = 15" "payload ?v = h264" "payload ?a = mp2packt"
    by (simp_all add: tsMux_init_def)
  have e: "av_state ?m5 = END_PACKET" by simp
  show ?thesis
    using run e v(5,6) a(5,6) h unfolding ids by blast
qed

definition demo_tsmux :: tsmux where
  "demo_tsmux = \<lparr>ts_st_v = demo_stream, ts_st_a = demo_stream, av_state = END_PACKET, pat_pmt_cc = 9,
     test_loop = 3, PAT_DAT = PAT_DAT0, PMT_DAT = PMT_DAT0, pack_quene = replicate 15 []\<rparr>"

theorem tsmux_cycle_witness:
  "\<exists>vs as m'. ts_polls [replicate 188 0, replicate 188 1, replicate 188 2, replicate 188 3, replicate 188 4]
       (tsMux_init (replicate 500 9) demo_tsmux) =
       Some ([PAT_DAT0, PMT_DAT0] @ vs @ as, m') \<and> av_state m' = END_PACKET \<and>
     run_ok 256 15 vs \<and> run_ok 257 15 as \<and>
     (\<exists>h. length h = 14 \<and> concat (map ts_payload vs) = h @ replicate 500 9) \<and>
     (\<exists>h. length h = 14 \<and> concat (map ts_payload as) = h @ mp2packt)"
  by (rule tsmux_cycle) (simp_all add: ts_init_ok_def demo_tsmux_def)

text \<open>The opening packet always copies a full packet's worth: with a shorter frame the
  copy runs past the end of the frame.\<close>

lemma start_packet_overread:
  "stream_ok ts \<Longrightarrow> length buf = 188 \<Longrightarrow> length (payload ts) < start_len ts \<Longrightarrow>
   mpegts_start_packet ts buf = None"
  by (simp add: mpegts_start_packet_eq Let_def)

end
