(* ===== verification/RomFlash.thy ===== *)
theory RomFlash
  imports Prelude
begin

text \<open>
  \<open>driver/romflash/romflash.c\<close>: erasing a sector, programming and reading bytes of
  the on-chip flash.  The HAL routines \<open>HAL_FLASH_Program\<close> and \<open>HAL_FLASHEx_Erase\<close> belong
  to the vendor library: they are the argument \<open>hal\<close> of the operations, and
  \<open>hal_laws\<close> states what their documentation promises: an erase sets every byte of the
  sector to 0xFF and touches no other, a program stores the byte wherever it only has to
  clear bits.  Addresses are naturals (the flash ends far below \<open>2 ^ 32\<close>); blocks are at
  most 65535 bytes, the range of the 16-bit loop index.
\<close>

type_synonym memory = "nat \<Rightarrow> u8"

record hal_flash =
  HAL_FLASH_Program :: "nat \<Rightarrow> u8 \<Rightarrow> memory \<Rightarrow> memory option"
  HAL_FLASHEx_Erase :: "nat \<Rightarrow> memory \<Rightarrow> memory option"

record flash =
  cells :: memory
  flash_locked :: bool

definition ADDR_FLASH_SECTORS :: "nat list" where
  "ADDR_FLASH_SECTORS =
     [0x08000000, 0x08008000, 0x08010000, 0x08018000, 0x08020000, 0x08040000,
      0x08080000, 0x080C0000, 0x08100000, 0x08140000, 0x08180000, 0x081C0000]"

definition ADDR_FLASH_SECTOR_7 :: nat where "ADDR_FLASH_SECTOR_7 = 0x080C0000"
definition ADDR_FLASH_SECTOR_8 :: nat where "ADDR_FLASH_SECTOR_8 = 0x08100000"
definition ADDR_FLASH_SECTOR_11 :: nat where "ADDR_FLASH_SECTOR_11 = 0x081C0000"

definition FLASH_SECTOR_NULL :: nat where "FLASH_SECTOR_NULL = 128"

definition GetSector :: "nat \<Rightarrow> nat" where
  "GetSector addr =
     (if addr = 0x08000000 then 0 else if addr = 0x08008000 then 1
      else if addr = 0x08010000 then 2 else if addr = 0x08018000 then 3
      else if addr = 0x08020000 then 4 else if addr = 0x08040000 then 5
      else if addr = 0x08080000 then 6 else if addr = 0x080C0000 then 7
      else if addr = 0x08100000 then 8 else if addr = 0x08140000 then 9
      else if addr = 0x08180000 then 10 else if addr = 0x081C0000 then 11
      else FLASH_SECTOR_NULL)"

text \<open>The results are the C return value and the flash; note the early returns that
  leave the control register unlocked.\<close>

definition romflash_clean_pages :: "hal_flash \<Rightarrow> nat \<Rightarrow> flash \<Rightarrow> bool \<times> flash" where
  "romflash_clean_pages hal addr fl =
     (let fl = fl\<lparr>flash_locked := False\<rparr>; useSector = GetSector addr in
      if useSector = FLASH_SECTOR_NULL then (True, fl\<lparr>flash_locked := True\<rparr>)
      else (case HAL_FLASHEx_Erase hal useSector (cells fl) of
              None \<Rightarrow> (False, fl)
            | Some m \<Rightarrow> (True, fl\<lparr>cells := m, flash_locked := True\<rparr>)))"

fun write_loop :: "hal_flash \<Rightarrow> nat \<Rightarrow> bytes \<Rightarrow> memory \<Rightarrow> bool \<times> memory" where
  "write_loop hal addr [] m = (True, m)"
| "write_loop hal addr (b # bs) m =
     (case HAL_FLASH_Program hal addr b m of
        None \<Rightarrow> (False, m)
      | Some m' \<Rightarrow> write_loop hal (addr + 1) bs m')"

definition romflash_pages_write :: "hal_flash \<Rightarrow> nat \<Rightarrow> bytes \<Rightarrow> flash \<Rightarrow> bool \<times> flash" where
  "romflash_pages_write hal suaddr buf fl =
     (let (ok, m) = write_loop hal suaddr buf (cells fl)
      in (ok, fl\<lparr>cells := m, flash_locked := ok\<rparr>))"

definition romflash_byte_write :: "hal_flash \<Rightarrow> nat \<Rightarrow> u8 \<Rightarrow> flash \<Rightarrow> bool \<times> flash" where
  "romflash_byte_write hal addr dat fl =
     (case HAL_FLASH_Program hal addr dat (cells fl) of
        None \<Rightarrow> (False, fl\<lparr>flash_locked := False\<rparr>)
      | Some m \<Rightarrow> (True, fl\<lparr>cells := m, flash_locked := True\<rparr>))"

definition romflash_pages_read :: "nat \<Rightarrow> nat \<Rightarrow> flash \<Rightarrow> bytes" where
  "romflash_pages_read suaddr len fl = map (\<lambda>i. cells fl (suaddr + i)) [0..<len]"

text \<open>A little-endian word.\<close>

definition romflash_word_read :: "nat \<Rightarrow> flash \<Rightarrow> u32" where
  "romflash_word_read suaddr fl =
     ucast (cells fl suaddr) OR push_bit 8 (ucast (cells fl (suaddr + 1))) OR
     push_bit 16 (ucast (cells fl (suaddr + 2))) OR push_bit 24 (ucast (cells fl (suaddr + 3)))"

section \<open>What the vendor library promises\<close>

definition in_sector :: "nat \<Rightarrow> nat \<Rightarrow> bool" where
  "in_sector s a \<longleftrightarrow> (ADDR_FLASH_SECTORS @ [0x08200000]) ! s \<le> a \<and>
     a < (ADDR_FLASH_SECTORS @ [0x08200000]) ! Suc s"

definition hal_laws :: "hal_flash \<Rightarrow> bool" where
  "hal_laws hal \<longleftrightarrow>
     (\<forall>a d m. m a AND d = d \<longrightarrow> HAL_FLASH_Program hal a d m = Some (m(a := d))) \<and>
     (\<forall>s m. s < 12 \<longrightarrow> HAL_FLASHEx_Erase hal s m = Some (\<lambda>a. if in_sector s a then 0xff else m a))"

text \<open>A NOR flash satisfies it.\<close>

definition nor_flash :: hal_flash where
  "nor_flash = \<lparr>HAL_FLASH_Program = (\<lambda>a d m. Some (m(a := m a AND d))),
     HAL_FLASHEx_Erase = (\<lambda>s m. Some (\<lambda>a. if in_sector s a then 0xff else m a))\<rparr>"

lemma nor_flash_laws: "hal_laws nor_flash"
  by (simp add: hal_laws_def nor_flash_def)

section \<open>Blocks\<close>

definition block_at :: "memory \<Rightarrow> nat \<Rightarrow> bytes \<Rightarrow> memory" where
  "block_at m a bs = (\<lambda>x. if a \<le> x \<and> x < a + length bs then bs ! (x - a) else m x)"

definition erased :: "memory \<Rightarrow> nat \<Rightarrow> nat \<Rightarrow> bool" where
  "erased m a n \<longleftrightarrow> (\<forall>x. a \<le> x \<and> x < a + n \<longrightarrow> m x = 0xff)"

lemma block_at_Cons: "block_at m a (b # bs) = block_at (m(a := b)) (a + 1) bs"
  by (rule ext) (auto simp: block_at_def nth_Cons' Suc_diff_Suc)

lemma write_loop_programs:
  assumes "hal_laws hal" "\<And>i. i < length bs \<Longrightarrow> m (a + i) AND bs ! i = bs ! i"
  shows "write_loop hal a bs m = (True, block_at m a bs)"
  using assms(2)
proof (induction bs arbitrary: a m)
  case Nil
  then show ?case by (auto simp: block_at_def fun_eq_iff)
next
  case (Cons b bs)
  have "m a AND b = b" using Cons.prems[of 0] by simp
  then have "HAL_FLASH_Program hal a b m = Some (m(a := b))"
    using assms(1) by (simp add: hal_laws_def)
  moreover have "write_loop hal (a + 1) bs (m(a := b)) = (True, block_at (m(a := b)) (a + 1) bs)"
    using Cons.prems[of "Suc i" for i] by (intro Cons.IH) auto
  ultimately show ?case by (simp add: block_at_Cons)
qed

lemma romflash_pages_write_erased:
  assumes "hal_laws hal" "erased (cells fl) a (length bs)"
  shows "romflash_pages_write hal a bs fl = (True, fl\<lparr>cells := block_at (cells fl) a bs, flash_locked := True\<rparr>)"
proof -
  have "write_loop hal a bs (cells fl) = (True, block_at (cells fl) a bs)"
  proof (rule write_loop_programs[OF assms(1)])
    fix i assume "i < length bs"
    then have "cells fl (a + i) = - 1" using assms(2) by (simp add: erased_def)
    then show "cells fl (a + i) AND bs ! i = bs ! i" by simp
  qed
  then show ?thesis by (simp add: romflash_pages_write_def)
qed

lemma romflash_clean_pages_erases:
  assumes "hal_laws hal" "GetSector addr = s" "s < 12"
  shows "romflash_clean_pages hal addr fl =
    (True, fl\<lparr>cells := (\<lambda>a. if in_sector s a then 0xff else cells fl a), flash_locked := True\<rparr>)"
proof -
  have c: "cells (fl\<lparr>flash_locked := False\<rparr>) = cells fl" by simp
  have n: "GetSector addr \<noteq> FLASH_SECTOR_NULL" using assms(2,3) by (simp add: FLASH_SECTOR_NULL_def)
  have e: "HAL_FLASHEx_Erase hal (GetSector addr) (cells fl) = Some (\<lambda>a. if in_sector s a then 0xff else cells fl a)"
    using assms by (simp add: hal_laws_def)
  show ?thesis unfolding romflash_clean_pages_def Let_def if_not_P[OF n] c e option.case by simp
qed

section \<open>A sequence of writes to disjoint blocks\<close>

definition write_all :: "hal_flash \<Rightarrow> (nat \<times> bytes) list \<Rightarrow> flash \<Rightarrow> flash" where
  "write_all hal blocks fl = fold (\<lambda>(a, bs) fl. snd (romflash_pages_write hal a bs fl)) blocks fl"

definition apart :: "nat \<times> bytes \<Rightarrow> nat \<times> bytes \<Rightarrow> bool" where
  "apart p q \<longleftrightarrow> fst p + length (snd p) \<le> fst q \<or> fst q + length (snd q) \<le> fst p"

fun all_apart :: "(nat \<times> bytes) list \<Rightarrow> bool" where
  "all_apart [] \<longleftrightarrow> True"
| "all_apart (p # ps) \<longleftrightarrow> list_all (apart p) ps \<and> all_apart ps"

definition block_is :: "memory \<Rightarrow> nat \<times> bytes \<Rightarrow> bool" where
  "block_is m p \<longleftrightarrow> map (\<lambda>i. m (fst p + i)) [0..<length (snd p)] = snd p"

lemma block_is_block_at: "block_is (block_at m a bs) (a, bs)"
  unfolding block_is_def by (rule nth_equalityI) (auto simp: block_at_def)

lemma block_is_apart: "apart (a, bs) q \<Longrightarrow> block_is (block_at m a bs) q = block_is m q"
  unfolding block_is_def apart_def block_at_def by (intro arg_cong2[where f = "(=)"] map_cong) auto

lemma erased_apart:
  "apart (a, bs) q \<Longrightarrow> erased (block_at m a bs) (fst q) (length (snd q)) = erased m (fst q) (length (snd q))"
  unfolding erased_def apart_def block_at_def by (intro all_cong) auto

lemma write_all_blocks:
  assumes "hal_laws hal" "all_apart blocks"
    and "list_all (\<lambda>q. erased (cells fl) (fst q) (length (snd q))) blocks"
  shows "list_all (block_is (cells (write_all hal blocks fl))) blocks \<and>
    (\<forall>x. (\<forall>q \<in> set blocks. x < fst q \<or> fst q + length (snd q) \<le> x) \<longrightarrow>
       cells (write_all hal blocks fl) x = cells fl x)"
  using assms(2,3)
proof (induction blocks arbitrary: fl rule: rev_induct)
  case Nil
  then show ?case by (simp add: write_all_def)
next
  case (snoc p blocks)
  obtain a bs where p: "p = (a, bs)" by (cases p)
  have ap: "all_apart blocks" "list_all (\<lambda>q. apart q p) blocks"
    using snoc.prems(1) by (induction blocks) auto
  let ?fl = "write_all hal blocks fl"
  have er: "list_all (\<lambda>q. erased (cells fl) (fst q) (length (snd q))) blocks" "erased (cells fl) a (length bs)"
    using snoc.prems(2) p by auto
  note ih = snoc.IH[OF ap(1) er(1)]
  have "cells ?fl x = cells fl x" if "a \<le> x" "x < a + length bs" for x
  proof -
    have "\<forall>q \<in> set blocks. x < fst q \<or> fst q + length (snd q) \<le> x"
      using ap(2) that by (fastforce simp: list_all_iff apart_def p)
    then show ?thesis using ih by blast
  qed
  then have e: "erased (cells ?fl) a (length bs)" using er(2) by (simp add: erased_def)
  have w: "cells (write_all hal (blocks @ [p]) fl) = block_at (cells ?fl) a bs"
    using romflash_pages_write_erased[OF assms(1) e] by (simp add: write_all_def p)
  have "block_is (block_at (cells ?fl) a bs) q" if "q \<in> set blocks" for q
  proof -
    have "apart (a, bs) q" using ap(2) that by (auto simp: list_all_iff apart_def p)
    then show ?thesis using ih that by (simp add: block_is_apart list_all_iff)
  qed
  then show ?case
    using ih block_is_block_at[of "cells ?fl" a bs]
    unfolding w by (auto simp: list_all_iff p block_at_def)
qed

lemma read_block_is: "block_is (cells fl) (a, bs) \<Longrightarrow> length bs = n \<Longrightarrow> romflash_pages_read a n fl = bs"
  by (auto simp: block_is_def romflash_pages_read_def)

end
