(* ===== verification/ConfigStore.thy ===== *)
theory ConfigStore
  imports RomFlash
begin

text \<open>
  \<open>driver/oled_meau/meau_flash.c\<close>: the configuration of the box.  It lives in the
  menu-status arrays of \<open>menu_items.c\<close> (one byte per entry), is kept in flash sector 11,
  is mirrored into \<open>User_Arr\<close> for the PC, and is sent to the FPGA.  All of these are the
  fields of the record \<open>store\<close>; calls into the LED, OLED, SPI, network and watchdog
  drivers are appended to its trace \<open>effects\<close> in the order they happen.
\<close>

section \<open>The state\<close>

definition MENU_SET :: u8 where "MENU_SET = 0"
definition MENU_RESET :: u8 where "MENU_RESET = 1"
definition NONE_STATUS :: u8 where "NONE_STATUS = 2"
definition NON_OPERATE :: u8 where "NON_OPERATE = 3"

definition En_Or_Dis_NUM :: nat where "En_Or_Dis_NUM = 5"
definition CONFIG_FORMAT_NUM :: nat where "CONFIG_FORMAT_NUM = 17"
definition InputNum :: nat where "InputNum = 3"
definition OutputNum :: nat where "OutputNum = 2"
definition IP_NUM :: nat where "IP_NUM = 4"
definition MAC_ARR_NUM :: nat where "MAC_ARR_NUM = 6"
definition UTCOFFSET_NUM :: nat where "UTCOFFSET_NUM = 1"
definition SRC_MODE_NUM :: nat where "SRC_MODE_NUM = 2"
definition SRC_SYNV_TYPE_NUM :: nat where "SRC_SYNV_TYPE_NUM = 12"
definition SRC_CLOCK_TYPE_NUM :: nat where "SRC_CLOCK_TYPE_NUM = 3"
definition SRC_SYNC_FRAME_NUM :: nat where "SRC_SYNC_FRAME_NUM = 6"
definition DISPLAY_MODE_NUM :: nat where "DISPLAY_MODE_NUM = 3"
definition DISPLAY_BRIGHTNESS_NUM :: nat where "DISPLAY_BRIGHTNESS_NUM = 2"
definition RESTORE_NUM :: nat where "RESTORE_NUM = 1"

datatype effect =
    UserLEDR u8
  | OLED_command u8
  | Send_Test_Pattern u8 | Send_Src_Mode u8 | Send_ClockSync_Mode u8 | Send_SyncType_Mode u8
  | Send_SyncFrame_Mode u8 | Send_Format_2_0x05 u8 | Send_Format_2_0x11 u8
  | Eth_Send_api bytes
  | ReStart
  | OLED_Clear
  | OLED_ShowString u8 u8 bytes u8 | OLED_ShowString_2 u8 u8 bytes u8 | OLED_ShowChar u8 u8 u8 u8
  | HDMI_OUT_LEDG u8

record store =
  System_Feature_Arr :: bytes
  Config_Format_Arr :: bytes
  Config_Video_Input_Arr :: bytes
  Config_Video_Output_Arr :: bytes
  Ip_Arr :: bytes
  Mac_Arr :: bytes
  utc_offset_num :: u8
  Config_Src_Mode_Arr :: bytes
  Config_Src_Sync_Type_Arr :: bytes
  Config_Src_Clock_Type_Arr :: bytes
  Config_Src_Sync_Frame_Arr :: bytes
  Config_Display_Mode_Arr :: bytes
  Config_Display_Brightness_Arr :: bytes
  RESTORE :: bytes
  User_Arr :: bytes
  Status_Flag :: u8
  Update_Flash_Flag :: u8
  send_to_eth :: bytes
  store_flash :: flash
  effects :: "effect list"

text \<open>The version numbers the mirror contains: \<open>sw\<close> of \<open>meau_system_list.c\<close>, \<open>Get_FW\<close> of
  \<open>spi4.c\<close> (\<open>None\<close> is the null pointer) and \<open>Get_HW\<close>.\<close>

record versions =
  Get_SW :: bytes
  Get_FW :: "bytes option"
  Get_HW :: u8

abbreviation emit :: "effect list \<Rightarrow> store \<Rightarrow> store" where
  "emit es s \<equiv> s\<lparr>effects := effects s @ es\<rparr>"

text \<open>The factory values.\<close>

definition one_set :: "nat \<Rightarrow> nat \<Rightarrow> bytes" where
  "one_set n k = (replicate n MENU_RESET)[k := MENU_SET]"

definition Default_System_Feature_Arr :: bytes where "Default_System_Feature_Arr = one_set 5 0"
definition Default_Config_Format_Arr :: bytes where "Default_Config_Format_Arr = one_set 17 0"
definition Default_Config_Video_Input_Arr :: bytes where "Default_Config_Video_Input_Arr = one_set 3 0"
definition Default_Config_Video_Output_Arr :: bytes where "Default_Config_Video_Output_Arr = one_set 2 0"
definition Default_Ip_Arr :: bytes where "Default_Ip_Arr = [0xc0, 0xa8, 0, 0xbc]"
definition Default_Mac_Arr :: bytes where "Default_Mac_Arr = [0x00, 0x80, 0xE1, 0x00, 0x00, 0x00]"
definition Default_utc_offset_num :: u8 where "Default_utc_offset_num = 8"
definition Default_Config_Src_Mode_Arr :: bytes where "Default_Config_Src_Mode_Arr = one_set 2 0"
definition Default_Config_Src_Sync_Type_Arr :: bytes where "Default_Config_Src_Sync_Type_Arr = one_set 12 0"
definition Default_Config_Src_Clock_Type_Arr :: bytes where "Default_Config_Src_Clock_Type_Arr = one_set 3 0"
definition Default_Config_Src_Sync_Frame_Arr :: bytes where "Default_Config_Src_Sync_Frame_Arr = one_set 6 0"
definition Default_Config_Display_Mode_Arr :: bytes where "Default_Config_Display_Mode_Arr = one_set 3 2"
definition Default_Config_Display_Brightness_Arr :: bytes where "Default_Config_Display_Brightness_Arr = one_set 2 0"

section \<open>Flash layout\<close>

definition InputNum_ADDR :: nat where "InputNum_ADDR = ADDR_FLASH_SECTOR_11 + 8"
definition OutputNum_ADDR :: nat where "OutputNum_ADDR = InputNum_ADDR + InputNum + 8"
definition SRC_MODE_NUM_ADDR :: nat where "SRC_MODE_NUM_ADDR = OutputNum + OutputNum_ADDR + 8"
definition SRC_SYNV_TYPE_NUM_ADDR :: nat where "SRC_SYNV_TYPE_NUM_ADDR = SRC_MODE_NUM + SRC_MODE_NUM_ADDR + 8"
definition DISPLAY_MODE_NUM_ADDR :: nat where "DISPLAY_MODE_NUM_ADDR = SRC_SYNV_TYPE_NUM + SRC_SYNV_TYPE_NUM_ADDR + 8"
definition DISPLAY_BRIGHTNESS_NUM_ADDR :: nat where
  "DISPLAY_BRIGHTNESS_NUM_ADDR = DISPLAY_MODE_NUM + DISPLAY_MODE_NUM_ADDR + 8"
definition En_Or_Dis_NUM_ADDR :: nat where
  "En_Or_Dis_NUM_ADDR = DISPLAY_BRIGHTNESS_NUM + DISPLAY_BRIGHTNESS_NUM_ADDR + 8"
definition CONFIG_FORMAT_NUM_ADDR :: nat where "CONFIG_FORMAT_NUM_ADDR = En_Or_Dis_NUM + En_Or_Dis_NUM_ADDR + 8"
definition RESTORE_NUM_ADDR :: nat where "RESTORE_NUM_ADDR = CONFIG_FORMAT_NUM + CONFIG_FORMAT_NUM_ADDR + 8"
definition UTCOFFSET_NUM_ADDR :: nat where "UTCOFFSET_NUM_ADDR = RESTORE_NUM + RESTORE_NUM_ADDR + 8"
definition IP_NUM_ADDR :: nat where "IP_NUM_ADDR = UTCOFFSET_NUM + UTCOFFSET_NUM_ADDR + 8"
definition SRC_CLOCK_TYPE_NUM_ADDR :: nat where "SRC_CLOCK_TYPE_NUM_ADDR = IP_NUM + IP_NUM_ADDR + 8"
definition SRC_SYNC_FRAME_NUM_ADDR :: nat where
  "SRC_SYNC_FRAME_NUM_ADDR = SRC_CLOCK_TYPE_NUM + SRC_CLOCK_TYPE_NUM_ADDR + 8"
definition MAC_ARR_NUM_ADDR :: nat where "MAC_ARR_NUM_ADDR = SRC_SYNC_FRAME_NUM + SRC_SYNC_FRAME_NUM_ADDR + 8"

lemmas num_defs = En_Or_Dis_NUM_def CONFIG_FORMAT_NUM_def InputNum_def OutputNum_def IP_NUM_def
  MAC_ARR_NUM_def UTCOFFSET_NUM_def SRC_MODE_NUM_def SRC_SYNV_TYPE_NUM_def SRC_CLOCK_TYPE_NUM_def
  SRC_SYNC_FRAME_NUM_def DISPLAY_MODE_NUM_def DISPLAY_BRIGHTNESS_NUM_def RESTORE_NUM_def

lemmas addr_defs = InputNum_ADDR_def OutputNum_ADDR_def SRC_MODE_NUM_ADDR_def SRC_SYNV_TYPE_NUM_ADDR_def
  DISPLAY_MODE_NUM_ADDR_def DISPLAY_BRIGHTNESS_NUM_ADDR_def En_Or_Dis_NUM_ADDR_def CONFIG_FORMAT_NUM_ADDR_def
  RESTORE_NUM_ADDR_def UTCOFFSET_NUM_ADDR_def IP_NUM_ADDR_def SRC_CLOCK_TYPE_NUM_ADDR_def
  SRC_SYNC_FRAME_NUM_ADDR_def MAC_ARR_NUM_ADDR_def ADDR_FLASH_SECTOR_11_def

section \<open>Getters and setters\<close>

definition Set_Status :: "u8 \<Rightarrow> store \<Rightarrow> store" where
  "Set_Status status s =
     (if status = 0
      then emit [UserLEDR 0] (s\<lparr>Status_Flag := 0, User_Arr := (User_Arr s)[0x11 := 0]\<rparr>)
      else if status = 1
      then emit [UserLEDR 1] (s\<lparr>Status_Flag := 1, User_Arr := (User_Arr s)[0x11 := 1]\<rparr>)
      else if status = 2 then s\<lparr>Status_Flag := 2\<rparr> else s)"

definition Get_Status :: "store \<Rightarrow> u8" where "Get_Status s = Status_Flag s"

text \<open>The loop every getter has: one plus the first index that is set, or 0.\<close>

fun first_set :: "nat \<Rightarrow> bytes \<Rightarrow> u8" where
  "first_set i [] = 0"
| "first_set i (x # xs) = (if x = MENU_SET then of_nat (i + 1) else first_set (i + 1) xs)"

definition Get_Config_Format :: "store \<Rightarrow> u8" where
  "Get_Config_Format s = first_set 0 (Config_Format_Arr s)"
definition Get_Config_Video_Input :: "store \<Rightarrow> u8" where
  "Get_Config_Video_Input s = first_set 0 (Config_Video_Input_Arr s)"
definition Get_Config_Video_Output :: "store \<Rightarrow> u8" where
  "Get_Config_Video_Output s = first_set 0 (Config_Video_Output_Arr s)"
definition Get_UTCoffset_Num :: "store \<Rightarrow> u8" where "Get_UTCoffset_Num s = utc_offset_num s"
definition Get_IP_Fragment :: "nat \<Rightarrow> store \<Rightarrow> u8" where "Get_IP_Fragment i s = Ip_Arr s ! i"
definition Get_MAC_Fragment :: "nat \<Rightarrow> store \<Rightarrow> u8" where "Get_MAC_Fragment i s = Mac_Arr s ! i"
definition Get_SRC_MODE :: "store \<Rightarrow> u8" where
  "Get_SRC_MODE s = (if Config_Src_Mode_Arr s ! 0 = MENU_SET then 1 else 0)"
definition Get_Config_SRC_synctype :: "store \<Rightarrow> u8" where
  "Get_Config_SRC_synctype s = first_set 0 (Config_Src_Sync_Type_Arr s)"
definition Get_Config_SRC_clocktype :: "store \<Rightarrow> u8" where
  "Get_Config_SRC_clocktype s = first_set 0 (Config_Src_Clock_Type_Arr s)"
definition Get_Config_SRC_syncframe :: "store \<Rightarrow> u8" where
  "Get_Config_SRC_syncframe s = first_set 0 (Config_Src_Sync_Frame_Arr s)"
definition Get_Config_Display_mode :: "store \<Rightarrow> u8" where
  "Get_Config_Display_mode s = first_set 0 (Config_Display_Mode_Arr s)"
definition Get_Config_Display_Brightness :: "store \<Rightarrow> u8" where
  "Get_Config_Display_Brightness s = (if Config_Display_Brightness_Arr s ! 0 = MENU_SET then 1 else 0)"
definition Get_GPS_Display_Status :: "store \<Rightarrow> u8" where
  "Get_GPS_Display_Status s = (if System_Feature_Arr s ! 0 = MENU_SET then 1 else 0)"

text \<open>The loop of the setters; \<open>num = pos - 1\<close> is an \<open>int8_t\<close>.\<close>

definition set_loop :: "u8 \<Rightarrow> bytes \<Rightarrow> bytes" where
  "set_loop pos arr =
     map (\<lambda>i. if int i = sint (pos - 1) then MENU_SET else MENU_RESET) [0..<length arr]"

definition Set_Config_Format :: "u8 \<Rightarrow> store \<Rightarrow> store" where
  "Set_Config_Format pos s = s\<lparr>Config_Format_Arr := set_loop pos (Config_Format_Arr s)\<rparr>"
definition Set_Config_Video_Input :: "u8 \<Rightarrow> store \<Rightarrow> store" where
  "Set_Config_Video_Input pos s = s\<lparr>Config_Video_Input_Arr := set_loop pos (Config_Video_Input_Arr s)\<rparr>"
definition Set_Config_Video_Output :: "u8 \<Rightarrow> store \<Rightarrow> store" where
  "Set_Config_Video_Output pos s = s\<lparr>Config_Video_Output_Arr := set_loop pos (Config_Video_Output_Arr s)\<rparr>"
definition Set_UTCoffset_Num :: "u8 \<Rightarrow> store \<Rightarrow> store" where
  "Set_UTCoffset_Num num s = s\<lparr>utc_offset_num := num\<rparr>"
definition Set_SRC_MODE :: "u8 \<Rightarrow> store \<Rightarrow> store" where
  "Set_SRC_MODE mode s =
     (if mode = 1 then s\<lparr>Config_Src_Mode_Arr := (Config_Src_Mode_Arr s)[0 := MENU_SET, 1 := MENU_RESET]\<rparr>
      else if mode = 0 then s\<lparr>Config_Src_Mode_Arr := (Config_Src_Mode_Arr s)[0 := MENU_RESET, 1 := MENU_SET]\<rparr>
      else s)"
definition Set_Config_SRC_synctype :: "u8 \<Rightarrow> store \<Rightarrow> store" where
  "Set_Config_SRC_synctype pos s = s\<lparr>Config_Src_Sync_Type_Arr := set_loop pos (Config_Src_Sync_Type_Arr s)\<rparr>"
definition Set_Config_SRC_clocktype :: "u8 \<Rightarrow> store \<Rightarrow> store" where
  "Set_Config_SRC_clocktype pos s = s\<lparr>Config_Src_Clock_Type_Arr := set_loop pos (Config_Src_Clock_Type_Arr s)\<rparr>"
definition Set_Config_SRC_syncframe :: "u8 \<Rightarrow> store \<Rightarrow> store" where
  "Set_Config_SRC_syncframe pos s = s\<lparr>Config_Src_Sync_Frame_Arr := set_loop pos (Config_Src_Sync_Frame_Arr s)\<rparr>"
definition Set_Config_Display_mode :: "u8 \<Rightarrow> store \<Rightarrow> store" where
  "Set_Config_Display_mode pos s = s\<lparr>Config_Display_Mode_Arr := set_loop pos (Config_Display_Mode_Arr s)\<rparr>"

definition Set_Update_Flash_Flag :: "u8 \<Rightarrow> store \<Rightarrow> store" where
  "Set_Update_Flash_Flag flag s = s\<lparr>Update_Flash_Flag := (if flag \<noteq> 0 then 1 else 0)\<rparr>"
definition Get_Update_Flash_Flag :: "store \<Rightarrow> u8" where
  "Get_Update_Flash_Flag s = Update_Flash_Flag s"

section \<open>Sending the configuration to the FPGA\<close>

definition sync_type_reg :: "u8 list" where
  "sync_type_reg = [0x00, 0x10, 0x20, 0x30, 0x40, 0x50, 0x60, 0x00, 0x70, 0x80, 0x90, 0xa0]"

definition clock_type_reg :: "u8 list" where "clock_type_reg = [0x00, 0x40, 0x80]"

definition sync_frame_reg :: "u8 list" where
  "sync_frame_reg = [0x00, 0x20, 0x40, 0x60, 0x80, 0xa0]"

definition format_reg :: "(u8 \<times> u8) list" where
  "format_reg = [(0x38, 0x00), (0x00, 0x00), (0x38, 0x80), (0x38, 0x00), (0x18, 0x00), (0x10, 0x80),
     (0x10, 0x00), (0x30, 0x80), (0x30, 0x00), (0x28, 0x00), (0x20, 0x80), (0x20, 0x00),
     (0x2c, 0x00), (0x24, 0x80), (0x24, 0x00), (0x08, 0x80), (0x08, 0x00)]"

text \<open>The chains of \<open>else if(arr[i] == MENU_SET)\<close>: the calls of the first entry that is set.\<close>

fun first_branch :: "bytes \<Rightarrow> 'a list list \<Rightarrow> 'a list" where
  "first_branch (x # xs) (b # bs) = (if x = MENU_SET then b else first_branch xs bs)"
| "first_branch _ _ = []"

definition Set_FPGA_Reg_Config :: "nat \<Rightarrow> u8 \<Rightarrow> store \<Rightarrow> store" where
  "Set_FPGA_Reg_Config sector_addr reg_addr s =
     (if sector_addr = InputNum_ADDR \<or> reg_addr = 0x01
      then emit [Send_Test_Pattern (if Config_Video_Input_Arr s ! 2 = MENU_SET then 0x80 else 0x00)] s
      else if sector_addr = SRC_MODE_NUM_ADDR \<or> reg_addr = 0x04
      then emit (first_branch (Config_Src_Mode_Arr s) [[Send_Src_Mode 0x80], [Send_Src_Mode 0x00]]) s
      else if sector_addr = SRC_CLOCK_TYPE_NUM_ADDR \<or> reg_addr = 0x0D
      then emit (first_branch (Config_Src_Clock_Type_Arr s) (map (\<lambda>t. [Send_ClockSync_Mode t]) clock_type_reg)
                 @ [Send_SyncType_Mode 0]) s
      else if sector_addr = SRC_SYNV_TYPE_NUM_ADDR \<or> reg_addr = 0x06
      then emit (first_branch (Config_Src_Sync_Type_Arr s) (map (\<lambda>t. [Send_SyncType_Mode t]) sync_type_reg)) s
      else if sector_addr = SRC_SYNC_FRAME_NUM_ADDR \<or> reg_addr = 0x10
      then emit (first_branch (Config_Src_Sync_Frame_Arr s) (map (\<lambda>t. [Send_SyncFrame_Mode t]) sync_frame_reg)) s
      else if sector_addr = CONFIG_FORMAT_NUM_ADDR \<or> reg_addr = 0x05
      then emit (first_branch (Config_Format_Arr s)
                  (map (\<lambda>(a, b). [Send_Format_2_0x05 a, Send_Format_2_0x11 b]) format_reg)) s
      else s)"

section \<open>The mirror for the PC\<close>

definition Update_User_Arr :: "versions \<Rightarrow> store \<Rightarrow> store" where
  "Update_User_Arr v s =
     (let u = User_Arr s;
          u = fold (\<lambda>i u. if System_Feature_Arr s ! i = MENU_SET then u[i := 1]
                          else if System_Feature_Arr s ! i = MENU_RESET then u[i := 0] else u)
                [0..<En_Or_Dis_NUM] u;
          u = mem_write u 5 (take 5 (Get_SW v));
          u = (case Get_FW v of None \<Rightarrow> u | Some fw \<Rightarrow> mem_write u 10 (take 5 fw));
          u = u[0x0f := Get_Config_Display_Brightness s];
          u = u[0x10 := Get_Config_Format s];
          u = u[0x11 := Get_Status s];
          u = mem_write u 0x16 (map (\<lambda>i. Get_MAC_Fragment i s) [0..<MAC_ARR_NUM]);
          u = u[0x1c := Get_Config_Video_Input s];
          u = u[0x1d := Get_Config_Video_Output s];
          u = u[0x1e := Get_UTCoffset_Num s];
          u = u[0x1f := Get_SRC_MODE s];
          u = u[0x20 := Get_Config_SRC_synctype s];
          u = u[0x21 := Get_Config_SRC_clocktype s];
          u = u[0x22 := Get_Config_SRC_syncframe s];
          u = u[0x23 := Get_Config_Display_mode s];
          u = u[0x24 := Get_HW v]
      in s\<lparr>User_Arr := u\<rparr>)"

definition En_Or_Dis_UpData :: "store \<Rightarrow> store" where
  "En_Or_Dis_UpData s =
     (let sf = System_Feature_Arr s;
          allow = (\<lambda>arr i. if arr ! i = NON_OPERATE then arr[i := MENU_RESET] else arr);
          s = (if sf ! 2 = MENU_RESET
               then s\<lparr>Config_Video_Input_Arr := (Config_Video_Input_Arr s)[0 := NON_OPERATE],
                      Config_Video_Output_Arr := (Config_Video_Output_Arr s)[0 := NON_OPERATE]\<rparr>
               else s\<lparr>Config_Video_Input_Arr := allow (Config_Video_Input_Arr s) 0,
                      Config_Video_Output_Arr := allow (Config_Video_Output_Arr s) 0\<rparr>);
          s = (if sf ! 3 = MENU_RESET
               then s\<lparr>Config_Video_Input_Arr := (Config_Video_Input_Arr s)[1 := NON_OPERATE],
                      Config_Video_Output_Arr := (Config_Video_Output_Arr s)[1 := NON_OPERATE]\<rparr>
               else s\<lparr>Config_Video_Input_Arr := allow (Config_Video_Input_Arr s) 1,
                      Config_Video_Output_Arr := allow (Config_Video_Output_Arr s) 1\<rparr>)
      in if sf ! 4 = MENU_RESET
         then s\<lparr>Config_Video_Input_Arr := (Config_Video_Input_Arr s)[2 := NON_OPERATE]\<rparr>
         else s\<lparr>Config_Video_Input_Arr := allow (Config_Video_Input_Arr s) 2\<rparr>)"

definition set_brightness :: "store \<Rightarrow> store" where
  "set_brightness s =
     (if User_Arr s ! 0x0f = 1
      then emit [OLED_command 0x81, OLED_command 0xff]
             (s\<lparr>Config_Display_Brightness_Arr := (Config_Display_Brightness_Arr s)[0 := MENU_SET, 1 := MENU_RESET]\<rparr>)
      else if User_Arr s ! 0x0f = 0
      then emit [OLED_command 0x81, OLED_command 0x0f]
             (s\<lparr>Config_Display_Brightness_Arr := (Config_Display_Brightness_Arr s)[0 := MENU_RESET, 1 := MENU_SET]\<rparr>)
      else s)"

definition Update_Flash_Arr :: "nat \<Rightarrow> store \<Rightarrow> store" where
  "Update_Flash_Arr pos s =
     (let v = User_Arr s ! pos;
          s = (if pos < 5
               then (if v = 1 then s\<lparr>System_Feature_Arr := (System_Feature_Arr s)[pos := MENU_SET]\<rparr>
                     else if v = 0 then s\<lparr>System_Feature_Arr := (System_Feature_Arr s)[pos := MENU_RESET]\<rparr>
                     else s)
               else s);
          s = En_Or_Dis_UpData s;
          s = (if pos = 0x0f then set_brightness s else s)
      in if 0x11 < pos \<and> pos < 0x16 then s\<lparr>Ip_Arr := (Ip_Arr s)[pos - 0x12 := v]\<rparr>
         else if pos = 0x10 then Set_Config_Format v s
         else if pos = 0x1c then Set_Config_Video_Input v s
         else if pos = 0x1d then Set_Config_Video_Output v s
         else if pos = 0x1e then Set_UTCoffset_Num v s
         else if pos = 0x1f then Set_SRC_MODE v s
         else if pos = 0x20 then Set_Config_SRC_synctype v s
         else if pos = 0x21 then Set_Config_SRC_clocktype v s
         else if pos = 0x22 then Set_Config_SRC_syncframe v s
         else if pos = 0x23 then Set_Config_Display_mode v s
         else if pos = 0xff then (if v = 0xff then emit [ReStart] s else s)
         else s)"

definition Send_User_Data :: "bytes \<Rightarrow> store \<Rightarrow> store" where
  "Send_User_Data Command_Arr s =
     (let pos = unat (Command_Arr ! 1) in
      if Command_Arr ! 0 = 0x02
      then (let reply = [Command_Arr ! 0, of_nat pos, User_Arr s ! pos]
            in emit [Eth_Send_api reply] (s\<lparr>send_to_eth := reply\<rparr>))
      else if Command_Arr ! 0 = 0x03
      then (let s = s\<lparr>User_Arr := (User_Arr s)[pos := Command_Arr ! 2]\<rparr>;
                s = Update_Flash_Arr pos s;
                reply = [Command_Arr ! 0, of_nat pos, Command_Arr ! 2];
                s = emit [Eth_Send_api reply] (s\<lparr>send_to_eth := reply\<rparr>)
            in Set_Update_Flash_Flag 1 s)
      else s)"

section \<open>Saving and loading\<close>

definition save_blocks :: "store \<Rightarrow> (nat \<times> bytes) list" where
  "save_blocks s =
     [(En_Or_Dis_NUM_ADDR, System_Feature_Arr s), (CONFIG_FORMAT_NUM_ADDR, Config_Format_Arr s),
      (InputNum_ADDR, Config_Video_Input_Arr s), (OutputNum_ADDR, Config_Video_Output_Arr s),
      (IP_NUM_ADDR, Ip_Arr s), (MAC_ARR_NUM_ADDR, Mac_Arr s), (UTCOFFSET_NUM_ADDR, [utc_offset_num s]),
      (SRC_MODE_NUM_ADDR, Config_Src_Mode_Arr s), (SRC_SYNV_TYPE_NUM_ADDR, Config_Src_Sync_Type_Arr s),
      (SRC_CLOCK_TYPE_NUM_ADDR, Config_Src_Clock_Type_Arr s),
      (SRC_SYNC_FRAME_NUM_ADDR, Config_Src_Sync_Frame_Arr s),
      (DISPLAY_MODE_NUM_ADDR, Config_Display_Mode_Arr s),
      (DISPLAY_BRIGHTNESS_NUM_ADDR, Config_Display_Brightness_Arr s), (RESTORE_NUM_ADDR, RESTORE s)]"

definition Write2Flash :: "hal_flash \<Rightarrow> versions \<Rightarrow> store \<Rightarrow> store" where
  "Write2Flash hal v s =
     (let s = s\<lparr>store_flash := snd (romflash_clean_pages hal ADDR_FLASH_SECTOR_11 (store_flash s))\<rparr>;
          s = s\<lparr>RESTORE := (RESTORE s)[0 := 0x01]\<rparr>;
          s = s\<lparr>store_flash := write_all hal (save_blocks s) (store_flash s)\<rparr>
      in Update_User_Arr v s)"

definition load_arrays :: "store \<Rightarrow> store" where
  "load_arrays s =
     (let rd = (\<lambda>a n. romflash_pages_read a n (store_flash s)) in
      s\<lparr>System_Feature_Arr := rd En_Or_Dis_NUM_ADDR En_Or_Dis_NUM,
        Config_Format_Arr := rd CONFIG_FORMAT_NUM_ADDR CONFIG_FORMAT_NUM,
        Config_Video_Input_Arr := rd InputNum_ADDR InputNum,
        Config_Video_Output_Arr := rd OutputNum_ADDR OutputNum,
        Ip_Arr := rd IP_NUM_ADDR IP_NUM,
        Mac_Arr := rd MAC_ARR_NUM_ADDR MAC_ARR_NUM,
        utc_offset_num := hd (rd UTCOFFSET_NUM_ADDR 1),
        Config_Src_Mode_Arr := rd SRC_MODE_NUM_ADDR SRC_MODE_NUM,
        Config_Src_Sync_Type_Arr := rd SRC_SYNV_TYPE_NUM_ADDR SRC_SYNV_TYPE_NUM,
        Config_Src_Clock_Type_Arr := rd SRC_CLOCK_TYPE_NUM_ADDR SRC_CLOCK_TYPE_NUM,
        Config_Src_Sync_Frame_Arr := rd SRC_SYNC_FRAME_NUM_ADDR SRC_SYNC_FRAME_NUM,
        Config_Display_Mode_Arr := rd DISPLAY_MODE_NUM_ADDR DISPLAY_MODE_NUM,
        Config_Display_Brightness_Arr := rd DISPLAY_BRIGHTNESS_NUM_ADDR DISPLAY_BRIGHTNESS_NUM\<rparr>)"

definition Restore_Flash :: "hal_flash \<Rightarrow> store \<Rightarrow> store" where
  "Restore_Flash hal s =
     s\<lparr>store_flash := snd (romflash_pages_write hal RESTORE_NUM_ADDR [0x00] (store_flash s))\<rparr>"

definition Read_Flash_IP_MAC :: "store \<Rightarrow> store" where
  "Read_Flash_IP_MAC s =
     (let s = s\<lparr>RESTORE := romflash_pages_read RESTORE_NUM_ADDR RESTORE_NUM (store_flash s)\<rparr>;
          s = (if RESTORE s ! 0 = 0x00 then s\<lparr>Ip_Arr := [0xc0, 0xa8, 0, 0xbc]\<rparr>
               else if RESTORE s ! 0 = 0x01
               then s\<lparr>Ip_Arr := romflash_pages_read IP_NUM_ADDR IP_NUM (store_flash s)\<rparr>
               else s)
      in s\<lparr>Mac_Arr := romflash_pages_read MAC_ARR_NUM_ADDR MAC_ARR_NUM (store_flash s)\<rparr>)"

definition default_blocks :: "store \<Rightarrow> (nat \<times> bytes) list" where
  "default_blocks s =
     [(En_Or_Dis_NUM_ADDR, System_Feature_Arr s), (CONFIG_FORMAT_NUM_ADDR, Default_Config_Format_Arr),
      (InputNum_ADDR, Default_Config_Video_Input_Arr), (OutputNum_ADDR, Default_Config_Video_Output_Arr),
      (IP_NUM_ADDR, Default_Ip_Arr), (MAC_ARR_NUM_ADDR, Default_Mac_Arr),
      (UTCOFFSET_NUM_ADDR, [Default_utc_offset_num]),
      (SRC_MODE_NUM_ADDR, Default_Config_Src_Mode_Arr),
      (SRC_SYNV_TYPE_NUM_ADDR, Default_Config_Src_Sync_Type_Arr),
      (SRC_CLOCK_TYPE_NUM_ADDR, Default_Config_Src_Clock_Type_Arr),
      (SRC_SYNC_FRAME_NUM_ADDR, Default_Config_Src_Sync_Frame_Arr),
      (DISPLAY_MODE_NUM_ADDR, Default_Config_Display_Mode_Arr),
      (DISPLAY_BRIGHTNESS_NUM_ADDR, Default_Config_Display_Brightness_Arr), (RESTORE_NUM_ADDR, RESTORE s)]"

definition ReadFlash2Arr :: "hal_flash \<Rightarrow> versions \<Rightarrow> store \<Rightarrow> u8 \<times> store" where
  "ReadFlash2Arr hal v s =
     (let s = s\<lparr>RESTORE := romflash_pages_read RESTORE_NUM_ADDR RESTORE_NUM (store_flash s)\<rparr>;
          s = (if RESTORE s ! 0 = 0x00
               then (let s = s\<lparr>System_Feature_Arr := romflash_pages_read En_Or_Dis_NUM_ADDR En_Or_Dis_NUM (store_flash s)\<rparr>;
                         s = s\<lparr>Mac_Arr := romflash_pages_read MAC_ARR_NUM_ADDR MAC_ARR_NUM (store_flash s)\<rparr>;
                         s = s\<lparr>store_flash := snd (romflash_clean_pages hal ADDR_FLASH_SECTOR_11 (store_flash s))\<rparr>;
                         s = s\<lparr>RESTORE := (RESTORE s)[0 := 0x01]\<rparr>;
                         s = s\<lparr>store_flash := write_all hal (default_blocks s) (store_flash s)\<rparr>
                     in load_arrays s)
               else if RESTORE s ! 0 = 0x01 then load_arrays s
               else s);
          s = Update_User_Arr v s
      in (RESTORE s ! 0, s))"

text \<open>The comparisons with 0x00 and the stored 0x02 are the code's.\<close>

definition Write2Flash_Send2FPGA :: "hal_flash \<Rightarrow> versions \<Rightarrow> nat \<Rightarrow> store \<Rightarrow> store" where
  "Write2Flash_Send2FPGA hal v sector_addr s =
     (let sf = System_Feature_Arr s;
          s = (if sector_addr = InputNum_ADDR \<or> sector_addr = OutputNum_ADDR
               then (let s = (if sf ! 2 = 0x00
                              then s\<lparr>Config_Video_Input_Arr := (Config_Video_Input_Arr s)[0 := 0x02],
                                     Config_Video_Output_Arr := (Config_Video_Output_Arr s)[0 := 0x02]\<rparr> else s);
                         s = (if sf ! 3 = 0x00
                              then s\<lparr>Config_Video_Input_Arr := (Config_Video_Input_Arr s)[1 := 0x02],
                                     Config_Video_Output_Arr := (Config_Video_Output_Arr s)[1 := 0x02]\<rparr> else s)
                     in if sf ! 4 = 0x00
                        then s\<lparr>Config_Video_Input_Arr := (Config_Video_Input_Arr s)[2 := 0x02]\<rparr> else s)
               else s);
          s = Write2Flash hal v s
      in Set_FPGA_Reg_Config sector_addr 0 s)"

lemma set_statuses [simp]: "MENU_SET \<noteq> MENU_RESET" "MENU_RESET \<noteq> MENU_SET" "NON_OPERATE \<noteq> MENU_SET"
  "NON_OPERATE \<noteq> MENU_RESET" "MENU_SET \<noteq> NON_OPERATE" "MENU_RESET \<noteq> NON_OPERATE"
  by (simp_all add: MENU_SET_def MENU_RESET_def NON_OPERATE_def)

section \<open>The saved configuration\<close>

definition config_of :: "store \<Rightarrow> bytes list" where
  "config_of s =
     [System_Feature_Arr s, Config_Format_Arr s, Config_Video_Input_Arr s, Config_Video_Output_Arr s,
      Ip_Arr s, Mac_Arr s, [utc_offset_num s], Config_Src_Mode_Arr s, Config_Src_Sync_Type_Arr s,
      Config_Src_Clock_Type_Arr s, Config_Src_Sync_Frame_Arr s, Config_Display_Mode_Arr s,
      Config_Display_Brightness_Arr s]"

definition factory_config :: "bytes \<Rightarrow> bytes list" where
  "factory_config features =
     [features, Default_Config_Format_Arr, Default_Config_Video_Input_Arr, Default_Config_Video_Output_Arr,
      Default_Ip_Arr, Default_Mac_Arr, [Default_utc_offset_num], Default_Config_Src_Mode_Arr,
      Default_Config_Src_Sync_Type_Arr, Default_Config_Src_Clock_Type_Arr, Default_Config_Src_Sync_Frame_Arr,
      Default_Config_Display_Mode_Arr, Default_Config_Display_Brightness_Arr]"

definition config_lengths :: "nat list" where
  "config_lengths = [5, 17, 3, 2, 4, 6, 1, 2, 12, 3, 6, 3, 2]"

definition store_wf :: "store \<Rightarrow> bool" where
  "store_wf s \<longleftrightarrow> map length (config_of s) = config_lengths \<and> length (RESTORE s) = 1 \<and>
     length (User_Arr s) = 256"

text \<open>The blocks of a configuration, in the order the code writes them.\<close>

definition config_addrs :: "nat list" where
  "config_addrs =
     [En_Or_Dis_NUM_ADDR, CONFIG_FORMAT_NUM_ADDR, InputNum_ADDR, OutputNum_ADDR, IP_NUM_ADDR, MAC_ARR_NUM_ADDR,
      UTCOFFSET_NUM_ADDR, SRC_MODE_NUM_ADDR, SRC_SYNV_TYPE_NUM_ADDR, SRC_CLOCK_TYPE_NUM_ADDR,
      SRC_SYNC_FRAME_NUM_ADDR, DISPLAY_MODE_NUM_ADDR, DISPLAY_BRIGHTNESS_NUM_ADDR, RESTORE_NUM_ADDR]"

lemma save_blocks_eq: "save_blocks s = zip config_addrs (config_of s @ [RESTORE s])"
  by (simp add: save_blocks_def config_addrs_def config_of_def)

lemma default_blocks_eq: "default_blocks s = zip config_addrs (factory_config (System_Feature_Arr s) @ [RESTORE s])"
  by (simp add: default_blocks_def config_addrs_def factory_config_def)

lemma factory_lengths: "length f = 5 \<Longrightarrow> map length (factory_config f) = config_lengths"
  by (simp add: factory_config_def config_lengths_def Default_Config_Format_Arr_def
      Default_Config_Video_Input_Arr_def Default_Config_Video_Output_Arr_def Default_Ip_Arr_def
      Default_Mac_Arr_def Default_Config_Src_Mode_Arr_def Default_Config_Src_Sync_Type_Arr_def
      Default_Config_Src_Clock_Type_Arr_def Default_Config_Src_Sync_Frame_Arr_def
      Default_Config_Display_Mode_Arr_def Default_Config_Display_Brightness_Arr_def one_set_def)

lemma thirteen:
  assumes "map length c = config_lengths"
  obtains a0 a1 a2 a3 a4 a5 a6 a7 a8 a9 a10 a11 a12 where
    "c = [a0, a1, a2, a3, a4, a5, a6, a7, a8, a9, a10, a11, a12]"
    "length a0 = 5" "length a1 = 17" "length a2 = 3" "length a3 = 2" "length a4 = 4" "length a5 = 6"
    "length a6 = 1" "length a7 = 2" "length a8 = 12" "length a9 = 3" "length a10 = 6" "length a11 = 3"
    "length a12 = 2"
  using assms by (auto simp: config_lengths_def map_eq_Cons_conv)

lemma config_blocks_apart:
  assumes "map length c = config_lengths" "length r = 1"
  shows "all_apart (zip config_addrs (c @ [r]))"
proof -
  obtain a0 a1 a2 a3 a4 a5 a6 a7 a8 a9 a10 a11 a12 where
    c: "c = [a0, a1, a2, a3, a4, a5, a6, a7, a8, a9, a10, a11, a12]"
    "length a0 = 5" "length a1 = 17" "length a2 = 3" "length a3 = 2" "length a4 = 4" "length a5 = 6"
    "length a6 = 1" "length a7 = 2" "length a8 = 12" "length a9 = 3" "length a10 = 6" "length a11 = 3"
    "length a12 = 2"
    by (rule thirteen[OF assms(1)])
  show ?thesis using c(2-) assms(2) by (simp add: c(1) config_addrs_def apart_def addr_defs num_defs)
qed

definition saved :: "flash \<Rightarrow> bytes list \<Rightarrow> bytes \<Rightarrow> bool" where
  "saved fl c r \<longleftrightarrow> list_all (block_is (cells fl)) (zip config_addrs (c @ [r]))"

lemma write_config_saves:
  assumes "hal_laws hal" "map length c = config_lengths" "length r = 1"
  shows "saved (write_all hal (zip config_addrs (c @ [r]))
      (snd (romflash_clean_pages hal ADDR_FLASH_SECTOR_11 fl))) c r"
proof -
  let ?fl = "snd (romflash_clean_pages hal ADDR_FLASH_SECTOR_11 fl)"
  have fl: "cells ?fl = (\<lambda>a. if in_sector 11 a then 0xff else cells fl a)"
    using romflash_clean_pages_erases[OF assms(1), of ADDR_FLASH_SECTOR_11 11 fl]
    by (simp add: ADDR_FLASH_SECTOR_11_def GetSector_def)
  obtain a0 a1 a2 a3 a4 a5 a6 a7 a8 a9 a10 a11 a12 where
    c: "c = [a0, a1, a2, a3, a4, a5, a6, a7, a8, a9, a10, a11, a12]"
    "length a0 = 5" "length a1 = 17" "length a2 = 3" "length a3 = 2" "length a4 = 4" "length a5 = 6"
    "length a6 = 1" "length a7 = 2" "length a8 = 12" "length a9 = 3" "length a10 = 6" "length a11 = 3"
    "length a12 = 2"
    by (rule thirteen[OF assms(2)])
  have "list_all (\<lambda>q. in_sector 11 (fst q) \<and> in_sector 11 (fst q + length (snd q)))
      (zip config_addrs (c @ [r]))"
    using c(2-) assms(3)
    by (simp add: c(1) config_addrs_def in_sector_def ADDR_FLASH_SECTORS_def addr_defs num_defs)
  then have "list_all (\<lambda>q. erased (cells ?fl) (fst q) (length (snd q))) (zip config_addrs (c @ [r]))"
    unfolding fl erased_def in_sector_def list_all_iff by (auto simp: in_sector_def)
  from write_all_blocks[OF assms(1) config_blocks_apart[OF assms(2,3)] this]
  show ?thesis by (simp add: saved_def)
qed

lemma read_one: "block_is (cells fl) (a, [x]) \<Longrightarrow> romflash_pages_read a (Suc 0) fl = [x]"
  by (simp add: block_is_def romflash_pages_read_def)

lemma load_saved:
  assumes "saved (store_flash s) c r" "map length c = config_lengths"
  shows "config_of (load_arrays s) = c"
proof -
  obtain a0 a1 a2 a3 a4 a5 a6 a7 a8 a9 a10 a11 a12 where
    c: "c = [a0, a1, a2, a3, a4, a5, a6, a7, a8, a9, a10, a11, a12]"
    "length a0 = 5" "length a1 = 17" "length a2 = 3" "length a3 = 2" "length a4 = 4" "length a5 = 6"
    "length a6 = 1" "length a7 = 2" "length a8 = 12" "length a9 = 3" "length a10 = 6" "length a11 = 3"
    "length a12 = 2"
    by (rule thirteen[OF assms(2)])
  from c(8) obtain x where x: "a6 = [x]" by (auto simp: length_Suc_conv)
  have u: "romflash_pages_read UTCOFFSET_NUM_ADDR (Suc 0) (store_flash s) = [x]"
    using assms(1) by (intro read_one) (simp add: saved_def c(1) config_addrs_def x)
  show ?thesis
    using assms(1) c(2-) x unfolding saved_def c(1)
    by (simp add: config_addrs_def load_arrays_def config_of_def Let_def num_defs read_block_is u)
qed

lemma load_arrays_other [simp]:
  "RESTORE (load_arrays s) = RESTORE s" "store_flash (load_arrays s) = store_flash s"
  by (simp_all add: load_arrays_def Let_def)

lemma Update_User_Arr_other [simp]:
  "config_of (Update_User_Arr v s) = config_of s" "RESTORE (Update_User_Arr v s) = RESTORE s"
  "store_flash (Update_User_Arr v s) = store_flash s"
  by (simp_all add: Update_User_Arr_def Let_def config_of_def)

lemma saved_restore: "saved fl c r \<Longrightarrow> map length c = config_lengths \<Longrightarrow> length r = 1 \<Longrightarrow>
  romflash_pages_read RESTORE_NUM_ADDR RESTORE_NUM fl = r"
  by (erule thirteen) (auto simp: saved_def config_addrs_def RESTORE_NUM_def intro!: read_block_is)

lemma Write2Flash_saved:
  assumes "hal_laws hal" "store_wf s"
  shows "saved (store_flash (Write2Flash hal v s)) (config_of s) [1]"
    and "config_of (Write2Flash hal v s) = config_of s"
proof -
  let ?s = "s\<lparr>store_flash := snd (romflash_clean_pages hal ADDR_FLASH_SECTOR_11 (store_flash s)),
      RESTORE := (RESTORE s)[0 := 1]\<rparr>"
  have r: "(RESTORE s)[0 := 1] = [1]"
    using assms(2) by (auto simp: store_wf_def length_Suc_conv)
  have c: "config_of ?s = config_of s" by (simp add: config_of_def)
  have "store_flash (Write2Flash hal v s) =
      write_all hal (zip config_addrs (config_of ?s @ [[1]]))
        (snd (romflash_clean_pages hal ADDR_FLASH_SECTOR_11 (store_flash s)))"
    by (simp add: Write2Flash_def Let_def save_blocks_eq r)
  then show "saved (store_flash (Write2Flash hal v s)) (config_of s) [1]"
    using write_config_saves[OF assms(1), of "config_of s" "[1]"] assms(2)
    unfolding c store_wf_def by simp
  show "config_of (Write2Flash hal v s) = config_of s"
    by (simp add: Write2Flash_def Let_def) (simp add: config_of_def)
qed

lemma ReadFlash2Arr_saved:
  assumes "saved (store_flash s) c [1]" "map length c = config_lengths"
  shows "fst (ReadFlash2Arr hal v s) = 1" "config_of (snd (ReadFlash2Arr hal v s)) = c"
    "store_flash (snd (ReadFlash2Arr hal v s)) = store_flash s"
proof -
  let ?s = "s\<lparr>RESTORE := [1]\<rparr>"
  have r: "romflash_pages_read RESTORE_NUM_ADDR RESTORE_NUM (store_flash s) = [1]"
    using saved_restore[OF assms] by simp
  have "config_of (load_arrays ?s) = c"
    using assms by (intro load_saved) simp_all
  then show "fst (ReadFlash2Arr hal v s) = 1" "config_of (snd (ReadFlash2Arr hal v s)) = c"
    "store_flash (snd (ReadFlash2Arr hal v s)) = store_flash s"
    by (simp_all add: ReadFlash2Arr_def Let_def r)
qed

text \<open>C2: What \<open>Write2Flash\<close> saves, the next start reads back: whatever the RAM holds after the
  restart, \<open>ReadFlash2Arr\<close> returns 1 and puts every one of the thirteen configuration arrays
  back to its value when it was saved.\<close>

theorem config_save_load:
  assumes "hal_laws hal" "store_wf s"
  shows "let s1 = Write2Flash hal v s; (r, s2) = ReadFlash2Arr hal v (ram\<lparr>store_flash := store_flash s1\<rparr>)
     in r = 1 \<and> config_of s2 = config_of s"
proof -
  let ?s = "ram\<lparr>store_flash := store_flash (Write2Flash hal v s)\<rparr>"
  have "saved (store_flash ?s) (config_of s) [1]"
    using Write2Flash_saved(1)[OF assms] by simp
  from ReadFlash2Arr_saved[OF this] assms(2) show ?thesis
    by (simp add: split_def Let_def store_wf_def)
qed

lemma one_set_lengths [simp]: "length (one_set n k) = n"
  by (simp add: one_set_def)

lemma factory_parts:
  "config_of s = factory_config f \<Longrightarrow> System_Feature_Arr s = f"
  by (simp add: config_of_def factory_config_def)

text \<open>The reset marker: everything but the feature switches gets its default, and is saved again.\<close>

lemma ReadFlash2Arr_factory:
  assumes "hal_laws hal" "romflash_pages_read RESTORE_NUM_ADDR RESTORE_NUM (store_flash s) = [0]"
  defines "f \<equiv> romflash_pages_read En_Or_Dis_NUM_ADDR En_Or_Dis_NUM (store_flash s)"
  shows "fst (ReadFlash2Arr hal v s) = 1" "config_of (snd (ReadFlash2Arr hal v s)) = factory_config f"
    "saved (store_flash (snd (ReadFlash2Arr hal v s))) (factory_config f) [1]"
proof -
  have lf: "length f = 5" by (simp add: f_def romflash_pages_read_def En_Or_Dis_NUM_def)
  let ?wr = "write_all hal (zip config_addrs (factory_config f @ [[1]]))
    (snd (romflash_clean_pages hal ADDR_FLASH_SECTOR_11 (store_flash s)))"
  have sv: "saved ?wr (factory_config f) [1]"
    using write_config_saves[OF assms(1), of "factory_config f" "[1]"] factory_lengths[OF lf] by simp
  define s4 where "s4 = s\<lparr>System_Feature_Arr := f,
      Mac_Arr := romflash_pages_read MAC_ARR_NUM_ADDR MAC_ARR_NUM (store_flash s),
      RESTORE := [1], store_flash := ?wr\<rparr>"
  have run: "ReadFlash2Arr hal v s = (1, Update_User_Arr v (load_arrays s4))"
    unfolding ReadFlash2Arr_def Let_def s4_def by (simp add: assms(2) default_blocks_eq f_def)
  have "config_of (load_arrays s4) = factory_config f"
    using sv factory_lengths[OF lf] by (intro load_saved) (simp_all add: s4_def)
  then show "fst (ReadFlash2Arr hal v s) = 1" "config_of (snd (ReadFlash2Arr hal v s)) = factory_config f"
    "saved (store_flash (snd (ReadFlash2Arr hal v s))) (factory_config f) [1]"
    using sv unfolding run by (simp_all add: s4_def)
qed

lemma Restore_Flash_cells:
  assumes "hal_laws hal"
  shows "store_flash (Restore_Flash hal s) =
    (store_flash s)\<lparr>cells := (cells (store_flash s))(RESTORE_NUM_ADDR := 0), flash_locked := True\<rparr>"
proof -
  have "HAL_FLASH_Program hal RESTORE_NUM_ADDR 0 (cells (store_flash s)) = Some ((cells (store_flash s))(RESTORE_NUM_ADDR := 0))"
    using assms by (simp add: hal_laws_def)
  then show ?thesis by (simp add: Restore_Flash_def romflash_pages_write_def)
qed

text \<open>C12: A factory reset (\<open>Restore_Flash\<close>, then a restart) gives every array its default, in RAM and
  in flash, and keeps the feature switches as they were saved; the reset marker itself is
  consumed, so a further restart only reads the same values back.\<close>

theorem factory_reset:
  assumes "hal_laws hal"
  shows "let s1 = Restore_Flash hal s; (r, s2) = ReadFlash2Arr hal v (ram\<lparr>store_flash := store_flash s1\<rparr>);
         (r', s3) = ReadFlash2Arr hal v (ram'\<lparr>store_flash := store_flash s2\<rparr>);
         factory = factory_config (romflash_pages_read En_Or_Dis_NUM_ADDR En_Or_Dis_NUM (store_flash s))
     in r = 1 \<and> config_of s2 = factory \<and> r' = 1 \<and> config_of s3 = factory"
proof -
  let ?f = "romflash_pages_read En_Or_Dis_NUM_ADDR En_Or_Dis_NUM (store_flash s)"
  let ?s = "ram\<lparr>store_flash := store_flash (Restore_Flash hal s)\<rparr>"
  have r0: "romflash_pages_read RESTORE_NUM_ADDR RESTORE_NUM (store_flash ?s) = [0]"
    and feat: "romflash_pages_read En_Or_Dis_NUM_ADDR En_Or_Dis_NUM (store_flash ?s) = ?f"
    by (simp_all add: Restore_Flash_cells[OF assms] romflash_pages_read_def addr_defs num_defs)
  have lf: "map length (factory_config ?f) = config_lengths"
    by (rule factory_lengths) (simp add: romflash_pages_read_def En_Or_Dis_NUM_def)
  note once = ReadFlash2Arr_factory[OF assms r0, of v, unfolded feat]
  have "saved (store_flash (ram'\<lparr>store_flash := store_flash (snd (ReadFlash2Arr hal v ?s))\<rparr>)) (factory_config ?f) [1]"
    using once(3) by simp
  note again = ReadFlash2Arr_saved[OF this lf, of hal v]
  show ?thesis
    unfolding Let_def using once again by (simp add: split_def)
qed

definition demo_store :: store where
  "demo_store = \<lparr>System_Feature_Arr = Default_System_Feature_Arr, Config_Format_Arr = one_set 17 4,
     Config_Video_Input_Arr = one_set 3 1, Config_Video_Output_Arr = one_set 2 1, Ip_Arr = [10, 0, 0, 7],
     Mac_Arr = [2, 4, 6, 8, 10, 12], utc_offset_num = 3, Config_Src_Mode_Arr = one_set 2 1,
     Config_Src_Sync_Type_Arr = one_set 12 5, Config_Src_Clock_Type_Arr = one_set 3 2,
     Config_Src_Sync_Frame_Arr = one_set 6 3, Config_Display_Mode_Arr = one_set 3 0,
     Config_Display_Brightness_Arr = one_set 2 1, RESTORE = [1], User_Arr = replicate 256 0,
     Status_Flag = 2, Update_Flash_Flag = 0, send_to_eth = [0, 0, 0],
     store_flash = \<lparr>cells = (\<lambda>_. 0), flash_locked = True\<rparr>, effects = []\<rparr>"

definition demo_versions :: versions where
  "demo_versions = \<lparr>Get_SW = [0x20, 0x19, 0x01, 0x27, 0xc2], Get_FW = None, Get_HW = 1\<rparr>"

lemma demo_store_wf: "store_wf demo_store"
  by (simp add: store_wf_def demo_store_def config_of_def config_lengths_def Default_System_Feature_Arr_def)

theorem config_save_load_witness:
  "let s1 = Write2Flash nor_flash demo_versions demo_store;
       (r, s2) = ReadFlash2Arr nor_flash demo_versions (demo_store\<lparr>Ip_Arr := [], store_flash := store_flash s1\<rparr>)
     in r = 1 \<and> config_of s2 = config_of demo_store"
  using config_save_load[OF nor_flash_laws demo_store_wf, of demo_versions "demo_store\<lparr>Ip_Arr := []\<rparr>"] by simp

theorem factory_reset_witness:
  "let s1 = Restore_Flash nor_flash demo_store;
       (r, s2) = ReadFlash2Arr nor_flash demo_versions (demo_store\<lparr>store_flash := store_flash s1\<rparr>);
       (r', s3) = ReadFlash2Arr nor_flash demo_versions (demo_store\<lparr>store_flash := store_flash s2\<rparr>);
       factory = factory_config (romflash_pages_read En_Or_Dis_NUM_ADDR En_Or_Dis_NUM (store_flash demo_store))
     in r = 1 \<and> config_of s2 = factory \<and> r' = 1 \<and> config_of s3 = factory"
  by (rule factory_reset[OF nor_flash_laws])

section \<open>Setting and reading back an option\<close>

lemma sint_pred_iff:
  fixes p :: u8
  assumes "i < 127"
  shows "int i = sint (p - 1) \<longleftrightarrow> unat p = i + 1"
proof
  assume a: "int i = sint (p - 1)"
  have "p - 1 = word_of_int (sint (p - 1))" by simp
  also have "\<dots> = of_nat i" unfolding a[symmetric] by simp
  finally have "p = of_nat (i + 1)" by (simp add: diff_eq_eq)
  moreover have "unat (of_nat (i + 1) :: u8) = i + 1"
    unfolding unat_of_nat using assms by simp
  ultimately show "unat p = i + 1" by (simp only:)
next
  assume "unat p = i + 1"
  moreover have "p = of_nat (unat p)" by simp
  ultimately have "p = of_nat (i + 1)" by (simp only:)
  then have "p - 1 = of_nat i" by simp
  then show "int i = sint (p - 1)"
    using assms by (simp add: signed_of_nat signed_take_bit_int_eq_self)
qed

lemma nth_set_loop:
  "i < length arr \<Longrightarrow> length arr \<le> 127 \<Longrightarrow>
   set_loop p arr ! i = (if unat p = i + 1 then MENU_SET else MENU_RESET)"
  using sint_pred_iff[of i p] by (simp add: set_loop_def)

lemma length_set_loop [simp]: "length (set_loop p arr) = length arr"
  by (simp add: set_loop_def)

lemma first_set_none: "\<forall>i < length xs. xs ! i \<noteq> MENU_SET \<Longrightarrow> first_set k xs = 0"
proof (induction xs arbitrary: k)
  case (Cons x xs)
  have "x \<noteq> MENU_SET" "\<forall>i < length xs. xs ! i \<noteq> MENU_SET"
    using Cons.prems[rule_format, of 0] Cons.prems[rule_format, of "Suc i" for i] by auto
  then show ?case using Cons.IH by simp
qed simp

lemma first_set_at:
  "i < length xs \<Longrightarrow> xs ! i = MENU_SET \<Longrightarrow> \<forall>j < i. xs ! j \<noteq> MENU_SET \<Longrightarrow> first_set k xs = of_nat (k + i + 1)"
proof (induction xs arbitrary: k i)
  case (Cons x xs)
  show ?case
  proof (cases i)
    case 0
    then show ?thesis using Cons.prems by simp
  next
    case (Suc j)
    then have "x \<noteq> MENU_SET" using Cons.prems(3) by auto
    moreover have "first_set (k + 1) xs = of_nat (k + 1 + j + 1)"
      using Cons.prems Suc by (intro Cons.IH) auto
    ultimately show ?thesis using Suc by simp
  qed
qed simp

text \<open>A getter after its setter: the number set, or 0 when there is no such option.\<close>

lemma get_set_loop:
  assumes "length arr \<le> 127"
  shows "first_set 0 (set_loop p arr) = (if 1 \<le> unat p \<and> unat p \<le> length arr then p else 0)"
proof (cases "1 \<le> unat p \<and> unat p \<le> length arr")
  case True
  then have "first_set 0 (set_loop p arr) = of_nat (0 + (unat p - 1) + 1)"
    using assms by (intro first_set_at) (auto simp: nth_set_loop split: if_splits)
  then show ?thesis using True by simp
next
  case False
  then have "\<forall>i < length arr. set_loop p arr ! i \<noteq> MENU_SET"
    using assms by (auto simp: nth_set_loop)
  then show ?thesis using False by (intro trans[OF first_set_none]) auto
qed

lemma one_set_loop: "1 \<le> unat p \<Longrightarrow> unat p \<le> length arr \<Longrightarrow> length arr \<le> 127 \<Longrightarrow>
  set_loop p arr = one_set (length arr) (unat p - 1)"
  by (rule nth_equalityI) (auto simp: nth_set_loop one_set_def nth_list_update)

text \<open>The bytes of the mirror a configuration determines.\<close>

lemma fold_features:
  assumes "length u = 256" "p < 5" "f ! p = MENU_SET \<or> f ! p = MENU_RESET"
  shows "fold (\<lambda>i u. if f ! i = MENU_SET then u[i := 1] else if f ! i = MENU_RESET then u[i := 0] else u)
    [0..<5] u ! p = (if f ! p = MENU_SET then 1 else (0 :: u8))"
proof -
  have "[0..<5] = [0, 1, 2, 3, 4 :: nat]" by (simp add: upt_rec)
  moreover have "p \<in> {0, 1, 2, 3, 4}" using assms(2) by auto
  ultimately show ?thesis using assms(1,3) by (auto simp: nth_list_update)
qed

lemma length_fold_features:
  "length (fold (\<lambda>i u. if f ! i = MENU_SET then u[i := 1] else if f ! i = MENU_RESET then u[i := 0] else u) is u)
   = length (u :: bytes)"
  by (induction "is" arbitrary: u) auto

lemma mirror_bytes:
  assumes "length (User_Arr s) = 256"
  shows "User_Arr (Update_User_Arr v s) ! 0x0f = Get_Config_Display_Brightness s"
    "User_Arr (Update_User_Arr v s) ! 0x10 = Get_Config_Format s"
    "User_Arr (Update_User_Arr v s) ! 0x1c = Get_Config_Video_Input s"
    "User_Arr (Update_User_Arr v s) ! 0x1d = Get_Config_Video_Output s"
    "User_Arr (Update_User_Arr v s) ! 0x1e = Get_UTCoffset_Num s"
    "User_Arr (Update_User_Arr v s) ! 0x1f = Get_SRC_MODE s"
    "User_Arr (Update_User_Arr v s) ! 0x20 = Get_Config_SRC_synctype s"
    "User_Arr (Update_User_Arr v s) ! 0x21 = Get_Config_SRC_clocktype s"
    "User_Arr (Update_User_Arr v s) ! 0x22 = Get_Config_SRC_syncframe s"
    "User_Arr (Update_User_Arr v s) ! 0x23 = Get_Config_Display_mode s"
    "p < 5 \<Longrightarrow> System_Feature_Arr s ! p = MENU_SET \<or> System_Feature_Arr s ! p = MENU_RESET \<Longrightarrow>
       User_Arr (Update_User_Arr v s) ! p = (if System_Feature_Arr s ! p = MENU_SET then 1 else 0)"
    "length (User_Arr (Update_User_Arr v s)) = 256"
  using assms fold_features[of "User_Arr s" p "System_Feature_Arr s"]
  by (auto simp: Update_User_Arr_def Let_def num_defs nth_mem_write length_fold_features nth_list_update split: option.splits)

text \<open>The settings the network protocol accepts, by mirror position, with their valid values: feature
  switches, brightness, format, IP address bytes, video input and output, time offset, source mode, sync
  type, clock type, frame rate, display mode.\<close>

definition ip_position :: "nat \<Rightarrow> bool" where "ip_position pos \<longleftrightarrow> 0x12 \<le> pos \<and> pos \<le> 0x15"

definition valid_setting :: "nat \<Rightarrow> u8 \<Rightarrow> bool" where
  "valid_setting pos v \<longleftrightarrow>
     (pos < 5 \<and> unat v \<le> 1) \<or> (pos = 0x0f \<and> unat v \<le> 1) \<or> (pos = 0x10 \<and> 1 \<le> unat v \<and> unat v \<le> 17) \<or>
     ip_position pos \<or>
     (pos = 0x1c \<and> 1 \<le> unat v \<and> unat v \<le> 3) \<or> (pos = 0x1d \<and> 1 \<le> unat v \<and> unat v \<le> 2) \<or>
     pos = 0x1e \<or> (pos = 0x1f \<and> unat v \<le> 1) \<or> (pos = 0x20 \<and> 1 \<le> unat v \<and> unat v \<le> 12) \<or>
     (pos = 0x21 \<and> 1 \<le> unat v \<and> unat v \<le> 3) \<or> (pos = 0x22 \<and> 1 \<le> unat v \<and> unat v \<le> 6) \<or>
     (pos = 0x23 \<and> 1 \<le> unat v \<and> unat v \<le> 3)"

lemma lengths_of_wf:
  assumes "store_wf s"
  shows "length (System_Feature_Arr s) = 5" "length (Config_Format_Arr s) = 17"
    "length (Config_Video_Input_Arr s) = 3" "length (Config_Video_Output_Arr s) = 2"
    "length (Ip_Arr s) = 4" "length (Mac_Arr s) = 6" "length (Config_Src_Mode_Arr s) = 2"
    "length (Config_Src_Sync_Type_Arr s) = 12" "length (Config_Src_Clock_Type_Arr s) = 3"
    "length (Config_Src_Sync_Frame_Arr s) = 6" "length (Config_Display_Mode_Arr s) = 3"
    "length (Config_Display_Brightness_Arr s) = 2" "length (RESTORE s) = 1" "length (User_Arr s) = 256"
  using assms by (simp_all add: store_wf_def config_of_def config_lengths_def)

lemma En_Or_Dis_UpData_other [simp]:
  "User_Arr (En_Or_Dis_UpData s) = User_Arr s" "System_Feature_Arr (En_Or_Dis_UpData s) = System_Feature_Arr s"
  "Config_Format_Arr (En_Or_Dis_UpData s) = Config_Format_Arr s" "Ip_Arr (En_Or_Dis_UpData s) = Ip_Arr s"
  "Mac_Arr (En_Or_Dis_UpData s) = Mac_Arr s" "utc_offset_num (En_Or_Dis_UpData s) = utc_offset_num s"
  "Config_Src_Mode_Arr (En_Or_Dis_UpData s) = Config_Src_Mode_Arr s"
  "Config_Src_Sync_Type_Arr (En_Or_Dis_UpData s) = Config_Src_Sync_Type_Arr s"
  "Config_Src_Clock_Type_Arr (En_Or_Dis_UpData s) = Config_Src_Clock_Type_Arr s"
  "Config_Src_Sync_Frame_Arr (En_Or_Dis_UpData s) = Config_Src_Sync_Frame_Arr s"
  "Config_Display_Mode_Arr (En_Or_Dis_UpData s) = Config_Display_Mode_Arr s"
  "Config_Display_Brightness_Arr (En_Or_Dis_UpData s) = Config_Display_Brightness_Arr s"
  "RESTORE (En_Or_Dis_UpData s) = RESTORE s" "store_flash (En_Or_Dis_UpData s) = store_flash s"
  "length (Config_Video_Input_Arr (En_Or_Dis_UpData s)) = length (Config_Video_Input_Arr s)"
  "length (Config_Video_Output_Arr (En_Or_Dis_UpData s)) = length (Config_Video_Output_Arr s)"
  "effects (En_Or_Dis_UpData s) = effects s" "Status_Flag (En_Or_Dis_UpData s) = Status_Flag s"
  by (simp_all add: En_Or_Dis_UpData_def Let_def)

lemma set_brightness_other [simp]:
  "User_Arr (set_brightness s) = User_Arr s"
  "map length (config_of (set_brightness s)) = map length (config_of s)"
  "RESTORE (set_brightness s) = RESTORE s"
  by (auto simp: set_brightness_def config_of_def)

lemma Update_Flash_Arr_wf [inv_intros]:
  assumes "store_wf s"
  shows "store_wf (Update_Flash_Arr pos s)"
  using assms
  by (auto simp: Update_Flash_Arr_def Let_def store_wf_def config_of_def config_lengths_def set_brightness_def
      Set_Config_Format_def Set_Config_Video_Input_def Set_Config_Video_Output_def Set_UTCoffset_Num_def
      Set_SRC_MODE_def Set_Config_SRC_synctype_def Set_Config_SRC_clocktype_def Set_Config_SRC_syncframe_def
      Set_Config_Display_mode_def)

lemma Send_User_Data_wf [inv_intros]:
  assumes "store_wf s"
  shows "store_wf (Send_User_Data cmd s)"
proof -
  have w: "store_wf (s\<lparr>User_Arr := (User_Arr s)[i := x]\<rparr>)" for i x
    using assms by (simp add: store_wf_def config_of_def)
  have e: "store_wf (t\<lparr>send_to_eth := r, effects := es\<rparr>) = store_wf t"
    "store_wf (Set_Update_Flash_Flag f t) = store_wf t" for es t r f
    by (simp_all add: store_wf_def config_of_def Set_Update_Flash_Flag_def)
  show ?thesis
    unfolding Send_User_Data_def Let_def
    using assms Update_Flash_Arr_wf[OF w] by (simp add: e)
qed

lemma config_of_fields:
  "config_of t = config_of s \<longleftrightarrow>
     System_Feature_Arr t = System_Feature_Arr s \<and> Config_Format_Arr t = Config_Format_Arr s \<and>
     Config_Video_Input_Arr t = Config_Video_Input_Arr s \<and> Config_Video_Output_Arr t = Config_Video_Output_Arr s \<and>
     Ip_Arr t = Ip_Arr s \<and> Mac_Arr t = Mac_Arr s \<and> utc_offset_num t = utc_offset_num s \<and>
     Config_Src_Mode_Arr t = Config_Src_Mode_Arr s \<and> Config_Src_Sync_Type_Arr t = Config_Src_Sync_Type_Arr s \<and>
     Config_Src_Clock_Type_Arr t = Config_Src_Clock_Type_Arr s \<and>
     Config_Src_Sync_Frame_Arr t = Config_Src_Sync_Frame_Arr s \<and>
     Config_Display_Mode_Arr t = Config_Display_Mode_Arr s \<and>
     Config_Display_Brightness_Arr t = Config_Display_Brightness_Arr s"
  by (simp add: config_of_def)

lemma Send_User_Data_config:
  assumes "pos < 256"
  shows "config_of (Send_User_Data [3, of_nat pos, v] s) =
    config_of (Update_Flash_Arr pos (s\<lparr>User_Arr := (User_Arr s)[pos := v]\<rparr>))"
proof -
  have "unat (of_nat pos :: u8) = pos" using assms unfolding unat_of_nat by simp
  then show ?thesis
    by (simp add: Send_User_Data_def Let_def Set_Update_Flash_Flag_def config_of_def)
qed

lemma unat_le_1: "unat (v :: u8) \<le> 1 \<Longrightarrow> v = 0 \<or> v = 1"
proof -
  assume "unat v \<le> 1"
  then have "unat v = unat (0 :: u8) \<or> unat v = unat (1 :: u8)" by auto
  then show ?thesis by (simp only: word_unat_eq_iff)
qed

lemma setting_in_mirror:
  assumes "store_wf s" "valid_setting pos v" "\<not> ip_position pos" "length (User_Arr t) = 256"
    and "config_of t = config_of (Send_User_Data [3, of_nat pos, v] s)"
  shows "User_Arr (Update_User_Arr ver t) ! pos = v"
proof -
  have pos: "pos < 256" using assms(2) by (auto simp: valid_setting_def ip_position_def)
  note f = assms(5)[unfolded Send_User_Data_config[OF pos] config_of_fields]
  note l = lengths_of_wf[OF assms(1)]
  have u: "(User_Arr s)[pos := v] ! pos = v" using l pos by simp
  note v1 = unat_le_1[of v]
  note m = mirror_bytes[OF assms(4), where v = ver]
  from assms(2)[unfolded valid_setting_def] show ?thesis
  proof (elim disjE conjE)
    assume "ip_position pos"
    then show ?thesis using assms(3) by simp
  next
    assume a: "pos < 5" "unat v \<le> 1"
    then have "System_Feature_Arr t ! pos = (if v = 1 then MENU_SET else MENU_RESET)"
      using f v1 l by (auto simp: Update_Flash_Arr_def Let_def u)
    then show ?thesis using m(11)[of pos] a v1 by auto
  next
    assume a: "pos = 0x0f" "unat v \<le> 1"
    then show ?thesis
      using f v1 l u m(1) by (auto simp: Update_Flash_Arr_def Let_def set_brightness_def Get_Config_Display_Brightness_def)
  qed (use f l u m v1 in \<open>auto simp: Update_Flash_Arr_def Let_def get_set_loop
      Set_Config_Format_def Set_Config_Video_Input_def Set_Config_Video_Output_def Set_UTCoffset_Num_def
      Set_SRC_MODE_def Set_Config_SRC_synctype_def Set_Config_SRC_clocktype_def Set_Config_SRC_syncframe_def
      Set_Config_Display_mode_def Get_Config_Format_def Get_Config_Video_Input_def Get_Config_Video_Output_def
      Get_UTCoffset_Num_def Get_SRC_MODE_def Get_Config_SRC_synctype_def Get_Config_SRC_clocktype_def
      Get_Config_SRC_syncframe_def Get_Config_Display_mode_def\<close>)
qed

text \<open>An address byte reaches the configuration, but no mirror is ever given it.\<close>

lemma address_byte_set:
  assumes "length (User_Arr s) = 256" "ip_position pos"
  shows "Ip_Arr (Send_User_Data [3, of_nat pos, v] s) = (Ip_Arr s)[pos - 0x12 := v]"
proof -
  have pos: "pos < 256" using assms(2) by (simp add: ip_position_def)
  have "(User_Arr s)[pos := v] ! pos = v" using assms(1) pos by simp
  then show ?thesis
    using Send_User_Data_config[OF pos, of v s, unfolded config_of_fields] assms(2)
    by (simp add: Update_Flash_Arr_def Let_def ip_position_def)
qed

lemma address_byte_not_mirrored:
  assumes "ip_position pos"
  shows "User_Arr (Update_User_Arr v s) ! pos = User_Arr s ! pos"
proof -
  have f: "fold (\<lambda>i u. if g ! i = MENU_SET then u[i := 1] else if g ! i = MENU_RESET then u[i := 0] else u) is u ! pos = u ! pos"
    if "\<forall>i \<in> set is. i < 5" for g "is" and u :: bytes
    using that assms by (induction "is" arbitrary: u) (auto simp: ip_position_def)
  show ?thesis
    using assms by (auto simp: Update_User_Arr_def Let_def num_defs f nth_mem_write_outside ip_position_def split: option.splits)
qed

lemma Send_User_Data_read:
  "effects (Send_User_Data [2, p, x] s) = effects s @ [Eth_Send_api [2, p, User_Arr s ! unat p]]"
  by (simp add: Send_User_Data_def Let_def)

lemma store_wf_flash [simp]: "store_wf (s\<lparr>store_flash := fl\<rparr>) = store_wf s"
  by (simp add: store_wf_def config_of_def)

lemma ReadFlash2Arr_mirror:
  assumes "saved (store_flash s) c [1]" "map length c = config_lengths"
  obtains t where "snd (ReadFlash2Arr hal v s) = Update_User_Arr v t" "config_of t = c" "User_Arr t = User_Arr s"
proof -
  have r: "romflash_pages_read RESTORE_NUM_ADDR RESTORE_NUM (store_flash s) = [1]"
    using saved_restore[OF assms] by simp
  have "snd (ReadFlash2Arr hal v s) = Update_User_Arr v (load_arrays (s\<lparr>RESTORE := [1]\<rparr>))"
    by (simp add: ReadFlash2Arr_def Let_def r)
  moreover have "config_of (load_arrays (s\<lparr>RESTORE := [1]\<rparr>)) = c"
    using assms by (intro load_saved) simp_all
  moreover have "User_Arr (load_arrays (s\<lparr>RESTORE := [1]\<rparr>)) = User_Arr s"
    by (simp add: load_arrays_def Let_def)
  ultimately show ?thesis by (rule that)
qed

text \<open>C4: A setting the PC writes over the network takes effect and stays: after the write command, the
  deferred \<open>Write2Flash\<close> and a restart with arbitrary RAM, the configuration is the one the write
  command left, and the read command for the same position answers with the value written; that
  holds for every option of the protocol except the four bytes of the IP address.  Those are stored and
  reloaded like the others, but no start copies them into the mirror, so the read command answers with
  whatever the RAM held there.\<close>

theorem network_setting_persists:
  assumes "hal_laws hal" "store_wf s" "valid_setting pos v" "length (User_Arr ram) = 256"
  shows "let s0 = Send_User_Data [3, of_nat pos, v] s; s1 = Write2Flash hal ver s0;
         s2 = snd (ReadFlash2Arr hal ver (ram\<lparr>store_flash := store_flash s1\<rparr>));
         answer = (\<lambda>x. effects (Send_User_Data [2, of_nat pos, 0] s2) = effects s2 @ [Eth_Send_api [2, of_nat pos, x]])
     in config_of s2 = config_of s0 \<and>
        (if 0x12 \<le> pos \<and> pos \<le> 0x15 then Ip_Arr s2 = (Ip_Arr s)[pos - 0x12 := v] \<and> answer (User_Arr ram ! pos)
         else answer v)"
proof -
  let ?w = "Send_User_Data [3, of_nat pos, v] s"
  let ?ram = "ram\<lparr>store_flash := store_flash (Write2Flash hal ver ?w)\<rparr>"
  have wf: "store_wf ?w" by (rule Send_User_Data_wf[OF assms(2)])
  have l: "length (User_Arr s) = 256" using assms(2) by (simp add: store_wf_def)
  have "saved (store_flash ?ram) (config_of ?w) [1]" "map length (config_of ?w) = config_lengths"
    using Write2Flash_saved(1)[OF assms(1) wf] wf by (simp_all add: store_wf_def)
  then obtain t where t: "snd (ReadFlash2Arr hal ver ?ram) = Update_User_Arr ver t"
    "config_of t = config_of ?w" "User_Arr t = User_Arr ?ram"
    by (rule ReadFlash2Arr_mirror)
  have pos: "unat (of_nat pos :: u8) = pos"
    using assms(3) unfolding unat_of_nat by (auto simp: valid_setting_def ip_position_def)
  have c: "config_of (Update_User_Arr ver t) = config_of ?w" using t(2) by simp
  show ?thesis
  proof (cases "ip_position pos")
    case True
    have "Ip_Arr (Update_User_Arr ver t) = (Ip_Arr s)[pos - 0x12 := v]"
      using address_byte_set[OF l True, of v] c unfolding config_of_fields by simp
    then show ?thesis
      using c t(3) address_byte_not_mirrored[OF True, of ver t] True[unfolded ip_position_def]
      unfolding Let_def t(1) Send_User_Data_read pos by simp
  next
    case False
    then have "User_Arr (Update_User_Arr ver t) ! pos = v"
      using t assms(2-4) by (intro setting_in_mirror[of s]) auto
    then show ?thesis
      using c False[unfolded ip_position_def] unfolding Let_def t(1) Send_User_Data_read pos by auto
  qed
qed

text \<open>The sync type is answered as it was set; a new last byte of the address is in force but answered
  as zero.\<close>

theorem network_setting_persists_witness:
  "(let s1 = Write2Flash nor_flash demo_versions (Send_User_Data [3, of_nat 0x20, 9] demo_store);
       s2 = snd (ReadFlash2Arr nor_flash demo_versions (demo_store\<lparr>store_flash := store_flash s1\<rparr>))
     in effects (Send_User_Data [2, of_nat 0x20, 0] s2) = effects s2 @ [Eth_Send_api [2, of_nat 0x20, 9]]) \<and>
   (let s1 = Write2Flash nor_flash demo_versions (Send_User_Data [3, of_nat 0x15, 77] demo_store);
       s2 = snd (ReadFlash2Arr nor_flash demo_versions (demo_store\<lparr>store_flash := store_flash s1\<rparr>))
     in Ip_Arr s2 = [10, 0, 0, 77] \<and>
        effects (Send_User_Data [2, of_nat 0x15, 0] s2) = effects s2 @ [Eth_Send_api [2, of_nat 0x15, 0]])"
proof -
  have v: "valid_setting 0x20 9" "valid_setting 0x15 77" by (simp_all add: valid_setting_def ip_position_def)
  have l: "length (User_Arr demo_store) = 256" and u: "User_Arr demo_store ! 0x15 = 0"
    and ip: "(Ip_Arr demo_store)[0x15 - 0x12 := 77] = [10, 0, 0, 77]"
    by (simp_all add: demo_store_def)
  note t = network_setting_persists[OF nor_flash_laws demo_store_wf _ l, where ver = demo_versions]
  show ?thesis using t[OF v(1)] t[OF v(2)] unfolding Let_def u ip by simp
qed

section \<open>Channels that may not be chosen\<close>

definition channels_ok :: "store \<Rightarrow> bool" where
  "channels_ok s \<longleftrightarrow>
     (\<forall>i < 3. Config_Video_Input_Arr s ! i = NON_OPERATE \<longleftrightarrow> System_Feature_Arr s ! (i + 2) = MENU_RESET) \<and>
     (\<forall>i < 2. Config_Video_Output_Arr s ! i = NON_OPERATE \<longleftrightarrow> System_Feature_Arr s ! (i + 2) = MENU_RESET)"

text \<open>What becomes of one channel with feature switch \<open>f\<close>.\<close>

definition channel :: "u8 \<Rightarrow> u8 \<Rightarrow> u8" where
  "channel f x = (if f = MENU_RESET then NON_OPERATE else if x = NON_OPERATE then MENU_RESET else x)"

lemma channel_laws [simp]:
  "channel f (channel f x) = channel f x" "channel f x = NON_OPERATE \<longleftrightarrow> f = MENU_RESET"
  "f \<noteq> MENU_RESET \<Longrightarrow> x \<noteq> NON_OPERATE \<Longrightarrow> channel f x = x"
  by (simp_all add: channel_def)

lemma En_Or_Dis_UpData_eq:
  assumes "Config_Video_Input_Arr s = [a, b, c]" "Config_Video_Output_Arr s = [d, e]"
  shows "En_Or_Dis_UpData s = s\<lparr>
    Config_Video_Input_Arr := [channel (System_Feature_Arr s ! 2) a, channel (System_Feature_Arr s ! 3) b,
       channel (System_Feature_Arr s ! 4) c],
    Config_Video_Output_Arr := [channel (System_Feature_Arr s ! 2) d, channel (System_Feature_Arr s ! 3) e]\<rparr>"
  using assms
  by (cases "System_Feature_Arr s ! 2 = MENU_RESET"; cases "System_Feature_Arr s ! 3 = MENU_RESET";
      cases "System_Feature_Arr s ! 4 = MENU_RESET"; simp add: En_Or_Dis_UpData_def Let_def channel_def)

text \<open>\<open>En_Or_Dis_UpData\<close> makes an input or output unavailable exactly when its feature switch is
  off, keeps the current choice of every channel whose switch is on, and changes nothing when
  it is run again.\<close>

theorem En_Or_Dis_UpData_channels:
  assumes "store_wf s"
  shows "channels_ok (En_Or_Dis_UpData s) \<and>
    (\<forall>i < 3. System_Feature_Arr s ! (i + 2) \<noteq> MENU_RESET \<and> Config_Video_Input_Arr s ! i \<noteq> NON_OPERATE \<longrightarrow>
       Config_Video_Input_Arr (En_Or_Dis_UpData s) ! i = Config_Video_Input_Arr s ! i) \<and>
    (\<forall>i < 2. System_Feature_Arr s ! (i + 2) \<noteq> MENU_RESET \<and> Config_Video_Output_Arr s ! i \<noteq> NON_OPERATE \<longrightarrow>
       Config_Video_Output_Arr (En_Or_Dis_UpData s) ! i = Config_Video_Output_Arr s ! i) \<and>
    En_Or_Dis_UpData (En_Or_Dis_UpData s) = En_Or_Dis_UpData s"
proof -
  note l = lengths_of_wf[OF assms]
  obtain a b c where i: "Config_Video_Input_Arr s = [a, b, c]"
    using l(3) by (auto simp: numeral_eq_Suc length_Suc_conv)
  obtain d e where o: "Config_Video_Output_Arr s = [d, e]"
    using l(4) by (auto simp: numeral_eq_Suc length_Suc_conv)
  have less3: "(\<forall>i < 3. P i) = (P 0 \<and> P 1 \<and> P 2)" and less2: "(\<forall>i < 2. P i) = (P 0 \<and> P 1)" for P :: "nat \<Rightarrow> bool"
    by (auto simp: numeral_eq_Suc less_Suc_eq)
  obtain f0 f1 f2 f3 f4 where f: "System_Feature_Arr s = [f0, f1, f2, f3, f4]"
    using l(1) by (auto simp: numeral_eq_Suc length_Suc_conv)
  note e1 = En_Or_Dis_UpData_eq[OF i o, unfolded f, simplified]
  have e2: "En_Or_Dis_UpData (En_Or_Dis_UpData s) = En_Or_Dis_UpData s"
    using En_Or_Dis_UpData_eq[of "En_Or_Dis_UpData s" "channel f2 a" "channel f3 b" "channel f4 c"
        "channel f2 d" "channel f3 e"]
    by (simp add: e1 f)
  show ?thesis
    unfolding channels_ok_def less3 less2 e2 by (simp add: e1 i o f)
qed

theorem En_Or_Dis_UpData_channels_witness:
  "channels_ok (En_Or_Dis_UpData demo_store) \<and>
    En_Or_Dis_UpData (En_Or_Dis_UpData demo_store) = En_Or_Dis_UpData demo_store"
  using En_Or_Dis_UpData_channels[OF demo_store_wf] by blast

section \<open>What the FPGA is told\<close>

lemma first_branch_one_set:
  "k < n \<Longrightarrow> n = length bs \<Longrightarrow> first_branch (one_set n k) bs = bs ! k"
proof (induction bs arbitrary: k n)
  case (Cons b bs)
  then obtain m where m: "n = Suc m" "m = length bs" by auto
  show ?case
  proof (cases k)
    case 0
    then show ?thesis by (simp add: one_set_def m)
  next
    case (Suc j)
    then show ?thesis using Cons.IH[of j m] Cons.prems m by (simp add: one_set_def)
  qed
qed simp

definition fpga_writes :: "nat \<Rightarrow> store \<Rightarrow> effect list" where
  "fpga_writes addr s = drop (length (effects s)) (effects (Set_FPGA_Reg_Config addr 0 s))"

lemma fpga_format_writes:
  assumes "store_wf s" "1 \<le> unat p" "unat p \<le> 17"
  shows "fpga_writes CONFIG_FORMAT_NUM_ADDR (Set_Config_Format p s) =
    [Send_Format_2_0x05 (fst (format_reg ! (unat p - 1))), Send_Format_2_0x11 (snd (format_reg ! (unat p - 1)))]"
proof -
  have "set_loop p (Config_Format_Arr s) = one_set 17 (unat p - 1)"
    using one_set_loop[of p "Config_Format_Arr s"] lengths_of_wf[OF assms(1)] assms(2,3) by simp
  moreover have "length format_reg = 17" by (simp add: format_reg_def)
  ultimately show ?thesis
    using assms(2,3)
    by (simp add: fpga_writes_def Set_FPGA_Reg_Config_def Set_Config_Format_def addr_defs num_defs
        first_branch_one_set split_def)
qed

lemma fpga_sync_type_writes:
  assumes "store_wf s" "1 \<le> unat p" "unat p \<le> 12"
  shows "fpga_writes SRC_SYNV_TYPE_NUM_ADDR (Set_Config_SRC_synctype p s) =
    [Send_SyncType_Mode (sync_type_reg ! (unat p - 1))]"
proof -
  have "set_loop p (Config_Src_Sync_Type_Arr s) = one_set 12 (unat p - 1)"
    using one_set_loop[of p "Config_Src_Sync_Type_Arr s"] lengths_of_wf[OF assms(1)] assms(2,3) by simp
  moreover have "length sync_type_reg = 12" by (simp add: sync_type_reg_def)
  ultimately show ?thesis
    using assms(2,3)
    by (simp add: fpga_writes_def Set_FPGA_Reg_Config_def Set_Config_SRC_synctype_def addr_defs num_defs
        first_branch_one_set)
qed

definition clashes :: "'a list \<Rightarrow> (nat \<times> nat) list" where
  "clashes xs = filter (\<lambda>(i, j). i < j \<and> xs ! i = xs ! j) (List.product [0..<length xs] [0..<length xs])"

lemma clashesD: "i < length xs \<Longrightarrow> j < length xs \<Longrightarrow> xs ! i = xs ! j \<Longrightarrow>
  i = j \<or> (i, j) \<in> set (clashes xs) \<or> (j, i) \<in> set (clashes xs)"
  by (auto simp: clashes_def)

lemma format_clashes: "clashes format_reg = [(0, 3)]"
  by code_simp

lemma sync_type_clashes: "clashes sync_type_reg = [(0, 7)]"
  by code_simp

lemma choice_number: "1 \<le> unat x \<Longrightarrow> unat x - 1 = n \<Longrightarrow> x = of_nat (Suc n)" for x :: u8
proof -
  assume "1 \<le> unat x" "unat x - 1 = n"
  then have "unat x = Suc n" by simp
  moreover have "x = of_nat (unat x)" by simp
  ultimately show ?thesis by (simp only:)
qed

lemma format_identified:
  assumes "store_wf s" "1 \<le> unat p" "unat p \<le> 17" "1 \<le> unat q" "unat q \<le> 17"
    and "fpga_writes CONFIG_FORMAT_NUM_ADDR (Set_Config_Format p s) = fpga_writes CONFIG_FORMAT_NUM_ADDR (Set_Config_Format q s)"
  shows "p = q \<or> {p, q} = {1, 4}"
proof -
  have "format_reg ! (unat p - 1) = format_reg ! (unat q - 1)"
    using assms(6) fpga_format_writes[OF assms(1,2,3)] fpga_format_writes[OF assms(1,4,5)] by (simp add: prod_eq_iff)
  moreover have "unat p - 1 < length format_reg" "unat q - 1 < length format_reg"
    using assms(2-5) by (simp_all add: format_reg_def)
  ultimately consider "unat p - 1 = unat q - 1" | "unat p - 1 = 0" "unat q - 1 = 3" | "unat p - 1 = 3" "unat q - 1 = 0"
    using clashesD[of "unat p - 1" format_reg "unat q - 1"] by (auto simp: format_clashes)
  then show ?thesis
  proof cases
    case 1
    show ?thesis using choice_number[OF assms(2) 1] choice_number[OF assms(4) refl] by simp
  next
    case 2
    show ?thesis using choice_number[OF assms(2) 2(1)] choice_number[OF assms(4) 2(2)] by simp
  next
    case 3
    show ?thesis using choice_number[OF assms(2) 3(1)] choice_number[OF assms(4) 3(2)] by (simp add: insert_commute)
  qed
qed

lemma sync_type_identified:
  assumes "store_wf s" "1 \<le> unat p" "unat p \<le> 12" "1 \<le> unat q" "unat q \<le> 12"
    and "fpga_writes SRC_SYNV_TYPE_NUM_ADDR (Set_Config_SRC_synctype p s) = fpga_writes SRC_SYNV_TYPE_NUM_ADDR (Set_Config_SRC_synctype q s)"
  shows "p = q \<or> {p, q} = {1, 8}"
proof -
  have "sync_type_reg ! (unat p - 1) = sync_type_reg ! (unat q - 1)"
    using assms(6) fpga_sync_type_writes[OF assms(1,2,3)] fpga_sync_type_writes[OF assms(1,4,5)] by (simp add: prod_eq_iff)
  moreover have "unat p - 1 < length sync_type_reg" "unat q - 1 < length sync_type_reg"
    using assms(2-5) by (simp_all add: sync_type_reg_def)
  ultimately consider "unat p - 1 = unat q - 1" | "unat p - 1 = 0" "unat q - 1 = 7" | "unat p - 1 = 7" "unat q - 1 = 0"
    using clashesD[of "unat p - 1" sync_type_reg "unat q - 1"] by (auto simp: sync_type_clashes)
  then show ?thesis
  proof cases
    case 1
    show ?thesis using choice_number[OF assms(2) 1] choice_number[OF assms(4) refl] by simp
  next
    case 2
    show ?thesis using choice_number[OF assms(2) 2(1)] choice_number[OF assms(4) 2(2)] by simp
  next
    case 3
    show ?thesis using choice_number[OF assms(2) 3(1)] choice_number[OF assms(4) 3(2)] by (simp add: insert_commute)
  qed
qed

text \<open>Choosing a video format and sending it programs FPGA registers 0x05 and 0x11 with values
  that identify the format: two choices send the same only if they are the same or are Auto and
  720p60 (1 and 4), which are meant to coincide.  The sync types are told apart likewise, but for
  Bot_Grag and Obvious (1 and 8), which differ by clock type only.\<close>

theorem fpga_choice_identified:
  assumes "store_wf s"
  shows "(\<forall>p q. 1 \<le> unat p \<and> unat p \<le> 17 \<and> 1 \<le> unat q \<and> unat q \<le> 17 \<and>
      fpga_writes CONFIG_FORMAT_NUM_ADDR (Set_Config_Format p s) =
      fpga_writes CONFIG_FORMAT_NUM_ADDR (Set_Config_Format q s) \<longrightarrow> p = q \<or> {p, q} = {1, 4}) \<and>
    (\<forall>p q. 1 \<le> unat p \<and> unat p \<le> 12 \<and> 1 \<le> unat q \<and> unat q \<le> 12 \<and>
      fpga_writes SRC_SYNV_TYPE_NUM_ADDR (Set_Config_SRC_synctype p s) =
      fpga_writes SRC_SYNV_TYPE_NUM_ADDR (Set_Config_SRC_synctype q s) \<longrightarrow> p = q \<or> {p, q} = {1, 8})"
  using format_identified[OF assms] sync_type_identified[OF assms] by blast

theorem fpga_choice_identified_witness:
  "fpga_writes CONFIG_FORMAT_NUM_ADDR (Set_Config_Format 2 demo_store) \<noteq>
     fpga_writes CONFIG_FORMAT_NUM_ADDR (Set_Config_Format 3 demo_store) \<and>
   fpga_writes SRC_SYNV_TYPE_NUM_ADDR (Set_Config_SRC_synctype 5 demo_store) \<noteq>
     fpga_writes SRC_SYNV_TYPE_NUM_ADDR (Set_Config_SRC_synctype 12 demo_store)"
proof
  note choices = fpga_choice_identified[OF demo_store_wf]
  show "fpga_writes CONFIG_FORMAT_NUM_ADDR (Set_Config_Format 2 demo_store) \<noteq>
     fpga_writes CONFIG_FORMAT_NUM_ADDR (Set_Config_Format 3 demo_store)"
    using conjunct1[OF choices, rule_format, of 2 3] by (auto simp: insert_eq_iff)
  show "fpga_writes SRC_SYNV_TYPE_NUM_ADDR (Set_Config_SRC_synctype 5 demo_store) \<noteq>
     fpga_writes SRC_SYNV_TYPE_NUM_ADDR (Set_Config_SRC_synctype 12 demo_store)"
    using conjunct2[OF choices, rule_format, of 5 12] by (auto simp: insert_eq_iff)
qed

end
