(* ===== verification/StatusList.thy ===== *)
theory StatusList
  imports ConfigStore
begin

text \<open>
  \<open>driver/oled_meau/meau_status_list.c\<close> and \<open>meau_system_list.c\<close>: the status registers
  polled from the FPGA, the status pages, the version page and the three actions of the
  system menu.  The register values (\<open>Get_Reg_0x83\<close> and the others read over SPI) and the
  link register of the PHY come in as arguments; a page is the calls it appends to the
  trace of the store.
\<close>

record fpga_status =
  Reg_0x8d_num :: u8
  Reg_0x84_num :: u8
  Reg_0x83_num :: u8
  vid_link_flag :: u8

definition return_Reg_0x83_num :: "fpga_status \<Rightarrow> u8" where "return_Reg_0x83_num r = Reg_0x83_num r"
definition return_Reg_0x84_num :: "fpga_status \<Rightarrow> u8" where "return_Reg_0x84_num r = Reg_0x84_num r"
definition return_Reg_0x8d_num :: "fpga_status \<Rightarrow> u8" where "return_Reg_0x8d_num r = Reg_0x8d_num r"

definition Get_vid_link_flag :: "fpga_status \<Rightarrow> u8" where "Get_vid_link_flag r = vid_link_flag r"
definition Set_vid_link_flag :: "u8 \<Rightarrow> fpga_status \<Rightarrow> fpga_status" where
  "Set_vid_link_flag flag r = r\<lparr>vid_link_flag := (if flag \<noteq> 0 then 1 else 0)\<rparr>"

definition pollint_Reg_0x83 :: "u8 \<Rightarrow> fpga_status \<Rightarrow> u8 \<times> fpga_status" where
  "pollint_Reg_0x83 reg r = (let r = r\<lparr>Reg_0x83_num := reg\<rparr> in (Reg_0x83_num r, r))"

definition pollint_Reg_0x84 :: "u8 \<Rightarrow> fpga_status \<Rightarrow> u8 \<times> fpga_status" where
  "pollint_Reg_0x84 reg r =
     (let r = r\<lparr>Reg_0x84_num := reg\<rparr>;
          num = drop_bit 4 (Reg_0x84_num r AND 0x10);
          status = (if num = 1 then 1 else 0)
      in (status, Set_vid_link_flag status r))"

definition pollint_Reg_0x82 :: "u8 \<Rightarrow> store \<Rightarrow> u8 \<times> store" where
  "pollint_Reg_0x82 reg s =
     (let num = push_bit 3 reg;
          status = (if num = 0xf8 then 0 else 1)
      in (status, Set_Status status s))"

definition pollint_Reg_0x87 :: "u8 \<Rightarrow> store \<Rightarrow> u8 \<times> store" where
  "pollint_Reg_0x87 reg s =
     (let num = push_bit 7 reg
      in (num, emit [HDMI_OUT_LEDG (if num = 0x80 then 1 else 0)] s))"

definition pollint_Reg_0x8d :: "u8 \<Rightarrow> fpga_status \<Rightarrow> fpga_status" where
  "pollint_Reg_0x8d reg r = r\<lparr>Reg_0x8d_num := reg\<rparr>"

section \<open>The status pages\<close>

definition STATUS_Y_CURSOR :: u8 where "STATUS_Y_CURSOR = 2"
definition STATUS_SIZE :: u8 where "STATUS_SIZE = 16"
definition Display_Line_Width :: nat where "Display_Line_Width = 20"

definition format_names :: "string list" where
  "format_names =
     [''720p60Hz'', ''720p50Hz'', ''720p59Hz'', ''720p60Hz'', ''1080i50Hz'', ''1080i59Hz'',
      ''1080i60Hz'', ''1080p23Hz'', ''1080p24Hz'', ''1080p25Hz'', ''1080p29Hz'', ''1080p30Hz'',
      ''1080p50Hz'', ''1080p59Hz'', ''1080p60Hz'', ''1080pSF23Hz'', ''1080pSF24Hz'']"

fun raster_name :: "u8 \<Rightarrow> string" where
  "raster_name t =
     (if t = 0x00 then ''1920x1080'' else if t = 0x01 then ''1280x720''
      else if t = 0x02 then ''2048x1080'' else if t = 0x03 then ''1920x1080''
      else if t = 0x08 then ''720x486'' else if t = 0x09 then ''720x576''
      else if t = 0x0f then ''No_Detect'' else '''')"

fun rate_name :: "u8 \<Rightarrow> string" where
  "rate_name t =
     (if t = 0x02 then ''23Hz'' else if t = 0x03 then ''24Hz'' else if t = 0x04 then ''47Hz''
      else if t = 0x05 then ''25Hz'' else if t = 0x06 then ''29Hz'' else if t = 0x07 then ''30Hz''
      else if t = 0x08 then ''48Hz'' else if t = 0x09 then ''50Hz'' else if t = 0x0a then ''59Hz''
      else if t = 0x0b then ''60Hz'' else '''')"

text \<open>\<open>memcpy(pstr_data[0], "2048x1080", 9)\<close> copies nine of the characters and no
  terminator; the rest of the line is zero.\<close>

definition video_format_text :: "u8 \<Rightarrow> u8 \<Rightarrow> u8 \<Rightarrow> u8 \<Rightarrow> string" where
  "video_format_text status_flag test_pat reg83 reg84 =
     (if test_pat = 3
      then (if 1 \<le> status_flag \<and> status_flag \<le> 17 then format_names ! (unat status_flag - 1) else '''')
      else if test_pat = 2
      then (let t = reg83 AND 0x0f; name = raster_name t in
            if t \<noteq> 0x0f
            then name @ (if reg83 AND 0x10 \<noteq> 0 then ''p'' else ''i'') @ rate_name (reg84 AND 0x0f)
            else name)
      else '''')"

definition Display_Video_Format :: "fpga_status \<Rightarrow> store \<Rightarrow> store" where
  "Display_Video_Format r s =
     emit [OLED_ShowString 0 STATUS_Y_CURSOR
             (ascii (video_format_text (Get_Config_Format s) (Get_Config_Video_Input s)
                (return_Reg_0x83_num r) (return_Reg_0x84_num r))) STATUS_SIZE] s"

definition Display_Audio_Format :: "store \<Rightarrow> store" where
  "Display_Audio_Format s = emit [OLED_ShowString 0 STATUS_Y_CURSOR (ascii ''No_Support'') 12] s"

text \<open>\<open>Read_Eth_Link_Status\<close> (\<open>app/ethernetif.c\<close>) reads register 1 of the PHY.\<close>

definition Read_Eth_Link_Status :: "u32 \<Rightarrow> store \<Rightarrow> u8 \<times> store" where
  "Read_Eth_Link_Status regvalue s =
     (if regvalue = 0x784d then (1, s)
      else if regvalue = 0x7849 then (0, s)
      else (2, Set_Status 1 s))"

definition Display_Ethernet_Status :: "u32 \<Rightarrow> store \<Rightarrow> store" where
  "Display_Ethernet_Status regvalue s =
     (let (eth_status, s) = Read_Eth_Link_Status regvalue s;
          s = (if eth_status = 2 then Set_Status 1 s else s);
          line = (if eth_status = 1 then ''Link'' else if eth_status = 0 then ''No_Link''
                  else if eth_status = 2 then ''ETH_ERROR'' else '''')
      in emit [OLED_ShowString 0 STATUS_Y_CURSOR (ascii line) STATUS_SIZE] s)"

definition Display_Error_Status :: "store \<Rightarrow> store" where
  "Display_Error_Status s =
     (let status = Get_Status s;
          line = (if status = 0 then ''0.0.0'' else if status = 1 then ''0.0.1'' else '''')
      in emit [OLED_ShowString 0 STATUS_Y_CURSOR (ascii line) STATUS_SIZE] s)"

section \<open>Versions and actions\<close>

definition SYSTEM_Y :: u8 where "SYSTEM_Y = 2"

definition sw :: bytes where "sw = [0x20, 0x19, 0x01, 0x27, 0xc2]"

text \<open>The eight configuration pins, most significant first: PB12 to PB15, PD12 to PD15.\<close>

definition read_HW :: "bool list \<Rightarrow> u8" where
  "read_HW pins = fold (\<lambda>b hw. push_bit 1 hw OR (if b then 1 else 0)) pins 0"

definition hw_0x_to_char :: "u8 \<Rightarrow> bytes \<Rightarrow> bytes" where
  "hw_0x_to_char hw version_char =
     version_char[0 := hw div 16 + 0x30, 1 := hw mod 16 + 0x30]"

text \<open>\<open>None\<close> is the null pointer; the result is the buffer \<open>version_char\<close>.\<close>

definition to_char_0x :: "bytes option \<Rightarrow> bytes option" where
  "to_char_0x pstr_fw =
     (case pstr_fw of
        None \<Rightarrow> None
      | Some f \<Rightarrow>
          Some (map (\<lambda>c. if 0x39 < c then c + 7 else c)
            (concat (map (\<lambda>b. [b div 16 + 0x30, b mod 16 + 0x30]) (take 5 f)))))"

definition Display_Version :: "versions \<Rightarrow> store \<Rightarrow> store" where
  "Display_Version v s =
     (let version = to_char_0x (Some sw);
          line0 = ascii ''SW:'' @ (case version of None \<Rightarrow> [] | Some c \<Rightarrow> cstr (take 10 c));
          hwc = hw_0x_to_char (Get_HW v) (case version of None \<Rightarrow> replicate 10 0 | Some c \<Rightarrow> c);
          line1 = ascii ''HW:V'' @ [hwc ! 0] @ ascii ''.'' @ [hwc ! 1];
          line2 = ascii ''FW:'' @ (case to_char_0x (Get_FW v) of None \<Rightarrow> [] | Some c \<Rightarrow> cstr (take 10 c))
      in emit [OLED_ShowString 0 1 line0 12, OLED_ShowString 0 2 line1 12, OLED_ShowString 0 3 line2 12] s)"

definition Restart_Action :: "store \<Rightarrow> store" where
  "Restart_Action s = emit [ReStart] s"

definition Restore_Action :: "hal_flash \<Rightarrow> store \<Rightarrow> store" where
  "Restore_Action hal s = emit [ReStart] (Restore_Flash hal s)"

definition Update_Action :: "store \<Rightarrow> store" where
  "Update_Action s = emit [OLED_ShowString 0 SYSTEM_Y (ascii ''FACTORY ONLY'') 12] s"

end
