(* ===== verification/MenuItems.thy ===== *)
theory MenuItems
  imports StatusList EventQueue
begin

text \<open>
  \<open>driver/oled_meau/menu_items.c\<close>: the tree of menus shown on the OLED and the callbacks
  behind its entries.  A \<open>MENU_ITEM\<close> array is a list, named by a \<open>menu_id\<close> (the pointer to
  the array); a pair of callbacks of the C tables is named by a \<open>callback\<close>.  The state of
  the user interface is the record \<open>ui\<close>: the mutable menu arrays, the menu state machine
  (\<open>menu.c\<close>), the statics of the callbacks and the components they call.  Calls that draw
  are appended to the trace of the store.
\<close>

section \<open>Types and state\<close>

datatype MENU_BUTTON_ROLE = MENU_UP | MENU_DOWN | MENU_CONFIRM | MENU_CANCEL | MENU_NONE

datatype menu_id =
    Home | System | System_Feature | Config | Config_Format | Config_Video | Config_Video_Input
  | Config_Video_Output | Config_Audio | Config_Network | Config_Network_IP | Config_Network_MAC
  | Config_SRC | Config_SRC_Mode | Config_SRC_Sync_Type | Config_SRC_Clock_Type
  | Config_SRC_Sync_Frame | Config_Display | Config_Display_Mode | Config_Display_Brightness
  | Status | Status_Synch

datatype callback =
    Config_Video_Output_Action | Config_Video_Input_Action | Config_Network_MAC_Action
  | Config_Network_IP_Action | Config_GPS_Action | Config_SRC_Mode_Action
  | Config_SRC_Sync_Type_Action | Config_SRC_Clock_Type_Action | Config_SRC_Sync_Frame_Action
  | Config_Format_Action | Status_Synch_Print | Config_Display_Mode_Action
  | Config_Display_Brightness_Action | System_Universal | Status_Print | Exit_Action
  | Exit2MainMenu_Action

record MENU_ITEM =
  title :: bytes
  render_callback :: "callback option"
  btn_handle_callback :: "callback option"
  submenu_length :: nat
  submenu :: "menu_id option"
  status :: u8

text \<open>A state of the menu machine; \<open>prev_state\<close> points into \<open>menu_states\<close> and
  \<open>current_item\<close> into a menu.\<close>

record MENU_STATE =
  prev_state :: "nat option"
  current_item :: "(menu_id \<times> nat) option"
  current_item_idx :: nat
  cursor_line :: nat
  level :: nat

record MENU_BUTTON =
  role :: MENU_BUTTON_ROLE
  state :: u32
  pressed :: bool

record ui =
  menus :: "menu_id \<Rightarrow> MENU_ITEM list"
  menu_states :: "MENU_STATE list"
  current_state :: nat
  button :: MENU_BUTTON
  button_num :: MENU_BUTTON_ROLE
  display_flag :: u8
  once :: "callback \<Rightarrow> u8"
  temp :: "callback \<Rightarrow> u8"
  ip_char :: bytes
  mac_char :: bytes
  fpga :: fpga_status
  workMode :: u8
  cnt_down :: u16
  event_q :: event_state
  cfg :: store

text \<open>What the firmware finds outside: the flash routines of the HAL, the version numbers and
  the link register of the Ethernet PHY.\<close>

record env =
  env_hal :: hal_flash
  env_vers :: versions
  env_phy :: u32

definition MODE_KEY :: u8 where "MODE_KEY = 5"
definition MODE_ON :: u8 where "MODE_ON = 0"

definition evKeyUP :: u8 where "evKeyUP = 0xb0"
definition evKeyDown :: u8 where "evKeyDown = 0xb1"
definition evKeyCancal :: u8 where "evKeyCancal = 0xb2"
definition evKeyConfirm :: u8 where "evKeyConfirm = 0xb3"

section \<open>The menu tables\<close>

definition action_item :: "string \<Rightarrow> callback \<Rightarrow> u8 \<Rightarrow> MENU_ITEM" where
  "action_item t c st =
     \<lparr>title = char_array 20 t, render_callback = Some c, btn_handle_callback = Some c,
      submenu_length = 0, submenu = None, status = st\<rparr>"

definition submenu_item :: "string \<Rightarrow> nat \<Rightarrow> menu_id \<Rightarrow> MENU_ITEM" where
  "submenu_item t n m =
     \<lparr>title = char_array 20 t, render_callback = None, btn_handle_callback = None,
      submenu_length = n, submenu = Some m, status = NONE_STATUS\<rparr>"

definition plain_item :: "string \<Rightarrow> u8 \<Rightarrow> MENU_ITEM" where
  "plain_item t st =
     \<lparr>title = char_array 20 t, render_callback = None, btn_handle_callback = None,
      submenu_length = 0, submenu = None, status = st\<rparr>"

definition Status_Synch_menu :: "MENU_ITEM list" where
  "Status_Synch_menu =
     [action_item '' Master_side >'' Status_Synch_Print NONE_STATUS,
      action_item '' Slave_side  >'' Status_Synch_Print NONE_STATUS,
      action_item ''<    Exit     '' Exit_Action NONE_STATUS]"

definition Config_Format_menu :: "MENU_ITEM list" where
  "Config_Format_menu =
     [action_item ''    Auto      '' Config_Format_Action MENU_SET,
      action_item ''  720p50HZ    '' Config_Format_Action MENU_RESET,
      action_item ''  720p59HZ    '' Config_Format_Action MENU_RESET,
      action_item ''  720p60HZ    '' Config_Format_Action MENU_RESET,
      action_item ''  1080i50HZ   '' Config_Format_Action MENU_RESET,
      action_item ''  1080i59HZ   '' Config_Format_Action MENU_RESET,
      action_item ''  1080i60HZ   '' Config_Format_Action MENU_RESET,
      action_item ''  1080p23HZ   '' Config_Format_Action MENU_RESET,
      action_item ''  1080p24HZ   '' Config_Format_Action MENU_RESET,
      action_item ''  1080p25HZ   '' Config_Format_Action MENU_RESET,
      action_item ''  1080p29HZ   '' Config_Format_Action MENU_RESET,
      action_item ''  1080p30HZ   '' Config_Format_Action MENU_RESET,
      action_item ''  1080p50HZ   '' Config_Format_Action MENU_RESET,
      action_item ''  1080p59HZ   '' Config_Format_Action MENU_RESET,
      action_item ''  1080p60HZ   '' Config_Format_Action MENU_RESET,
      action_item '' 1080pSF23HZ  '' Config_Format_Action MENU_RESET,
      action_item '' 1080pSF24HZ  '' Config_Format_Action MENU_RESET,
      action_item ''<    Exit     '' Exit_Action NONE_STATUS]"

definition Config_Video_Output_menu :: "MENU_ITEM list" where
  "Config_Video_Output_menu =
     [action_item ''    HDMI      '' Config_Video_Output_Action MENU_SET,
      action_item ''    HDSDI     '' Config_Video_Output_Action MENU_RESET,
      action_item ''<   Exit      '' Exit_Action NONE_STATUS]"

definition Config_Video_Input_menu :: "MENU_ITEM list" where
  "Config_Video_Input_menu =
     [action_item ''     HDMI     '' Config_Video_Input_Action MENU_SET,
      action_item ''     HDSDI    '' Config_Video_Input_Action MENU_RESET,
      action_item ''   TEST_PAT   '' Config_Video_Input_Action MENU_RESET,
      action_item ''<    Exit     '' Exit_Action NONE_STATUS]"

definition Config_Video_menu :: "MENU_ITEM list" where
  "Config_Video_menu =
     [submenu_item ''    Input    >'' 4 Config_Video_Input,
      submenu_item ''    Output   >'' 3 Config_Video_Output,
      action_item ''<   Exit      '' Exit_Action NONE_STATUS]"

definition Config_Audio_menu :: "MENU_ITEM list" where
  "Config_Audio_menu =
     [plain_item ''    Input    >'' NONE_STATUS,
      plain_item ''    Output   >'' NONE_STATUS,
      action_item ''<   Exit      '' Exit_Action NONE_STATUS]"

definition Config_Network_IP_menu :: "MENU_ITEM list" where
  "Config_Network_IP_menu =
     [action_item ''192      '' Config_Network_IP_Action NONE_STATUS,
      action_item ''168      '' Config_Network_IP_Action NONE_STATUS,
      action_item ''000      '' Config_Network_IP_Action NONE_STATUS,
      action_item ''190      '' Config_Network_IP_Action NONE_STATUS,
      action_item ''<Exit    '' Exit_Action NONE_STATUS]"

definition Config_Network_MAC_menu :: "MENU_ITEM list" where
  "Config_Network_MAC_menu =
     [action_item ''00      '' Config_Network_MAC_Action NONE_STATUS,
      action_item ''80      '' Config_Network_MAC_Action NONE_STATUS,
      action_item ''E1      '' Config_Network_MAC_Action NONE_STATUS,
      action_item ''00      '' Config_Network_MAC_Action NONE_STATUS,
      action_item ''00      '' Config_Network_MAC_Action NONE_STATUS,
      action_item ''00      '' Config_Network_MAC_Action NONE_STATUS,
      action_item ''<Exit   '' Exit_Action NONE_STATUS]"

definition Config_Network_menu :: "MENU_ITEM list" where
  "Config_Network_menu =
     [submenu_item ''     IP      >'' 5 Config_Network_IP,
      submenu_item ''     MAC     >'' 7 Config_Network_MAC,
      action_item ''<    Exit     '' Exit_Action NONE_STATUS]"

definition Config_SRC_Mode_menu :: "MENU_ITEM list" where
  "Config_SRC_Mode_menu =
     [action_item ''    Master    '' Config_SRC_Mode_Action MENU_SET,
      action_item ''    Slave     '' Config_SRC_Mode_Action MENU_RESET,
      action_item ''<   Exit      '' Exit_Action NONE_STATUS]"

definition Config_SRC_Sync_Type_menu :: "MENU_ITEM list" where
  "Config_SRC_Sync_Type_menu =
     [action_item ''   Bot_Greg   '' Config_SRC_Sync_Type_Action MENU_SET,
      action_item ''   Bot_Black  '' Config_SRC_Sync_Type_Action MENU_RESET,
      action_item ''   Bot_White  '' Config_SRC_Sync_Type_Action MENU_RESET,
      action_item ''   Top_Greg   '' Config_SRC_Sync_Type_Action MENU_RESET,
      action_item ''   Top_Black  '' Config_SRC_Sync_Type_Action MENU_RESET,
      action_item ''   Top_White  '' Config_SRC_Sync_Type_Action MENU_RESET,
      action_item '' Four_corners '' Config_SRC_Sync_Type_Action MENU_RESET,
      action_item ''   Obvious    '' Config_SRC_Sync_Type_Action MENU_RESET,
      action_item ''   Hidden_1   '' Config_SRC_Sync_Type_Action MENU_RESET,
      action_item ''   Hidden_2   '' Config_SRC_Sync_Type_Action MENU_RESET,
      action_item ''   Hidden_3   '' Config_SRC_Sync_Type_Action MENU_RESET,
      action_item ''   Hidden_4   '' Config_SRC_Sync_Type_Action MENU_RESET,
      action_item ''<    Exit     '' Exit_Action NONE_STATUS]"

definition Config_SRC_Clock_Type_menu :: "MENU_ITEM list" where
  "Config_SRC_Clock_Type_menu =
     [action_item ''   Wrie_Mode  '' Config_SRC_Clock_Type_Action MENU_SET,
      action_item ''   OSC_Mode   '' Config_SRC_Clock_Type_Action MENU_RESET,
      action_item ''   GPS_Mode   '' Config_SRC_Clock_Type_Action MENU_RESET,
      action_item ''<    Exit     '' Exit_Action NONE_STATUS]"

definition Config_SRC_Sync_Frame_menu :: "MENU_ITEM list" where
  "Config_SRC_Sync_Frame_menu =
     [action_item ''  25_Frames   '' Config_SRC_Sync_Frame_Action MENU_SET,
      action_item ''  30_Frames   '' Config_SRC_Sync_Frame_Action MENU_RESET,
      action_item ''  50_Frames   '' Config_SRC_Sync_Frame_Action MENU_RESET,
      action_item ''  60_Frames   '' Config_SRC_Sync_Frame_Action MENU_RESET,
      action_item ''  100_Frames  '' Config_SRC_Sync_Frame_Action MENU_RESET,
      action_item ''  120_Frames  '' Config_SRC_Sync_Frame_Action MENU_RESET,
      action_item ''<    Exit     '' Exit_Action NONE_STATUS]"

definition Config_SRC_menu :: "MENU_ITEM list" where
  "Config_SRC_menu =
     [submenu_item ''    Mode    >'' 3 Config_SRC_Mode,
      submenu_item '' Sync_Type  >'' 13 Config_SRC_Sync_Type,
      submenu_item '' Clock_Type >'' 4 Config_SRC_Clock_Type,
      submenu_item '' Sync_Frame >'' 7 Config_SRC_Sync_Frame,
      action_item ''<   Exit     '' Exit_Action NONE_STATUS]"

definition Config_Display_Mode_menu :: "MENU_ITEM list" where
  "Config_Display_Mode_menu =
     [action_item ''Video_Display '' Config_Display_Mode_Action MENU_SET,
      action_item ''Audio_Display '' Config_Display_Mode_Action MENU_RESET,
      action_item ''   Detail     '' Config_Display_Mode_Action MENU_RESET,
      action_item ''<    Exit     '' Exit_Action NONE_STATUS]"

definition Config_Display_Brightness_menu :: "MENU_ITEM list" where
  "Config_Display_Brightness_menu =
     [action_item ''  High_Light  '' Config_Display_Brightness_Action MENU_SET,
      action_item ''  Low_Light   '' Config_Display_Brightness_Action MENU_RESET,
      action_item ''<    Exit     '' Exit_Action NONE_STATUS]"

definition Config_Display_menu :: "MENU_ITEM list" where
  "Config_Display_menu =
     [submenu_item ''     Mode    >'' 4 Config_Display_Mode,
      submenu_item '' Brightness  >'' 3 Config_Display_Brightness,
      action_item ''<    Exit     '' Exit_Action NONE_STATUS]"

definition System_Feature_menu :: "MENU_ITEM list" where
  "System_Feature_menu =
     [plain_item ''     GPS      '' MENU_SET,
      plain_item ''   OVEN_XO    '' MENU_RESET,
      plain_item ''     HDMI     '' MENU_RESET,
      plain_item ''     HDSDI    '' MENU_RESET,
      plain_item ''   TEST_PAT   '' NON_OPERATE,
      action_item ''<    Exit     '' Exit_Action NONE_STATUS]"

definition System_menu :: "MENU_ITEM list" where
  "System_menu =
     [action_item ''   Version   >'' System_Universal NONE_STATUS,
      action_item ''   Restart    '' System_Universal NONE_STATUS,
      action_item ''   Restore    '' System_Universal NONE_STATUS,
      action_item ''   Update     '' System_Universal NONE_STATUS,
      submenu_item ''   Feature   >'' 6 System_Feature,
      action_item ''<    Exit     '' Exit_Action NONE_STATUS]"

definition Config_menu :: "MENU_ITEM list" where
  "Config_menu =
     [submenu_item ''   Format    >'' 18 Config_Format,
      submenu_item ''   Video     >'' 3 Config_Video,
      submenu_item ''   Audio     >'' 3 Config_Audio,
      submenu_item ''   Network   >'' 3 Config_Network,
      action_item ''   GPS       >'' Config_GPS_Action NONE_STATUS,
      submenu_item ''   SRC/SWK   >'' 5 Config_SRC,
      submenu_item ''   Display   >'' 3 Config_Display,
      action_item ''<  Exit       '' Exit_Action NONE_STATUS]"

definition Status_menu :: "MENU_ITEM list" where
  "Status_menu =
     [action_item ''Video_Format >'' Status_Print NONE_STATUS,
      action_item ''Audio_Format >'' Status_Print NONE_STATUS,
      action_item ''   Ethernet  >'' Status_Print NONE_STATUS,
      action_item ''   Error     >'' Status_Print NONE_STATUS,
      submenu_item ''   Synch     >'' 3 Status_Synch,
      action_item ''<  Exit       '' Exit_Action NONE_STATUS]"

definition home_items :: "MENU_ITEM list" where
  "home_items =
     [submenu_item ''    System   >'' 6 System,
      submenu_item ''    Config   >'' 8 Config,
      submenu_item ''    Status   >'' 6 Status,
      action_item ''<   Exit      '' Exit2MainMenu_Action NONE_STATUS]"

fun menu_table :: "menu_id \<Rightarrow> MENU_ITEM list" where
  "menu_table Home = home_items"
| "menu_table System = System_menu"
| "menu_table System_Feature = System_Feature_menu"
| "menu_table Config = Config_menu"
| "menu_table Config_Format = Config_Format_menu"
| "menu_table Config_Video = Config_Video_menu"
| "menu_table Config_Video_Input = Config_Video_Input_menu"
| "menu_table Config_Video_Output = Config_Video_Output_menu"
| "menu_table Config_Audio = Config_Audio_menu"
| "menu_table Config_Network = Config_Network_menu"
| "menu_table Config_Network_IP = Config_Network_IP_menu"
| "menu_table Config_Network_MAC = Config_Network_MAC_menu"
| "menu_table Config_SRC = Config_SRC_menu"
| "menu_table Config_SRC_Mode = Config_SRC_Mode_menu"
| "menu_table Config_SRC_Sync_Type = Config_SRC_Sync_Type_menu"
| "menu_table Config_SRC_Clock_Type = Config_SRC_Clock_Type_menu"
| "menu_table Config_SRC_Sync_Frame = Config_SRC_Sync_Frame_menu"
| "menu_table Config_Display = Config_Display_menu"
| "menu_table Config_Display_Mode = Config_Display_Mode_menu"
| "menu_table Config_Display_Brightness = Config_Display_Brightness_menu"
| "menu_table Status = Status_menu"
| "menu_table Status_Synch = Status_Synch_menu"

definition menuItemsGetHomeMenu :: menu_id where "menuItemsGetHomeMenu = Home"

definition menuItemsGetHomeMenuSize :: nat where "menuItemsGetHomeMenuSize = 4"

section \<open>Drawing and small helpers\<close>

definition MENU_Y :: u8 where "MENU_Y = 3"

definition draw :: "effect list \<Rightarrow> ui \<Rightarrow> ui" where
  "draw es u = u\<lparr>cfg := emit es (cfg u)\<rparr>"

definition show_line :: "u8 \<Rightarrow> string \<Rightarrow> effect" where
  "show_line y s = OLED_ShowString 0 y (ascii s) 12"

definition map_cfg :: "(store \<Rightarrow> store) \<Rightarrow> ui \<Rightarrow> ui" where
  "map_cfg f u = u\<lparr>cfg := f (cfg u)\<rparr>"

definition SetWorkMode :: "u8 \<Rightarrow> ui \<Rightarrow> ui" where "SetWorkMode mode u = u\<lparr>workMode := mode\<rparr>"
definition GetWorkMode :: "ui \<Rightarrow> u8" where "GetWorkMode u = workMode u"
definition Set_cnt_down :: "u16 \<Rightarrow> ui \<Rightarrow> ui" where "Set_cnt_down cnt u = u\<lparr>cnt_down := cnt\<rparr>"

definition push_event :: "u8 \<Rightarrow> u8 \<Rightarrow> ui \<Rightarrow> ui" where
  "push_event e p u = u\<lparr>event_q := PushEvt_EvtPar e p (event_q u)\<rparr>"

text \<open>The digits go into the static buffers the functions return.\<close>

definition ip_int_to_char :: "u8 \<Rightarrow> ui \<Rightarrow> ui" where
  "ip_int_to_char ip_num u =
     u\<lparr>ip_char := (ip_char u)[0 := ip_num div 100 + 0x30, 1 := (ip_num mod 100) div 10 + 0x30,
                              2 := ip_num mod 10 + 0x30]\<rparr>"

definition hex_char :: "u8 \<Rightarrow> u8" where
  "hex_char d = (let t = d + 0x30 in if 0x39 < t then t + 7 else t)"

definition my_mac_int_to_char :: "u8 \<Rightarrow> ui \<Rightarrow> ui" where
  "my_mac_int_to_char mac_num u =
     u\<lparr>mac_char := (mac_char u)[0 := hex_char (mac_num div 16), 1 := hex_char (mac_num mod 16)]\<rparr>"

definition set_title :: "menu_id \<Rightarrow> nat \<Rightarrow> bytes \<Rightarrow> ui \<Rightarrow> ui" where
  "set_title m i t u =
     u\<lparr>menus := (menus u)(m := (menus u m)[i := (menus u m ! i)\<lparr>title := mem_write (title (menus u m ! i)) 0 t\<rparr>])\<rparr>"

definition ip_mac_char :: "ui \<Rightarrow> ui" where
  "ip_mac_char u =
     (let u = fold (\<lambda>i u. let u = ip_int_to_char (Ip_Arr (cfg u) ! i) u
                          in set_title Config_Network_IP i (ip_char u) u) [0..<4] u
      in fold (\<lambda>i u. let u = my_mac_int_to_char (Mac_Arr (cfg u) ! i) u
                     in set_title Config_Network_MAC i (mac_char u) u) [0..<6] u)"

text \<open>The loops that copy the status of a menu's first \<open>n\<close> entries from and to an array.\<close>

definition load_status :: "menu_id \<Rightarrow> nat \<Rightarrow> bytes \<Rightarrow> ui \<Rightarrow> ui" where
  "load_status m n arr u =
     u\<lparr>menus := (menus u)(m := map (\<lambda>i. if i < n then (menus u m ! i)\<lparr>status := arr ! i\<rparr> else menus u m ! i)
                                  [0..<length (menus u m)])\<rparr>"

definition save_status :: "menu_id \<Rightarrow> nat \<Rightarrow> ui \<Rightarrow> bytes" where
  "save_status m n u = map (\<lambda>i. status (menus u m ! i)) [0..<n]"

definition Arr_Init :: "ui \<Rightarrow> ui" where
  "Arr_Init u =
     (let c = cfg u;
          u = load_status System_Feature En_Or_Dis_NUM (System_Feature_Arr c) u;
          u = load_status Config_Format CONFIG_FORMAT_NUM (Config_Format_Arr c) u;
          u = load_status Config_Video_Input InputNum (Config_Video_Input_Arr c) u;
          u = load_status Config_Video_Output OutputNum (Config_Video_Output_Arr c) u;
          u = load_status Config_SRC_Mode SRC_MODE_NUM (Config_Src_Mode_Arr c) u;
          u = load_status Config_SRC_Sync_Type SRC_SYNV_TYPE_NUM (Config_Src_Sync_Type_Arr c) u;
          u = load_status Config_SRC_Clock_Type SRC_CLOCK_TYPE_NUM (Config_Src_Clock_Type_Arr c) u;
          u = load_status Config_SRC_Sync_Frame SRC_SYNC_FRAME_NUM (Config_Src_Sync_Frame_Arr c) u;
          u = load_status Config_Display_Mode DISPLAY_MODE_NUM (Config_Display_Mode_Arr c) u;
          u = load_status Config_Display_Brightness DISPLAY_BRIGHTNESS_NUM (Config_Display_Brightness_Arr c) u
      in ip_mac_char u)"

definition Arr_Update :: "env \<Rightarrow> ui \<Rightarrow> ui" where
  "Arr_Update e u =
     map_cfg (\<lambda>c. Write2Flash (env_hal e) (env_vers e)
       (c\<lparr>System_Feature_Arr := save_status System_Feature En_Or_Dis_NUM u,
          Config_Format_Arr := save_status Config_Format CONFIG_FORMAT_NUM u,
          Config_Video_Input_Arr := save_status Config_Video_Input InputNum u,
          Config_Video_Output_Arr := save_status Config_Video_Output OutputNum u,
          Config_Src_Mode_Arr := save_status Config_SRC_Mode SRC_MODE_NUM u,
          Config_Src_Sync_Type_Arr := save_status Config_SRC_Sync_Type SRC_SYNV_TYPE_NUM u,
          Config_Src_Clock_Type_Arr := save_status Config_SRC_Clock_Type SRC_CLOCK_TYPE_NUM u,
          Config_Src_Sync_Frame_Arr := save_status Config_SRC_Sync_Frame SRC_SYNC_FRAME_NUM u,
          Config_Display_Mode_Arr := save_status Config_Display_Mode DISPLAY_MODE_NUM u,
          Config_Display_Brightness_Arr := save_status Config_Display_Brightness DISPLAY_BRIGHTNESS_NUM u\<rparr>)) u"

section \<open>The render callbacks\<close>

text \<open>The loop that marks the chosen entry: \<open>skip\<close> says whether entries marked
  \<open>NON_OPERATE\<close> are left alone, as the video menus do.\<close>

definition choose_entry :: "bool \<Rightarrow> menu_id \<Rightarrow> nat \<Rightarrow> nat \<Rightarrow> ui \<Rightarrow> ui" where
  "choose_entry skip m n which u =
     u\<lparr>menus := (menus u)(m := map (\<lambda>i.
         let it = menus u m ! i in
         if i < n \<and> \<not> (skip \<and> status it = NON_OPERATE)
         then it\<lparr>status := if i = which then MENU_SET else MENU_RESET\<rparr> else it)
       [0..<length (menus u m)])\<rparr>"

definition Config_Video_Output_ActionCallbackRender :: "env \<Rightarrow> nat \<Rightarrow> ui \<Rightarrow> ui" where
  "Config_Video_Output_ActionCallbackRender e which u =
     (if status (menus u Config_Video_Output ! which) \<noteq> NON_OPERATE
      then (let u = draw [OLED_Clear] u;
                u = choose_entry True Config_Video_Output OutputNum which u;
                u = draw [show_line MENU_Y ''TX Data To FPGA''] u;
                u = Arr_Update e u
            in draw [OLED_Clear, show_line (MENU_Y + 1) ''The key to exit''] u)
      else u)"

definition Config_Video_Input_ActionCallbackRender :: "env \<Rightarrow> nat \<Rightarrow> ui \<Rightarrow> ui" where
  "Config_Video_Input_ActionCallbackRender e which u =
     (if status (menus u Config_Video_Input ! which) \<noteq> NON_OPERATE
      then (let u = draw [OLED_Clear] u;
                u = choose_entry True Config_Video_Input InputNum which u;
                u = draw [show_line MENU_Y ''TX Data To FPGA''] u;
                u = Arr_Update e u;
                u = map_cfg (Set_FPGA_Reg_Config InputNum_ADDR 0) u
            in draw [OLED_Clear, show_line (MENU_Y + 1) ''The key to exit''] u)
      else u)"

definition Config_Network_MAC_ActionCallbackRender :: "nat \<Rightarrow> ui \<Rightarrow> ui" where
  "Config_Network_MAC_ActionCallbackRender which u =
     (let u = draw [OLED_Clear] u;
          u = my_mac_int_to_char (Mac_Arr (cfg u) ! which) u
      in draw [OLED_ShowString 0 MENU_Y (cstr (mac_char u)) 12] u)"

definition Config_Network_IP_ActionCallbackRender :: "nat \<Rightarrow> ui \<Rightarrow> ui" where
  "Config_Network_IP_ActionCallbackRender which u =
     (let u = draw [OLED_Clear] u;
          u = ip_int_to_char (Ip_Arr (cfg u) ! which) u
      in draw [OLED_ShowString 0 MENU_Y (cstr (ip_char u)) 12] u)"

text \<open>The signed offset in hours, its sign written over the hundreds digit.\<close>

definition show_offset :: "u8 \<Rightarrow> ui \<Rightarrow> ui" where
  "show_offset t u =
     (let neg = sint t < 0;
          u = ip_int_to_char (if neg then - t else t) u;
          u = u\<lparr>ip_char := (ip_char u)[0 := if neg then 0x2d else 0x2b]\<rparr>
      in draw [OLED_ShowString 96 MENU_Y (cstr (ip_char u)) 12] u)"

definition Config_GPS_ActionCallbackRender :: "nat \<Rightarrow> ui \<Rightarrow> ui" where
  "Config_GPS_ActionCallbackRender which u =
     (let u = draw [OLED_Clear, show_line MENU_Y ''UTC_offset:''] u
      in show_offset (utc_offset_num (cfg u)) u)"

text \<open>The body shared by the render callbacks of the choices that go to the FPGA.\<close>

definition fpga_choice :: "env \<Rightarrow> menu_id \<Rightarrow> nat \<Rightarrow> nat \<Rightarrow> nat \<Rightarrow> ui \<Rightarrow> ui" where
  "fpga_choice e m n addr which u =
     (let u = draw [OLED_Clear] u;
          u = choose_entry False m n which u;
          u = draw [show_line MENU_Y ''TX Data To FPGA''] u;
          u = Arr_Update e u;
          u = map_cfg (Set_FPGA_Reg_Config addr 0) u
      in draw [OLED_Clear, show_line (MENU_Y + 1) ''The key to exit''] u)"

definition Config_SRC_Mode_ActionCallbackRender :: "env \<Rightarrow> nat \<Rightarrow> ui \<Rightarrow> ui" where
  "Config_SRC_Mode_ActionCallbackRender e which u =
     fpga_choice e Config_SRC_Mode SRC_MODE_NUM SRC_MODE_NUM_ADDR which u"

definition Config_SRC_Sync_Type_ActionCallbackRender :: "env \<Rightarrow> nat \<Rightarrow> ui \<Rightarrow> ui" where
  "Config_SRC_Sync_Type_ActionCallbackRender e which u =
     fpga_choice e Config_SRC_Sync_Type SRC_SYNV_TYPE_NUM SRC_SYNV_TYPE_NUM_ADDR which u"

definition Config_SRC_Clock_Type_ActionCallbackRender :: "env \<Rightarrow> nat \<Rightarrow> ui \<Rightarrow> ui" where
  "Config_SRC_Clock_Type_ActionCallbackRender e which u =
     fpga_choice e Config_SRC_Clock_Type SRC_CLOCK_TYPE_NUM SRC_CLOCK_TYPE_NUM_ADDR which u"

definition Config_SRC_Sync_Frame_ActionCallbackRender :: "env \<Rightarrow> nat \<Rightarrow> ui \<Rightarrow> ui" where
  "Config_SRC_Sync_Frame_ActionCallbackRender e which u =
     fpga_choice e Config_SRC_Sync_Frame SRC_SYNC_FRAME_NUM SRC_SYNC_FRAME_NUM_ADDR which u"

definition Config_Format_ActionCallbackRender :: "env \<Rightarrow> nat \<Rightarrow> ui \<Rightarrow> ui" where
  "Config_Format_ActionCallbackRender e which u =
     fpga_choice e Config_Format CONFIG_FORMAT_NUM CONFIG_FORMAT_NUM_ADDR which u"

definition Status_Synch_PrintCallbackRender :: "nat \<Rightarrow> ui \<Rightarrow> ui" where
  "Status_Synch_PrintCallbackRender which u =
     (let u = draw [OLED_Clear] u in
      if which = 0 then draw [show_line MENU_Y ''Lock/No_Lock''] u
      else if which = 1 then draw [show_line MENU_Y ''Lock_No_Lock''] u
      else u)"

definition Config_Display_Mode_ActionCallbackRender :: "env \<Rightarrow> nat \<Rightarrow> ui \<Rightarrow> ui" where
  "Config_Display_Mode_ActionCallbackRender e which u =
     (let u = draw [OLED_Clear] u;
          u = choose_entry False Config_Display_Mode DISPLAY_MODE_NUM which u;
          u = draw [show_line MENU_Y ''TX Data To FPGA''] u;
          u = Arr_Update e u
      in draw [OLED_Clear, show_line (MENU_Y + 1) ''The key to exit''] u)"

definition Config_Display_Brightness_ActionCallbackRender :: "env \<Rightarrow> nat \<Rightarrow> ui \<Rightarrow> ui" where
  "Config_Display_Brightness_ActionCallbackRender e which u =
     (let u = draw [OLED_Clear] u;
          u = choose_entry False Config_Display_Brightness DISPLAY_BRIGHTNESS_NUM which u;
          u = draw [show_line MENU_Y ''TX Data To FPGA''] u;
          u = Arr_Update e u;
          u = (if status (menus u Config_Display_Brightness ! 0) = MENU_SET
               then draw [OLED_command 0x81, OLED_command 0xff] u
               else draw [OLED_command 0x81, OLED_command 0x0f] u)
      in draw [OLED_Clear, show_line (MENU_Y + 1) ''The key to exit''] u)"

definition System_UniversalCallbackRender :: "env \<Rightarrow> nat \<Rightarrow> ui \<Rightarrow> ui" where
  "System_UniversalCallbackRender e which u =
     (let u = draw [OLED_Clear] u in
      if which = 0 then map_cfg (Display_Version (env_vers e)) u
      else if which = 1 then map_cfg Restart_Action u
      else if which = 2 then map_cfg (Restore_Action (env_hal e)) u
      else if which = 3 then map_cfg Update_Action u
      else u)"

definition Status_PrintCallbackRender :: "env \<Rightarrow> nat \<Rightarrow> ui \<Rightarrow> ui" where
  "Status_PrintCallbackRender e which u =
     (let u = draw [OLED_Clear] u in
      if which = 0 then map_cfg (Display_Video_Format (fpga u)) u
      else if which = 1 then map_cfg Display_Audio_Format u
      else if which = 2 then map_cfg (Display_Ethernet_Status (env_phy e)) u
      else if which = 3 then map_cfg Display_Error_Status u
      else u)"

definition Exit_ActionCallbackRender :: "nat \<Rightarrow> ui \<Rightarrow> ui" where
  "Exit_ActionCallbackRender which u = push_event evKeyCancal MODE_KEY (SetWorkMode MODE_KEY u)"

definition Exit2MainMenu_ActionCallbackRender :: "nat \<Rightarrow> ui \<Rightarrow> ui" where
  "Exit2MainMenu_ActionCallbackRender which u =
     push_event evKeyCancal MODE_KEY (SetWorkMode MODE_KEY (Set_cnt_down 0 u))"

text \<open>The call through the function pointer of an item.\<close>

fun run_render :: "env \<Rightarrow> callback \<Rightarrow> nat \<Rightarrow> ui \<Rightarrow> ui" where
  "run_render e Config_Video_Output_Action w u = Config_Video_Output_ActionCallbackRender e w u"
| "run_render e Config_Video_Input_Action w u = Config_Video_Input_ActionCallbackRender e w u"
| "run_render e Config_Network_MAC_Action w u = Config_Network_MAC_ActionCallbackRender w u"
| "run_render e Config_Network_IP_Action w u = Config_Network_IP_ActionCallbackRender w u"
| "run_render e Config_GPS_Action w u = Config_GPS_ActionCallbackRender w u"
| "run_render e Config_SRC_Mode_Action w u = Config_SRC_Mode_ActionCallbackRender e w u"
| "run_render e Config_SRC_Sync_Type_Action w u = Config_SRC_Sync_Type_ActionCallbackRender e w u"
| "run_render e Config_SRC_Clock_Type_Action w u = Config_SRC_Clock_Type_ActionCallbackRender e w u"
| "run_render e Config_SRC_Sync_Frame_Action w u = Config_SRC_Sync_Frame_ActionCallbackRender e w u"
| "run_render e Config_Format_Action w u = Config_Format_ActionCallbackRender e w u"
| "run_render e Status_Synch_Print w u = Status_Synch_PrintCallbackRender w u"
| "run_render e Config_Display_Mode_Action w u = Config_Display_Mode_ActionCallbackRender e w u"
| "run_render e Config_Display_Brightness_Action w u = Config_Display_Brightness_ActionCallbackRender e w u"
| "run_render e System_Universal w u = System_UniversalCallbackRender e w u"
| "run_render e Status_Print w u = Status_PrintCallbackRender e w u"
| "run_render e Exit_Action w u = Exit_ActionCallbackRender w u"
| "run_render e Exit2MainMenu_Action w u = Exit2MainMenu_ActionCallbackRender w u"

end
