(* ===== verification/Menu.thy ===== *)
theory Menu
  imports MenuItems "HOL-Library.Monad_Syntax"
begin

text \<open>
  \<open>driver/oled_meau/menu.c\<close> and the button callbacks of \<open>menu_items.c\<close>: the state machine
  that walks the menu tree.  An operation returns \<open>None\<close> where the C code would follow a
  null pointer or index past a menu; the invariant below shows when that can happen.
\<close>

definition OLED_LINES :: nat where "OLED_LINES = 8"
definition MENU_LEVEL_1 :: nat where "MENU_LEVEL_1 = 0"
definition MENU_CALLBACK :: nat where "MENU_CALLBACK = 4"

section \<open>Pointers and states\<close>

definition current :: "ui \<Rightarrow> MENU_STATE" where
  "current u = menu_states u ! current_state u"

definition set_current :: "MENU_STATE \<Rightarrow> ui \<Rightarrow> ui" where
  "set_current s u = u\<lparr>menu_states := (menu_states u)[current_state u := s]\<rparr>"

definition item_at :: "ui \<Rightarrow> menu_id option \<Rightarrow> nat \<Rightarrow> MENU_ITEM option" where
  "item_at u items i =
     (case items of None \<Rightarrow> None
      | Some m \<Rightarrow> if i < length (menus u m) then Some (menus u m ! i) else None)"

definition item_ref :: "ui \<Rightarrow> (menu_id \<times> nat) option \<Rightarrow> MENU_ITEM option" where
  "item_ref u p = (case p of None \<Rightarrow> None | Some (m, i) \<Rightarrow> item_at u (Some m) i)"

definition state_at :: "ui \<Rightarrow> nat \<Rightarrow> MENU_STATE option" where
  "state_at u i = (if i < length (menu_states u) then Some (menu_states u ! i) else None)"

text \<open>\<open>menu_states[current_state->prev_state->level].current_item\<close>\<close>

definition previous_item :: "ui \<Rightarrow> MENU_ITEM option" where
  "previous_item u =
     do { p \<leftarrow> prev_state (current u);
          ps \<leftarrow> state_at u p;
          s \<leftarrow> state_at u (level ps);
          item_ref u (current_item s) }"

definition setState :: "nat \<Rightarrow> nat option \<Rightarrow> (menu_id \<times> nat) option \<Rightarrow> nat \<Rightarrow> nat \<Rightarrow> ui \<Rightarrow> ui" where
  "setState k new_prev_state new_current_item new_current_item_idx new_cursor_line u =
     u\<lparr>menu_states := (menu_states u)[k := (menu_states u ! k)
        \<lparr>prev_state := new_prev_state, current_item := new_current_item,
         current_item_idx := new_current_item_idx, cursor_line := new_cursor_line\<rparr>]\<rparr>"

definition resetState :: "nat \<Rightarrow> ui \<Rightarrow> ui" where
  "resetState k u = setState k None None 0 0 u"

text \<open>The items shown and how many there are.\<close>

definition shown_items :: "ui \<Rightarrow> (menu_id option \<times> nat) option" where
  "shown_items u =
     (if level (current u) \<noteq> MENU_LEVEL_1
      then do { it \<leftarrow> previous_item u; Some (submenu it, submenu_length it) }
      else Some (Some menuItemsGetHomeMenu, menuItemsGetHomeMenuSize))"

definition max_options :: "ui \<Rightarrow> nat option" where
  "max_options u = map_option snd (shown_items u)"

section \<open>Rendering\<close>

text \<open>Line \<open>i\<close> of the screen; the y coordinate \<open>j = i - 1\<close> is passed as a byte.\<close>

definition render_line :: "nat \<Rightarrow> nat \<Rightarrow> MENU_ITEM \<Rightarrow> effect list" where
  "render_line cursor i it =
     (let j = of_nat i - 1 :: u8 in
      [if i = cursor then OLED_ShowString_2 0 j (cstr (title it)) 12
       else OLED_ShowString 0 j (cstr (title it)) 12] @
      (if status it = NONE_STATUS then []
       else if status it = MENU_SET then [OLED_ShowChar 112 j 0x59 12]
       else if status it = MENU_RESET then [OLED_ShowChar 112 j 0x4e 12]
       else if status it = NON_OPERATE then [OLED_ShowChar 112 j 0x2d 12]
       else []))"

fun render_lines :: "ui \<Rightarrow> menu_id option \<Rightarrow> nat \<Rightarrow> nat \<Rightarrow> nat list \<Rightarrow> effect list option" where
  "render_lines u items first cursor [] = Some []"
| "render_lines u items first cursor (i # is) =
     do { it \<leftarrow> item_at u items (first + i);
          es \<leftarrow> render_lines u items first cursor is;
          Some (render_line cursor i it @ es) }"

definition renderMenu :: "ui \<Rightarrow> ui option" where
  "renderMenu u =
     do { (items, mx) \<leftarrow> shown_items u;
          es \<leftarrow> render_lines u items
                  ((current_item_idx (current u) + 256 - cursor_line (current u)) mod 256)
                  (cursor_line (current u)) [0..<min mx OLED_LINES];
          Some (draw (OLED_Clear # es) u) }"

section \<open>The four buttons\<close>

definition scroll_up :: "ui \<Rightarrow> ui option" where
  "scroll_up u =
     do { mx \<leftarrow> max_options u;
          let s = current u in
          Some (set_current
            (if current_item_idx s \<noteq> 0
             then (if cursor_line s = 0 then s\<lparr>current_item_idx := current_item_idx s - 1\<rparr>
                   else s\<lparr>current_item_idx := current_item_idx s - 1, cursor_line := cursor_line s - 1\<rparr>)
             else (let s = s\<lparr>current_item_idx := (mx + 255) mod 256, cursor_line := OLED_LINES - 1\<rparr> in
                   if current_item_idx s < cursor_line s then s\<lparr>cursor_line := (mx + 255) mod 256\<rparr> else s)) u) }"

definition scroll_down :: "ui \<Rightarrow> ui option" where
  "scroll_down u =
     do { mx \<leftarrow> max_options u;
          let s = current u in
          Some (set_current
            (if int (current_item_idx s) < int mx - 1
             then (if cursor_line s = OLED_LINES - 1 then s\<lparr>current_item_idx := current_item_idx s + 1\<rparr>
                   else s\<lparr>current_item_idx := current_item_idx s + 1, cursor_line := cursor_line s + 1\<rparr>)
             else s\<lparr>current_item_idx := 0, cursor_line := 0\<rparr>) u) }"

definition scroll_confirm :: "ui \<Rightarrow> ui option" where
  "scroll_confirm u =
     do { (items, mx) \<leftarrow> shown_items u;
          let idx = current_item_idx (current u);
          item \<leftarrow> item_at u items idx;
          m \<leftarrow> items;
          let prev = current_state u;
          if render_callback item \<noteq> None
          then (let u = set_current ((current u)\<lparr>current_item := Some (m, idx)\<rparr>) u;
                    s = current u;
                    u = u\<lparr>current_state := MENU_CALLBACK\<rparr>
                in Some (setState MENU_CALLBACK (Some prev) (current_item s) (current_item_idx s) 0 u))
          else if submenu item \<noteq> None
          then (let u = set_current ((current u)\<lparr>current_item := Some (m, idx)\<rparr>) u;
                    next = level (current u) + 1;
                    u = u\<lparr>current_state := next\<rparr>
                in if next < length (menu_states u) then Some (setState next (Some prev) None 0 0 u) else None)
          else Some u }"

definition scroll_cancel :: "ui \<Rightarrow> ui option" where
  "scroll_cancel u =
     (if level (current u) \<noteq> MENU_LEVEL_1
      then do { p \<leftarrow> prev_state (current u); ps \<leftarrow> state_at u p; Some (u\<lparr>current_state := level ps\<rparr>) }
      else Some u)"

text \<open>What follows every button: the menu is drawn, or the callback of the chosen item runs.\<close>

definition refresh :: "env \<Rightarrow> ui \<Rightarrow> ui option" where
  "refresh e u =
     (if level (current u) \<noteq> MENU_CALLBACK then renderMenu u
      else do { p \<leftarrow> prev_state (current u);
                ps \<leftarrow> state_at u p;
                it \<leftarrow> item_ref u (current_item ps);
                c \<leftarrow> render_callback it;
                Some (run_render e c (current_item_idx (current u)) u) })"

definition scrollMenu :: "env \<Rightarrow> MENU_BUTTON_ROLE \<Rightarrow> ui \<Rightarrow> ui option" where
  "scrollMenu e r u =
     do { u \<leftarrow> (case r of MENU_UP \<Rightarrow> scroll_up u | MENU_DOWN \<Rightarrow> scroll_down u
                 | MENU_CONFIRM \<Rightarrow> scroll_confirm u | MENU_CANCEL \<Rightarrow> scroll_cancel u
                 | MENU_NONE \<Rightarrow> Some u);
          refresh e u }"

definition menuReset_No_RenderMenu :: "ui \<Rightarrow> ui" where
  "menuReset_No_RenderMenu u = (let u = u\<lparr>current_state := MENU_LEVEL_1\<rparr> in resetState (current_state u) u)"

definition menuReset :: "ui \<Rightarrow> ui option" where
  "menuReset u = (let u = u\<lparr>current_state := MENU_LEVEL_1\<rparr> in renderMenu (resetState (current_state u) u))"

definition menuInit :: "ui \<Rightarrow> ui" where
  "menuInit u = Arr_Init (menuReset_No_RenderMenu u)"

definition Set_Display_Once_Flag :: "u8 \<Rightarrow> ui \<Rightarrow> ui" where
  "Set_Display_Once_Flag flag u = u\<lparr>display_flag := flag\<rparr>"

definition Get_Display_Once_Flag :: "ui \<Rightarrow> u8" where
  "Get_Display_Once_Flag u = display_flag u"

definition Set_button_num :: "char \<Rightarrow> ui \<Rightarrow> ui" where
  "Set_button_num ch u =
     Set_Display_Once_Flag 1 (u\<lparr>button_num :=
       (if ch = CHR ''w'' then MENU_UP else if ch = CHR ''s'' then MENU_DOWN
        else if ch = CHR ''a'' then MENU_CONFIRM else if ch = CHR ''d'' then MENU_CANCEL
        else MENU_NONE)\<rparr>)"

definition Get_button_num :: "ui \<Rightarrow> MENU_BUTTON_ROLE" where
  "Get_button_num u = button_num u"

definition Set_Exit :: "ui \<Rightarrow> ui" where
  "Set_Exit u = set_current ((current u)\<lparr>level := 4\<rparr>) u"

section \<open>The button callbacks\<close>

definition set_once :: "callback \<Rightarrow> u8 \<Rightarrow> ui \<Rightarrow> ui" where
  "set_once c x u = u\<lparr>once := (once u)(c := x)\<rparr>"

definition set_temp :: "callback \<Rightarrow> u8 \<Rightarrow> ui \<Rightarrow> ui" where
  "set_temp c x u = u\<lparr>temp := (temp u)(c := x)\<rparr>"

text \<open>The switch of the callbacks that wait for a key.\<close>

definition choice_switch :: "callback \<Rightarrow> MENU_BUTTON_ROLE \<Rightarrow> ui \<Rightarrow> bool \<times> ui" where
  "choice_switch c r u =
     (case r of
        MENU_UP \<Rightarrow> (True, set_once c 0 u)
      | MENU_DOWN \<Rightarrow> (True, set_once c 0 u)
      | MENU_CONFIRM \<Rightarrow> (True, if once u c = 0 then set_once c 1 u else u)
      | MENU_CANCEL \<Rightarrow> (True, set_once c 0 u)
      | MENU_NONE \<Rightarrow> (False, u))"

definition Config_Video_Output_ActionCallback :: "MENU_BUTTON_ROLE \<Rightarrow> nat \<Rightarrow> ui \<Rightarrow> bool \<times> ui" where
  "Config_Video_Output_ActionCallback r column u =
     choice_switch Config_Video_Output_Action r
       (if status (menus u Config_Video_Output ! column) \<noteq> NON_OPERATE then draw [OLED_Clear] u else u)"

definition Config_Video_Input_ActionCallback :: "MENU_BUTTON_ROLE \<Rightarrow> nat \<Rightarrow> ui \<Rightarrow> bool \<times> ui" where
  "Config_Video_Input_ActionCallback r column u =
     choice_switch Config_Video_Input_Action r
       (if status (menus u Config_Video_Input ! column) \<noteq> NON_OPERATE then draw [OLED_Clear] u else u)"

definition Config_SRC_Mode_ActionCallback :: "MENU_BUTTON_ROLE \<Rightarrow> nat \<Rightarrow> ui \<Rightarrow> bool \<times> ui" where
  "Config_SRC_Mode_ActionCallback r column u = choice_switch Config_SRC_Mode_Action r (draw [OLED_Clear] u)"

definition Config_SRC_Sync_Type_ActionCallback :: "MENU_BUTTON_ROLE \<Rightarrow> nat \<Rightarrow> ui \<Rightarrow> bool \<times> ui" where
  "Config_SRC_Sync_Type_ActionCallback r column u =
     choice_switch Config_SRC_Sync_Type_Action r (draw [OLED_Clear] u)"

definition Config_SRC_Clock_Type_ActionCallback :: "MENU_BUTTON_ROLE \<Rightarrow> nat \<Rightarrow> ui \<Rightarrow> bool \<times> ui" where
  "Config_SRC_Clock_Type_ActionCallback r column u =
     choice_switch Config_SRC_Clock_Type_Action r (draw [OLED_Clear] u)"

definition Config_SRC_Sync_Frame_ActionCallback :: "MENU_BUTTON_ROLE \<Rightarrow> nat \<Rightarrow> ui \<Rightarrow> bool \<times> ui" where
  "Config_SRC_Sync_Frame_ActionCallback r column u =
     choice_switch Config_SRC_Sync_Frame_Action r (draw [OLED_Clear] u)"

definition Config_Format_ActionCallback :: "MENU_BUTTON_ROLE \<Rightarrow> nat \<Rightarrow> ui \<Rightarrow> bool \<times> ui" where
  "Config_Format_ActionCallback r column u = choice_switch Config_Format_Action r (draw [OLED_Clear] u)"

definition Config_Display_Mode_ActionCallback :: "MENU_BUTTON_ROLE \<Rightarrow> nat \<Rightarrow> ui \<Rightarrow> bool \<times> ui" where
  "Config_Display_Mode_ActionCallback r column u =
     choice_switch Config_Display_Mode_Action r (draw [OLED_Clear] u)"

definition Config_Display_Brightness_ActionCallback :: "MENU_BUTTON_ROLE \<Rightarrow> nat \<Rightarrow> ui \<Rightarrow> bool \<times> ui" where
  "Config_Display_Brightness_ActionCallback r column u =
     choice_switch Config_Display_Brightness_Action r (draw [OLED_Clear] u)"

text \<open>The editors of one byte (address bytes and time offset): \<open>temp\<close> is the value being
  edited, \<open>once\<close> is 0 while an edit is pending.  \<open>get\<close> and \<open>put\<close> access the stored value,
  \<open>after_save\<close> draws after a save and \<open>view\<close> draws the value.\<close>

definition edit_value :: "env \<Rightarrow> callback \<Rightarrow> (store \<Rightarrow> u8) \<Rightarrow> (u8 \<Rightarrow> store \<Rightarrow> store) \<Rightarrow>
    (ui \<Rightarrow> ui) \<Rightarrow> (u8 \<Rightarrow> ui \<Rightarrow> ui) \<Rightarrow> MENU_BUTTON_ROLE \<Rightarrow> ui \<Rightarrow> bool \<times> ui" where
  "edit_value e c get put after_save view r u =
     (let u = draw [OLED_Clear] u;
          u = (if temp u c \<noteq> get (cfg u) \<and> once u c = 1 then set_temp c (get (cfg u)) u else u)
      in case r of
           MENU_UP \<Rightarrow> (let u = set_once c 0 u; u = set_temp c (temp u c + 1) u in (False, view (temp u c) u))
         | MENU_DOWN \<Rightarrow> (let u = set_once c 0 u; u = set_temp c (temp u c - 1) u in (False, view (temp u c) u))
         | MENU_CONFIRM \<Rightarrow>
             (True, if once u c = 0
                    then (let u = map_cfg (put (temp u c)) u;
                              u = draw [show_line MENU_Y ''Save To Flash...''] u;
                              u = after_save (Arr_Update e u)
                          in set_once c 1 u)
                    else u)
         | MENU_CANCEL \<Rightarrow> (True, set_temp c (get (cfg u)) (set_once c 0 u))
         | MENU_NONE \<Rightarrow> (let u = set_temp c (get (cfg u)) u in (False, view (temp u c) u)))"

definition saved_lines :: "effect list" where
  "saved_lines = [show_line MENU_Y ''  Save To Flash'', show_line (MENU_Y + 1) ''The key to exit'']"

definition Config_Network_MAC_ActionCallback :: "env \<Rightarrow> MENU_BUTTON_ROLE \<Rightarrow> nat \<Rightarrow> ui \<Rightarrow> bool \<times> ui" where
  "Config_Network_MAC_ActionCallback e r column u =
     edit_value e Config_Network_MAC_Action
       (\<lambda>c. Mac_Arr c ! column) (\<lambda>x c. c\<lparr>Mac_Arr := (Mac_Arr c)[column := x]\<rparr>)
       (\<lambda>u. draw saved_lines (ip_mac_char (draw [OLED_Clear] u)))
       (\<lambda>x u. let u = my_mac_int_to_char x u in draw [OLED_ShowString 0 MENU_Y (cstr (mac_char u)) 12] u) r u"

definition Config_Network_IP_ActionCallback :: "env \<Rightarrow> MENU_BUTTON_ROLE \<Rightarrow> nat \<Rightarrow> ui \<Rightarrow> bool \<times> ui" where
  "Config_Network_IP_ActionCallback e r column u =
     edit_value e Config_Network_IP_Action
       (\<lambda>c. Ip_Arr c ! column) (\<lambda>x c. c\<lparr>Ip_Arr := (Ip_Arr c)[column := x]\<rparr>)
       (\<lambda>u. ip_mac_char (draw (OLED_Clear # saved_lines) u))
       (\<lambda>x u. let u = ip_int_to_char x u in draw [OLED_ShowString 0 MENU_Y (cstr (ip_char u)) 12] u) r u"

definition Config_GPS_ActionCallback :: "env \<Rightarrow> MENU_BUTTON_ROLE \<Rightarrow> nat \<Rightarrow> ui \<Rightarrow> bool \<times> ui" where
  "Config_GPS_ActionCallback e r column u =
     edit_value e Config_GPS_Action utc_offset_num (\<lambda>x c. c\<lparr>utc_offset_num := x\<rparr>)
       (\<lambda>u. draw (OLED_Clear # saved_lines) u)
       (\<lambda>x u. show_offset x (draw [show_line MENU_Y ''UTC_offset:''] u)) r u"

definition Status_Synch_PrintCallback :: "MENU_BUTTON_ROLE \<Rightarrow> nat \<Rightarrow> ui \<Rightarrow> bool \<times> ui" where
  "Status_Synch_PrintCallback r column u =
     (if r = MENU_CONFIRM \<or> r = MENU_CANCEL then (True, u)
      else (False, Status_Synch_PrintCallbackRender column u))"

definition System_UniversalCallback :: "env \<Rightarrow> MENU_BUTTON_ROLE \<Rightarrow> nat \<Rightarrow> ui \<Rightarrow> bool \<times> ui" where
  "System_UniversalCallback e r column u =
     (if r = MENU_NONE then (False, System_UniversalCallbackRender e column u) else (True, u))"

definition Status_PrintCallback :: "env \<Rightarrow> MENU_BUTTON_ROLE \<Rightarrow> nat \<Rightarrow> ui \<Rightarrow> bool \<times> ui" where
  "Status_PrintCallback e r column u =
     (if r = MENU_NONE then (False, Status_PrintCallbackRender e column u) else (True, u))"

definition Exit_ActionCallback :: "env \<Rightarrow> MENU_BUTTON_ROLE \<Rightarrow> nat \<Rightarrow> ui \<Rightarrow> (bool \<times> ui) option" where
  "Exit_ActionCallback e r column u =
     (let u = Set_button_num CHR ''d'' (Set_Exit u) in
      case r of
        MENU_UP \<Rightarrow> Some (False, set_once Exit_Action 0 u)
      | MENU_DOWN \<Rightarrow> Some (False, set_once Exit_Action 0 u)
      | MENU_CONFIRM \<Rightarrow> Some (False, u)
      | MENU_CANCEL \<Rightarrow>
          do { u \<leftarrow> scrollMenu e r (Set_button_num CHR ''d'' u);
               Some (True, set_once Exit_Action 0 (Set_Display_Once_Flag 0 u)) }
      | MENU_NONE \<Rightarrow> Some (False, u))"

definition Exit2MainMenu_ActionCallback :: "env \<Rightarrow> MENU_BUTTON_ROLE \<Rightarrow> nat \<Rightarrow> ui \<Rightarrow> (bool \<times> ui) option" where
  "Exit2MainMenu_ActionCallback e r column u =
     (let u = Set_button_num CHR ''d'' (Set_Exit u) in
      case r of
        MENU_UP \<Rightarrow> Some (False, set_once Exit2MainMenu_Action 0 u)
      | MENU_DOWN \<Rightarrow> Some (False, set_once Exit2MainMenu_Action 0 u)
      | MENU_CONFIRM \<Rightarrow> Some (False, u)
      | MENU_CANCEL \<Rightarrow>
          do { u \<leftarrow> scrollMenu e r (Set_button_num CHR ''d'' u);
               Some (True, set_once Exit2MainMenu_Action 0 (Set_Display_Once_Flag 0 u)) }
      | MENU_NONE \<Rightarrow> Some (False, u))"

fun run_handler :: "env \<Rightarrow> callback \<Rightarrow> MENU_BUTTON_ROLE \<Rightarrow> nat \<Rightarrow> ui \<Rightarrow> (bool \<times> ui) option" where
  "run_handler e Config_Video_Output_Action r w u = Some (Config_Video_Output_ActionCallback r w u)"
| "run_handler e Config_Video_Input_Action r w u = Some (Config_Video_Input_ActionCallback r w u)"
| "run_handler e Config_Network_MAC_Action r w u = Some (Config_Network_MAC_ActionCallback e r w u)"
| "run_handler e Config_Network_IP_Action r w u = Some (Config_Network_IP_ActionCallback e r w u)"
| "run_handler e Config_GPS_Action r w u = Some (Config_GPS_ActionCallback e r w u)"
| "run_handler e Config_SRC_Mode_Action r w u = Some (Config_SRC_Mode_ActionCallback r w u)"
| "run_handler e Config_SRC_Sync_Type_Action r w u = Some (Config_SRC_Sync_Type_ActionCallback r w u)"
| "run_handler e Config_SRC_Clock_Type_Action r w u = Some (Config_SRC_Clock_Type_ActionCallback r w u)"
| "run_handler e Config_SRC_Sync_Frame_Action r w u = Some (Config_SRC_Sync_Frame_ActionCallback r w u)"
| "run_handler e Config_Format_Action r w u = Some (Config_Format_ActionCallback r w u)"
| "run_handler e Status_Synch_Print r w u = Some (Status_Synch_PrintCallback r w u)"
| "run_handler e Config_Display_Mode_Action r w u = Some (Config_Display_Mode_ActionCallback r w u)"
| "run_handler e Config_Display_Brightness_Action r w u = Some (Config_Display_Brightness_ActionCallback r w u)"
| "run_handler e System_Universal r w u = Some (System_UniversalCallback e r w u)"
| "run_handler e Status_Print r w u = Some (Status_PrintCallback e r w u)"
| "run_handler e Exit_Action r w u = Exit_ActionCallback e r w u"
| "run_handler e Exit2MainMenu_Action r w u = Exit2MainMenu_ActionCallback e r w u"

definition role_of_key :: "u8 \<Rightarrow> MENU_BUTTON_ROLE" where
  "role_of_key key_mode =
     (if key_mode = evKeyDown then MENU_DOWN else if key_mode = evKeyUP then MENU_UP
      else if key_mode = evKeyConfirm then MENU_CONFIRM else if key_mode = evKeyCancal then MENU_CANCEL
      else MENU_NONE)"

definition menuPollButtons :: "env \<Rightarrow> u8 \<Rightarrow> ui \<Rightarrow> ui option" where
  "menuPollButtons e key_mode u =
     (let r = role_of_key key_mode;
          b = (button u)\<lparr>role := r, state := (if r = MENU_NONE then 0x0000 else 0xF000)\<rparr>
      in if state b = 0xF000
         then (let u = u\<lparr>button := b\<lparr>pressed := True\<rparr>\<rparr> in
               if level (current u) \<noteq> MENU_CALLBACK then scrollMenu e r u
               else do { p \<leftarrow> prev_state (current u);
                         ps \<leftarrow> state_at u p;
                         it \<leftarrow> item_ref u (current_item ps);
                         c \<leftarrow> btn_handle_callback it;
                         (exited, u) \<leftarrow> run_handler e c r (current_item_idx (current u)) u;
                         if exited
                         then do { p \<leftarrow> prev_state (current u);
                                   ps \<leftarrow> state_at u p;
                                   renderMenu (u\<lparr>current_state := level ps\<rparr>) }
                         else Some u })
         else Some (u\<lparr>button := b\<lparr>pressed := False\<rparr>\<rparr>))"

end
