(* ===== verification/MenuSafety.thy ===== *)
theory MenuSafety
  imports Menu
begin

text \<open>
  The invariant of the menu state machine, that every operation keeps it, and what follows:
  a key never makes the menu follow a null pointer or index past a table, with one exception.
\<close>

section \<open>The shape of the tables\<close>

fun depth :: "menu_id \<Rightarrow> nat" where
  "depth Home = 0"
| "depth System = 1" | "depth Config = 1" | "depth Status = 1"
| "depth System_Feature = 2" | "depth Config_Format = 2" | "depth Config_Video = 2"
| "depth Config_Audio = 2" | "depth Config_Network = 2" | "depth Config_SRC = 2"
| "depth Config_Display = 2" | "depth Status_Synch = 2"
| "depth Config_Video_Input = 3" | "depth Config_Video_Output = 3" | "depth Config_Network_IP = 3"
| "depth Config_Network_MAC = 3" | "depth Config_SRC_Mode = 3" | "depth Config_SRC_Sync_Type = 3"
| "depth Config_SRC_Clock_Type = 3" | "depth Config_SRC_Sync_Frame = 3"
| "depth Config_Display_Mode = 3" | "depth Config_Display_Brightness = 3"

text \<open>The menu a callback belongs to, and the entries it is prepared for: the columns it uses
  to index the configuration arrays.\<close>

fun column_ok :: "callback \<Rightarrow> menu_id \<Rightarrow> nat \<Rightarrow> bool" where
  "column_ok Config_Video_Output_Action m i \<longleftrightarrow> m = Config_Video_Output \<and> i < 2"
| "column_ok Config_Video_Input_Action m i \<longleftrightarrow> m = Config_Video_Input \<and> i < 3"
| "column_ok Config_Network_MAC_Action m i \<longleftrightarrow> m = Config_Network_MAC \<and> i < 6"
| "column_ok Config_Network_IP_Action m i \<longleftrightarrow> m = Config_Network_IP \<and> i < 4"
| "column_ok Config_GPS_Action m i \<longleftrightarrow> m = Config \<and> i = 4"
| "column_ok Config_SRC_Mode_Action m i \<longleftrightarrow> m = Config_SRC_Mode \<and> i < 2"
| "column_ok Config_SRC_Sync_Type_Action m i \<longleftrightarrow> m = Config_SRC_Sync_Type \<and> i < 12"
| "column_ok Config_SRC_Clock_Type_Action m i \<longleftrightarrow> m = Config_SRC_Clock_Type \<and> i < 3"
| "column_ok Config_SRC_Sync_Frame_Action m i \<longleftrightarrow> m = Config_SRC_Sync_Frame \<and> i < 6"
| "column_ok Config_Format_Action m i \<longleftrightarrow> m = Config_Format \<and> i < 17"
| "column_ok Status_Synch_Print m i \<longleftrightarrow> m = Status_Synch \<and> i < 2"
| "column_ok Config_Display_Mode_Action m i \<longleftrightarrow> m = Config_Display_Mode \<and> i < 3"
| "column_ok Config_Display_Brightness_Action m i \<longleftrightarrow> m = Config_Display_Brightness \<and> i < 2"
| "column_ok System_Universal m i \<longleftrightarrow> m = System \<and> i < 4"
| "column_ok Status_Print m i \<longleftrightarrow> m = Status \<and> i < 4"
| "column_ok Exit_Action m i \<longleftrightarrow> m \<noteq> Home \<and> i = length (menu_table m) - 1"
| "column_ok Exit2MainMenu_Action m i \<longleftrightarrow> m = Home \<and> i = 3"

definition shape :: "MENU_ITEM \<Rightarrow> callback option \<times> callback option \<times> nat \<times> menu_id option" where
  "shape it = (render_callback it, btn_handle_callback it, submenu_length it, submenu it)"

definition entry_ok :: "menu_id \<Rightarrow> nat \<times> MENU_ITEM \<Rightarrow> bool" where
  "entry_ok m = (\<lambda>(i, it). btn_handle_callback it = render_callback it \<and>
     (case submenu it of None \<Rightarrow> True
      | Some m' \<Rightarrow> submenu_length it = length (menu_table m') \<and> depth m' = Suc (depth m)) \<and>
     (case render_callback it of None \<Rightarrow> True | Some c \<Rightarrow> column_ok c m i))"

lemmas table_defs = Status_Synch_menu_def Config_Format_menu_def Config_Video_Output_menu_def
  Config_Video_Input_menu_def Config_Video_menu_def Config_Audio_menu_def Config_Network_IP_menu_def
  Config_Network_MAC_menu_def Config_Network_menu_def Config_SRC_Mode_menu_def
  Config_SRC_Sync_Type_menu_def Config_SRC_Clock_Type_menu_def Config_SRC_Sync_Frame_menu_def
  Config_SRC_menu_def Config_Display_Mode_menu_def Config_Display_Brightness_menu_def
  Config_Display_menu_def System_Feature_menu_def System_menu_def Config_menu_def Status_menu_def
  home_items_def

lemma length_tables [simp]:
  "length Status_Synch_menu = 3" "length Config_Format_menu = 18" "length Config_Video_Output_menu = 3"
  "length Config_Video_Input_menu = 4" "length Config_Video_menu = 3" "length Config_Audio_menu = 3"
  "length Config_Network_IP_menu = 5" "length Config_Network_MAC_menu = 7" "length Config_Network_menu = 3"
  "length Config_SRC_Mode_menu = 3" "length Config_SRC_Sync_Type_menu = 13"
  "length Config_SRC_Clock_Type_menu = 4" "length Config_SRC_Sync_Frame_menu = 7" "length Config_SRC_menu = 5"
  "length Config_Display_Mode_menu = 4" "length Config_Display_Brightness_menu = 3"
  "length Config_Display_menu = 3" "length System_Feature_menu = 6" "length System_menu = 6"
  "length Config_menu = 8" "length Status_menu = 6" "length home_items = 4"
  by (simp_all add: table_defs)

lemma entry_ok_items [simp]:
  "entry_ok m (i, action_item t c st) \<longleftrightarrow> column_ok c m i"
  "entry_ok m (i, submenu_item t n m') \<longleftrightarrow> n = length (menu_table m') \<and> depth m' = Suc (depth m)"
  "entry_ok m (i, plain_item t st)"
  by (auto simp: entry_ok_def action_item_def submenu_item_def plain_item_def)

lemma menu_entries: "list_all (entry_ok m) (enumerate 0 (menu_table m))"
  by (cases m) (simp_all only: menu_table.simps table_defs enumerate_simps list.pred_inject, simp_all)

lemma menu_entry: "i < length (menu_table m) \<Longrightarrow> entry_ok m (i, menu_table m ! i)"
  using menu_entries[of m] by (auto simp: list_all_length nth_enumerate_eq)

lemma menu_submenus: "list_all (\<lambda>it. submenu it = None \<or> render_callback it = None) (menu_table m)"
  by (cases m) (simp_all only: menu_table.simps table_defs list.pred_inject,
    simp_all add: action_item_def submenu_item_def plain_item_def)

lemma menu_submenu_no_callback:
  "i < length (menu_table m) \<Longrightarrow> submenu (menu_table m ! i) = None \<or> render_callback (menu_table m ! i) = None"
  using menu_submenus[of m] by (simp add: list_all_length)

lemma menu_last_exit: "m \<noteq> Home \<Longrightarrow> render_callback (menu_table m ! (length (menu_table m) - 1)) = Some Exit_Action"
  by (cases m) (simp_all add: table_defs action_item_def)

lemma depth_le: "depth m \<le> 3"
  by (cases m) simp_all

lemma menu_size: "0 < length (menu_table m)" "length (menu_table m) \<le> 18"
  by (cases m; simp)+

section \<open>The invariant\<close>

definition menus_ok :: "(menu_id \<Rightarrow> MENU_ITEM list) \<Rightarrow> bool" where
  "menus_ok ms \<longleftrightarrow> (\<forall>m. map shape (ms m) = map shape (menu_table m))"

text \<open>A level shows the menu \<open>m\<close>: the chosen entry exists, the cursor is on the screen, and
  the window of at most eight lines lies inside the menu.\<close>

definition level_ok :: "MENU_STATE \<Rightarrow> menu_id \<Rightarrow> bool" where
  "level_ok s m \<longleftrightarrow>
     (let n = length (menu_table m); i = current_item_idx s; c = cursor_line s in
      c < OLED_LINES \<and> c \<le> i \<and> i < n \<and> (i - c) + min n OLED_LINES \<le> n)"

fun chain :: "MENU_STATE list \<Rightarrow> nat \<Rightarrow> menu_id \<Rightarrow> bool" where
  "chain st 0 m \<longleftrightarrow> m = Home \<and> level_ok (st ! 0) Home \<and> prev_state (st ! 0) = None"
| "chain st (Suc k) m \<longleftrightarrow> level_ok (st ! Suc k) m \<and> prev_state (st ! Suc k) = Some k \<and>
     (\<exists>m0. chain st k m0 \<and> current_item (st ! k) = Some (m0, current_item_idx (st ! k)) \<and>
       submenu (menu_table m0 ! current_item_idx (st ! k)) = Some m)"

definition in_callback :: "MENU_STATE list \<Rightarrow> nat \<Rightarrow> menu_id \<Rightarrow> callback \<Rightarrow> bool" where
  "in_callback st k m c \<longleftrightarrow> k < 4 \<and> chain st k m \<and> prev_state (st ! 4) = Some k \<and>
     current_item (st ! k) = Some (m, current_item_idx (st ! k)) \<and>
     current_item_idx (st ! 4) = current_item_idx (st ! k) \<and>
     render_callback (menu_table m ! current_item_idx (st ! k)) = Some c"

definition levels_ok :: "MENU_STATE list \<Rightarrow> bool" where
  "levels_ok st \<longleftrightarrow> map level st = [0, 1, 2, 3, 4]"

definition menu_inv :: "ui \<Rightarrow> bool" where
  "menu_inv u \<longleftrightarrow> menus_ok (menus u) \<and> levels_ok (menu_states u) \<and>
     ((current_state u < 4 \<and> (\<exists>m. chain (menu_states u) (current_state u) m)) \<or>
      (current_state u = 4 \<and> (\<exists>k m c. in_callback (menu_states u) k m c)))"

subsection \<open>Consequences\<close>

lemma levels_ok_nth: "levels_ok st \<Longrightarrow> length st = 5"
  "levels_ok st \<Longrightarrow> k < 5 \<Longrightarrow> level (st ! k) = k"
proof -
  assume l: "levels_ok st"
  then have "length (map level st) = 5" by (simp only: levels_ok_def) simp
  then show n: "length st = 5" by simp
  show "level (st ! k) = k" if "k < 5"
  proof -
    have "level (st ! k) = map level st ! k" using that n by simp
    also have "\<dots> = [0, 1, 2, 3, 4] ! k" using l by (simp only: levels_ok_def)
    also have "\<dots> = k" using that by (auto simp: less_Suc_eq numeral_eq_Suc)
    finally show ?thesis .
  qed
qed

lemma menus_ok_nth:
  assumes "menus_ok ms"
  shows "length (ms m) = length (menu_table m)"
    and "i < length (menu_table m) \<Longrightarrow> shape (ms m ! i) = shape (menu_table m ! i)"
proof -
  have e: "map shape (ms m) = map shape (menu_table m)" using assms by (simp add: menus_ok_def)
  from arg_cong[OF e, of length] show l: "length (ms m) = length (menu_table m)" by simp
  show "shape (ms m ! i) = shape (menu_table m ! i)" if "i < length (menu_table m)"
    using arg_cong[OF e, of "\<lambda>l. l ! i"] that l by simp
qed

lemma shapeD:
  assumes "shape a = shape b"
  shows "render_callback a = render_callback b" "btn_handle_callback a = btn_handle_callback b"
    "submenu_length a = submenu_length b" "submenu a = submenu b"
  using assms by (simp_all add: shape_def)

lemmas menus_ok_shape = shapeD[OF menus_ok_nth(2)]

lemma chain_level: "chain st k m \<Longrightarrow> level_ok (st ! k) m"
  by (cases k) auto

lemma chain_depth: "chain st k m \<Longrightarrow> depth m = k"
proof (induction k arbitrary: m)
  case (Suc k)
  then obtain m0 where "chain st k m0" "submenu (menu_table m0 ! current_item_idx (st ! k)) = Some m"
    by auto
  moreover from this(1) have "current_item_idx (st ! k) < length (menu_table m0)"
    using chain_level by (fastforce simp: level_ok_def Let_def)
  ultimately show ?case
    using menu_entry[of "current_item_idx (st ! k)" m0] Suc.IH by (simp add: entry_ok_def)
qed simp

lemma chain_bound: "chain st k m \<Longrightarrow> k < 4"
  using chain_depth[of st k m] depth_le[of m] by simp

lemma chain_cong:
  "\<lbrakk>chain st k m; \<And>j. j < k \<Longrightarrow> st' ! j = st ! j; level_ok (st' ! k) m;
    prev_state (st' ! k) = prev_state (st ! k)\<rbrakk> \<Longrightarrow> chain st' k m"
proof (induction k arbitrary: m)
  case (Suc k)
  then obtain m0 where m0: "chain st k m0" "current_item (st ! k) = Some (m0, current_item_idx (st ! k))"
      "submenu (menu_table m0 ! current_item_idx (st ! k)) = Some m" by auto
  have "chain st' k m0"
    using Suc.prems m0(1) chain_level[OF m0(1)] by (intro Suc.IH) auto
  then show ?case using Suc.prems m0 by auto
qed auto

lemma chain_prefix: "chain st (Suc k) m \<Longrightarrow> \<exists>m0. chain st k m0"
  by auto

lemma chain_unique: "chain st k m \<Longrightarrow> chain st k m' \<Longrightarrow> m = m'"
  by (cases k) auto

section \<open>What the callbacks leave alone\<close>

named_theorems frame "parts of the user interface an operation does not touch"

lemma draw_frame [frame, simp]:
  "menu_states (draw es u) = menu_states u" "current_state (draw es u) = current_state u"
  "menus (draw es u) = menus u" "once (draw es u) = once u" "temp (draw es u) = temp u"
  "event_q (draw es u) = event_q u" "cnt_down (draw es u) = cnt_down u"
  by (simp_all add: draw_def)

lemma map_cfg_frame [frame, simp]:
  "menu_states (map_cfg f u) = menu_states u" "current_state (map_cfg f u) = current_state u"
  "menus (map_cfg f u) = menus u" "once (map_cfg f u) = once u" "temp (map_cfg f u) = temp u"
  "event_q (map_cfg f u) = event_q u" "cnt_down (map_cfg f u) = cnt_down u"
  "cfg (map_cfg f u) = f (cfg u)"
  by (simp_all add: map_cfg_def)

lemma char_frame [frame, simp]:
  "menu_states (ip_int_to_char n u) = menu_states u" "current_state (ip_int_to_char n u) = current_state u"
  "menus (ip_int_to_char n u) = menus u" "cfg (ip_int_to_char n u) = cfg u"
  "once (ip_int_to_char n u) = once u" "temp (ip_int_to_char n u) = temp u"
  "menu_states (my_mac_int_to_char n u) = menu_states u"
  "current_state (my_mac_int_to_char n u) = current_state u"
  "menus (my_mac_int_to_char n u) = menus u" "cfg (my_mac_int_to_char n u) = cfg u"
  "once (my_mac_int_to_char n u) = once u" "temp (my_mac_int_to_char n u) = temp u"
  by (simp_all add: ip_int_to_char_def my_mac_int_to_char_def)

lemma menus_ok_update:
  "menus_ok ms \<Longrightarrow> map shape its = map shape (ms m) \<Longrightarrow> menus_ok (ms(m := its))"
  by (simp add: menus_ok_def)

lemma shape_simps [simp]: "shape (it\<lparr>status := s\<rparr>) = shape it" "shape (it\<lparr>title := t\<rparr>) = shape it"
  by (simp_all add: shape_def)

lemma map_nth_shape: "(\<And>i. i < length its \<Longrightarrow> shape (f i) = shape (its ! i)) \<Longrightarrow>
    map shape (map f [0..<length its]) = map shape its"
  by (rule nth_equalityI) auto

lemma choose_entry_frame [frame, simp]:
  "menu_states (choose_entry sk m n w u) = menu_states u"
  "current_state (choose_entry sk m n w u) = current_state u"
  "cfg (choose_entry sk m n w u) = cfg u"
  "once (choose_entry sk m n w u) = once u" "temp (choose_entry sk m n w u) = temp u"
  "menus_ok (menus u) \<Longrightarrow> menus_ok (menus (choose_entry sk m n w u))"
  by (auto simp: choose_entry_def Let_def intro!: menus_ok_update map_nth_shape)

lemma set_title_frame [frame, simp]:
  "menu_states (set_title m i t u) = menu_states u" "current_state (set_title m i t u) = current_state u"
  "cfg (set_title m i t u) = cfg u" "once (set_title m i t u) = once u" "temp (set_title m i t u) = temp u"
  "menus_ok (menus u) \<Longrightarrow> menus_ok (menus (set_title m i t u))"
proof -
  have "map shape ((menus u m)[i := (menus u m ! i)\<lparr>title := t'\<rparr>]) = map shape (menus u m)" for t'
    by (cases "i < length (menus u m)") (auto intro!: nth_equalityI simp: nth_list_update list_update_beyond)
  then show "menus_ok (menus u) \<Longrightarrow> menus_ok (menus (set_title m i t u))"
    by (simp add: set_title_def menus_ok_update)
qed (simp_all add: set_title_def)

lemma fold_frame:
  assumes "\<And>x u. menus_ok (menus u) \<Longrightarrow> menus_ok (menus (f x u))"
    "\<And>x u. menu_states (f x u) = menu_states u" "\<And>x u. current_state (f x u) = current_state u"
    "\<And>x u. cfg (f x u) = cfg u" "\<And>x u. once (f x u) = once u" "\<And>x u. temp (f x u) = temp u"
  shows "menu_states (fold f xs u) = menu_states u" "current_state (fold f xs u) = current_state u"
    "cfg (fold f xs u) = cfg u" "once (fold f xs u) = once u" "temp (fold f xs u) = temp u"
    "menus_ok (menus u) \<Longrightarrow> menus_ok (menus (fold f xs u))"
  by (induction xs arbitrary: u) (simp_all add: assms)

lemma ip_mac_char_frame [frame, simp]:
  "menu_states (ip_mac_char u) = menu_states u" "current_state (ip_mac_char u) = current_state u"
  "cfg (ip_mac_char u) = cfg u" "once (ip_mac_char u) = once u" "temp (ip_mac_char u) = temp u"
  "menus_ok (menus u) \<Longrightarrow> menus_ok (menus (ip_mac_char u))"
  by (simp_all add: ip_mac_char_def fold_frame Let_def)

lemma Arr_Update_frame [frame, simp]:
  "menu_states (Arr_Update e u) = menu_states u" "current_state (Arr_Update e u) = current_state u"
  "menus (Arr_Update e u) = menus u" "once (Arr_Update e u) = once u" "temp (Arr_Update e u) = temp u"
  by (simp_all add: Arr_Update_def)

lemma show_offset_frame [frame, simp]:
  "menu_states (show_offset t u) = menu_states u" "current_state (show_offset t u) = current_state u"
  "menus (show_offset t u) = menus u" "once (show_offset t u) = once u" "temp (show_offset t u) = temp u"
  by (simp_all add: show_offset_def Let_def)

lemma push_event_frame [frame, simp]:
  "menu_states (push_event ev p u) = menu_states u" "current_state (push_event ev p u) = current_state u"
  "menus (push_event ev p u) = menus u" "cfg (push_event ev p u) = cfg u"
  "menu_states (SetWorkMode md u) = menu_states u" "current_state (SetWorkMode md u) = current_state u"
  "menus (SetWorkMode md u) = menus u" "cfg (SetWorkMode md u) = cfg u"
  "menu_states (Set_cnt_down n u) = menu_states u" "current_state (Set_cnt_down n u) = current_state u"
  "menus (Set_cnt_down n u) = menus u" "cfg (Set_cnt_down n u) = cfg u"
  by (simp_all add: push_event_def SetWorkMode_def Set_cnt_down_def)

lemmas render_defs = Config_Video_Output_ActionCallbackRender_def Config_Video_Input_ActionCallbackRender_def
  Config_Network_MAC_ActionCallbackRender_def Config_Network_IP_ActionCallbackRender_def
  Config_GPS_ActionCallbackRender_def Config_SRC_Mode_ActionCallbackRender_def
  Config_SRC_Sync_Type_ActionCallbackRender_def Config_SRC_Clock_Type_ActionCallbackRender_def
  Config_SRC_Sync_Frame_ActionCallbackRender_def Config_Format_ActionCallbackRender_def
  Status_Synch_PrintCallbackRender_def Config_Display_Mode_ActionCallbackRender_def
  Config_Display_Brightness_ActionCallbackRender_def System_UniversalCallbackRender_def
  Status_PrintCallbackRender_def Exit_ActionCallbackRender_def Exit2MainMenu_ActionCallbackRender_def
  fpga_choice_def

lemma run_render_frame [frame, simp]:
  "menu_states (run_render e c w u) = menu_states u" "current_state (run_render e c w u) = current_state u"
  "menus_ok (menus u) \<Longrightarrow> menus_ok (menus (run_render e c w u))"
  by (cases c; simp add: render_defs Let_def)+

declare run_render.simps [simp del]

lemmas handler_defs = Config_Video_Output_ActionCallback_def Config_Video_Input_ActionCallback_def
  Config_Network_MAC_ActionCallback_def Config_Network_IP_ActionCallback_def Config_GPS_ActionCallback_def
  Config_SRC_Mode_ActionCallback_def Config_SRC_Sync_Type_ActionCallback_def
  Config_SRC_Clock_Type_ActionCallback_def Config_SRC_Sync_Frame_ActionCallback_def
  Config_Format_ActionCallback_def Status_Synch_PrintCallback_def Config_Display_Mode_ActionCallback_def
  Config_Display_Brightness_ActionCallback_def System_UniversalCallback_def Status_PrintCallback_def

lemma set_once_temp_frame [frame, simp]:
  "menu_states (set_once c x u) = menu_states u" "current_state (set_once c x u) = current_state u"
  "menus (set_once c x u) = menus u" "cfg (set_once c x u) = cfg u"
  "menu_states (set_temp c x u) = menu_states u" "current_state (set_temp c x u) = current_state u"
  "menus (set_temp c x u) = menus u" "cfg (set_temp c x u) = cfg u"
  "once (set_once c x u) = (once u)(c := x)" "temp (set_once c x u) = temp u"
  "once (set_temp c x u) = once u" "temp (set_temp c x u) = (temp u)(c := x)"
  by (simp_all add: set_once_def set_temp_def)

lemma choice_switch_frame [frame, simp]:
  "menu_states (snd (choice_switch c r u)) = menu_states u"
  "current_state (snd (choice_switch c r u)) = current_state u"
  "menus (snd (choice_switch c r u)) = menus u"
  by (simp_all add: choice_switch_def split: MENU_BUTTON_ROLE.split)

lemma edit_value_frame:
  assumes "\<And>u. menu_states (after_save u) = menu_states u" "\<And>u. current_state (after_save u) = current_state u"
    "\<And>u. menus_ok (menus u) \<Longrightarrow> menus_ok (menus (after_save u))"
    "\<And>x u. menu_states (view x u) = menu_states u" "\<And>x u. current_state (view x u) = current_state u"
    "\<And>x u. menus (view x u) = menus u"
  shows "menu_states (snd (edit_value e c get put after_save view r u)) = menu_states u"
    "current_state (snd (edit_value e c get put after_save view r u)) = current_state u"
    "menus_ok (menus u) \<Longrightarrow> menus_ok (menus (snd (edit_value e c get put after_save view r u)))"
  by (cases r; simp add: edit_value_def Let_def assms)+

definition is_exit :: "callback \<Rightarrow> bool" where
  "is_exit c \<longleftrightarrow> c = Exit_Action \<or> c = Exit2MainMenu_Action"

lemma run_handler_frame:
  assumes "\<not> is_exit c"
  shows "\<exists>b u'. run_handler e c r w u = Some (b, u') \<and> menu_states u' = menu_states u \<and>
    current_state u' = current_state u \<and> (menus_ok (menus u) \<longrightarrow> menus_ok (menus u'))"
proof -
  have "\<exists>x. run_handler e c r w u = Some x \<and> menu_states (snd x) = menu_states u \<and>
      current_state (snd x) = current_state u \<and> (menus_ok (menus u) \<longrightarrow> menus_ok (menus (snd x)))"
    using assms
    by (cases c) (auto simp: is_exit_def handler_defs render_defs Let_def edit_value_frame)
  then show ?thesis by (metis prod.collapse)
qed

section \<open>The buttons keep the invariant\<close>

lemma item_at_table:
  "menus_ok (menus u) \<Longrightarrow> i < length (menu_table m) \<Longrightarrow> item_at u (Some m) i = Some (menus u m ! i)"
  by (simp add: item_at_def menus_ok_nth(1))

lemma level_index: "level_ok s m \<Longrightarrow> current_item_idx s < length (menu_table m)"
  by (simp add: level_ok_def Let_def)

lemma current_level: "levels_ok (menu_states u) \<Longrightarrow> current_state u < 5 \<Longrightarrow> level (current u) = current_state u"
  by (simp add: current_def levels_ok_nth)

lemma state_at_ok: "levels_ok (menu_states u) \<Longrightarrow> k < 5 \<Longrightarrow> state_at u k = Some (menu_states u ! k)"
  by (simp add: state_at_def levels_ok_nth)

lemma shown_items_chain:
  assumes "menus_ok (menus u)" "levels_ok (menu_states u)" "chain (menu_states u) (current_state u) m"
  shows "shown_items u = Some (Some m, length (menu_table m))"
proof (cases "current_state u")
  case 0
  then show ?thesis
    using assms current_level[OF assms(2)] by (simp add: shown_items_def MENU_LEVEL_1_def menuItemsGetHomeMenu_def menuItemsGetHomeMenuSize_def)
next
  case (Suc j)
  then obtain m0 where m0: "chain (menu_states u) j m0"
      "current_item (menu_states u ! j) = Some (m0, current_item_idx (menu_states u ! j))"
      "submenu (menu_table m0 ! current_item_idx (menu_states u ! j)) = Some m"
      "prev_state (menu_states u ! Suc j) = Some j"
    using assms(3) by auto
  let ?i = "current_item_idx (menu_states u ! j)"
  have i: "?i < length (menu_table m0)" using chain_level[OF m0(1)] by (rule level_index)
  have lv: "Suc j < 4" using chain_bound[OF assms(3)] Suc by simp
  have "previous_item u = Some (menus u m0 ! ?i)"
    using m0 lv i assms Suc
    by (simp add: previous_item_def current_def state_at_ok levels_ok_nth item_ref_def item_at_table)
  moreover have "submenu_length (menu_table m0 ! ?i) = length (menu_table m)"
    using menu_entry[OF i] m0(3) by (simp add: entry_ok_def)
  ultimately show ?thesis
    using current_level[OF assms(2)] lv Suc menus_ok_shape(3,4)[OF assms(1) i] m0(3)
    by (simp add: shown_items_def MENU_LEVEL_1_def)
qed

text \<open>What a level looks like on the screen: the entries of the window, the chosen one inverted.\<close>

definition window_lines :: "MENU_ITEM list \<Rightarrow> MENU_STATE \<Rightarrow> effect list" where
  "window_lines its s =
     concat (map (\<lambda>i. render_line (cursor_line s) i (its ! (current_item_idx s - cursor_line s + i)))
       [0..<min (length its) OLED_LINES])"

lemma render_lines_some:
  "menus_ok (menus u) \<Longrightarrow> \<forall>i \<in> set is. first + i < length (menu_table m) \<Longrightarrow>
   render_lines u (Some m) first c is = Some (concat (map (\<lambda>i. render_line c i (menus u m ! (first + i))) is))"
  by (induction "is") (simp_all add: item_at_table)

lemma renderMenu_chain:
  assumes "menus_ok (menus u)" "levels_ok (menu_states u)" "chain (menu_states u) (current_state u) m"
  shows "renderMenu u = Some (draw (OLED_Clear # window_lines (menus u m) (current u)) u)"
proof -
  let ?s = "current u" and ?n = "length (menu_table m)"
  have l: "level_ok ?s m" using chain_level[OF assms(3)] by (simp add: current_def)
  have first: "(current_item_idx ?s + 256 - cursor_line ?s) mod 256 = current_item_idx ?s - cursor_line ?s"
  proof -
    have "cursor_line ?s \<le> current_item_idx ?s" "current_item_idx ?s < 256"
      using l menu_size(2)[of m] by (simp_all add: level_ok_def Let_def)
    then obtain d where "current_item_idx ?s = cursor_line ?s + d" "d < 256"
      using le_Suc_ex by auto
    then show ?thesis by simp
  qed
  have "\<forall>i \<in> set [0..<min ?n OLED_LINES]. current_item_idx ?s - cursor_line ?s + i < ?n"
    using l by (auto simp: level_ok_def Let_def)
  then show ?thesis
    unfolding renderMenu_def shown_items_chain[OF assms] first
    by (simp add: render_lines_some[OF assms(1)] window_lines_def menus_ok_nth(1)[OF assms(1)] first)
qed

lemma chain_set_current:
  assumes "chain (menu_states u) (current_state u) m" "levels_ok (menu_states u)" "level_ok s m"
    "prev_state s = prev_state (current u)" "level s = level (current u)"
  shows "chain (menu_states (set_current s u)) (current_state u) m" "levels_ok (menu_states (set_current s u))"
proof -
  have k: "current_state u < 4" using chain_bound[OF assms(1)] .
  have n: "length (menu_states u) = 5" using levels_ok_nth(1)[OF assms(2)] .
  show "chain (menu_states (set_current s u)) (current_state u) m"
    using chain_cong[OF assms(1), of "menu_states (set_current s u)"] k n assms(3,4)
    by (simp add: set_current_def current_def)
  have "map level ((menu_states u)[current_state u := s]) = map level (menu_states u)"
    using k n assms(5) by (simp add: map_update current_def list_update_same_conv)
  then show "levels_ok (menu_states (set_current s u))"
    using assms(2) by (simp add: levels_ok_def set_current_def)
qed

lemma set_current_frame [simp]:
  "current_state (set_current s u) = current_state u" "menus (set_current s u) = menus u"
  "cfg (set_current s u) = cfg u"
  by (simp_all add: set_current_def)

lemma scroll_up_ok:
  assumes "menus_ok (menus u)" "levels_ok (menu_states u)" "chain (menu_states u) (current_state u) m"
  shows "\<exists>s. scroll_up u = Some (set_current s u) \<and> level_ok s m \<and> prev_state s = prev_state (current u) \<and>
    level s = level (current u) \<and> current_item s = current_item (current u) \<and>
    current_item_idx s = (current_item_idx (current u) + length (menu_table m) - 1) mod length (menu_table m)"
proof -
  have l: "level_ok (current u) m" using chain_level[OF assms(3)] by (simp add: current_def)
  have n: "(length (menu_table m) + 255) mod 256 = length (menu_table m) - 1"
    using menu_size[of m] by (intro dec_mod_256) simp_all
  have dec: "i \<noteq> 0 \<Longrightarrow> i < k \<Longrightarrow> (i + k - Suc 0) mod k = i - 1" for i k :: nat
    by (cases i) simp_all
  show ?thesis
    using l menu_size[of m] unfolding scroll_up_def max_options_def shown_items_chain[OF assms]
    by (auto simp: Let_def n level_ok_def OLED_LINES_def dec)
qed

lemma scroll_down_ok:
  assumes "menus_ok (menus u)" "levels_ok (menu_states u)" "chain (menu_states u) (current_state u) m"
  shows "\<exists>s. scroll_down u = Some (set_current s u) \<and> level_ok s m \<and> prev_state s = prev_state (current u) \<and>
    level s = level (current u) \<and> current_item s = current_item (current u) \<and>
    current_item_idx s = (current_item_idx (current u) + 1) mod length (menu_table m)"
proof -
  have l: "level_ok (current u) m" using chain_level[OF assms(3)] by (simp add: current_def)
  show ?thesis
    using l menu_size[of m] unfolding scroll_down_def max_options_def shown_items_chain[OF assms]
    by (auto simp: Let_def level_ok_def OLED_LINES_def mod_Suc)
qed

lemma level_ok_reset: "current_item_idx s = 0 \<Longrightarrow> cursor_line s = 0 \<Longrightarrow> level_ok s m"
  using menu_size(1)[of m] by (simp add: level_ok_def Let_def OLED_LINES_def)

lemma levels_ok_update:
  "levels_ok st \<Longrightarrow> k < 5 \<Longrightarrow> level s = k \<Longrightarrow> levels_ok (st[k := s])"
proof -
  assume a: "levels_ok st" "k < 5" "level s = k"
  have "map level (st[k := s]) = map level st"
    using a(2,3) levels_ok_nth[OF a(1)] by (simp add: map_update list_update_same_conv)
  then show ?thesis using a(1) by (simp only: levels_ok_def)
qed

lemma scroll_confirm_ok:
  assumes "menus_ok (menus u)" "levels_ok (menu_states u)" "chain (menu_states u) (current_state u) m"
  defines "it \<equiv> menu_table m ! current_item_idx (current u)"
  obtains
    (callback) c u' where "render_callback it = Some c" "scroll_confirm u = Some u'"
      "menus u' = menus u" "cfg u' = cfg u" "levels_ok (menu_states u')" "current_state u' = 4"
      "in_callback (menu_states u') (current_state u) m c"
      "current_item_idx (current u') = current_item_idx (current u)"
      "once u' = once u" "temp u' = temp u" "event_q u' = event_q u"
      "\<And>j. j < current_state u \<Longrightarrow> menu_states u' ! j = menu_states u ! j"
  | (submenu) m' u' where "render_callback it = None" "submenu it = Some m'" "scroll_confirm u = Some u'"
      "menus u' = menus u" "cfg u' = cfg u" "levels_ok (menu_states u')" "current_state u' = Suc (current_state u)"
      "chain (menu_states u') (current_state u') m'" "chain (menu_states u') (current_state u) m"
      "current_item_idx (menu_states u' ! current_state u) = current_item_idx (current u)"
      "current_item_idx (current u') = 0" "event_q u' = event_q u" "once u' = once u" "temp u' = temp u"
  | (plain) "render_callback it = None" "submenu it = None" "scroll_confirm u = Some u"
proof -
  let ?k = "current_state u" and ?st = "menu_states u" and ?i = "current_item_idx (current u)"
  let ?s = "(current u)\<lparr>current_item := Some (m, ?i)\<rparr>"
  have k: "?k < 4" using chain_bound[OF assms(3)] .
  have n: "length ?st = 5" using levels_ok_nth(1)[OF assms(2)] .
  have l: "level_ok (current u) m" using chain_level[OF assms(3)] by (simp add: current_def)
  note i = level_index[OF l]
  note i' = i[unfolded current_def]
  note sh = menus_ok_shape[OF assms(1) i']
  have lv: "level (current u) = ?k" using current_level[OF assms(2)] k by simp
  have l4: "level (?st ! 4) = 4" using levels_ok_nth(2)[OF assms(2), of 4] by simp
  have ls: "level_ok ?s m" using l by (simp add: level_ok_def)
  have st1: "chain (?st[?k := ?s]) ?k m" "levels_ok (?st[?k := ?s])"
    using chain_set_current[OF assms(3,2), of ?s] l by (simp_all add: set_current_def level_ok_def)
  show ?thesis
  proof (cases "render_callback it")
    case (Some c)
    define st' where "st' = ?st[?k := ?s, 4 := (?st ! 4)\<lparr>prev_state := Some ?k,
        current_item := Some (m, ?i), current_item_idx := ?i, cursor_line := 0\<rparr>]"
    have "scroll_confirm u = Some (u\<lparr>menu_states := st', current_state := 4\<rparr>)"
      using Some k n unfolding scroll_confirm_def shown_items_chain[OF assms(1-3)]
      by (simp add: item_at_table[OF assms(1) i'] sh it_def set_current_def setState_def current_def
          MENU_CALLBACK_def st'_def Let_def)
    moreover have "levels_ok st'"
      unfolding st'_def by (rule levels_ok_update[OF st1(2)]) (simp_all add: l4)
    moreover have "chain st' ?k m"
      unfolding st'_def using k n by (intro chain_cong[OF st1(1)]) (simp_all add: ls)
    then have "in_callback st' ?k m c"
      using k n Some by (simp add: in_callback_def st'_def it_def current_def)
    ultimately show ?thesis
      using Some n k by (intro callback[of c "u\<lparr>menu_states := st', current_state := 4\<rparr>"])
        (simp_all add: current_def st'_def)
  next
    case None
    show ?thesis
    proof (cases "submenu it")
      case (Some m')
      have "depth m' = Suc ?k"
        using menu_entry[OF i] Some chain_depth[OF assms(3)] by (simp add: entry_ok_def it_def)
      then have k3: "Suc ?k < 4" using depth_le[of m'] by simp
      have lk: "level (?st ! Suc ?k) = Suc ?k" using levels_ok_nth(2)[OF assms(2)] k3 by simp
      define st' where "st' = ?st[?k := ?s, Suc ?k := (?st ! Suc ?k)\<lparr>prev_state := Some ?k,
          current_item := None, current_item_idx := 0, cursor_line := 0\<rparr>]"
      have "scroll_confirm u = Some (u\<lparr>menu_states := st', current_state := Suc ?k\<rparr>)"
        using None Some k3 n lv[unfolded current_def] unfolding scroll_confirm_def shown_items_chain[OF assms(1-3)]
        by (simp add: item_at_table[OF assms(1) i'] sh it_def set_current_def setState_def current_def
            st'_def Let_def)
      moreover have "levels_ok st'"
        unfolding st'_def using k3 by (intro levels_ok_update[OF st1(2)]) (simp_all add: lk)
      moreover have c: "chain st' ?k m"
        unfolding st'_def using k n by (intro chain_cong[OF st1(1)]) (simp_all add: ls)
      then have "chain st' (Suc ?k) m'"
        using k3 n Some by (auto simp: st'_def it_def current_def intro!: level_ok_reset)
      ultimately show ?thesis
        using None Some k3 n by (intro submenu[of m' "u\<lparr>menu_states := st', current_state := Suc ?k\<rparr>"])
          (simp_all add: st'_def current_def)
    next
      case n2: None
      have "scroll_confirm u = Some u"
        using None n2 unfolding scroll_confirm_def shown_items_chain[OF assms(1-3)]
        by (simp add: item_at_table[OF assms(1) i'] sh it_def current_def Let_def)
      from plain[OF None n2 this] show ?thesis .
    qed
  qed
qed

lemma scroll_cancel_ok:
  assumes "levels_ok (menu_states u)" "chain (menu_states u) (current_state u) m"
  shows "\<exists>m'. scroll_cancel u = Some (u\<lparr>current_state := current_state u - 1\<rparr>) \<and>
    chain (menu_states u) (current_state u - 1) m'"
proof (cases "current_state u")
  case 0
  then show ?thesis
    using assms current_level[OF assms(1)] by (auto simp: scroll_cancel_def MENU_LEVEL_1_def)
next
  case (Suc j)
  then have j: "Suc j < 4" using chain_bound[OF assms(2)] by simp
  then show ?thesis
    using assms Suc current_level[OF assms(1)]
    by (auto simp: scroll_cancel_def MENU_LEVEL_1_def current_def state_at_ok levels_ok_nth)
qed

text \<open>After a button on a menu level: either a level is drawn or a callback has been run.\<close>

lemma refresh_level:
  assumes "menus_ok (menus u)" "levels_ok (menu_states u)" "chain (menu_states u) (current_state u) m"
  shows "refresh e u = Some (draw (OLED_Clear # window_lines (menus u m) (current u)) u)"
  using current_level[OF assms(2)] chain_bound[OF assms(3)]
  by (simp add: refresh_def MENU_CALLBACK_def renderMenu_chain[OF assms])

lemma in_callbackD:
  assumes "in_callback st k m c"
  shows "k < 4" "chain st k m" "prev_state (st ! 4) = Some k"
    "current_item (st ! k) = Some (m, current_item_idx (st ! k))"
    "current_item_idx (st ! 4) = current_item_idx (st ! k)"
    "render_callback (menu_table m ! current_item_idx (st ! k)) = Some c"
    "current_item_idx (st ! k) < length (menu_table m)"
    "column_ok c m (current_item_idx (st ! k))"
    "btn_handle_callback (menu_table m ! current_item_idx (st ! k)) = Some c"
proof -
  show *: "k < 4" "chain st k m" "prev_state (st ! 4) = Some k"
    "current_item (st ! k) = Some (m, current_item_idx (st ! k))"
    "current_item_idx (st ! 4) = current_item_idx (st ! k)"
    "render_callback (menu_table m ! current_item_idx (st ! k)) = Some c"
    using assms by (simp_all add: in_callback_def)
  show i: "current_item_idx (st ! k) < length (menu_table m)"
    using chain_level[OF *(2)] by (rule level_index)
  show "column_ok c m (current_item_idx (st ! k))"
    "btn_handle_callback (menu_table m ! current_item_idx (st ! k)) = Some c"
    using menu_entry[OF i] *(6) by (simp_all add: entry_ok_def)
qed

lemma callback_ref:
  assumes "menus_ok (menus u)" "levels_ok (menu_states u)" "current_state u = 4"
    "in_callback (menu_states u) k m c"
  shows "prev_state (current u) = Some k" "state_at u k = Some (menu_states u ! k)"
    "\<exists>it. item_ref u (current_item (menu_states u ! k)) = Some it \<and> render_callback it = Some c \<and>
      btn_handle_callback it = Some c"
proof -
  note d = in_callbackD[OF assms(4)]
  show "prev_state (current u) = Some k" using d(3) assms(3) by (simp add: current_def)
  show "state_at u k = Some (menu_states u ! k)" using d(1) state_at_ok[OF assms(2)] by simp
  show "\<exists>it. item_ref u (current_item (menu_states u ! k)) = Some it \<and> render_callback it = Some c \<and>
      btn_handle_callback it = Some c"
    using menus_ok_shape(1,2)[OF assms(1) d(7)] d(4,6,9)
    by (simp add: item_ref_def item_at_table[OF assms(1) d(7)])
qed

lemma refresh_callback:
  assumes "menus_ok (menus u)" "levels_ok (menu_states u)" "current_state u = 4"
    "in_callback (menu_states u) k m c"
  shows "refresh e u = Some (run_render e c (current_item_idx (current u)) u)"
  using callback_ref[OF assms] current_level[OF assms(2)] assms(3)
  by (auto simp: refresh_def MENU_CALLBACK_def)

section \<open>Every key keeps the invariant\<close>

lemma menu_inv_levelI:
  "menus_ok (menus u) \<Longrightarrow> levels_ok (menu_states u) \<Longrightarrow> chain (menu_states u) (current_state u) m \<Longrightarrow> menu_inv u"
  using chain_bound by (auto simp: menu_inv_def)

lemma menu_inv_callbackI:
  "menus_ok (menus u) \<Longrightarrow> levels_ok (menu_states u) \<Longrightarrow> current_state u = 4 \<Longrightarrow>
   in_callback (menu_states u) k m c \<Longrightarrow> menu_inv u"
  by (auto simp: menu_inv_def)

lemma menu_inv_cong:
  "menu_inv u \<Longrightarrow> menu_states u' = menu_states u \<Longrightarrow> current_state u' = current_state u \<Longrightarrow>
   menus_ok (menus u') \<Longrightarrow> menu_inv u'"
  by (simp add: menu_inv_def)

lemma menu_inv_draw [simp]: "menu_inv (draw es u) = menu_inv u"
  by (simp add: menu_inv_def)

lemma menu_inv_cases:
  assumes "menu_inv u"
  obtains (level) m where "menus_ok (menus u)" "levels_ok (menu_states u)" "current_state u < 4"
      "chain (menu_states u) (current_state u) m"
  | (callback) k m c where "menus_ok (menus u)" "levels_ok (menu_states u)" "current_state u = 4"
      "in_callback (menu_states u) k m c"
  using assms by (auto simp: menu_inv_def)

lemma refresh_inv: "menu_inv u \<Longrightarrow> \<exists>u'. refresh e u = Some u' \<and> menu_inv u'"
proof (erule menu_inv_cases)
  fix m assume a: "menus_ok (menus u)" "levels_ok (menu_states u)" "current_state u < 4"
    "chain (menu_states u) (current_state u) m"
  then show ?thesis
    using refresh_level[OF a(1,2,4)] by (auto intro!: menu_inv_levelI)
next
  fix k m c assume a: "menus_ok (menus u)" "levels_ok (menu_states u)" "current_state u = 4"
    "in_callback (menu_states u) k m c"
  then show ?thesis
    using refresh_callback[OF a] by (auto intro!: menu_inv_callbackI)
qed

lemma scroll_inv:
  assumes "menus_ok (menus u)" "levels_ok (menu_states u)" "chain (menu_states u) (current_state u) m"
  shows "\<exists>u1. (case r of MENU_UP \<Rightarrow> scroll_up u | MENU_DOWN \<Rightarrow> scroll_down u
      | MENU_CONFIRM \<Rightarrow> scroll_confirm u | MENU_CANCEL \<Rightarrow> scroll_cancel u | MENU_NONE \<Rightarrow> Some u) = Some u1 \<and> menu_inv u1"
proof (cases r)
  case MENU_UP
  obtain s where s: "scroll_up u = Some (set_current s u)" "level_ok s m" "prev_state s = prev_state (current u)"
      "level s = level (current u)" using scroll_up_ok[OF assms] by (elim exE conjE)
  then show ?thesis
    using MENU_UP assms(1) chain_set_current[OF assms(3,2) s(2-4)] by (auto intro!: menu_inv_levelI)
next
  case MENU_DOWN
  obtain s where s: "scroll_down u = Some (set_current s u)" "level_ok s m" "prev_state s = prev_state (current u)"
      "level s = level (current u)" using scroll_down_ok[OF assms] by (elim exE conjE)
  then show ?thesis
    using MENU_DOWN assms(1) chain_set_current[OF assms(3,2) s(2-4)] by (auto intro!: menu_inv_levelI)
next
  case MENU_CONFIRM
  show ?thesis
    using MENU_CONFIRM assms(1)
    by (rule_tac scroll_confirm_ok[OF assms])
      (auto intro: menu_inv_levelI menu_inv_callbackI menu_inv_levelI[OF assms])
next
  case MENU_CANCEL
  show ?thesis
    using MENU_CANCEL scroll_cancel_ok[OF assms(2,3)] assms(1,2) by (auto intro!: menu_inv_levelI)
qed (auto intro: menu_inv_levelI[OF assms])

lemma scrollMenu_inv:
  assumes "menus_ok (menus u)" "levels_ok (menu_states u)" "chain (menu_states u) (current_state u) m"
  shows "\<exists>u'. scrollMenu e r u = Some u' \<and> menu_inv u'"
  using scroll_inv[OF assms, of r] refresh_inv by (fastforce simp: scrollMenu_def)

text \<open>Cancelling out of a level: the parent is drawn.\<close>

lemma scrollMenu_cancel_callback:
  assumes "menus_ok (menus u)" "levels_ok (menu_states u)" "current_state u = 4"
    "in_callback (menu_states u) k m c"
  shows "scrollMenu e MENU_CANCEL u =
    Some (draw (OLED_Clear # window_lines (menus u m) (menu_states u ! k)) (u\<lparr>current_state := k\<rparr>))"
proof -
  note d = in_callbackD[OF assms(4)]
  have "scroll_cancel u = Some (u\<lparr>current_state := k\<rparr>)"
    using assms(3) d(1,3) current_level[OF assms(2)] state_at_ok[OF assms(2)] levels_ok_nth(2)[OF assms(2)]
    by (simp add: scroll_cancel_def MENU_LEVEL_1_def current_def)
  then show ?thesis
    using refresh_level[of "u\<lparr>current_state := k\<rparr>" m e] assms(1,2) d(2)
    by (simp add: scrollMenu_def current_def)
qed

text \<open>The one dangerous position: the callback of the home menu's Exit entry.\<close>

definition at_home_exit :: "ui \<Rightarrow> bool" where
  "at_home_exit u \<longleftrightarrow> current_state u = 4 \<and> in_callback (menu_states u) 0 Home Exit2MainMenu_Action"

lemma set_exit_same:
  assumes "levels_ok (menu_states u)" "current_state u = 4"
  shows "Set_Exit u = u"
proof -
  have "(current u)\<lparr>level := 4\<rparr> = current u"
    using current_level[OF assms(1)] assms(2) by simp
  then show ?thesis by (simp add: Set_Exit_def set_current_def current_def)
qed

lemma button_frame [frame, simp]:
  "menu_states (Set_button_num ch u) = menu_states u" "current_state (Set_button_num ch u) = current_state u"
  "menus (Set_button_num ch u) = menus u" "cfg (Set_button_num ch u) = cfg u"
  "menu_states (Set_Display_Once_Flag x u) = menu_states u"
  "current_state (Set_Display_Once_Flag x u) = current_state u"
  "menus (Set_Display_Once_Flag x u) = menus u" "cfg (Set_Display_Once_Flag x u) = cfg u"
  by (simp_all add: Set_button_num_def Set_Display_Once_Flag_def)

lemma exit_handler:
  assumes "menus_ok (menus u)" "levels_ok (menu_states u)" "current_state u = 4"
    "in_callback (menu_states u) k m c" "is_exit c"
  shows "\<exists>b u'. run_handler e c r w u = Some (b, u') \<and> b = (r = MENU_CANCEL) \<and> menu_states u' = menu_states u \<and>
    current_state u' = (if r = MENU_CANCEL then k else 4) \<and> menus u' = menus u"
proof -
  have s: "Set_Exit u = u" by (rule set_exit_same[OF assms(2,3)])
  have "\<exists>u1. scrollMenu e MENU_CANCEL (Set_button_num CHR ''d'' (Set_button_num CHR ''d'' u)) = Some u1 \<and>
      menu_states u1 = menu_states u \<and> current_state u1 = k \<and> menus u1 = menus u"
    using scrollMenu_cancel_callback[of "Set_button_num CHR ''d'' (Set_button_num CHR ''d'' u)" k m c] assms by simp
  then show ?thesis
    using assms(3,5)
    by (cases r) (auto simp: is_exit_def Exit_ActionCallback_def Exit2MainMenu_ActionCallback_def s Let_def)
qed

lemma chain_exit_parent:
  assumes "chain st k m" "levels_ok st"
  shows "prev_state (st ! k) = (if k = 0 then None else Some (k - 1))"
  using assms(1) by (cases k) auto

lemma menuPollButtons_callback:
  assumes "menus_ok (menus u)" "levels_ok (menu_states u)" "current_state u = 4"
    "in_callback (menu_states u) k m c" "r \<noteq> MENU_NONE" "role_of_key key = r"
  shows "menuPollButtons e key u =
    do { (exited, u') \<leftarrow> run_handler e c r (current_item_idx (menu_states u ! k))
           (u\<lparr>button := (button u)\<lparr>role := r, state := 0xF000, pressed := True\<rparr>\<rparr>);
         if exited then do { p \<leftarrow> prev_state (current u'); ps \<leftarrow> state_at u' p;
                             renderMenu (u'\<lparr>current_state := level ps\<rparr>) }
         else Some u' }"
proof -
  let ?u = "u\<lparr>button := (button u)\<lparr>role := r, state := 0xF000, pressed := True\<rparr>\<rparr>"
  have f: "menus ?u = menus u" "menu_states ?u = menu_states u" "current_state ?u = current_state u" by simp_all
  note ref = callback_ref[of ?u k m c, unfolded f, OF assms(1-4)]
  have idx: "current_item_idx (current ?u) = current_item_idx (menu_states u ! k)"
    using in_callbackD(5)[OF assms(4)] assms(3) by (simp add: current_def)
  have lv: "level (current ?u) = 4" using current_level[of ?u] assms(2,3) by simp
  show ?thesis
    using assms(5,6) ref lv idx by (auto simp: menuPollButtons_def Let_def MENU_CALLBACK_def)
qed

lemma poll_callback_inv:
  assumes "menus_ok (menus u)" "levels_ok (menu_states u)" "current_state u = 4"
    "in_callback (menu_states u) k m c" "r \<noteq> MENU_NONE" "role_of_key key = r"
  shows "if c = Exit2MainMenu_Action \<and> r = MENU_CANCEL then menuPollButtons e key u = None
    else \<exists>u'. menuPollButtons e key u = Some u' \<and> menu_inv u'"
proof -
  let ?u = "u\<lparr>button := (button u)\<lparr>role := r, state := 0xF000, pressed := True\<rparr>\<rparr>"
  note poll = menuPollButtons_callback[OF assms, of e]
  note d = in_callbackD[OF assms(4)]
  show ?thesis
  proof (cases "is_exit c")
    case False
    obtain b u' where h: "run_handler e c r (current_item_idx (menu_states u ! k)) ?u = Some (b, u')"
        "menu_states u' = menu_states u" "current_state u' = current_state u" "menus_ok (menus u')"
      using run_handler_frame[OF False, of e r "current_item_idx (menu_states u ! k)" ?u] assms(1) by auto
    have "\<exists>u''. menuPollButtons e key u = Some u'' \<and> menu_inv u''"
    proof (cases b)
      case True
      have s: "state_at u' k = Some (menu_states u ! k)" "level (menu_states u ! k) = k"
          "prev_state (current u') = Some k"
        using d(1,3) h(2,3) assms(2,3) by (simp_all add: state_at_ok levels_ok_nth current_def)
      have "menu_inv (u'\<lparr>current_state := k\<rparr>)"
        using h(2,4) assms(2) d(2) by (intro menu_inv_levelI[where m = m]) simp_all
      moreover have "renderMenu (u'\<lparr>current_state := k\<rparr>) =
          Some (draw (OLED_Clear # window_lines (menus u' m) (menu_states u ! k)) (u'\<lparr>current_state := k\<rparr>))"
        using renderMenu_chain[of "u'\<lparr>current_state := k\<rparr>" m] h(2,4) assms(2) d(2) by (simp add: current_def)
      ultimately show ?thesis
        using poll h(1) s True by simp
    next
      case False
      have "menu_inv u'" using h(2,3,4) assms(2,3,4) by (intro menu_inv_callbackI) simp_all
      then show ?thesis using poll h(1) False by auto
    qed
    then show ?thesis using False by (auto simp: is_exit_def)
  next
    case True
    obtain b u' where h: "run_handler e c r (current_item_idx (menu_states u ! k)) ?u = Some (b, u')"
        "b = (r = MENU_CANCEL)" "menu_states u' = menu_states u"
        "current_state u' = (if r = MENU_CANCEL then k else 4)" "menus u' = menus u"
      using exit_handler[of ?u k m c e r "current_item_idx (menu_states u ! k)"] assms(1-4) True by auto
    show ?thesis
    proof (cases "r = MENU_CANCEL")
      case False
      have "menu_inv u'" using h(3-5) False assms(1-4) by (intro menu_inv_callbackI) simp_all
      then show ?thesis using poll h(1,2) False by auto
    next
      case r: True
      have prev: "prev_state (current u') = (if k = 0 then None else Some (k - 1))"
        using chain_exit_parent[OF d(2) assms(2)] h(3,4) r by (simp add: current_def)
      have k0: "k = 0 \<longleftrightarrow> m = Home" using chain_depth[OF d(2)] by (cases m) auto
      show ?thesis
      proof (cases "c = Exit2MainMenu_Action")
        case c: True
        then have "k = 0" using d(8) k0 by simp
        then show ?thesis using poll h(1,2) r c prev by simp
      next
        case c: False
        then have ce: "c = Exit_Action" using True by (simp add: is_exit_def)
        then have "k \<noteq> 0" using d(8) k0 by simp
        then obtain j where j: "k = Suc j" by (cases k) auto
        then obtain m0 where m0: "chain (menu_states u) j m0" using d(2) by auto
        let ?v = "u'\<lparr>current_state := j\<rparr>"
        have v: "menus_ok (menus ?v)" "levels_ok (menu_states ?v)" "chain (menu_states ?v) (current_state ?v) m0"
          using h(3,5) assms(1,2) m0 by simp_all
        have "state_at u' j = Some (menu_states u ! j)" "level (menu_states u ! j) = j"
          using d(1) j h(3) assms(2) by (simp_all add: state_at_ok levels_ok_nth)
        then have "menuPollButtons e key u = renderMenu ?v"
          using poll h(1,2) r prev j by simp
        then show ?thesis
          using renderMenu_chain[OF v] menu_inv_levelI[OF v] ce by simp
      qed
    qed
  qed
qed

lemma poll_inv:
  assumes "menu_inv u"
  shows "if at_home_exit u \<and> key = evKeyCancal then menuPollButtons e key u = None
    else \<exists>u'. menuPollButtons e key u = Some u' \<and> menu_inv u'"
proof (cases "role_of_key key = MENU_NONE")
  case True
  then have "key \<noteq> evKeyCancal" by (auto simp: role_of_key_def evKeyDown_def evKeyUP_def evKeyConfirm_def evKeyCancal_def)
  then show ?thesis
    using True assms by (auto simp: menuPollButtons_def Let_def intro: menu_inv_cong simp: menu_inv_def)
next
  case False
  from assms show ?thesis
  proof (cases rule: menu_inv_cases)
    case (level m)
    let ?u = "u\<lparr>button := (button u)\<lparr>role := role_of_key key, state := 0xF000, pressed := True\<rparr>\<rparr>"
    have "level (current ?u) \<noteq> MENU_CALLBACK"
      using current_level[of ?u] level by (simp add: MENU_CALLBACK_def)
    then have "menuPollButtons e key u = scrollMenu e (role_of_key key) ?u"
      using False by (simp add: menuPollButtons_def Let_def)
    then show ?thesis
      using scrollMenu_inv[of ?u m e "role_of_key key"] level by (simp add: at_home_exit_def)
  next
    case (callback k m c)
    have "role_of_key key = MENU_CANCEL \<longleftrightarrow> key = evKeyCancal"
      by (simp add: role_of_key_def evKeyDown_def evKeyUP_def evKeyConfirm_def evKeyCancal_def)
    moreover have "at_home_exit u \<longleftrightarrow> c = Exit2MainMenu_Action"
    proof
      assume "c = Exit2MainMenu_Action"
      then have "m = Home" using in_callbackD(8)[OF callback(4)] by simp
      then have "k = 0" using chain_depth[OF in_callbackD(2)[OF callback(4)]] by simp
      then show "at_home_exit u"
        using callback \<open>c = _\<close> \<open>m = Home\<close> by (simp add: at_home_exit_def)
    next
      assume "at_home_exit u"
      then have h: "in_callback (menu_states u) 0 Home Exit2MainMenu_Action" by (simp add: at_home_exit_def)
      have "k = 0" using in_callbackD(3)[OF h] in_callbackD(3)[OF callback(4)] by simp
      then show "c = Exit2MainMenu_Action"
        using in_callbackD(4,6)[OF h] in_callbackD(4,6)[OF callback(4)] by simp
    qed
    ultimately show ?thesis
      using poll_callback_inv[OF callback False refl, of e] by simp
  qed
qed

end
