(* ===== verification/MenuProps.thy ===== *)
theory MenuProps
  imports MenuSafety
begin

text \<open>
  What the menu does for its user: every key sequence is safe up to the home menu's Exit, the
  arrows walk a ring, the chosen entry is the highlighted one, a confirmed choice reaches
  the configuration, the FPGA and the flash, and the value editors store what was dialled in.
\<close>

section \<open>Start and sequences of keys\<close>

definition menu_states0 :: "MENU_STATE list" where
  "menu_states0 = map (\<lambda>k. \<lparr>prev_state = None, current_item = None, current_item_idx = 0,
     cursor_line = 0, level = k\<rparr>) [0, 1, 2, 3, 4]"

definition fpga_status0 :: fpga_status where
  "fpga_status0 = \<lparr>Reg_0x8d_num = 0, Reg_0x84_num = 0, Reg_0x83_num = 0, vid_link_flag = 0\<rparr>"

text \<open>The statics when the program starts, with the configuration already loaded.\<close>

definition ui0 :: "store \<Rightarrow> ui" where
  "ui0 c = \<lparr>menus = menu_table, menu_states = menu_states0, current_state = 0,
     button = \<lparr>role = MENU_UP, state = 0, pressed = False\<rparr>, button_num = MENU_UP, display_flag = 0,
     once = (\<lambda>_. 1), temp = (\<lambda>_. 0), ip_char = replicate 4 0, mac_char = replicate 3 0,
     fpga = fpga_status0, workMode = MODE_ON, cnt_down = 0, event_q = event_state0, cfg = c\<rparr>"

fun press_keys :: "env \<Rightarrow> u8 list \<Rightarrow> ui \<Rightarrow> ui option" where
  "press_keys e [] u = Some u"
| "press_keys e (k # ks) u = do { u \<leftarrow> menuPollButtons e k u; press_keys e ks u }"

lemma press_keys_append: "press_keys e (ks @ ks') u = do { u \<leftarrow> press_keys e ks u; press_keys e ks' u }"
proof (induction ks arbitrary: u)
  case (Cons k ks)
  then show ?case by (cases "menuPollButtons e k u") simp_all
qed simp

lemma menu_inv_reset:
  assumes "menus_ok (menus u)" "levels_ok (menu_states u)"
  shows "menu_inv (menuReset_No_RenderMenu u)"
    and "chain (menu_states (menuReset_No_RenderMenu u)) 0 Home"
    and "current_state (menuReset_No_RenderMenu u) = 0"
proof -
  have n: "length (menu_states u) = 5" "level (menu_states u ! 0) = 0"
    using levels_ok_nth[OF assms(2)] by simp_all
  let ?s = "(menu_states u ! 0)\<lparr>prev_state := None, current_item := None, current_item_idx := 0, cursor_line := 0\<rparr>"
  have s: "menu_states (menuReset_No_RenderMenu u) = (menu_states u)[0 := ?s]"
      "current_state (menuReset_No_RenderMenu u) = 0" "menus (menuReset_No_RenderMenu u) = menus u"
    by (simp_all add: menuReset_No_RenderMenu_def resetState_def setState_def MENU_LEVEL_1_def)
  show "chain (menu_states (menuReset_No_RenderMenu u)) 0 Home"
    using n by (simp add: s level_ok_reset)
  moreover have "levels_ok ((menu_states u)[0 := ?s])"
    using n by (intro levels_ok_update[OF assms(2)]) simp_all
  ultimately show "menu_inv (menuReset_No_RenderMenu u)"
    using assms(1) s by (intro menu_inv_levelI[where m = Home]) simp_all
  show "current_state (menuReset_No_RenderMenu u) = 0" by (rule s(2))
qed

lemma load_status_frame [frame, simp]:
  "menu_states (load_status m n arr u) = menu_states u" "current_state (load_status m n arr u) = current_state u"
  "cfg (load_status m n arr u) = cfg u" "event_q (load_status m n arr u) = event_q u"
  "menus_ok (menus u) \<Longrightarrow> menus_ok (menus (load_status m n arr u))"
  by (auto simp: load_status_def intro!: menus_ok_update map_nth_shape)

lemma event_q_frame [frame, simp]:
  "event_q (ip_int_to_char n u) = event_q u" "event_q (my_mac_int_to_char n u) = event_q u"
  "event_q (set_title m i t u) = event_q u"
  by (simp_all add: ip_int_to_char_def my_mac_int_to_char_def set_title_def)

lemma fold_event_q: "(\<And>x u. event_q (f x u) = event_q u) \<Longrightarrow> event_q (fold f xs u) = event_q u"
  by (induction xs arbitrary: u) simp_all

lemma Arr_Init_event_q [frame, simp]: "event_q (Arr_Init u) = event_q u"
  by (simp add: Arr_Init_def ip_mac_char_def Let_def fold_event_q)

lemma Arr_Init_frame [frame, simp]:
  "menu_states (Arr_Init u) = menu_states u" "current_state (Arr_Init u) = current_state u"
  "cfg (Arr_Init u) = cfg u" "menus_ok (menus u) \<Longrightarrow> menus_ok (menus (Arr_Init u))"
  by (simp_all add: Arr_Init_def Let_def)

lemma ui0_ok: "menus_ok (menus (ui0 c))" "levels_ok (menu_states (ui0 c))"
  by (simp_all add: ui0_def menus_ok_def levels_ok_def menu_states0_def)

lemma menuInit_inv: "menu_inv (menuInit (ui0 c))"
proof -
  note r = menu_inv_reset[OF ui0_ok, of c]
  have "menus_ok (menus (menuReset_No_RenderMenu (ui0 c)))" using r(1) by (simp add: menu_inv_def)
  then show ?thesis
    using menu_inv_cong[OF r(1), of "menuInit (ui0 c)"] by (simp add: menuInit_def)
qed

lemma press_keys_inv:
  "menu_inv u \<Longrightarrow> press_keys e ks u = Some u' \<Longrightarrow> menu_inv u'"
proof (induction ks arbitrary: u)
  case (Cons k ks)
  then obtain u1 where "menuPollButtons e k u = Some u1" "press_keys e ks u1 = Some u'"
    by (auto simp: bind_eq_Some_conv)
  then show ?case using Cons.IH poll_inv[OF Cons.prems(1), where key = k and e = e] by (auto split: if_splits)
qed simp

lemma press_keys_stuck:
  "menu_inv u \<Longrightarrow> press_keys e ks u = None \<Longrightarrow>
   \<exists>ks1 ks2 u1. ks = ks1 @ evKeyCancal # ks2 \<and> press_keys e ks1 u = Some u1 \<and> at_home_exit u1"
proof (induction ks arbitrary: u)
  case (Cons k ks)
  note p = poll_inv[OF Cons.prems(1), where key = k and e = e]
  show ?case
  proof (cases "menuPollButtons e k u")
    case None
    then have "at_home_exit u" "k = evKeyCancal" using p by (auto split: if_splits)
    then show ?thesis by (intro exI[of _ "[]"] exI[of _ ks] exI[of _ u]) simp
  next
    case (Some u1)
    then have "menu_inv u1" "press_keys e ks u1 = None" using p Cons.prems(2) by (auto split: if_splits)
    from Cons.IH[OF this] obtain ks1 ks2 u2 where
      "ks = ks1 @ evKeyCancal # ks2" "press_keys e ks1 u1 = Some u2" "at_home_exit u2" by (elim exE conjE)
    then show ?thesis using Some by (intro exI[of _ "k # ks1"] exI[of _ ks2] exI[of _ u2]) simp
  qed
qed simp

text \<open>C1: From power-up, no sequence of keys makes the menu follow a null pointer, call a null
  callback or index outside a menu, and the window on the screen stays inside the menu shown -
  with exactly one exception: the cancel event taken while the Exit entry of the home menu is
  active, which reads the missing parent of the home level.\<close>

theorem menu_safe:
  "case press_keys e ks (menuInit (ui0 c)) of
     Some u \<Rightarrow> menu_inv u \<and>
       (menuPollButtons e key u = None) = (at_home_exit u \<and> key = evKeyCancal)
   | None \<Rightarrow> \<exists>ks1 ks2 u1. ks = ks1 @ evKeyCancal # ks2 \<and>
       press_keys e ks1 (menuInit (ui0 c)) = Some u1 \<and> at_home_exit u1"
proof (cases "press_keys e ks (menuInit (ui0 c))")
  case None
  then show ?thesis using press_keys_stuck[OF menuInit_inv None] by simp
next
  case (Some u)
  then have "menu_inv u" using press_keys_inv[OF menuInit_inv] by simp
  then show ?thesis using Some poll_inv[of u key e] by (auto split: if_splits)
qed

definition demo_env :: env where
  "demo_env = \<lparr>env_hal = nor_flash, env_vers = demo_versions, env_phy = 0x784d\<rparr>"

section \<open>The arrow keys\<close>

text \<open>The menu level \<open>m\<close> is showing and its entry \<open>i\<close> is chosen.\<close>

definition showing :: "ui \<Rightarrow> menu_id \<Rightarrow> nat \<Rightarrow> bool" where
  "showing u m i \<longleftrightarrow> menus_ok (menus u) \<and> levels_ok (menu_states u) \<and>
     chain (menu_states u) (current_state u) m \<and> current_item_idx (current u) = i"

lemma showing_index: "showing u m i \<Longrightarrow> i < length (menu_table m)"
  using chain_level level_index by (fastforce simp: showing_def current_def)

lemma showing_inv: "showing u m i \<Longrightarrow> menu_inv u"
  by (auto simp: showing_def intro: menu_inv_levelI)

lemma menuInit_showing: "showing (menuInit (ui0 c)) Home 0"
proof -
  note r = menu_inv_reset[OF ui0_ok, of c]
  have "menus_ok (menus (menuReset_No_RenderMenu (ui0 c)))" "levels_ok (menu_states (menuReset_No_RenderMenu (ui0 c)))"
    using r(1) by (simp_all add: menu_inv_def)
  moreover have "current_item_idx (menu_states (menuReset_No_RenderMenu (ui0 c)) ! 0) = 0"
    by (simp add: menuReset_No_RenderMenu_def resetState_def setState_def MENU_LEVEL_1_def ui0_def menu_states0_def)
  ultimately show ?thesis using r(2,3) by (simp add: showing_def menuInit_def current_def)
qed

lemma role_of_keys [simp]:
  "role_of_key evKeyUP = MENU_UP" "role_of_key evKeyDown = MENU_DOWN"
  "role_of_key evKeyConfirm = MENU_CONFIRM" "role_of_key evKeyCancal = MENU_CANCEL"
  by (simp_all add: role_of_key_def evKeyDown_def evKeyUP_def evKeyConfirm_def evKeyCancal_def)

text \<open>Moving about only draws: the editors' statics, the menus and the settings stay.\<close>

definition keeps :: "ui \<Rightarrow> ui \<Rightarrow> bool" where
  "keeps u u' \<longleftrightarrow> once u' = once u \<and> temp u' = temp u \<and> menus u' = menus u \<and> event_q u' = event_q u \<and>
     (\<exists>es. cfg u' = emit es (cfg u))"

lemma keeps_refl [simp]: "keeps u u"
  by (auto simp: keeps_def intro: exI[of _ "[]"])

lemma keeps_trans: "keeps u v \<Longrightarrow> keeps v w \<Longrightarrow> keeps u w"
  by (auto simp: keeps_def)

lemma keeps_same: "once u' = once u \<Longrightarrow> temp u' = temp u \<Longrightarrow> menus u' = menus u \<Longrightarrow> event_q u' = event_q u \<Longrightarrow>
    cfg u' = cfg u \<Longrightarrow> keeps u u'"
  by (auto simp: keeps_def intro: exI[of _ "[]"])

lemma keeps_draw [simp]: "keeps u (draw es u)"
  by (auto simp: keeps_def draw_def)

lemma poll_showing:
  assumes "showing u m i" "role_of_key key \<noteq> MENU_NONE"
  shows "\<exists>u1. menuPollButtons e key u = scrollMenu e (role_of_key key) u1 \<and> showing u1 m i \<and>
    menus u1 = menus u \<and> menu_states u1 = menu_states u \<and> current_state u1 = current_state u \<and> cfg u1 = cfg u \<and>
    once u1 = once u \<and> temp u1 = temp u \<and> event_q u1 = event_q u"
proof -
  let ?u = "u\<lparr>button := (button u)\<lparr>role := role_of_key key, state := 0xF000, pressed := True\<rparr>\<rparr>"
  have "level (current ?u) \<noteq> MENU_CALLBACK"
    using assms(1) current_level[of ?u] chain_bound[of "menu_states u" "current_state u" m]
    by (simp add: showing_def MENU_CALLBACK_def)
  then have "menuPollButtons e key u = scrollMenu e (role_of_key key) ?u"
    using assms(2) by (simp add: menuPollButtons_def Let_def)
  moreover have "showing ?u m i" using assms(1) by (simp add: showing_def current_def)
  ultimately show ?thesis by (intro exI[of _ ?u]) simp
qed

text \<open>The frame drawn for a level, and the menu and state after it.\<close>

definition drawn :: "ui \<Rightarrow> menu_id \<Rightarrow> effect list" where
  "drawn u m = OLED_Clear # window_lines (menus u m) (current u)"

lemma scroll_key:
  assumes "showing u m i" "r = MENU_UP \<and> j = (i + length (menu_table m) - 1) mod length (menu_table m) \<or>
    r = MENU_DOWN \<and> j = (i + 1) mod length (menu_table m)"
  shows "\<exists>u'. scrollMenu e r u = Some u' \<and> showing u' m j \<and> menus u' = menus u \<and>
    cfg u' = emit (drawn u' m) (cfg u) \<and> current_state u' = current_state u \<and> event_q u' = event_q u \<and>
    (\<forall>j < current_state u. menu_states u' ! j = menu_states u ! j) \<and> keeps u u'"
proof -
  have a: "menus_ok (menus u)" "levels_ok (menu_states u)" "chain (menu_states u) (current_state u) m"
      "current_item_idx (current u) = i" using assms(1) by (simp_all add: showing_def)
  have "\<exists>s. (case r of MENU_UP \<Rightarrow> scroll_up u | MENU_DOWN \<Rightarrow> scroll_down u | _ \<Rightarrow> None) = Some (set_current s u) \<and>
      level_ok s m \<and> prev_state s = prev_state (current u) \<and> level s = level (current u) \<and> current_item_idx s = j"
    using assms(2) scroll_up_ok[OF a(1-3)] scroll_down_ok[OF a(1-3)] a(4) by auto
  then obtain s where s: "(case r of MENU_UP \<Rightarrow> scroll_up u | MENU_DOWN \<Rightarrow> scroll_down u | _ \<Rightarrow> None) = Some (set_current s u)"
      "level_ok s m" "prev_state s = prev_state (current u)" "level s = level (current u)" "current_item_idx s = j"
    by (elim exE conjE)
  let ?v = "set_current s u"
  have v: "menus_ok (menus ?v)" "levels_ok (menu_states ?v)" "chain (menu_states ?v) (current_state ?v) m"
    using a(1) chain_set_current[OF a(3,2) s(2-4)] by simp_all
  have cur: "current ?v = s"
    using chain_bound[OF a(3)] levels_ok_nth(1)[OF a(2)] by (simp add: current_def set_current_def)
  have "scrollMenu e r u = refresh e ?v"
    using s(1) assms(2) by (auto simp: scrollMenu_def)
  then have "scrollMenu e r u = Some (draw (drawn ?v m) ?v)"
    using refresh_level[OF v] by (simp add: drawn_def)
  moreover have "showing (draw (drawn ?v m) ?v) m j"
    using v s(5) cur by (simp add: showing_def current_def)
  moreover have "drawn (draw (drawn ?v m) ?v) m = drawn ?v m"
    by (simp add: drawn_def current_def)
  ultimately show ?thesis by (intro exI[of _ "draw (drawn ?v m) ?v"]) (auto simp: draw_def set_current_def keeps_def)
qed

lemma ring_down: "int ((i + 1) mod n) mod int n = (int i + 1) mod int n"
  by (simp add: zmod_int add.commute)

lemma ring_up: "0 < n \<Longrightarrow> int ((i + n - 1) mod n) mod int n = (int i - 1) mod int n"
  using mod_add_self2[of "int i - 1" "int n"] by (simp add: zmod_int of_nat_diff algebra_simps)

lemma press_arrows:
  assumes "showing u m i" "set ks \<subseteq> {evKeyUP, evKeyDown}"
  shows "\<exists>u'. press_keys e ks u = Some u' \<and> menus u' = menus u \<and> current_state u' = current_state u \<and> keeps u u' \<and>
    showing u' m (nat ((int i + (\<Sum>k\<leftarrow>ks. if k = evKeyDown then 1 else - 1)) mod int (length (menu_table m))))"
  using assms
proof (induction ks arbitrary: u i)
  case Nil
  have "nat (int i mod int (length (menu_table m))) = i" using showing_index[OF Nil(1)] by simp
  then show ?case using Nil by simp
next
  case (Cons k ks)
  let ?n = "length (menu_table m)" and ?r = "role_of_key k"
  have i: "i < ?n" by (rule showing_index[OF Cons.prems(1)])
  have d: "evKeyDown \<noteq> evKeyUP" "evKeyUP \<noteq> evKeyDown" by (simp_all add: evKeyDown_def evKeyUP_def)
  obtain u1 where u1: "menuPollButtons e k u = scrollMenu e ?r u1" "showing u1 m i" "menus u1 = menus u"
      "current_state u1 = current_state u" "keeps u u1"
    using poll_showing[OF Cons.prems(1), of k e] Cons.prems(2) keeps_same by auto
  define j where "j = (if k = evKeyDown then (i + 1) mod ?n else (i + ?n - 1) mod ?n)"
  obtain u2 where u2: "scrollMenu e ?r u1 = Some u2" "showing u2 m j" "menus u2 = menus u1"
      "current_state u2 = current_state u1" "keeps u1 u2"
    using scroll_key[OF u1(2), of ?r j e] Cons.prems(2) d by (auto simp: j_def)
  have "int j mod int ?n = (int i + (if k = evKeyDown then 1 else - 1)) mod int ?n"
    using ring_down[of i ?n] ring_up[of ?n i, OF order.strict_trans1[OF le0 i]]
    by (cases "k = evKeyDown") (simp_all only: j_def refl if_True if_False diff_conv_add_uminus)
  then have e: "(int j + s) mod int ?n = (int i + ((if k = evKeyDown then 1 else - 1) + s)) mod int ?n" for s
    by (metis add.assoc mod_add_left_eq)
  show ?case
    using Cons.IH[OF u2(2)] Cons.prems(2) u1 u2 keeps_trans[OF keeps_trans[OF u1(5) u2(5)]] by (auto simp: e)
qed

text \<open>C20: Up and Down walk the entries of any menu as a ring: after any sequence of arrow keys the
  chosen entry is the one reached by adding the Downs and subtracting the Ups modulo the number
  of entries, whatever the scroll position, and nothing but the selection has changed.\<close>

theorem arrows_walk_ring:
  assumes "showing u m i" "set ks \<subseteq> {evKeyUP, evKeyDown}"
  shows "\<exists>u'. press_keys e ks u = Some u' \<and> menus u' = menus u \<and> current_state u' = current_state u \<and>
    showing u' m (nat ((int i + int (count_list ks evKeyDown) - int (count_list ks evKeyUP))
      mod int (length (menu_table m))))"
proof -
  have d: "evKeyDown \<noteq> evKeyUP" by (simp add: evKeyDown_def evKeyUP_def)
  have "(\<Sum>k\<leftarrow>ks. if k = evKeyDown then 1 else - 1) = int (count_list ks evKeyDown) - int (count_list ks evKeyUP)"
    using assms(2) by (induction ks) (auto simp: d d[symmetric])
  then show ?thesis using press_arrows[OF assms, of e] by (auto simp: add_diff_eq)
qed

theorem arrows_walk_ring_witness:
  "\<exists>u'. press_keys demo_env [evKeyUP, evKeyUP, evKeyDown] (menuInit (ui0 demo_store)) = Some u' \<and> showing u' Home 3"
proof -
  have s: "showing (menuInit (ui0 demo_store)) Home 0" by (rule menuInit_showing)
  have d: "evKeyDown \<noteq> evKeyUP" by (simp add: evKeyDown_def evKeyUP_def)
  have "set [evKeyUP, evKeyUP, evKeyDown] \<subseteq> {evKeyUP, evKeyDown}" by simp
  from arrows_walk_ring[OF s this, of demo_env] show ?thesis by (auto simp: d d[symmetric])
qed

section \<open>The highlighted entry\<close>

fun is_inverted :: "effect \<Rightarrow> bool" where
  "is_inverted (OLED_ShowString_2 x y s n) = True"
| "is_inverted _ = False"

lemma concat_single: "c < n \<Longrightarrow> concat (map (\<lambda>i. if i = c then [x] else []) [0..<n]) = [x]"
proof (induction n)
  case (Suc n)
  have "c = n \<Longrightarrow> concat (map (\<lambda>i. if i = c then [x] else []) [0..<n]) = []" by simp
  then show ?case using Suc by (cases "c = n") simp_all
qed simp

lemma window_highlight:
  assumes "level_ok s m" "length its = length (menu_table m)"
  shows "filter is_inverted (window_lines its s) =
    [OLED_ShowString_2 0 (of_nat (cursor_line s) - 1) (cstr (title (its ! current_item_idx s))) 12]"
proof -
  let ?c = "cursor_line s" and ?i = "current_item_idx s"
  have f: "filter is_inverted (render_line ?c i (its ! (?i - ?c + i))) =
      (if i = ?c then [OLED_ShowString_2 0 (of_nat ?c - 1) (cstr (title (its ! ?i))) 12] else [])" for i
    using assms(1) by (auto simp: render_line_def Let_def level_ok_def)
  have c: "?c < min (length its) OLED_LINES"
    using assms by (auto simp: level_ok_def Let_def)
  show ?thesis
    by (simp add: window_lines_def filter_concat comp_def f concat_single[OF c])
qed

text \<open>An arrow key redraws the screen: the frame starts by clearing it and has exactly one
  inverted line, which carries the title of the newly chosen entry and stands on the cursor's
  line, one of the eight on the screen.\<close>

theorem arrow_key_highlights:
  assumes "showing u m i" "key = evKeyUP \<or> key = evKeyDown"
  shows "\<exists>u' j frame c. menuPollButtons e key u = Some u' \<and> showing u' m j \<and>
    effects (cfg u') = effects (cfg u) @ OLED_Clear # frame \<and> c < 8 \<and>
    filter is_inverted frame = [OLED_ShowString_2 0 (of_nat c - 1) (cstr (title (menus u' m ! j))) 12]"
proof -
  have n: "role_of_key key \<noteq> MENU_NONE" using assms(2) by auto
  obtain u1 where u1: "menuPollButtons e key u = scrollMenu e (role_of_key key) u1" "showing u1 m i" "cfg u1 = cfg u"
    using poll_showing[OF assms(1) n, of e] by (elim exE conjE)
  obtain u' j where u': "scrollMenu e (role_of_key key) u1 = Some u'" "showing u' m j"
      "cfg u' = emit (drawn u' m) (cfg u1)"
    using scroll_key[OF u1(2), of MENU_UP _ e] scroll_key[OF u1(2), of MENU_DOWN _ e] assms(2) by auto
  have l: "level_ok (current u') m"
    using u'(2) chain_level by (auto simp: showing_def current_def)
  have len: "length (menus u' m) = length (menu_table m)"
    using u'(2) menus_ok_nth(1) by (auto simp: showing_def)
  have "effects (cfg u') = effects (cfg u) @ OLED_Clear # window_lines (menus u' m) (current u')"
    using u'(3) u1(3) by (simp add: drawn_def)
  moreover have "cursor_line (current u') < 8" using l by (simp add: level_ok_def Let_def OLED_LINES_def)
  moreover have "current_item_idx (current u') = j" using u'(2) by (simp add: showing_def)
  ultimately show ?thesis
    using window_highlight[OF l len] u1(1) u'(1,2) by auto
qed

theorem arrow_key_highlights_witness:
  "\<exists>u' j frame c. menuPollButtons demo_env evKeyDown (menuInit (ui0 demo_store)) = Some u' \<and> showing u' Home j \<and>
    effects (cfg u') = effects (cfg (menuInit (ui0 demo_store))) @ OLED_Clear # frame \<and> c < 8 \<and>
    filter is_inverted frame = [OLED_ShowString_2 0 (of_nat c - 1) (cstr (title (menus u' Home ! j))) 12]"
  by (rule arrow_key_highlights[OF menuInit_showing]) simp

section \<open>Entering and leaving a menu\<close>

lemma scroll_enter:
  assumes "showing u m i" "submenu (menu_table m ! i) = Some m'"
  shows "\<exists>u'. scrollMenu e MENU_CONFIRM u = Some u' \<and> showing u' m' 0 \<and> menus u' = menus u \<and>
    current_state u' = Suc (current_state u) \<and>
    chain (menu_states u') (current_state u) m \<and> current_item_idx (menu_states u' ! current_state u) = i \<and>
    event_q u' = event_q u \<and> keeps u u'"
proof -
  have a: "menus_ok (menus u)" "levels_ok (menu_states u)" "chain (menu_states u) (current_state u) m"
      "current_item_idx (current u) = i" using assms(1) by (simp_all add: showing_def)
  have r: "render_callback (menu_table m ! i) = None"
    using menu_entry[OF showing_index[OF assms(1)]] assms(2)
      menu_submenu_no_callback[OF showing_index[OF assms(1)]] by auto
  show ?thesis
  proof (rule scroll_confirm_ok[OF a(1-3)])
    fix m'' u' assume u: "submenu (menu_table m ! current_item_idx (current u)) = Some m''"
      "scroll_confirm u = Some u'" "menus u' = menus u" "levels_ok (menu_states u')"
      "current_state u' = Suc (current_state u)" "chain (menu_states u') (current_state u') m''"
      "chain (menu_states u') (current_state u) m" "current_item_idx (menu_states u' ! current_state u) = current_item_idx (current u)"
      "current_item_idx (current u') = 0" "event_q u' = event_q u"
      "once u' = once u" "temp u' = temp u" "cfg u' = cfg u"
    have k: "keeps u u'" using u by (intro keeps_same) simp_all
    let ?v = "draw (drawn u' m'') u'"
    have "scrollMenu e MENU_CONFIRM u = Some ?v"
      using u refresh_level[of u' m'' e] a(1) by (simp add: scrollMenu_def drawn_def)
    then show ?thesis
      using u a assms(2) keeps_trans[OF k keeps_draw] by (intro exI[of _ ?v]) (simp add: showing_def current_def)
  qed (use r a(4) assms(2) in simp_all)
qed

lemma scroll_to_callback:
  assumes "showing u m i" "render_callback (menu_table m ! i) = Some c"
  shows "\<exists>u1. scrollMenu e MENU_CONFIRM u = Some (run_render e c i u1) \<and> menus u1 = menus u \<and> cfg u1 = cfg u \<and>
    once u1 = once u \<and> temp u1 = temp u \<and> event_q u1 = event_q u \<and> menus_ok (menus u1) \<and>
    levels_ok (menu_states u1) \<and> current_state u1 = 4 \<and> in_callback (menu_states u1) (current_state u) m c \<and>
    current_item_idx (menu_states u1 ! current_state u) = i \<and>
    (\<forall>j < current_state u. menu_states u1 ! j = menu_states u ! j)"
proof -
  have a: "menus_ok (menus u)" "levels_ok (menu_states u)" "chain (menu_states u) (current_state u) m"
      "current_item_idx (current u) = i" using assms(1) by (simp_all add: showing_def)
  show ?thesis
  proof (rule scroll_confirm_ok[OF a(1-3)])
    fix c' u1 assume u: "render_callback (menu_table m ! current_item_idx (current u)) = Some c'"
      "scroll_confirm u = Some u1" "menus u1 = menus u" "cfg u1 = cfg u" "levels_ok (menu_states u1)"
      "current_state u1 = 4" "in_callback (menu_states u1) (current_state u) m c'"
      "current_item_idx (current u1) = current_item_idx (current u)"
      "once u1 = once u" "temp u1 = temp u" "event_q u1 = event_q u"
      "\<And>j. j < current_state u \<Longrightarrow> menu_states u1 ! j = menu_states u ! j"
    have "scrollMenu e MENU_CONFIRM u = Some (run_render e c' (current_item_idx (current u1)) u1)"
      using u refresh_callback[of u1 "current_state u" m c' e] a(1) by (simp add: scrollMenu_def)
    then show ?thesis
      using u a assms(2) in_callbackD(5)[OF u(7)] by (intro exI[of _ u1]) (simp add: current_def)
  qed (use a(4) assms(2) in simp_all)
qed

lemma poll_cancel_exit:
  assumes "menus_ok (menus u)" "levels_ok (menu_states u)" "current_state u = 4"
    "in_callback (menu_states u) (Suc k) m Exit_Action"
  shows "\<exists>u' m0. menuPollButtons e evKeyCancal u = Some u' \<and> menus_ok (menus u') \<and> levels_ok (menu_states u') \<and>
    menu_states u' = menu_states u \<and> current_state u' = k \<and> chain (menu_states u) k m0 \<and> menus u' = menus u"
proof -
  let ?u = "u\<lparr>button := (button u)\<lparr>role := MENU_CANCEL, state := 0xF000, pressed := True\<rparr>\<rparr>"
  note poll = menuPollButtons_callback[OF assms, of MENU_CANCEL evKeyCancal e, simplified]
  note d = in_callbackD[OF assms(4)]
  obtain u' where h: "run_handler e Exit_Action MENU_CANCEL (current_item_idx (menu_states u ! Suc k)) ?u = Some (True, u')"
      "menu_states u' = menu_states u" "current_state u' = Suc k" "menus u' = menus u"
    using exit_handler[of ?u "Suc k" m Exit_Action e MENU_CANCEL "current_item_idx (menu_states u ! Suc k)"] assms
    by (auto simp: is_exit_def)
  obtain m0 where m0: "chain (menu_states u) k m0" using d(2) by auto
  have p: "prev_state (current u') = Some k"
    using chain_exit_parent[OF d(2) assms(2)] h by (simp add: current_def)
  let ?v = "u'\<lparr>current_state := k\<rparr>"
  have v: "menus_ok (menus ?v)" "levels_ok (menu_states ?v)" "chain (menu_states ?v) (current_state ?v) m0"
    using h assms(1,2) m0 by simp_all
  have "state_at u' k = Some (menu_states u ! k)" "level (menu_states u ! k) = k"
    using d(1) h(2) assms(2) by (simp_all add: state_at_ok levels_ok_nth)
  then have "menuPollButtons e evKeyCancal u = renderMenu ?v"
    using poll h(1) p by simp
  then show ?thesis
    using renderMenu_chain[OF v] h assms(1,2) m0 by (auto simp: draw_def)
qed

lemma exit_render_events:
  "event_q (run_render e Exit_Action w u) = PushEvt_EvtPar evKeyCancal MODE_KEY (event_q u)"
  by (simp add: run_render.simps Exit_ActionCallbackRender_def push_event_def SetWorkMode_def)

text \<open>C21: Every submenu can be left again: entering it, going up once (which wraps to its last
  entry, Exit) and confirming makes the menu post itself a cancel event, and that event brings
  back the parent menu with the entry that was chosen before.\<close>

theorem submenu_exit_roundtrip:
  assumes "showing u m i" "submenu (menu_table m ! i) = Some m'" "event_inv (event_q u)"
  shows "\<exists>u1 u2. press_keys e [evKeyConfirm, evKeyUP, evKeyConfirm] u = Some u1 \<and>
    events (event_q u1) = fifo_put 32 (evKeyCancal, MODE_KEY) (events (event_q u)) \<and>
    menuPollButtons e evKeyCancal u1 = Some u2 \<and> showing u2 m i"
proof -
  let ?k = "current_state u" and ?n = "length (menu_table m')"
  have k: "?k < 4" using assms(1) chain_bound by (auto simp: showing_def)
  obtain a where a: "menuPollButtons e evKeyConfirm u = scrollMenu e MENU_CONFIRM a" "showing a m i"
      "current_state a = ?k" "event_q a = event_q u"
    using poll_showing[OF assms(1), of evKeyConfirm e] by auto
  obtain b where b: "scrollMenu e MENU_CONFIRM a = Some b" "showing b m' 0" "current_state b = Suc ?k"
      "chain (menu_states b) ?k m" "current_item_idx (menu_states b ! ?k) = i" "event_q b = event_q u"
    using scroll_enter[OF a(2) assms(2), of e] a(3,4) by auto
  have m': "m' \<noteq> Home"
    using menu_entry[OF showing_index[OF assms(1)]] assms(2) by (auto simp: entry_ok_def)
  have n: "(0 + ?n - 1) mod ?n = ?n - 1" using menu_size(1)[of m'] by simp
  obtain c where c: "menuPollButtons e evKeyUP b = scrollMenu e MENU_UP c" "showing c m' 0"
      "menu_states c = menu_states b" "current_state c = Suc ?k" "event_q c = event_q u"
    using poll_showing[OF b(2), of evKeyUP e] b(3,6) by auto
  obtain d where d: "scrollMenu e MENU_UP c = Some d" "showing d m' (?n - 1)" "current_state d = Suc ?k"
      "event_q d = event_q u" "\<forall>j < Suc ?k. menu_states d ! j = menu_states b ! j"
    using scroll_key[OF c(2), of MENU_UP "?n - 1" e] n c(3,4,5) by auto
  obtain f where f: "menuPollButtons e evKeyConfirm d = scrollMenu e MENU_CONFIRM f" "showing f m' (?n - 1)"
      "menu_states f = menu_states d" "current_state f = Suc ?k" "event_q f = event_q u"
    using poll_showing[OF d(2), of evKeyConfirm e] d(3,4) by auto
  obtain g where g: "scrollMenu e MENU_CONFIRM f = Some (run_render e Exit_Action (?n - 1) g)"
      "menus_ok (menus g)" "levels_ok (menu_states g)" "current_state g = 4" "event_q g = event_q u"
      "in_callback (menu_states g) (Suc ?k) m' Exit_Action" "\<forall>j < Suc ?k. menu_states g ! j = menu_states f ! j"
    using scroll_to_callback[OF f(2) menu_last_exit[OF m'], of e] f(4,5) by auto
  let ?g = "run_render e Exit_Action (?n - 1) g"
  obtain u2 m0 where u2: "menuPollButtons e evKeyCancal ?g = Some u2" "menus_ok (menus u2)" "levels_ok (menu_states u2)"
      "menu_states u2 = menu_states ?g" "current_state u2 = ?k" "chain (menu_states ?g) ?k m0"
  proof -
    have "menus_ok (menus ?g)" "levels_ok (menu_states ?g)" "current_state ?g = 4"
        "in_callback (menu_states ?g) (Suc ?k) m' Exit_Action"
      using g(2-4,6) by simp_all
    from poll_cancel_exit[OF this, of e] show thesis by (elim exE conjE) (rule that)
  qed
  have idx: "menu_states u2 ! ?k = menu_states b ! ?k" using u2(4) g(7) f(3) d(5) by simp
  have "m0 = m"
  proof -
    have "\<And>j. j \<le> ?k \<Longrightarrow> menu_states ?g ! j = menu_states b ! j" using g(7) f(3) d(5) by simp
    then have "chain (menu_states ?g) ?k m"
      using chain_level[OF b(4)] by (intro chain_cong[OF b(4)]) simp_all
    then show ?thesis using chain_unique u2(6) by blast
  qed
  then have "showing u2 m i" using u2 idx b(5) by (simp add: showing_def current_def)
  moreover have "press_keys e [evKeyConfirm, evKeyUP, evKeyConfirm] u = Some ?g"
    using a(1) b(1) c(1) d(1) f(1) g(1) by simp
  ultimately show ?thesis
    using u2(1) g(5) PushEvt_events[OF assms(3), of evKeyCancal MODE_KEY]
    by (auto simp: exit_render_events EVENTBUFLEN_def)
qed

theorem submenu_exit_roundtrip_witness:
  "\<exists>u1 u2. press_keys demo_env [evKeyConfirm, evKeyUP, evKeyConfirm] (menuInit (ui0 demo_store)) = Some u1 \<and>
    events (event_q u1) = [(evKeyCancal, MODE_KEY)] \<and>
    menuPollButtons demo_env evKeyCancal u1 = Some u2 \<and> showing u2 Home 0"
proof -
  have "submenu (menu_table Home ! 0) = Some System" by (simp add: home_items_def submenu_item_def)
  moreover have q: "event_q (menuInit (ui0 demo_store)) = event_state0"
    by (simp add: menuInit_def menuReset_No_RenderMenu_def resetState_def setState_def ui0_def)
  moreover have "event_inv (event_q (menuInit (ui0 demo_store)))"
    using event_inv_init by (simp add: q)
  moreover have "events event_state0 = []" by (simp add: events_def event_state0_def)
  ultimately show ?thesis
    using submenu_exit_roundtrip[OF menuInit_showing[of demo_store], of System demo_env] by (simp add: fifo_put_def)
qed

section \<open>Choosing a setting\<close>

text \<open>The configuration the menu statuses stand for.\<close>

definition menu_config :: "ui \<Rightarrow> bytes list" where
  "menu_config u =
     [save_status System_Feature 5 u, save_status Config_Format 17 u, save_status Config_Video_Input 3 u,
      save_status Config_Video_Output 2 u, Ip_Arr (cfg u), Mac_Arr (cfg u), [utc_offset_num (cfg u)],
      save_status Config_SRC_Mode 2 u, save_status Config_SRC_Sync_Type 12 u,
      save_status Config_SRC_Clock_Type 3 u, save_status Config_SRC_Sync_Frame 6 u,
      save_status Config_Display_Mode 3 u, save_status Config_Display_Brightness 2 u]"

definition synced :: "ui \<Rightarrow> bool" where
  "synced u \<longleftrightarrow> config_of (cfg u) = menu_config u"

text \<open>The place in the configuration of the settings that are chosen from a list, all of whose entries
  may be chosen; the two video menus, whose entries can be disabled, are added below.\<close>

fun choice_pos :: "callback \<Rightarrow> nat option" where
  "choice_pos Config_Format_Action = Some 1"
| "choice_pos Config_SRC_Mode_Action = Some 7"
| "choice_pos Config_SRC_Sync_Type_Action = Some 8"
| "choice_pos Config_SRC_Clock_Type_Action = Some 9"
| "choice_pos Config_SRC_Sync_Frame_Action = Some 10"
| "choice_pos Config_Display_Mode_Action = Some 11"
| "choice_pos Config_Display_Brightness_Action = Some 12"
| "choice_pos _ = None"

text \<open>What the FPGA has to be told about the entry \<open>i\<close>.\<close>

fun fpga_calls :: "callback \<Rightarrow> nat \<Rightarrow> effect list" where
  "fpga_calls Config_Format_Action i =
     [Send_Format_2_0x05 (fst (format_reg ! i)), Send_Format_2_0x11 (snd (format_reg ! i))]"
| "fpga_calls Config_SRC_Mode_Action i = [Send_Src_Mode ([0x80, 0x00] ! i)]"
| "fpga_calls Config_SRC_Sync_Type_Action i = [Send_SyncType_Mode (sync_type_reg ! i)]"
| "fpga_calls Config_SRC_Clock_Type_Action i = [Send_ClockSync_Mode (clock_type_reg ! i), Send_SyncType_Mode 0]"
| "fpga_calls Config_SRC_Sync_Frame_Action i = [Send_SyncFrame_Mode (sync_frame_reg ! i)]"
| "fpga_calls Config_Video_Input_Action i = [Send_Test_Pattern (if i = 2 then 0x80 else 0x00)]"
| "fpga_calls _ i = []"

fun is_fpga :: "effect \<Rightarrow> bool" where
  "is_fpga (Send_Test_Pattern _) = True" | "is_fpga (Send_Src_Mode _) = True"
| "is_fpga (Send_ClockSync_Mode _) = True" | "is_fpga (Send_SyncType_Mode _) = True"
| "is_fpga (Send_SyncFrame_Mode _) = True" | "is_fpga (Send_Format_2_0x05 _) = True"
| "is_fpga (Send_Format_2_0x11 _) = True" | "is_fpga _ = False"

lemma menu_config_cong: "menus u' = menus u \<Longrightarrow> config_of (cfg u') = config_of (cfg u) \<Longrightarrow> menu_config u' = menu_config u"
  by (simp add: menu_config_def save_status_def config_of_def)

lemma config_of_effects [simp]: "config_of (s\<lparr>effects := es\<rparr>) = config_of s"
  by (simp add: config_of_def)

lemma Set_FPGA_frame [simp]:
  "config_of (Set_FPGA_Reg_Config a r s) = config_of s" "store_flash (Set_FPGA_Reg_Config a r s) = store_flash s"
  by (simp_all add: Set_FPGA_Reg_Config_def Let_def)

lemma Write2Flash_frame [simp]:
  "config_of (Write2Flash hal v s) = config_of s" "effects (Write2Flash hal v s) = effects s"
proof -
  show "config_of (Write2Flash hal v s) = config_of s"
    by (simp add: Write2Flash_def Let_def) (simp add: config_of_def)
  show "effects (Write2Flash hal v s) = effects s"
    by (simp add: Write2Flash_def Let_def Update_User_Arr_def)
qed

lemma Arr_Update_config: "config_of (cfg (Arr_Update e u)) = menu_config u"
  by (simp add: Arr_Update_def menu_config_def num_defs) (simp add: config_of_def)

lemma Arr_Update_effects [simp]: "effects (cfg (Arr_Update e u)) = effects (cfg u)"
  by (simp add: Arr_Update_def)

lemma Arr_Update_saved:
  assumes "hal_laws (env_hal e)" "map length (menu_config u) = config_lengths" "length (RESTORE (cfg u)) = 1"
    "length (User_Arr (cfg u)) = 256"
  shows "saved (store_flash (cfg (Arr_Update e u))) (menu_config u) [1]"
proof -
  let ?s = "(cfg u)\<lparr>System_Feature_Arr := save_status System_Feature 5 u,
      Config_Format_Arr := save_status Config_Format 17 u,
      Config_Video_Input_Arr := save_status Config_Video_Input 3 u,
      Config_Video_Output_Arr := save_status Config_Video_Output 2 u,
      Config_Src_Mode_Arr := save_status Config_SRC_Mode 2 u,
      Config_Src_Sync_Type_Arr := save_status Config_SRC_Sync_Type 12 u,
      Config_Src_Clock_Type_Arr := save_status Config_SRC_Clock_Type 3 u,
      Config_Src_Sync_Frame_Arr := save_status Config_SRC_Sync_Frame 6 u,
      Config_Display_Mode_Arr := save_status Config_Display_Mode 3 u,
      Config_Display_Brightness_Arr := save_status Config_Display_Brightness 2 u\<rparr>"
  have c: "config_of ?s = menu_config u" by (simp add: config_of_def menu_config_def)
  have "store_wf ?s" using assms(2-4) unfolding store_wf_def c by simp
  from Write2Flash_saved(1)[OF assms(1) this, of "env_vers e"] show ?thesis
    by (simp add: c Arr_Update_def num_defs)
qed

lemma length_save_status [simp]: "length (save_status m n u) = n"
  by (simp add: save_status_def)

lemma nth_one_set: "i < n \<Longrightarrow> one_set n k ! i = (if i = k then MENU_SET else MENU_RESET)"
  by (auto simp: one_set_def nth_list_update)

lemma save_status_choose:
  "n \<le> length (menus u m) \<Longrightarrow> save_status m n (choose_entry False m n w u) = one_set n w"
  by (intro nth_equalityI) (auto simp: save_status_def choose_entry_def nth_one_set Let_def)

lemma save_status_other [simp]:
  "m' \<noteq> m \<Longrightarrow> save_status m' k (choose_entry sk m n w u) = save_status m' k u"
  by (simp add: save_status_def choose_entry_def)

lemma menu_config_draw [simp]: "menu_config (draw es u) = menu_config u"
  by (simp add: menu_config_def save_status_def draw_def)

lemma cfg_draw [simp]: "config_of (cfg (draw es u)) = config_of (cfg u)"
  "store_flash (cfg (draw es u)) = store_flash (cfg u)" "effects (cfg (draw es u)) = effects (cfg u) @ es"
  "RESTORE (cfg (draw es u)) = RESTORE (cfg u)" "User_Arr (cfg (draw es u)) = User_Arr (cfg u)"
  by (simp_all add: draw_def)

lemma menu_config_after_update:
  "menu_config (map_cfg f (Arr_Update e u)) = menu_config u" if "\<And>c. config_of (f c) = config_of c" for f
  using Arr_Update_config[of e u] that[of "cfg (Arr_Update e u)"]
  by (simp add: menu_config_def save_status_def config_of_def)

definition after_choice :: "callback \<Rightarrow> nat \<Rightarrow> bytes list \<Rightarrow> bytes list" where
  "after_choice c i cf = (case choice_pos c of None \<Rightarrow> cf | Some p \<Rightarrow> cf[p := one_set (config_lengths ! p) i])"

fun choice_send :: "callback \<Rightarrow> store \<Rightarrow> store" where
  "choice_send Config_Format_Action s = Set_FPGA_Reg_Config CONFIG_FORMAT_NUM_ADDR 0 s"
| "choice_send Config_SRC_Mode_Action s = Set_FPGA_Reg_Config SRC_MODE_NUM_ADDR 0 s"
| "choice_send Config_SRC_Sync_Type_Action s = Set_FPGA_Reg_Config SRC_SYNV_TYPE_NUM_ADDR 0 s"
| "choice_send Config_SRC_Clock_Type_Action s = Set_FPGA_Reg_Config SRC_CLOCK_TYPE_NUM_ADDR 0 s"
| "choice_send Config_SRC_Sync_Frame_Action s = Set_FPGA_Reg_Config SRC_SYNC_FRAME_NUM_ADDR 0 s"
| "choice_send _ s = s"

lemma choice_send_frame [simp]:
  "config_of (choice_send c s) = config_of s" "store_flash (choice_send c s) = store_flash s"
  by (cases c; simp)+

lemma choose_config:
  assumes "choice_pos c = Some p" "column_ok c m i" "menus_ok (menus u)"
  shows "menu_config (choose_entry False m (config_lengths ! p) i u) = after_choice c i (menu_config u)"
  using assms
  by (cases c) (auto simp: after_choice_def menu_config_def config_lengths_def save_status_choose menus_ok_nth(1))

lemma draw_draw: "draw es' (draw es u) = draw (es @ es') u"
  by (simp add: draw_def)

lemma map_cfg_same: "map_cfg (\<lambda>s. s) u = u"
  by (simp add: map_cfg_def)

lemma choice_render:
  assumes "choice_pos c = Some p" "column_ok c m i"
  shows "\<exists>es. run_render e c i u = draw es (map_cfg (choice_send c) (Arr_Update e (draw [show_line MENU_Y ''TX Data To FPGA'']
       (choose_entry False m (config_lengths ! p) i (draw [OLED_Clear] u))))) \<and> filter is_fpga es = []"
  using assms
  by (cases c) (simp_all add: run_render.simps render_defs Let_def config_lengths_def num_defs choice_send.simps[abs_def]
      map_cfg_same draw_draw show_line_def, auto)

lemma reg_lengths [simp]:
  "length format_reg = 17" "length sync_type_reg = 12" "length clock_type_reg = 3" "length sync_frame_reg = 6"
  by (simp_all add: format_reg_def sync_type_reg_def clock_type_reg_def sync_frame_reg_def)

lemma choice_send_calls:
  assumes "choice_pos c = Some p" "column_ok c m i" "config_of s ! p = one_set (config_lengths ! p) i"
  shows "filter is_fpga (effects (choice_send c s)) = filter is_fpga (effects s) @ fpga_calls c i"
  using assms
  by (cases c) (auto simp: config_of_def config_lengths_def Set_FPGA_Reg_Config_def addr_defs num_defs
      first_branch_one_set split_def less_2_cases_iff)

lemma menu_config_map_cfg [simp]:
  "(\<And>s. config_of (f s) = config_of s) \<Longrightarrow> menu_config (map_cfg f u) = menu_config u"
  by (rule menu_config_cong) simp_all

lemma menu_config_Arr_Update [simp]: "menu_config (Arr_Update e u) = menu_config u"
  using Arr_Update_config[of e u] by (simp add: menu_config_def save_status_def config_of_def)

lemma after_choice_lengths:
  assumes "choice_pos c = Some p" "map length cf = config_lengths"
  shows "map length (after_choice c i cf) = config_lengths"
proof -
  have "map length (cf[p := one_set (config_lengths ! p) i]) = config_lengths"
    using assms(2) by (simp add: map_update)
  then show ?thesis using assms(1) by (simp add: after_choice_def)
qed

lemma after_choice_at:
  assumes "choice_pos c = Some p" "map length cf = config_lengths"
  shows "after_choice c i cf ! p = one_set (config_lengths ! p) i"
proof -
  have "length cf = 13" using arg_cong[OF assms(2), of length] by (simp add: config_lengths_def)
  moreover have "p < 13" using assms(1) by (cases c) auto
  ultimately show ?thesis using assms(1) by (simp add: after_choice_def)
qed

lemma choice_result:
  assumes "choice_pos c = Some p" "column_ok c m i" "menus_ok (menus u)" "store_wf (cfg u)"
    "hal_laws (env_hal e)"
  defines "u' \<equiv> run_render e c i u"
  shows "config_of (cfg u') = after_choice c i (menu_config u)" "synced u'"
    "saved (store_flash (cfg u')) (config_of (cfg u')) [1]"
    "filter is_fpga (effects (cfg u')) = filter is_fpga (effects (cfg u)) @ fpga_calls c i"
    "map length (config_of (cfg u')) = config_lengths"
proof -
  let ?v = "draw [show_line MENU_Y ''TX Data To FPGA''] (choose_entry False m (config_lengths ! p) i (draw [OLED_Clear] u))"
  obtain es where r: "u' = draw es (map_cfg (choice_send c) (Arr_Update e ?v))" "filter is_fpga es = []"
    using choice_render[OF assms(1,2), of e u] by (auto simp: u'_def)
  have v: "menu_config (choose_entry False m (config_lengths ! p) i (draw [OLED_Clear] u)) = after_choice c i (menu_config u)"
    using choose_config[OF assms(1,2), of "draw [OLED_Clear] u"] assms(3) by simp
  have l: "map length (menu_config u) = config_lengths" "length (RESTORE (cfg u)) = 1"
      "length (User_Arr (cfg u)) = 256"
    using assms(4) by (simp_all add: store_wf_def menu_config_def config_lengths_def config_of_def)
  show c: "config_of (cfg u') = after_choice c i (menu_config u)"
    by (simp add: r(1) Arr_Update_config v)
  show "map length (config_of (cfg u')) = config_lengths"
    unfolding c by (rule after_choice_lengths[OF assms(1) l(1)])
  show "synced u'" by (simp add: synced_def r(1) Arr_Update_config)
  show "saved (store_flash (cfg u')) (config_of (cfg u')) [1]"
    using Arr_Update_saved[OF assms(5), of ?v] l after_choice_lengths[OF assms(1) l(1)]
    by (simp add: r(1) Arr_Update_config v)
  show "filter is_fpga (effects (cfg u')) = filter is_fpga (effects (cfg u)) @ fpga_calls c i"
    using choice_send_calls[OF assms(1,2), of "cfg (Arr_Update e ?v)"] after_choice_at[OF assms(1) l(1)] r(2)
    by (simp add: r(1) Arr_Update_config v show_line_def)
qed

lemma press_choice:
  assumes "showing u m i" "render_callback (menu_table m ! i) = Some c"
  shows "\<exists>b. menuPollButtons e evKeyConfirm u = Some (run_render e c i b) \<and> menus b = menus u \<and> cfg b = cfg u \<and>
    menus_ok (menus b) \<and> column_ok c m i \<and> once b = once u \<and> temp b = temp u \<and> menu_config b = menu_config u"
proof -
  obtain a where a: "menuPollButtons e evKeyConfirm u = scrollMenu e MENU_CONFIRM a" "showing a m i"
      "menus a = menus u" "cfg a = cfg u" "once a = once u" "temp a = temp u"
    using poll_showing[OF assms(1), of evKeyConfirm e] by auto
  obtain b where "scrollMenu e MENU_CONFIRM a = Some (run_render e c i b)" "menus b = menus u" "cfg b = cfg u"
      "menus_ok (menus b)" "once b = once u" "temp b = temp u"
    using scroll_to_callback[OF a(2) assms(2), of e] a(3-6) by auto
  moreover have "column_ok c m i"
    using menu_entry[OF showing_index[OF assms(1)]] assms(2) by (simp add: entry_ok_def)
  ultimately show ?thesis using a(1) menu_config_cong[of b u] by auto
qed

section \<open>All selection menus\<close>

definition video_menu :: "callback \<Rightarrow> bool" where
  "video_menu c \<longleftrightarrow> c = Config_Video_Input_Action \<or> c = Config_Video_Output_Action"

definition selection_pos :: "callback \<Rightarrow> nat option" where
  "selection_pos c = (if c = Config_Video_Input_Action then Some 2
     else if c = Config_Video_Output_Action then Some 3 else choice_pos c)"

text \<open>The array after entry \<open>i\<close> is chosen: it alone is set; an entry of a video menu that is disabled
  stays so.\<close>

definition selected :: "callback \<Rightarrow> nat \<Rightarrow> bytes \<Rightarrow> bytes" where
  "selected c i arr = map (\<lambda>j. if video_menu c \<and> arr ! j = NON_OPERATE then NON_OPERATE
     else if j = i then MENU_SET else MENU_RESET) [0..<length arr]"

lemma selected_one_set: "\<not> video_menu c \<Longrightarrow> selected c i arr = one_set (length arr) i"
  by (rule nth_equalityI) (simp_all add: selected_def nth_one_set)

lemma length_selected [simp]: "length (selected c i arr) = length arr"
  by (simp add: selected_def)

lemma save_status_selected:
  assumes "n \<le> length (menus u m)" "video_menu c"
  shows "save_status m n (choose_entry True m n i u) = selected c i (save_status m n u)"
  using assms by (intro nth_equalityI) (auto simp: save_status_def choose_entry_def selected_def Let_def)

lemma video_columns:
  assumes "video_menu c" "column_ok c m i" "selection_pos c = Some p"
  shows "(c = Config_Video_Input_Action \<and> m = Config_Video_Input \<and> p = 2 \<and> i < 3) \<or>
    (c = Config_Video_Output_Action \<and> m = Config_Video_Output \<and> p = 3 \<and> i < 2)"
  using assms by (auto simp: video_menu_def selection_pos_def)

fun video_send :: "callback \<Rightarrow> store \<Rightarrow> store" where
  "video_send Config_Video_Input_Action s = Set_FPGA_Reg_Config InputNum_ADDR 0 s"
| "video_send _ s = s"

lemma video_send_frame [simp]:
  "config_of (video_send c s) = config_of s" "store_flash (video_send c s) = store_flash s"
  by (cases c; simp)+

lemma video_render:
  assumes "video_menu c" "column_ok c m i" "selection_pos c = Some p"
  shows "status (menus u m ! i) = NON_OPERATE \<Longrightarrow> run_render e c i u = u"
    and "status (menus u m ! i) \<noteq> NON_OPERATE \<Longrightarrow>
      \<exists>es. run_render e c i u = draw es (map_cfg (video_send c) (Arr_Update e (draw [show_line MENU_Y ''TX Data To FPGA'']
       (choose_entry True m (config_lengths ! p) i (draw [OLED_Clear] u))))) \<and> filter is_fpga es = []"
  using video_columns[OF assms]
  by (auto simp: run_render.simps render_defs Let_def config_lengths_def num_defs video_send.simps[abs_def]
      map_cfg_same draw_draw show_line_def)

lemma Arr_Update_result:
  assumes "u' = draw es (map_cfg f (Arr_Update e v))" "\<And>s. config_of (f s) = config_of s"
    "\<And>s. store_flash (f s) = store_flash s" "hal_laws (env_hal e)" "map length (menu_config v) = config_lengths"
    "length (RESTORE (cfg v)) = 1" "length (User_Arr (cfg v)) = 256"
  shows "config_of (cfg u') = menu_config v" "synced u'" "saved (store_flash (cfg u')) (menu_config v) [1]"
proof -
  have c: "config_of (cfg u') = menu_config v" by (simp add: assms(1,2) Arr_Update_config)
  have "menu_config u' = menu_config v"
    unfolding assms(1) menu_config_draw using assms(2) by simp
  then show "synced u'" using c by (simp add: synced_def)
  show "config_of (cfg u') = menu_config v" by (rule c)
  show "saved (store_flash (cfg u')) (menu_config v) [1]"
    using Arr_Update_saved[OF assms(4-7)] assms(1,3) by simp
qed

lemma map_length_update: "map length c = ls \<Longrightarrow> length x = ls ! p \<Longrightarrow> map length (c[p := x]) = ls"
  by (metis list_update_id map_update)

lemma video_config:
  assumes "video_menu c" "column_ok c m i" "selection_pos c = Some p" "menus_ok (menus u)"
  shows "menu_config (choose_entry True m (config_lengths ! p) i u) = (menu_config u)[p := selected c i (menu_config u ! p)]"
  using video_columns[OF assms(1-3)] assms(1,4)
  by (auto simp: menu_config_def config_lengths_def save_status_selected menus_ok_nth(1))

text \<open>The result of the render callback of a video menu, and of any selection menu.\<close>

lemma video_result:
  assumes "video_menu c" "selection_pos c = Some p" "column_ok c m i" "menus_ok (menus u)" "store_wf (cfg u)"
    "hal_laws (env_hal e)" "status (menus u m ! i) \<noteq> NON_OPERATE"
  defines "u' \<equiv> run_render e c i u"
  shows "config_of (cfg u') = (menu_config u)[p := selected c i (menu_config u ! p)]" "synced u'"
    "saved (store_flash (cfg u')) (config_of (cfg u')) [1]"
    "filter is_fpga (effects (cfg u')) = filter is_fpga (effects (cfg u)) @ fpga_calls c i"
proof -
  let ?v = "draw [show_line MENU_Y ''TX Data To FPGA''] (choose_entry True m (config_lengths ! p) i (draw [OLED_Clear] u))"
  note vc = video_columns[OF assms(1,3,2)]
  obtain es where r: "u' = draw es (map_cfg (video_send c) (Arr_Update e ?v))" "filter is_fpga es = []"
    using video_render(2)[OF assms(1,3,2,7), of e] by (auto simp: u'_def)
  have v: "menu_config ?v = (menu_config u)[p := selected c i (menu_config u ! p)]"
    using video_config[OF assms(1,3,2), of "draw [OLED_Clear] u"] assms(4) by simp
  have w: "map length (menu_config u) = config_lengths" "length (RESTORE (cfg u)) = 1" "length (User_Arr (cfg u)) = 256"
    using assms(5) by (simp_all add: store_wf_def menu_config_def config_lengths_def config_of_def)
  have l: "map length (menu_config ?v) = config_lengths"
    unfolding v using w(1) vc by (intro map_length_update) (auto simp: menu_config_def config_lengths_def)
  note a = Arr_Update_result[OF r(1) video_send_frame assms(6) l]
  show c: "config_of (cfg u') = (menu_config u)[p := selected c i (menu_config u ! p)]" and "synced u'"
    using a(1,2) w v by simp_all
  then show "saved (store_flash (cfg u')) (config_of (cfg u')) [1]" using a(3) w v by simp
  have i: "Config_Video_Input_Arr (cfg (Arr_Update e ?v)) ! 2 = MENU_SET \<longleftrightarrow> i = 2" if "c = Config_Video_Input_Action"
  proof -
    have "Config_Video_Input_Arr (cfg (Arr_Update e ?v)) = menu_config ?v ! 2"
      using arg_cong[OF Arr_Update_config[of e ?v], of "\<lambda>l. l ! 2"] by (simp add: config_of_def)
    then show ?thesis
      using v that vc assms(7) by (auto simp: selected_def menu_config_def save_status_def)
  qed
  show "filter is_fpga (effects (cfg u')) = filter is_fpga (effects (cfg u)) @ fpga_calls c i"
    using r vc i by (auto simp: Set_FPGA_Reg_Config_def show_line_def)
qed

lemma selection_result:
  assumes "selection_pos c = Some p" "column_ok c m i" "menus_ok (menus u)" "store_wf (cfg u)"
    "hal_laws (env_hal e)" "\<not> (video_menu c \<and> status (menus u m ! i) = NON_OPERATE)"
  defines "u' \<equiv> run_render e c i u"
  shows "config_of (cfg u') = (menu_config u)[p := selected c i (menu_config u ! p)]" "synced u'"
    "saved (store_flash (cfg u')) (config_of (cfg u')) [1]" "map length (config_of (cfg u')) = config_lengths"
    "filter is_fpga (effects (cfg u')) = filter is_fpga (effects (cfg u)) @ fpga_calls c i"
proof -
  have l: "map length (menu_config u) = config_lengths"
    using assms(4) by (simp add: store_wf_def menu_config_def config_lengths_def config_of_def)
  have p: "p < 13" using assms(1) by (cases c) (auto simp: selection_pos_def)
  have lp: "length (menu_config u ! p) = config_lengths ! p"
    using nth_map[of p "menu_config u" length] l p by (simp add: menu_config_def)
  have all: "config_of (cfg u') = (menu_config u)[p := selected c i (menu_config u ! p)] \<and> synced u' \<and>
    saved (store_flash (cfg u')) (config_of (cfg u')) [1] \<and>
    filter is_fpga (effects (cfg u')) = filter is_fpga (effects (cfg u)) @ fpga_calls c i"
  proof (cases "video_menu c")
    case True
    then show ?thesis using video_result[OF True assms(1-5)] assms(6) unfolding u'_def by simp
  next
    case False
    then have c: "choice_pos c = Some p" using assms(1) by (auto simp: selection_pos_def video_menu_def split: if_splits)
    show ?thesis
      using choice_result[OF c assms(2-5)] c unfolding u'_def by (simp add: after_choice_def selected_one_set[OF False] lp)
  qed
  then show "config_of (cfg u') = (menu_config u)[p := selected c i (menu_config u ! p)]" "synced u'"
    "saved (store_flash (cfg u')) (config_of (cfg u')) [1]"
    "filter is_fpga (effects (cfg u')) = filter is_fpga (effects (cfg u)) @ fpga_calls c i"
    by blast+
  then show "map length (config_of (cfg u')) = config_lengths"
    using l lp by (simp add: map_length_update)
qed

text \<open>C9: Confirming an entry of any of the nine selection menus (video format, video input and output,
  source mode, sync type, clock type, frame rate, display mode, brightness).  An entry of a video menu that
  is disabled (\<open>NON_OPERATE\<close>, because its feature is off) changes neither configuration nor flash and the FPGA is told
  nothing.  Any other entry becomes the only one set in its configuration array (disabled entries stay
  disabled), every other setting takes the value its menu shows, which is the stored one, so that nothing else changes,
  whenever the menu agrees with the stored configuration (\<open>synced\<close>), and afterwards it does; the FPGA is sent the
  register values of exactly that entry; and the whole configuration is in flash, so that a
  restart with arbitrary RAM reads back the same thirteen arrays.\<close>

theorem menu_choice_takes_effect:
  assumes "showing u m i" "render_callback (menu_table m ! i) = Some c" "selection_pos c = Some p"
    "store_wf (cfg u)" "hal_laws (env_hal e)"
  shows "\<exists>u'. menuPollButtons e evKeyConfirm u = Some u' \<and>
    (if video_menu c \<and> status (menus u m ! i) = NON_OPERATE
     then config_of (cfg u') = config_of (cfg u) \<and> store_flash (cfg u') = store_flash (cfg u) \<and>
       filter is_fpga (effects (cfg u')) = filter is_fpga (effects (cfg u))
     else config_of (cfg u') = (menu_config u)[p := selected c i (menu_config u ! p)] \<and>
       (synced u \<longrightarrow> config_of (cfg u') = (config_of (cfg u))[p := selected c i (config_of (cfg u) ! p)]) \<and> synced u' \<and>
       filter is_fpga (effects (cfg u')) = filter is_fpga (effects (cfg u)) @ fpga_calls c i \<and>
       config_of (snd (ReadFlash2Arr hal v (ram\<lparr>store_flash := store_flash (cfg u')\<rparr>))) = config_of (cfg u'))"
proof -
  obtain b where b: "menuPollButtons e evKeyConfirm u = Some (run_render e c i b)" "menus b = menus u" "cfg b = cfg u"
      "menus_ok (menus b)" "column_ok c m i" "menu_config b = menu_config u"
    using press_choice[OF assms(1,2), of e] by auto
  have wf: "store_wf (cfg b)" using assms(4) b(3) by simp
  show ?thesis
  proof (cases "video_menu c \<and> status (menus u m ! i) = NON_OPERATE")
    case True
    then have "run_render e c i b = b" using video_render(1)[OF _ b(5) assms(3)] b(2) by simp
    then show ?thesis using True b(1,3) by simp
  next
    case False
    then have "\<not> (video_menu c \<and> status (menus b m ! i) = NON_OPERATE)" using b(2) by simp
    note r = selection_result[OF assms(3) b(5,4) wf assms(5) this]
    have "config_of (snd (ReadFlash2Arr hal v (ram\<lparr>store_flash := store_flash (cfg (run_render e c i b))\<rparr>))) =
        config_of (cfg (run_render e c i b))"
      using ReadFlash2Arr_saved(2)[of "ram\<lparr>store_flash := store_flash (cfg (run_render e c i b))\<rparr>"] r(3,4) by simp
    then show ?thesis
      unfolding if_not_P[OF False]
      using b(1,3,6) r(1,2,5) by (intro exI[of _ "run_render e c i b"]) (simp add: synced_def)
  qed
qed

lemma save_load_status:
  assumes "length arr = n" "n \<le> length (menus u m)"
  shows "save_status m n (load_status m n arr u) = arr"
  using assms by (intro nth_equalityI) (simp_all add: save_status_def load_status_def)

lemma save_load_other [simp]: "m' \<noteq> m \<Longrightarrow> save_status m' k (load_status m n arr u) = save_status m' k u"
  by (simp add: save_status_def load_status_def)

lemma save_status_title [simp]: "save_status m' k (set_title m i t u) = save_status m' k u"
proof -
  have "status ((menus u m)[i := (menus u m ! i)\<lparr>title := t'\<rparr>] ! j) = status (menus u m ! j)" for t' j
    by (cases "i < length (menus u m)") (auto simp: nth_list_update list_update_beyond)
  then show ?thesis by (simp add: save_status_def set_title_def)
qed

lemma save_status_chars [simp]: "save_status m k (ip_int_to_char x u) = save_status m k u"
  "save_status m k (my_mac_int_to_char x u) = save_status m k u"
  by (simp_all add: save_status_def)

lemma fold_save_status: "(\<And>x u. save_status m k (f x u) = save_status m k u) \<Longrightarrow>
    save_status m k (fold f xs u) = save_status m k u"
  by (induction xs arbitrary: u) simp_all

lemma ip_mac_char_statuses [simp]: "save_status m k (ip_mac_char u) = save_status m k u"
  by (simp add: ip_mac_char_def Let_def fold_save_status)

lemma Arr_Init_synced:
  assumes "store_wf (cfg u)" "menus_ok (menus u)"
  shows "synced (Arr_Init u)"
proof -
  note l = lengths_of_wf[OF assms(1)]
  have len: "length (menus (load_status m n arr u') m') = length (menus u' m')" for m n arr u' m'
    by (simp add: load_status_def)
  show ?thesis
    unfolding synced_def menu_config_def Arr_Init_def Let_def
    by (simp add: l num_defs save_load_status len menus_ok_nth(1)[OF assms(2)] config_of_def)
qed

text \<open>The state after choosing Config and then Format in the menus of a fresh start.\<close>

definition in_format_menu :: "nat \<Rightarrow> ui" where
  "in_format_menu i = (menuInit (ui0 demo_store))\<lparr>current_state := 2,
     menu_states := menu_states0[0 := (menu_states0 ! 0)\<lparr>current_item := Some (Home, 1), current_item_idx := 1, cursor_line := 1\<rparr>,
       1 := (menu_states0 ! 1)\<lparr>prev_state := Some 0, current_item := Some (Config, 0)\<rparr>,
       2 := (menu_states0 ! 2)\<lparr>prev_state := Some 1, current_item_idx := i, cursor_line := min i 7\<rparr>]\<rparr>"

lemma in_format_menu_ok:
  assumes "i < 17"
  shows "showing (in_format_menu i) Config_Format i" "synced (in_format_menu i)" "store_wf (cfg (in_format_menu i))"
proof -
  have m: "menus_ok (menus (menuInit (ui0 demo_store)))" using menuInit_inv[of demo_store] by (simp add: menu_inv_def)
  show "showing (in_format_menu i) Config_Format i"
    using assms m by (simp add: in_format_menu_def showing_def levels_ok_def menu_states0_def numeral_2_eq_2
      level_ok_def OLED_LINES_def current_def Let_def home_items_def Config_menu_def submenu_item_def)
      (simp add: min_def)
  have c: "cfg (menuReset_No_RenderMenu (ui0 demo_store)) = demo_store"
    by (simp add: menuReset_No_RenderMenu_def resetState_def setState_def ui0_def)
  show "store_wf (cfg (in_format_menu i))"
    using demo_store_wf c by (simp add: in_format_menu_def menuInit_def)
  have "menus_ok (menus (menuReset_No_RenderMenu (ui0 demo_store)))"
    using menu_inv_reset(1)[OF ui0_ok] by (simp add: menu_inv_def)
  then have "synced (menuInit (ui0 demo_store))"
    using Arr_Init_synced demo_store_wf c by (simp add: menuInit_def)
  then show "synced (in_format_menu i)"
    by (simp add: synced_def menu_config_def save_status_def in_format_menu_def)
qed

theorem menu_choice_takes_effect_witness:
  "\<exists>u'. menuPollButtons demo_env evKeyConfirm (in_format_menu 5) = Some u' \<and>
    config_of (cfg u') = (config_of demo_store)[1 := one_set 17 5] \<and>
    filter is_fpga (effects (cfg u')) = filter is_fpga (effects (cfg (in_format_menu 5))) @
      [Send_Format_2_0x05 0x10, Send_Format_2_0x11 0x80]"
proof -
  have i: "(5 :: nat) < 17" by simp
  have r: "render_callback (menu_table Config_Format ! 5) = Some Config_Format_Action"
    by (simp add: Config_Format_menu_def action_item_def)
  have h: "hal_laws (env_hal demo_env)" by (simp add: demo_env_def nor_flash_laws)
  have n: "\<not> video_menu Config_Format_Action" by (simp add: video_menu_def)
  have p: "selection_pos Config_Format_Action = Some 1" by (simp add: selection_pos_def)
  have c: "config_of (cfg (in_format_menu 5)) = config_of demo_store"
    by (simp add: in_format_menu_def menuInit_def menuReset_No_RenderMenu_def resetState_def setState_def ui0_def)
  have l: "length (config_of demo_store ! 1) = 17" by (simp add: config_of_def demo_store_def)
  obtain u' where u': "menuPollButtons demo_env evKeyConfirm (in_format_menu 5) = Some u'"
    "config_of (cfg u') = (config_of (cfg (in_format_menu 5)))[1 := selected Config_Format_Action 5 (config_of (cfg (in_format_menu 5)) ! 1)]"
    "filter is_fpga (effects (cfg u')) = filter is_fpga (effects (cfg (in_format_menu 5))) @ fpga_calls Config_Format_Action 5"
    using menu_choice_takes_effect[OF in_format_menu_ok(1)[OF i] r p in_format_menu_ok(3)[OF i] h,
        of undefined undefined undefined] n in_format_menu_ok(2)[OF i] by auto
  then show ?thesis by (simp add: c selected_one_set[OF n] l[simplified] format_reg_def)
qed

section \<open>The Exit entry of the home menu\<close>

text \<open>C25: From a fresh start, Up and Confirm choose the home menu's Exit, which posts itself a cancel
  event; when that event is handled as a key, the code follows the null parent pointer of the
  home level.\<close>

theorem home_exit_null_parent:
  "\<exists>u. press_keys e [evKeyUP, evKeyConfirm] (menuInit (ui0 c)) = Some u \<and>
    events (event_q u) = [(evKeyCancal, MODE_KEY)] \<and> workMode u = MODE_KEY \<and> cnt_down u = 0 \<and>
    menuPollButtons e evKeyCancal u = None"
proof -
  obtain a where a: "menuPollButtons e evKeyUP (menuInit (ui0 c)) = scrollMenu e MENU_UP a" "showing a Home 0"
      "event_q a = event_q (menuInit (ui0 c))" "current_state a = 0"
    using poll_showing[OF menuInit_showing[of c], of evKeyUP e] menu_inv_reset(3)[OF ui0_ok, of c]
    by (auto simp: menuInit_def)
  obtain b where b: "scrollMenu e MENU_UP a = Some b" "showing b Home 3" "event_q b = event_q a" "current_state b = 0"
    using scroll_key[OF a(2), of MENU_UP 3 e] a(4) by auto
  obtain d where d: "menuPollButtons e evKeyConfirm b = scrollMenu e MENU_CONFIRM d" "showing d Home 3"
      "event_q d = event_q b" "current_state d = 0"
    using poll_showing[OF b(2), of evKeyConfirm e] b(4) by auto
  have "render_callback (menu_table Home ! 3) = Some Exit2MainMenu_Action"
    by (simp add: home_items_def action_item_def)
  from scroll_to_callback[OF d(2) this, of e] obtain f where
    f: "scrollMenu e MENU_CONFIRM d = Some (run_render e Exit2MainMenu_Action 3 f)" "event_q f = event_q d"
      "menus_ok (menus f)" "levels_ok (menu_states f)" "current_state f = 4"
      "in_callback (menu_states f) 0 Home Exit2MainMenu_Action"
    using d(4) by (elim exE conjE) simp
  let ?u = "run_render e Exit2MainMenu_Action 3 f"
  have q: "event_q f = event_state0"
    using f(2) d(3) b(3) a(3)
    by (simp add: menuInit_def menuReset_No_RenderMenu_def resetState_def setState_def ui0_def)
  have e0: "events event_state0 = []" by (simp add: events_def event_state0_def)
  have "events (event_q ?u) = [(evKeyCancal, MODE_KEY)]"
    using PushEvt_events[OF event_inv_init, of evKeyCancal MODE_KEY]
    by (simp add: run_render.simps Exit2MainMenu_ActionCallbackRender_def push_event_def SetWorkMode_def Set_cnt_down_def
        q e0 fifo_put_def EVENTBUFLEN_def)
  moreover have "workMode ?u = MODE_KEY" "cnt_down ?u = 0"
    by (simp_all add: run_render.simps Exit2MainMenu_ActionCallbackRender_def push_event_def SetWorkMode_def Set_cnt_down_def)
  moreover have "at_home_exit ?u" using f(5,6) by (simp add: at_home_exit_def)
  moreover have "menu_inv ?u" using f(3-6) by (intro menu_inv_callbackI) simp_all
  ultimately show ?thesis
    using poll_inv[of ?u evKeyCancal e] a(1) b(1) d(1) f(1) by (intro exI[of _ ?u]) simp
qed

end
