(* ===== verification/MenuEdit.thy ===== *)
theory MenuEdit
  imports MenuProps
begin

text \<open>
  The value editors of the menu (a byte of the IP or MAC address, the time offset).  What
  they have in common is the locale \<open>value_editor\<close>: a callback whose handler is the body
  \<open>edit_value\<close> over some byte of the configuration.  Its lemmas follow a whole edit, from the
  confirm key that opens the editor to the one that saves; it is interpreted for the three editors.
\<close>

definition at_callback :: "ui \<Rightarrow> menu_id \<Rightarrow> nat \<Rightarrow> callback \<Rightarrow> bool" where
  "at_callback u m i c \<longleftrightarrow> menus_ok (menus u) \<and> levels_ok (menu_states u) \<and> current_state u = 4 \<and>
     (\<exists>k. in_callback (menu_states u) k m c \<and> current_item_idx (menu_states u ! k) = i)"

lemma store_wf_draw [simp]: "store_wf (cfg (draw es u)) = store_wf (cfg u)"
  by (simp add: store_wf_def)

text \<open>A key in a callback other than Exit runs the handler; when it says so, the menu behind is drawn.\<close>

lemma callback_key:
  assumes "at_callback u m i c" "\<not> is_exit c" "role_of_key key = r" "r \<noteq> MENU_NONE"
    and h: "run_handler e c r i (u\<lparr>button := (button u)\<lparr>role := r, state := 0xF000, pressed := True\<rparr>\<rparr>) = Some (b, u')"
  shows "b \<Longrightarrow> \<exists>w. menuPollButtons e key u = Some w \<and> showing w m i \<and> keeps u' w"
    and "\<not> b \<Longrightarrow> menuPollButtons e key u = Some u' \<and> at_callback u' m i c"
proof -
  let ?u = "u\<lparr>button := (button u)\<lparr>role := r, state := 0xF000, pressed := True\<rparr>\<rparr>"
  obtain k where a: "menus_ok (menus u)" "levels_ok (menu_states u)" "current_state u = 4"
      "in_callback (menu_states u) k m c" and i: "current_item_idx (menu_states u ! k) = i"
    using assms(1) by (auto simp: at_callback_def)
  note poll = menuPollButtons_callback[OF a assms(4,3), of e, unfolded i h]
  have f: "menu_states u' = menu_states u" "current_state u' = current_state u" "menus_ok (menus u')"
    using run_handler_frame[OF assms(2), of e r i ?u] h a(1) by auto
  note d = in_callbackD[OF a(4)]
  show "\<not> b \<Longrightarrow> menuPollButtons e key u = Some u' \<and> at_callback u' m i c"
    using poll f a(2-4) i by (auto simp: at_callback_def)
  assume b
  let ?v = "u'\<lparr>current_state := k\<rparr>"
  have v: "menus_ok (menus ?v)" "levels_ok (menu_states ?v)" "chain (menu_states ?v) (current_state ?v) m"
    using f a(2) d(2) by simp_all
  have "prev_state (current u') = Some k" "state_at u' k = Some (menu_states u ! k)" "level (menu_states u ! k) = k"
    using d(1,3) f a(2,3) by (simp_all add: current_def state_at_ok levels_ok_nth)
  then have p: "menuPollButtons e key u = Some (draw (OLED_Clear # window_lines (menus ?v m) (current ?v)) ?v)"
    using poll \<open>b\<close> renderMenu_chain[OF v] by simp
  show "\<exists>w. menuPollButtons e key u = Some w \<and> showing w m i \<and> keeps u' w"
  proof -
    have "keeps u' ?v" by (rule keeps_same) simp_all
    from keeps_trans[OF this keeps_draw] show ?thesis
      using v i f p by (intro exI[of _ "draw (OLED_Clear # window_lines (menus ?v m) (current ?v)) ?v"])
        (simp add: showing_def current_def)
  qed
qed

text \<open>The value an editor would save: the stored one, unless an edit is pending.\<close>

definition edited :: "callback \<Rightarrow> (store \<Rightarrow> u8) \<Rightarrow> ui \<Rightarrow> u8" where
  "edited c get u = (if once u c = 1 then get (cfg u) else temp u c)"

locale value_editor =
  fixes c :: callback and m :: menu_id and i :: nat
    and get :: "store \<Rightarrow> u8" and put :: "u8 \<Rightarrow> store \<Rightarrow> store"
    and after_save :: "ui \<Rightarrow> ui" and view :: "u8 \<Rightarrow> ui \<Rightarrow> ui"
  assumes handler: "run_handler e c r i u = Some (edit_value e c get put after_save view r u)"
    and entry: "i < length (menu_table m)" "render_callback (menu_table m ! i) = Some c"
    and no_exit: "\<not> is_exit c"
    and saved_keeps: "once (after_save u) = once u" "temp (after_save u) = temp u"
      "config_of (cfg (after_save u)) = config_of (cfg u)" "store_flash (cfg (after_save u)) = store_flash (cfg u)"
      "save_status m' n (after_save u) = save_status m' n u"
    and view_keeps: "once (view x u) = once u" "temp (view x u) = temp u"
      "config_of (cfg (view x u)) = config_of (cfg u)" "menus (view x u) = menus u"
      "store_wf (cfg (view x u)) = store_wf (cfg u)"
    and render_keeps: "once (run_render e c i u) = once u" "temp (run_render e c i u) = temp u"
      "config_of (cfg (run_render e c i u)) = config_of (cfg u)" "menus (run_render e c i u) = menus u"
      "store_wf (cfg (run_render e c i u)) = store_wf (cfg u)"
    and get_config: "config_of s = config_of s' \<Longrightarrow> get s = get s'"
    and get_put: "store_wf s \<Longrightarrow> get (put x s) = x"
    and put_config: "config_of s = config_of s' \<Longrightarrow> config_of (put x s) = config_of (put x s')"
    and put_wf: "store_wf s \<Longrightarrow> store_wf (put x s)"
    and put_sync: "synced u \<Longrightarrow> synced (map_cfg (put x) u)"
begin

lemma sync_cong: "menus u' = menus u \<Longrightarrow> config_of (cfg u') = config_of (cfg u) \<Longrightarrow> synced u' = synced u"
  using menu_config_cong[of u' u] by (simp add: synced_def)

lemma open_editor:
  assumes "showing u m i"
  shows "\<exists>v. menuPollButtons e evKeyConfirm u = Some v \<and> at_callback v m i c \<and> edited c get v = edited c get u \<and>
    config_of (cfg v) = config_of (cfg u) \<and> synced v = synced u \<and> store_wf (cfg v) = store_wf (cfg u) \<and> once v c = once u c"
proof -
  obtain a where a: "menuPollButtons e evKeyConfirm u = scrollMenu e MENU_CONFIRM a" "showing a m i"
      "menus a = menus u" "cfg a = cfg u" "once a = once u" "temp a = temp u" "current_state a = current_state u"
    using poll_showing[OF assms, of evKeyConfirm e] by auto
  obtain b where b: "scrollMenu e MENU_CONFIRM a = Some (run_render e c i b)" "menus b = menus u" "cfg b = cfg u"
      "once b = once u" "temp b = temp u" "menus_ok (menus b)" "levels_ok (menu_states b)" "current_state b = 4"
      "in_callback (menu_states b) (current_state u) m c" "current_item_idx (menu_states b ! current_state u) = i"
    using scroll_to_callback[OF a(2) entry(2), of e] a(3-7) by auto
  let ?v = "run_render e c i b"
  have "at_callback ?v m i c" using b(6-10) by (auto simp: at_callback_def)
  moreover have "config_of (cfg ?v) = config_of (cfg u)" using b(3) by (simp add: render_keeps)
  moreover have "edited c get ?v = edited c get u"
    using get_config[OF calculation(2)] b(4,5) by (simp add: edited_def render_keeps)
  moreover have "synced ?v = synced u"
    using b(2,3) by (intro sync_cong) (simp_all add: render_keeps)
  ultimately show ?thesis
    using a(1) b(1,3,4) by (intro exI[of _ ?v]) (simp add: render_keeps)
qed

lemma arrow:
  assumes "at_callback v m i c" "key = evKeyUP \<and> d = 1 \<or> key = evKeyDown \<and> d = - 1"
  shows "\<exists>w. menuPollButtons e key v = Some w \<and> at_callback w m i c \<and> edited c get w = edited c get v + d \<and>
    once w c = 0 \<and> config_of (cfg w) = config_of (cfg v) \<and> synced w = synced v \<and> store_wf (cfg w) = store_wf (cfg v)"
proof -
  let ?r = "role_of_key key"
  let ?u = "v\<lparr>button := (button v)\<lparr>role := ?r, state := 0xF000, pressed := True\<rparr>\<rparr>"
  obtain b w where h: "edit_value e c get put after_save view ?r ?u = (b, w)" by (cases "edit_value e c get put after_save view ?r ?u")
  have r: "?r = MENU_UP \<and> d = 1 \<or> ?r = MENU_DOWN \<and> d = - 1" using assms(2) by auto
  have cfg1: "get (cfg (draw [OLED_Clear] ?u)) = get (cfg v)" by (intro get_config) simp
  have w: "\<not> b" "once w c = 0" "temp w c = edited c get v + d" "config_of (cfg w) = config_of (cfg v)"
      "menus w = menus v" "store_wf (cfg w) = store_wf (cfg v)"
    using h r cfg1
    by (auto simp: edit_value_def Let_def view_keeps edited_def store_wf_draw split: if_splits)
  have n: "?r \<noteq> MENU_NONE" using r by auto
  have "run_handler e c ?r i ?u = Some (b, w)" using handler[of e ?r ?u] h by simp
  from callback_key(2)[OF assms(1) no_exit refl n this w(1)]
  have "menuPollButtons e key v = Some w \<and> at_callback w m i c" .
  moreover have "edited c get w = edited c get v + d" using w(2,3) by (simp add: edited_def)
  moreover have "synced w = synced v" by (rule sync_cong[OF w(5,4)])
  ultimately show ?thesis using w(2,4,6) by blast
qed

text \<open>The sum of the ups and downs of a key sequence, as the byte counts it.\<close>

lemma arrows:
  assumes "at_callback v m i c" "set ks \<subseteq> {evKeyUP, evKeyDown}"
  shows "\<exists>w. press_keys e ks v = Some w \<and> at_callback w m i c \<and>
    edited c get w = edited c get v + of_nat (count_list ks evKeyUP) - of_nat (count_list ks evKeyDown) \<and>
    (ks = [] \<and> w = v \<or> once w c = 0) \<and> config_of (cfg w) = config_of (cfg v) \<and> synced w = synced v \<and>
    store_wf (cfg w) = store_wf (cfg v)"
  using assms
proof (induction ks arbitrary: v)
  case (Cons k ks)
  have ne: "evKeyUP \<noteq> evKeyDown" "evKeyDown \<noteq> evKeyUP" by (simp_all add: evKeyDown_def evKeyUP_def)
  define d :: u8 where "d = (if k = evKeyUP then 1 else - 1)"
  have "k = evKeyUP \<and> d = 1 \<or> k = evKeyDown \<and> d = - 1" using Cons.prems(2) ne by (auto simp: d_def)
  from arrow[OF Cons.prems(1) this, of e] obtain v1 where v1: "menuPollButtons e k v = Some v1" "at_callback v1 m i c"
      "edited c get v1 = edited c get v + d" "once v1 c = 0" "config_of (cfg v1) = config_of (cfg v)"
      "synced v1 = synced v" "store_wf (cfg v1) = store_wf (cfg v)" by (elim exE conjE)
  obtain w where w: "press_keys e ks v1 = Some w" "at_callback w m i c"
    "edited c get w = edited c get v1 + of_nat (count_list ks evKeyUP) - of_nat (count_list ks evKeyDown)"
    "ks = [] \<and> w = v1 \<or> once w c = 0" "config_of (cfg w) = config_of (cfg v1)" "synced w = synced v1"
    "store_wf (cfg w) = store_wf (cfg v1)"
    using Cons.IH[OF v1(2)] Cons.prems(2) by auto
  have "edited c get w = edited c get v + of_nat (count_list (k # ks) evKeyUP) - of_nat (count_list (k # ks) evKeyDown)"
  proof (cases "k = evKeyUP")
    case True
    then show ?thesis using w(3) v1(3) ne by (simp add: d_def)
  next
    case False
    then have "k = evKeyDown" using Cons.prems(2) by simp
    then show ?thesis using w(3) v1(3) ne by (simp add: d_def)
  qed
  moreover have "press_keys e (k # ks) v = Some w" using v1(1) w(1) by simp
  moreover have "once w c = 0" using w(4) v1(4) by auto
  ultimately show ?case
    using w(2,5-7) v1(5-7) by (intro exI[of _ w]) (simp del: press_keys.simps count_list.simps)
qed simp

lemma save:
  assumes "at_callback v m i c" "once v c = 0" "synced v" "store_wf (cfg v)" "hal_laws (env_hal e)"
  shows "\<exists>w. menuPollButtons e evKeyConfirm v = Some w \<and> showing w m i \<and> once w c = 1 \<and>
    config_of (cfg w) = config_of (put (edited c get v) (cfg v)) \<and>
    saved (store_flash (cfg w)) (config_of (cfg w)) [1]"
proof -
  let ?u = "v\<lparr>button := (button v)\<lparr>role := MENU_CONFIRM, state := 0xF000, pressed := True\<rparr>\<rparr>"
  let ?x = "edited c get v"
  let ?p = "draw [show_line MENU_Y ''Save To Flash...''] (map_cfg (put ?x) (draw [OLED_Clear] ?u))"
  let ?w = "set_once c 1 (after_save (Arr_Update e ?p))"
  have h: "run_handler e c MENU_CONFIRM i ?u = Some (True, ?w)"
    using assms(2) by (simp add: handler edit_value_def edited_def)
  obtain w where w: "menuPollButtons e evKeyConfirm v = Some w" "showing w m i" "keeps ?w w"
  proof -
    have "MENU_CONFIRM \<noteq> MENU_NONE" by simp
    from callback_key(1)[OF assms(1) no_exit role_of_keys(3) this h TrueI] show thesis
      by (elim exE conjE) (rule that)
  qed
  have wf: "store_wf (cfg ?p)" using assms(4) put_wf by (simp add: store_wf_def)
  have "synced ?p"
  proof -
    have "synced (draw [OLED_Clear] ?u)" 
      using assms(3) sync_cong[of "draw [OLED_Clear] ?u" v] by simp
    from put_sync[OF this, of ?x] show ?thesis by (simp add: synced_def)
  qed
  then have mc: "menu_config ?p = config_of (put ?x (cfg v))"
    using put_config[of "cfg (draw [OLED_Clear] ?u)" "cfg v" ?x] by (simp add: synced_def)
  have l: "map length (menu_config ?p) = config_lengths" "length (RESTORE (cfg ?p)) = 1" "length (User_Arr (cfg ?p)) = 256"
    using wf mc put_wf[OF assms(4), of ?x] by (simp_all add: store_wf_def)
  have c: "config_of (cfg ?w) = config_of (put ?x (cfg v))"
    using mc by (simp add: saved_keeps Arr_Update_config)
  have "saved (store_flash (cfg ?w)) (config_of (cfg ?w)) [1]"
    using Arr_Update_saved[OF assms(5) l] by (simp add: saved_keeps Arr_Update_config)
  moreover obtain es where "cfg w = emit es (cfg ?w)" "once w = once ?w" using w(3) by (auto simp: keeps_def)
  ultimately show ?thesis using w(1,2) c by (intro exI[of _ w]) simp
qed

text \<open>A whole edit.\<close>

lemma edit:
  assumes "showing u m i" "set ks \<subseteq> {evKeyUP, evKeyDown}" "ks \<noteq> [] \<or> once u c = 0"
    "synced u" "store_wf (cfg u)" "hal_laws (env_hal e)"
  shows "\<exists>w. press_keys e (evKeyConfirm # ks @ [evKeyConfirm]) u = Some w \<and> showing w m i \<and> once w c = 1 \<and>
    config_of (cfg w) = config_of (put (edited c get u + of_nat (count_list ks evKeyUP) - of_nat (count_list ks evKeyDown)) (cfg u)) \<and>
    saved (store_flash (cfg w)) (config_of (cfg w)) [1]"
proof -
  obtain v where v: "menuPollButtons e evKeyConfirm u = Some v" "at_callback v m i c" "edited c get v = edited c get u"
      "config_of (cfg v) = config_of (cfg u)" "synced v" "store_wf (cfg v)" "once v c = once u c"
    using open_editor[OF assms(1), of e] assms(4,5) by auto
  obtain w where w: "press_keys e ks v = Some w" "at_callback w m i c"
      "edited c get w = edited c get v + of_nat (count_list ks evKeyUP) - of_nat (count_list ks evKeyDown)"
      "ks = [] \<and> w = v \<or> once w c = 0" "config_of (cfg w) = config_of (cfg v)" "synced w" "store_wf (cfg w)"
    using arrows[OF v(2) assms(2), of e] v(5,6) by auto
  have "once w c = 0" using w(4) assms(3) v(7) by auto
  from save[OF w(2) this w(6,7) assms(6)] obtain x where x: "menuPollButtons e evKeyConfirm w = Some x" "showing x m i"
      "once x c = 1" "config_of (cfg x) = config_of (put (edited c get w) (cfg w))"
      "saved (store_flash (cfg x)) (config_of (cfg x)) [1]" by (elim exE conjE)
  have "config_of (cfg x) = config_of (put (edited c get w) (cfg u))"
    using x(4) put_config[of "cfg w" "cfg u"] w(5) v(4) by simp
  then show ?thesis
    using v(1,3) w(1,3) x(1-3,5) by (intro exI[of _ x]) (simp add: press_keys_append)
qed

end

section \<open>The three editors\<close>

lemma show_offset_cfg [simp]: "config_of (cfg (show_offset x u)) = config_of (cfg u)"
  "store_wf (cfg (show_offset x u)) = store_wf (cfg u)"
  by (simp_all add: show_offset_def Let_def draw_def store_wf_def)

lemma store_wf_fields: "store_wf s \<Longrightarrow> length (Ip_Arr s) = 4 \<and> length (Mac_Arr s) = 6"
  using lengths_of_wf by simp

lemma save_status_draw [simp]: "save_status m n (draw es u) = save_status m n u"
  by (simp add: save_status_def)

lemma mac_laws:
  "config_of s = config_of s' \<Longrightarrow> Mac_Arr s ! i = Mac_Arr s' ! i"
  "config_of s = config_of s' \<Longrightarrow> config_of (s\<lparr>Mac_Arr := (Mac_Arr s)[i := x]\<rparr>) = config_of (s'\<lparr>Mac_Arr := (Mac_Arr s')[i := x]\<rparr>)"
  "store_wf s \<Longrightarrow> store_wf (s\<lparr>Mac_Arr := (Mac_Arr s)[i := x]\<rparr>)"
  "synced u \<Longrightarrow> synced (map_cfg (\<lambda>c. c\<lparr>Mac_Arr := (Mac_Arr c)[i := x]\<rparr>) u)"
  by (simp_all add: config_of_def store_wf_def config_lengths_def synced_def menu_config_def save_status_def)

lemma ip_laws:
  "config_of s = config_of s' \<Longrightarrow> Ip_Arr s ! i = Ip_Arr s' ! i"
  "config_of s = config_of s' \<Longrightarrow> config_of (s\<lparr>Ip_Arr := (Ip_Arr s)[i := x]\<rparr>) = config_of (s'\<lparr>Ip_Arr := (Ip_Arr s')[i := x]\<rparr>)"
  "store_wf s \<Longrightarrow> store_wf (s\<lparr>Ip_Arr := (Ip_Arr s)[i := x]\<rparr>)"
  "synced u \<Longrightarrow> synced (map_cfg (\<lambda>c. c\<lparr>Ip_Arr := (Ip_Arr c)[i := x]\<rparr>) u)"
  by (simp_all add: config_of_def store_wf_def config_lengths_def synced_def menu_config_def save_status_def)

lemma gps_laws:
  "config_of s = config_of s' \<Longrightarrow> utc_offset_num s = utc_offset_num s'"
  "config_of s = config_of s' \<Longrightarrow> config_of (s\<lparr>utc_offset_num := x\<rparr>) = config_of (s'\<lparr>utc_offset_num := x\<rparr>)"
  "store_wf s \<Longrightarrow> store_wf (s\<lparr>utc_offset_num := x\<rparr>)"
  "synced u \<Longrightarrow> synced (map_cfg (\<lambda>c. c\<lparr>utc_offset_num := x\<rparr>) u)"
  by (simp_all add: config_of_def store_wf_def config_lengths_def synced_def menu_config_def save_status_def)

lemma mac_editor: "i < 6 \<Longrightarrow> value_editor Config_Network_MAC_Action Config_Network_MAC i
    (\<lambda>c. Mac_Arr c ! i) (\<lambda>x c. c\<lparr>Mac_Arr := (Mac_Arr c)[i := x]\<rparr>)
    (\<lambda>u. draw saved_lines (ip_mac_char (draw [OLED_Clear] u)))
    (\<lambda>x u. let u = my_mac_int_to_char x u in draw [OLED_ShowString 0 MENU_Y (cstr (mac_char u)) 12] u)"
  by unfold_locales
    (erule mac_laws | (auto simp: Config_Network_MAC_ActionCallback_def Config_Network_MAC_menu_def action_item_def is_exit_def
      run_render.simps Config_Network_MAC_ActionCallbackRender_def Let_def store_wf_fields
      less_Suc_eq numeral_eq_Suc; fail))+

lemma ip_editor: "i < 4 \<Longrightarrow> value_editor Config_Network_IP_Action Config_Network_IP i
    (\<lambda>c. Ip_Arr c ! i) (\<lambda>x c. c\<lparr>Ip_Arr := (Ip_Arr c)[i := x]\<rparr>)
    (\<lambda>u. ip_mac_char (draw (OLED_Clear # saved_lines) u))
    (\<lambda>x u. let u = ip_int_to_char x u in draw [OLED_ShowString 0 MENU_Y (cstr (ip_char u)) 12] u)"
  by unfold_locales
    (erule ip_laws | (auto simp: Config_Network_IP_ActionCallback_def Config_Network_IP_menu_def action_item_def is_exit_def
      run_render.simps Config_Network_IP_ActionCallbackRender_def Let_def store_wf_fields
      less_Suc_eq numeral_eq_Suc; fail))+

interpretation gps: value_editor Config_GPS_Action Config 4 utc_offset_num
    "\<lambda>x c. c\<lparr>utc_offset_num := x\<rparr>" "draw (OLED_Clear # saved_lines)"
    "\<lambda>x u. show_offset x (draw [show_line MENU_Y ''UTC_offset:''] u)"
  by unfold_locales
    (erule gps_laws | (simp add: Config_GPS_ActionCallback_def Config_menu_def action_item_def is_exit_def
      run_render.simps Config_GPS_ActionCallbackRender_def Let_def; fail))+

lemma keeps_edit:
  assumes "keeps u w"
  shows "config_of (cfg w) = config_of (cfg u)" "synced w = synced u" "store_wf (cfg w) = store_wf (cfg u)"
    "once w = once u" "temp w = temp u"
proof -
  obtain es where e: "cfg w = emit es (cfg u)" "menus w = menus u" using assms by (auto simp: keeps_def)
  show c: "config_of (cfg w) = config_of (cfg u)" by (simp add: e)
  show "synced w = synced u" using menu_config_cong[OF e(2) c] c by (simp add: synced_def)
  show "store_wf (cfg w) = store_wf (cfg u)" by (simp add: e store_wf_def)
  show "once w = once u" "temp w = temp u" using assms by (simp_all add: keeps_def)
qed

lemma restart_reads:
  assumes "saved (store_flash c) (config_of c) [1]" "store_wf c'" "map length (config_of c) = map length (config_of c')"
  shows "config_of (snd (ReadFlash2Arr hal v (ram\<lparr>store_flash := store_flash c\<rparr>))) = config_of c"
  using ReadFlash2Arr_saved(2)[of "ram\<lparr>store_flash := store_flash c\<rparr>" "config_of c" hal v] assms by (simp add: store_wf_def)

text \<open>C22: Editing a byte of the IP address stores what was dialled in: opening the editor, any
  sequence of ups and downs and a confirm add the ups and subtract the downs from that byte modulo
  256, change no other setting, leave the menu where it was, and the new address is what a
  restart reads back from flash.\<close>

theorem edit_ip_byte:
  assumes "showing u Config_Network_IP i" "i < 4" "once u Config_Network_IP_Action = 1"
    "set ks \<subseteq> {evKeyUP, evKeyDown}" "ks \<noteq> []" "synced u" "store_wf (cfg u)" "hal_laws (env_hal e)"
  shows "\<exists>w. press_keys e (evKeyConfirm # ks @ [evKeyConfirm]) u = Some w \<and> showing w Config_Network_IP i \<and>
    config_of (cfg w) = (config_of (cfg u))[4 := (Ip_Arr (cfg u))[i :=
       Ip_Arr (cfg u) ! i + of_nat (count_list ks evKeyUP) - of_nat (count_list ks evKeyDown)]] \<and>
    config_of (snd (ReadFlash2Arr hal v (ram\<lparr>store_flash := store_flash (cfg w)\<rparr>))) = config_of (cfg w)"
proof -
  note ed = value_editor.edit[OF ip_editor[OF assms(2)] assms(1,4) disjI1[OF assms(5)] assms(6-8)]
  let ?x = "Ip_Arr (cfg u) ! i + of_nat (count_list ks evKeyUP) - of_nat (count_list ks evKeyDown)"
  let ?s = "(cfg u)\<lparr>Ip_Arr := (Ip_Arr (cfg u))[i := ?x]\<rparr>"
  have "edited Config_Network_IP_Action (\<lambda>c. Ip_Arr c ! i) u = Ip_Arr (cfg u) ! i"
    using assms(3) by (simp add: edited_def)
  then obtain w where w: "press_keys e (evKeyConfirm # ks @ [evKeyConfirm]) u = Some w" "showing w Config_Network_IP i"
      "config_of (cfg w) = config_of ?s" "saved (store_flash (cfg w)) (config_of (cfg w)) [1]"
    using ed by auto
  have "map length (config_of (cfg w)) = map length (config_of (cfg u))" unfolding w(3) by (simp add: config_of_def)
  from restart_reads[OF w(4) assms(7) this] w show ?thesis
    by (intro exI[of _ w]) (simp add: config_of_def)
qed

lemma enter_key:
  assumes "showing u m i" "submenu (menu_table m ! i) = Some m'"
  shows "\<exists>w. menuPollButtons e evKeyConfirm u = Some w \<and> showing w m' 0 \<and> keeps u w"
proof -
  obtain a where a: "menuPollButtons e evKeyConfirm u = scrollMenu e MENU_CONFIRM a" "showing a m i" "keeps u a"
    using poll_showing[OF assms(1), of evKeyConfirm e] keeps_same by auto
  obtain w where "scrollMenu e MENU_CONFIRM a = Some w" "showing w m' 0" "keeps a w"
    using scroll_enter[OF a(2) assms(2), of e] by auto
  then show ?thesis using a(1) keeps_trans[OF a(3)] by auto
qed

lemma down_keys:
  assumes "showing u m i" "i + n < length (menu_table m)"
  shows "\<exists>w. press_keys e (replicate n evKeyDown) u = Some w \<and> showing w m (i + n) \<and> keeps u w"
proof -
  have "(\<Sum>k\<leftarrow>replicate n evKeyDown. if k = evKeyDown then 1 else - 1) = int n" by (induction n) simp_all
  moreover have "nat ((int i + int n) mod int (length (menu_table m))) = i + n"
    using assms(2) by simp
  moreover have "set (replicate n evKeyDown) \<subseteq> {evKeyUP, evKeyDown}" by auto
  ultimately show ?thesis
    using press_arrows[OF assms(1), of "replicate n evKeyDown" e] by auto
qed

definition path_to_ip :: "nat \<Rightarrow> u8 list" where
  "path_to_ip j = replicate 1 evKeyDown @ [evKeyConfirm] @ replicate 3 evKeyDown @ [evKeyConfirm, evKeyConfirm] @
     replicate j evKeyDown"

lemma walk_to_ip:
  assumes "showing u Home 0" "j < 4"
  shows "\<exists>w. press_keys e (path_to_ip j) u = Some w \<and> showing w Config_Network_IP j \<and> keeps u w"
proof -
  obtain a where a: "press_keys e (replicate 1 evKeyDown) u = Some a" "showing a Home 1" "keeps u a"
    using down_keys[OF assms(1), of 1 e] by auto
  obtain b where b: "menuPollButtons e evKeyConfirm a = Some b" "showing b Config 0" "keeps a b"
    using enter_key[OF a(2), of Config e] by (auto simp: home_items_def submenu_item_def)
  obtain c where c: "press_keys e (replicate 3 evKeyDown) b = Some c" "showing c Config 3" "keeps b c"
    using down_keys[OF b(2), of 3 e] by auto
  obtain d where d: "menuPollButtons e evKeyConfirm c = Some d" "showing d Config_Network 0" "keeps c d"
    using enter_key[OF c(2), of Config_Network e] by (auto simp: Config_menu_def submenu_item_def)
  obtain f where f: "menuPollButtons e evKeyConfirm d = Some f" "showing f Config_Network_IP 0" "keeps d f"
    using enter_key[OF d(2), of Config_Network_IP e] by (auto simp: Config_Network_menu_def submenu_item_def)
  obtain w where w: "press_keys e (replicate j evKeyDown) f = Some w" "showing w Config_Network_IP j" "keeps f w"
    using down_keys[OF f(2), of j e] assms(2) by auto
  have "keeps u w"
    using a(3) b(3) c(3) d(3) f(3) w(3) keeps_trans by blast
  moreover have "press_keys e (path_to_ip j) u = Some w"
    by (simp only: path_to_ip_def press_keys_append press_keys.simps bind.bind_lunit a(1) b(1) c(1) d(1) f(1) w(1))
  ultimately show ?thesis using w(2) by auto
qed

text \<open>C23: An abandoned edit is not forgotten: when the user opens the editor of one byte of the
  address, presses Up, and lets the menu time out, then later opens the editor of another byte
  and only confirms, that other byte is overwritten with the abandoned value.\<close>

theorem abandoned_edit_hits_other_byte:
  assumes "showing u Config_Network_IP i" "i < 4" "j < 4" "once u Config_Network_IP_Action = 1"
    "synced u" "store_wf (cfg u)" "hal_laws (env_hal e)"
  shows "\<exists>w x. press_keys e [evKeyConfirm, evKeyUP] u = Some w \<and>
    press_keys e (path_to_ip j @ [evKeyConfirm, evKeyConfirm]) (menuReset_No_RenderMenu w) = Some x \<and>
    Ip_Arr (cfg x) = (Ip_Arr (cfg u))[j := Ip_Arr (cfg u) ! i + 1]"
proof -
  let ?c = Config_Network_IP_Action
  let ?gi = "\<lambda>c. Ip_Arr c ! i" and ?gj = "\<lambda>c. Ip_Arr c ! j"
  obtain v where v: "menuPollButtons e evKeyConfirm u = Some v" "at_callback v Config_Network_IP i ?c"
      "edited ?c ?gi v = edited ?c ?gi u" "config_of (cfg v) = config_of (cfg u)" "synced v" "store_wf (cfg v)"
    using value_editor.open_editor[OF ip_editor[OF assms(2)] assms(1), of e] assms(5,6) by auto
  obtain w where w: "menuPollButtons e evKeyUP v = Some w" "at_callback w Config_Network_IP i ?c"
      "edited ?c ?gi w = edited ?c ?gi v + 1" "once w ?c = 0" "config_of (cfg w) = config_of (cfg v)"
      "synced w" "store_wf (cfg w)"
    using value_editor.arrow[OF ip_editor[OF assms(2)] v(2), of evKeyUP 1 e] v(5,6) by auto
  let ?r = "menuReset_No_RenderMenu w"
  have r: "once ?r = once w" "temp ?r = temp w" "menus ?r = menus w" "cfg ?r = cfg w" "event_q ?r = event_q w"
    by (simp_all add: menuReset_No_RenderMenu_def resetState_def setState_def)
  have m: "menus_ok (menus w)" "levels_ok (menu_states w)" using w(2) by (simp_all add: at_callback_def)
  have "showing ?r Home 0"
    using menu_inv_reset[OF m] levels_ok_nth(1)[OF m(2)]
    by (simp add: showing_def menu_inv_def current_def)
      (simp add: menuReset_No_RenderMenu_def resetState_def setState_def MENU_LEVEL_1_def)
  from walk_to_ip[OF this assms(3), of e] obtain t where
    t: "press_keys e (path_to_ip j) ?r = Some t" "showing t Config_Network_IP j" "keeps ?r t" by (elim exE conjE)
  note k = keeps_edit[OF t(3)]
  have sync: "synced t" "store_wf (cfg t)"
    using k w(6,7) keeps_edit(2)[OF keeps_same[of ?r w]] r by simp_all
  have "once t ?c = 0" using k r w(4) by simp
  then obtain x where x: "press_keys e (evKeyConfirm # [] @ [evKeyConfirm]) t = Some x"
      "config_of (cfg x) = config_of ((cfg t)\<lparr>Ip_Arr := (Ip_Arr (cfg t))[j := edited ?c ?gj t]\<rparr>)"
    using value_editor.edit[OF ip_editor[OF assms(3)] t(2), of "[]" e] sync assms(7) by auto
  have "edited ?c ?gj t = Ip_Arr (cfg u) ! i + 1"
  proof -
    have "temp w ?c = edited ?c ?gi u + 1" using w(3,4) v(3) by (simp add: edited_def)
    then show ?thesis using k(4,5) r w(4) assms(4) by (simp add: edited_def)
  qed
  moreover have "Ip_Arr (cfg t) = Ip_Arr (cfg u)"
    using k(1) r(4) w(5) v(4) by (simp add: config_of_def)
  ultimately have "Ip_Arr (cfg x) = (Ip_Arr (cfg u))[j := Ip_Arr (cfg u) ! i + 1]"
    using x(2) by (simp add: config_of_def)
  then show ?thesis
    using v(1) w(1) t(1) x(1) by (intro exI[of _ w] exI[of _ x]) (simp add: press_keys_append)
qed

lemma demo_start:
  shows "once (menuInit (ui0 demo_store)) c = 1" "cfg (menuInit (ui0 demo_store)) = demo_store"
    "synced (menuInit (ui0 demo_store))"
proof -
  have r: "menuReset_No_RenderMenu (ui0 demo_store) = (ui0 demo_store)\<lparr>menu_states := menu_states0\<rparr>"
    by (simp add: menuReset_No_RenderMenu_def resetState_def setState_def ui0_def menu_states0_def MENU_LEVEL_1_def)
  have o: "once (Arr_Init u) = once u" for u
    by (simp add: Arr_Init_def Let_def load_status_def)
  show "once (menuInit (ui0 demo_store)) c = 1" by (simp add: menuInit_def o r) (simp add: ui0_def)
  show "cfg (menuInit (ui0 demo_store)) = demo_store" by (simp add: menuInit_def r) (simp add: ui0_def)
  have "menus_ok (menus (menuReset_No_RenderMenu (ui0 demo_store)))"
    using ui0_ok(1)[of demo_store] by (simp add: r)
  then show "synced (menuInit (ui0 demo_store))"
    unfolding menuInit_def by (intro Arr_Init_synced) (simp_all add: r, simp_all add: ui0_def demo_store_wf)
qed

lemma demo_at_ip:
  assumes "j < 4"
  obtains u where "press_keys demo_env (path_to_ip j) (menuInit (ui0 demo_store)) = Some u"
    "showing u Config_Network_IP j" "once u Config_Network_IP_Action = 1" "synced u" "store_wf (cfg u)"
    "Ip_Arr (cfg u) = [10, 0, 0, 7]" "hal_laws (env_hal demo_env)"
proof -
  obtain u where u: "press_keys demo_env (path_to_ip j) (menuInit (ui0 demo_store)) = Some u"
      "showing u Config_Network_IP j" "keeps (menuInit (ui0 demo_store)) u"
    using walk_to_ip[OF menuInit_showing[of demo_store] assms, of demo_env] by (elim exE conjE)
  note k = keeps_edit[OF u(3)]
  have "Ip_Arr (cfg u) = Ip_Arr demo_store" using k(1) by (simp add: demo_start config_of_def)
  then show thesis
    using u k demo_start demo_store_wf by (intro that[of u]) (simp_all add: demo_store_def demo_env_def nor_flash_laws)
qed

theorem edit_ip_byte_witness:
  "\<exists>w. press_keys demo_env (path_to_ip 2 @ [evKeyConfirm, evKeyUP, evKeyUP, evKeyConfirm]) (menuInit (ui0 demo_store)) = Some w \<and>
    showing w Config_Network_IP 2 \<and> Ip_Arr (cfg w) = [10, 0, 2, 7]"
proof -
  have two: "(2 :: nat) < 4" by simp
  obtain u where u: "press_keys demo_env (path_to_ip 2) (menuInit (ui0 demo_store)) = Some u"
    "showing u Config_Network_IP 2" "once u Config_Network_IP_Action = 1" "synced u" "store_wf (cfg u)"
    "Ip_Arr (cfg u) = [10, 0, 0, 7]" "hal_laws (env_hal demo_env)"
    by (rule demo_at_ip[OF two])
  have ks: "set [evKeyUP, evKeyUP] \<subseteq> {evKeyUP, evKeyDown}" "[evKeyUP, evKeyUP] \<noteq> []" by simp_all
  have ne: "evKeyUP \<noteq> evKeyDown" by (simp add: evKeyDown_def evKeyUP_def)
  obtain w where w: "press_keys demo_env (evKeyConfirm # [evKeyUP, evKeyUP] @ [evKeyConfirm]) u = Some w"
      "showing w Config_Network_IP 2" "config_of (cfg w) = (config_of (cfg u))[4 := (Ip_Arr (cfg u))[2 :=
       Ip_Arr (cfg u) ! 2 + of_nat (count_list [evKeyUP, evKeyUP] evKeyUP) - of_nat (count_list [evKeyUP, evKeyUP] evKeyDown)]]"
    using edit_ip_byte[OF u(2) two u(3) ks u(4,5,7), where hal = nor_flash and v = demo_versions and ram = demo_store]
    by (elim exE conjE)
  have "Ip_Arr (cfg w) = [10, 0, 2, 7]"
    using w(3) u(6) ne by (simp add: config_of_def)
  then show ?thesis using u(1) w(1,2) by (intro exI[of _ w]) (simp only: press_keys_append bind.bind_lunit append_Cons append_Nil simp_thms)
qed

theorem abandoned_edit_hits_other_byte_witness:
  "\<exists>u w x. press_keys demo_env (path_to_ip 0) (menuInit (ui0 demo_store)) = Some u \<and>
    press_keys demo_env [evKeyConfirm, evKeyUP] u = Some w \<and>
    press_keys demo_env (path_to_ip 3 @ [evKeyConfirm, evKeyConfirm]) (menuReset_No_RenderMenu w) = Some x \<and>
    Ip_Arr (cfg x) = [10, 0, 0, 11]"
proof -
  have lt: "(0 :: nat) < 4" "(3 :: nat) < 4" by simp_all
  obtain u where u: "press_keys demo_env (path_to_ip 0) (menuInit (ui0 demo_store)) = Some u"
    "showing u Config_Network_IP 0" "once u Config_Network_IP_Action = 1" "synced u" "store_wf (cfg u)"
    "Ip_Arr (cfg u) = [10, 0, 0, 7]" "hal_laws (env_hal demo_env)"
    by (rule demo_at_ip[OF lt(1)])
  show ?thesis
    using abandoned_edit_hits_other_byte[OF u(2) lt u(3-5,7)] u(1,6) by auto
qed

text \<open>The time offset is edited as a signed byte: the ups are added and the downs subtracted
  modulo 256, nothing else changes, and the result survives a restart.\<close>

theorem edit_utc_offset:
  assumes "showing u Config 4" "once u Config_GPS_Action = 1"
    "set ks \<subseteq> {evKeyUP, evKeyDown}" "ks \<noteq> []" "synced u" "store_wf (cfg u)" "hal_laws (env_hal e)"
  shows "\<exists>w. press_keys e (evKeyConfirm # ks @ [evKeyConfirm]) u = Some w \<and> showing w Config 4 \<and>
    config_of (cfg w) = (config_of (cfg u))[6 :=
       [utc_offset_num (cfg u) + of_nat (count_list ks evKeyUP) - of_nat (count_list ks evKeyDown)]] \<and>
    config_of (snd (ReadFlash2Arr hal v (ram\<lparr>store_flash := store_flash (cfg w)\<rparr>))) = config_of (cfg w)"
proof -
  let ?x = "utc_offset_num (cfg u) + of_nat (count_list ks evKeyUP) - of_nat (count_list ks evKeyDown)"
  have "edited Config_GPS_Action utc_offset_num u = utc_offset_num (cfg u)"
    using assms(2) by (simp add: edited_def)
  then obtain w where w: "press_keys e (evKeyConfirm # ks @ [evKeyConfirm]) u = Some w" "showing w Config 4"
      "config_of (cfg w) = config_of ((cfg u)\<lparr>utc_offset_num := ?x\<rparr>)" "saved (store_flash (cfg w)) (config_of (cfg w)) [1]"
    using gps.edit[OF assms(1,3) disjI1[OF assms(4)] assms(5-7)] by auto
  have "map length (config_of (cfg w)) = map length (config_of (cfg u))" unfolding w(3) by (simp add: config_of_def)
  from restart_reads[OF w(4) assms(6) this] w show ?thesis
    by (intro exI[of _ w]) (simp add: config_of_def)
qed

theorem edit_utc_offset_witness:
  "\<exists>u w. showing u Config 4 \<and> press_keys demo_env [evKeyConfirm, evKeyDown, evKeyConfirm] u = Some w \<and>
    config_of (cfg w) = (config_of demo_store)[6 := [utc_offset_num demo_store - 1]]"
proof -
  obtain a where a: "press_keys demo_env (replicate 1 evKeyDown) (menuInit (ui0 demo_store)) = Some a" "showing a Home 1"
      "keeps (menuInit (ui0 demo_store)) a"
    using down_keys[OF menuInit_showing[of demo_store], of 1 demo_env] by auto
  obtain b where b: "showing b Config 0" "keeps a b"
    using enter_key[OF a(2), of Config demo_env] by (auto simp: home_items_def submenu_item_def)
  obtain u where u: "showing u Config 4" "keeps b u"
    using down_keys[OF b(1), of 4 demo_env] by auto
  note k = keeps_edit[OF keeps_trans[OF keeps_trans[OF a(3) b(2)] u(2)]]
  have f: "once u Config_GPS_Action = 1" "synced u" "store_wf (cfg u)"
    using k demo_start demo_store_wf by simp_all
  have ks: "set [evKeyDown] \<subseteq> {evKeyUP, evKeyDown}" "[evKeyDown] \<noteq> []" by simp_all
  have h: "hal_laws (env_hal demo_env)" by (simp add: demo_env_def nor_flash_laws)
  have ne: "evKeyUP \<noteq> evKeyDown" "evKeyDown \<noteq> evKeyUP" by (simp_all add: evKeyDown_def evKeyUP_def)
  have "utc_offset_num (cfg u) = utc_offset_num demo_store"
    using k(1) by (simp add: demo_start config_of_def)
  moreover obtain w where w: "press_keys demo_env (evKeyConfirm # [evKeyDown] @ [evKeyConfirm]) u = Some w"
      "config_of (cfg w) = (config_of (cfg u))[6 := [utc_offset_num (cfg u) +
         of_nat (count_list [evKeyDown] evKeyUP) - of_nat (count_list [evKeyDown] evKeyDown)]]"
    using edit_utc_offset[OF u(1) f(1) ks f(2,3) h, where hal = nor_flash and v = demo_versions and ram = demo_store]
    by (elim exE conjE)
  ultimately have "config_of (cfg w) = (config_of demo_store)[6 := [utc_offset_num demo_store - 1]]"
    using k(1) ne by (simp add: demo_start)
  then show ?thesis using u(1) w(1) by (intro exI[of _ u] exI[of _ w]) (simp only: append_Cons append_Nil simp_thms)
qed

section \<open>A setting from the network and a key\<close>

text \<open>C24: A setting that arrives over the network is lost when a key confirms another setting before
  the 100 ms poll has copied it to the menu: the confirm saves the menu's old value over it.\<close>

theorem network_setting_lost_to_key:
  assumes "showing u m i" "render_callback (menu_table m ! i) = Some c" "choice_pos c = Some p" "p \<noteq> 8"
    "synced u" "store_wf (cfg u)" "hal_laws (env_hal e)"
  shows "\<exists>u'. menuPollButtons e evKeyConfirm (map_cfg (Send_User_Data [0x03, 0x20, v]) u) = Some u' \<and>
    Config_Src_Sync_Type_Arr (cfg (map_cfg (Send_User_Data [0x03, 0x20, v]) u)) = set_loop v (Config_Src_Sync_Type_Arr (cfg u)) \<and>
    Config_Src_Sync_Type_Arr (cfg u') = Config_Src_Sync_Type_Arr (cfg u)"
proof -
  let ?n = "map_cfg (Send_User_Data [0x03, 0x20, v]) u"
  have s: "showing ?n m i" using assms(1) by (simp add: showing_def current_def)
  obtain b where b: "menuPollButtons e evKeyConfirm ?n = Some (run_render e c i b)" "cfg b = cfg ?n" "menus_ok (menus b)"
      "column_ok c m i" "menu_config b = menu_config ?n"
    using press_choice[OF s assms(2), of e] by auto
  have wf: "store_wf (cfg b)" using b(2) Send_User_Data_wf[OF assms(6)] by simp
  have "config_of (cfg (run_render e c i b)) = after_choice c i (menu_config ?n)"
    using choice_result(1)[OF assms(3) b(4,3) wf assms(7)] b(5) by simp
  then have "config_of (cfg (run_render e c i b)) ! 8 = menu_config ?n ! 8"
    using assms(3,4) by (simp add: after_choice_def)
  moreover have "menu_config ?n ! 8 = menu_config u ! 8"
    by (simp add: menu_config_def save_status_def)
  moreover have "menu_config u ! 8 = config_of (cfg u) ! 8" using assms(5) by (simp add: synced_def)
  ultimately have "Config_Src_Sync_Type_Arr (cfg (run_render e c i b)) = Config_Src_Sync_Type_Arr (cfg u)"
    by (simp add: config_of_def)
  moreover have "Config_Src_Sync_Type_Arr (cfg ?n) = set_loop v (Config_Src_Sync_Type_Arr (cfg u))"
  proof -
    have w: "length (User_Arr (cfg u)) = 256" using assms(6) by (simp add: store_wf_def)
    then show ?thesis
      using Send_User_Data_config[of 32 v "cfg u"]
      by (simp add: config_of_def Update_Flash_Arr_def Let_def Set_Config_SRC_synctype_def)
  qed
  ultimately show ?thesis using b(1) by blast
qed

theorem network_setting_lost_to_key_witness:
  "\<exists>u'. menuPollButtons demo_env evKeyConfirm (map_cfg (Send_User_Data [0x03, 0x20, 4]) (in_format_menu 5)) = Some u' \<and>
    Config_Src_Sync_Type_Arr (cfg u') = Config_Src_Sync_Type_Arr (cfg (in_format_menu 5))"
proof -
  have i: "(5 :: nat) < 17" by simp
  have r: "render_callback (menu_table Config_Format ! 5) = Some Config_Format_Action"
    by (simp add: Config_Format_menu_def action_item_def)
  have h: "hal_laws (env_hal demo_env)" by (simp add: demo_env_def nor_flash_laws)
  have p: "choice_pos Config_Format_Action = Some 1" "(1 :: nat) \<noteq> 8" by simp_all
  show ?thesis
    using network_setting_lost_to_key[OF in_format_menu_ok(1)[OF i] r p in_format_menu_ok(2,3)[OF i] h, of 4] by blast
qed

end
