(* ===== verification/StoreTypes.thy ===== *)
theory StoreTypes
  imports MenuEdit
begin

text \<open>
  What the values of the configuration may be, and that everything which writes them (the keys, the
  commands of the PC, the deferred save, the menu's refresh, a factory reset and restarts) keeps to it:
  every list of options has at most one option chosen, and every byte is one of the status values.
  It holds of the arrays in RAM, of the statuses the menus show and of the copy in flash.
\<close>

section \<open>The types\<close>

definition choice_type :: "bytes \<Rightarrow> bool" where
  "choice_type arr \<longleftrightarrow> set arr \<subseteq> {MENU_SET, MENU_RESET} \<and> count_list arr MENU_SET \<le> 1"

definition exact_type :: "bytes \<Rightarrow> bool" where
  "exact_type arr \<longleftrightarrow> set arr \<subseteq> {MENU_SET, MENU_RESET} \<and> count_list arr MENU_SET = 1"

definition video_type :: "bytes \<Rightarrow> bool" where
  "video_type arr \<longleftrightarrow> set arr \<subseteq> {MENU_SET, MENU_RESET, NON_OPERATE} \<and> count_list arr MENU_SET \<le> 1"

definition switch_type :: "bytes \<Rightarrow> bool" where
  "switch_type arr \<longleftrightarrow> set arr \<subseteq> {MENU_SET, MENU_RESET}"

definition any_type :: "bytes \<Rightarrow> bool" where "any_type arr \<longleftrightarrow> True"

text \<open>The types of the thirteen arrays: feature switches, format, video input and output, IP and MAC
  address, time offset, source mode, sync type, clock type, frame rate, display mode, brightness.\<close>

definition config_types :: "(bytes \<Rightarrow> bool) list" where
  "config_types = [switch_type, choice_type, video_type, video_type, any_type, any_type, any_type,
     exact_type, choice_type, choice_type, choice_type, choice_type, exact_type]"

definition typed :: "bytes list \<Rightarrow> bool" where
  "typed c \<longleftrightarrow> map length c = config_lengths \<and> list_all2 (\<lambda>ty arr. ty arr) config_types c"

definition typed_flash :: "flash \<Rightarrow> bool" where
  "typed_flash fl \<longleftrightarrow> (\<exists>c r. saved fl c r \<and> typed c \<and> (r = [0] \<or> r = [1]))"

definition typed_box :: "ui \<Rightarrow> bool" where
  "typed_box u \<longleftrightarrow> store_wf (cfg u) \<and> typed (config_of (cfg u)) \<and> typed (menu_config u) \<and>
     typed_flash (store_flash (cfg u))"

lemmas type_defs = choice_type_def exact_type_def video_type_def switch_type_def any_type_def

lemma typed_update:
  assumes "typed c" "length x = config_lengths ! p" "(config_types ! p) x"
  shows "typed (c[p := x])"
proof -
  have "list_all2 (\<lambda>ty arr. ty arr) (config_types[p := config_types ! p]) (c[p := x])"
    using assms(1,3) unfolding typed_def by (intro list_all2_update_cong) simp_all
  then show ?thesis
    using assms(1,2) by (simp add: typed_def map_length_update)
qed

lemma typed_nth:
  assumes "typed c" "p < 13"
  shows "(config_types ! p) (c ! p)" "length (c ! p) = config_lengths ! p"
proof -
  have n: "length c = 13" using arg_cong[of _ _ length] assms(1) by (auto simp: typed_def config_lengths_def)
  show "(config_types ! p) (c ! p)"
    using assms list_all2_nthD2[of "\<lambda>ty arr. ty arr" config_types c p] n by (simp add: typed_def)
  show "length (c ! p) = config_lengths ! p"
    using assms n nth_map[of p c length] by (simp add: typed_def)
qed

lemma at_most_one:
  "count_list arr x \<le> Suc 0 \<longleftrightarrow> (\<forall>i < length arr. \<forall>j < length arr. arr ! i = x \<and> arr ! j = x \<longrightarrow> i = j)"
proof -
  have "count_list arr x = card {i. i < length arr \<and> arr ! i = x}"
    by (simp add: count_list_eq_length_filter length_filter_conv_card) (metis (mono_tags, lifting))
  then show ?thesis by (auto simp: card_le_Suc0_iff_eq)
qed

lemma set_sub_nth: "set arr \<subseteq> A \<longleftrightarrow> (\<forall>i < length arr. arr ! i \<in> A)"
  by (auto simp: set_conv_nth)

text \<open>Marking one entry, by number or by menu.\<close>

lemma set_loop_type: "length arr \<le> 127 \<Longrightarrow> choice_type (set_loop p arr)" "length arr \<le> 127 \<Longrightarrow> video_type (set_loop p arr)"
  by (auto simp: choice_type_def video_type_def at_most_one set_sub_nth nth_set_loop split: if_splits)

lemma one_set_type: "k < n \<Longrightarrow> exact_type (one_set n k)" "choice_type (one_set n k)" "video_type (one_set n k)"
proof -
  show "choice_type (one_set n k)" "video_type (one_set n k)"
    by (auto simp: choice_type_def video_type_def at_most_one set_sub_nth nth_one_set split: if_splits)
  then have "count_list (one_set n k) MENU_SET \<le> 1" "set (one_set n k) \<subseteq> {MENU_SET, MENU_RESET}"
    by (simp_all add: choice_type_def)
  moreover assume "k < n"
  then have "MENU_SET \<in> set (one_set n k)" by (auto simp: in_set_conv_nth nth_one_set)
  then have "count_list (one_set n k) MENU_SET \<noteq> 0" by (simp add: count_list_0_iff)
  ultimately show "exact_type (one_set n k)" by (simp add: exact_type_def)
qed

lemma selected_video_type: "set arr \<subseteq> {MENU_SET, MENU_RESET, NON_OPERATE} \<Longrightarrow> video_type (selected c i arr)"
  by (auto simp: video_type_def at_most_one set_sub_nth selected_def split: if_splits)

lemma selected_typed:
  assumes "typed c" "selection_pos cb = Some p" "column_ok cb m i"
  shows "typed (c[p := selected cb i (c ! p)])"
proof -
  have p: "p < 13" using assms(2) by (cases cb) (auto simp: selection_pos_def)
  note t = typed_nth[OF assms(1) p]
  have "(config_types ! p) (selected cb i (c ! p))"
  proof (cases "video_menu cb")
    case True
    then have "config_types ! p = video_type" using video_columns[OF True assms(3,2)] by (auto simp: config_types_def)
    then show ?thesis using t(1) by (simp add: selected_video_type video_type_def[of "c ! p"])
  next
    case False
    have "choice_pos cb = Some p" using assms(2) False by (auto simp: selection_pos_def video_menu_def split: if_splits)
    then show ?thesis
      using assms(3) t(2) unfolding selected_one_set[OF False]
      by (cases cb) (auto simp: config_types_def config_lengths_def one_set_type)
  qed
  then show ?thesis using t(2) by (intro typed_update[OF assms(1)]) simp_all
qed

lemma factory_typed: "switch_type f \<Longrightarrow> length f = 5 \<Longrightarrow> typed (factory_config f)"
  unfolding typed_def using factory_lengths
  by (simp add: factory_config_def config_types_def any_type_def one_set_type Default_Config_Format_Arr_def
      Default_Config_Video_Input_Arr_def Default_Config_Video_Output_Arr_def Default_Config_Src_Mode_Arr_def
      Default_Config_Src_Sync_Type_Arr_def Default_Config_Src_Clock_Type_Arr_def Default_Config_Src_Sync_Frame_Arr_def
      Default_Config_Display_Mode_Arr_def Default_Config_Display_Brightness_Arr_def)

section \<open>The commands of the PC\<close>

lemma setters_config:
  "config_of (Set_Config_Format p s) = (config_of s)[1 := set_loop p (Config_Format_Arr s)]"
  "config_of (Set_Config_Video_Input p s) = (config_of s)[2 := set_loop p (Config_Video_Input_Arr s)]"
  "config_of (Set_Config_Video_Output p s) = (config_of s)[3 := set_loop p (Config_Video_Output_Arr s)]"
  "config_of (Set_UTCoffset_Num n s) = (config_of s)[6 := [n]]"
  "config_of (Set_Config_SRC_synctype p s) = (config_of s)[8 := set_loop p (Config_Src_Sync_Type_Arr s)]"
  "config_of (Set_Config_SRC_clocktype p s) = (config_of s)[9 := set_loop p (Config_Src_Clock_Type_Arr s)]"
  "config_of (Set_Config_SRC_syncframe p s) = (config_of s)[10 := set_loop p (Config_Src_Sync_Frame_Arr s)]"
  "config_of (Set_Config_Display_mode p s) = (config_of s)[11 := set_loop p (Config_Display_Mode_Arr s)]"
  by (simp_all add: config_of_def Set_Config_Format_def Set_Config_Video_Input_def Set_Config_Video_Output_def
      Set_UTCoffset_Num_def Set_Config_SRC_synctype_def Set_Config_SRC_clocktype_def Set_Config_SRC_syncframe_def
      Set_Config_Display_mode_def)

lemma typed_lengths:
  assumes "typed (config_of s)"
  shows "length (System_Feature_Arr s) = 5" "length (Config_Format_Arr s) = 17"
    "length (Config_Video_Input_Arr s) = 3" "length (Config_Video_Output_Arr s) = 2" "length (Ip_Arr s) = 4"
    "length (Mac_Arr s) = 6" "length (Config_Src_Mode_Arr s) = 2"
    "length (Config_Src_Sync_Type_Arr s) = 12" "length (Config_Src_Clock_Type_Arr s) = 3"
    "length (Config_Src_Sync_Frame_Arr s) = 6" "length (Config_Display_Mode_Arr s) = 3"
    "length (Config_Display_Brightness_Arr s) = 2"
  using assms by (simp_all add: typed_def config_of_def config_lengths_def)

lemma pair_type: "length arr = 2 \<Longrightarrow> exact_type (arr[0 := MENU_SET, Suc 0 := MENU_RESET])"
  "length arr = 2 \<Longrightarrow> exact_type (arr[0 := MENU_RESET, Suc 0 := MENU_SET])"
  by (auto simp: exact_type_def numeral_2_eq_2 length_Suc_conv)

lemma setters_typed [inv_intros]:
  assumes "typed (config_of s)"
  shows "typed (config_of (Set_Config_Format p s))" "typed (config_of (Set_Config_Video_Input p s))"
    "typed (config_of (Set_Config_Video_Output p s))" "typed (config_of (Set_UTCoffset_Num n s))"
    "typed (config_of (Set_SRC_MODE n s))" "typed (config_of (Set_Config_SRC_synctype p s))"
    "typed (config_of (Set_Config_SRC_clocktype p s))" "typed (config_of (Set_Config_SRC_syncframe p s))"
    "typed (config_of (Set_Config_Display_mode p s))" "typed (config_of (set_brightness s))"
proof -
  note l = typed_lengths[OF assms]
  note u = typed_update[OF assms]
  show "typed (config_of (Set_Config_Format p s))" "typed (config_of (Set_Config_Video_Input p s))"
    "typed (config_of (Set_Config_Video_Output p s))" "typed (config_of (Set_UTCoffset_Num n s))"
    "typed (config_of (Set_Config_SRC_synctype p s))"
    "typed (config_of (Set_Config_SRC_clocktype p s))" "typed (config_of (Set_Config_SRC_syncframe p s))"
    "typed (config_of (Set_Config_Display_mode p s))"
    unfolding setters_config using l by (auto intro!: u simp: config_types_def config_lengths_def set_loop_type any_type_def)
  have m: "typed ((config_of s)[7 := x])" if "exact_type x" "length x = 2" for x
    using that by (intro u) (simp_all add: config_types_def config_lengths_def)
  have b: "typed ((config_of s)[12 := x])" if "exact_type x" "length x = 2" for x
    using that by (intro u) (simp_all add: config_types_def config_lengths_def)
  show "typed (config_of (Set_SRC_MODE n s))"
    using m[OF pair_type(1)[OF l(7)]] m[OF pair_type(2)[OF l(7)]] l assms by (simp add: Set_SRC_MODE_def config_of_def)
  show "typed (config_of (set_brightness s))"
    using b[OF pair_type(1)[OF l(12)]] b[OF pair_type(2)[OF l(12)]] l assms by (simp add: set_brightness_def config_of_def)
qed

lemma channel_type:
  "x \<in> {MENU_SET, MENU_RESET, NON_OPERATE} \<Longrightarrow> channel f x \<in> {MENU_SET, MENU_RESET, NON_OPERATE}"
  "channel f x = MENU_SET \<Longrightarrow> x = MENU_SET"
  by (auto simp: channel_def split: if_splits)

lemma channels_type:
  assumes "video_type arr" "length fs = length arr"
  shows "video_type (map2 channel fs arr)"
proof -
  have n: "map2 channel fs arr ! i = channel (fs ! i) (arr ! i)" if "i < length arr" for i
    using that assms(2) by simp
  have l: "length (map2 channel fs arr) = length arr" using assms(2) by simp
  have "set (map2 channel fs arr) \<subseteq> {MENU_SET, MENU_RESET, NON_OPERATE}"
    unfolding set_sub_nth l using n channel_type(1) assms(1) by (simp add: video_type_def set_sub_nth)
  moreover have "count_list (map2 channel fs arr) MENU_SET \<le> Suc 0"
    unfolding at_most_one l using assms(1)[unfolded video_type_def One_nat_def at_most_one] channel_type(2) n by metis
  ultimately show ?thesis by (simp add: video_type_def)
qed

lemma En_Or_Dis_typed [inv_intros]:
  assumes "typed (config_of s)"
  shows "typed (config_of (En_Or_Dis_UpData s))"
proof -
  note l = typed_lengths[OF assms]
  obtain a b c where i: "Config_Video_Input_Arr s = [a, b, c]"
    using l(3) by (auto simp: numeral_eq_Suc length_Suc_conv)
  obtain d e where o: "Config_Video_Output_Arr s = [d, e]"
    using l(4) by (auto simp: numeral_eq_Suc length_Suc_conv)
  let ?f = "\<lambda>n. System_Feature_Arr s ! n"
  have v: "video_type [a, b, c]" "video_type [d, e]"
    using typed_nth(1)[OF assms, of 2] typed_nth(1)[OF assms, of 3] by (simp_all add: config_types_def config_of_def i o)
  have e: "config_of (En_Or_Dis_UpData s) = (config_of s)[2 := map2 channel [?f 2, ?f 3, ?f 4] [a, b, c],
      3 := map2 channel [?f 2, ?f 3] [d, e]]"
    by (simp add: En_Or_Dis_UpData_eq[OF i o] config_of_def)
  have t: "typed ((config_of s)[2 := map2 channel [?f 2, ?f 3, ?f 4] [a, b, c]])"
    using channels_type[OF v(1), of "[?f 2, ?f 3, ?f 4]"] by (intro typed_update[OF assms]) (simp_all add: config_types_def config_lengths_def)
  then show ?thesis
    unfolding e using channels_type[OF v(2), of "[?f 2, ?f 3]"]
    by (intro typed_update[OF t]) (simp_all add: config_types_def config_lengths_def)
qed

lemma switch_update: "switch_type f \<Longrightarrow> x = MENU_SET \<or> x = MENU_RESET \<Longrightarrow> switch_type (f[i := x])"
  using set_update_subset_insert[of f i x] by (auto simp: switch_type_def)

lemma Update_Flash_Arr_typed [inv_intros]:
  assumes "typed (config_of s)"
  shows "typed (config_of (Update_Flash_Arr pos s))"
proof -
  have sw: "switch_type (System_Feature_Arr s)"
    using typed_nth(1)[OF assms, of 0] by (simp add: config_types_def config_of_def)
  have f: "typed (config_of (s\<lparr>System_Feature_Arr := (System_Feature_Arr s)[i := x]\<rparr>))"
    if "x = MENU_SET \<or> x = MENU_RESET" for i x
  proof -
    have "config_of (s\<lparr>System_Feature_Arr := (System_Feature_Arr s)[i := x]\<rparr>) = (config_of s)[0 := (System_Feature_Arr s)[i := x]]"
      by (simp add: config_of_def)
    then show ?thesis
      using typed_update[OF assms, of "(System_Feature_Arr s)[i := x]" 0] switch_update[OF sw that] typed_lengths(1)[OF assms]
      by (simp add: config_types_def config_lengths_def)
  qed
  have ip: "typed (config_of (t\<lparr>Ip_Arr := (Ip_Arr t)[i := x]\<rparr>))" if "typed (config_of t)" for t i x
  proof -
    have "config_of (t\<lparr>Ip_Arr := (Ip_Arr t)[i := x]\<rparr>) = (config_of t)[4 := (Ip_Arr t)[i := x]]" by (simp add: config_of_def)
    then show ?thesis
      using typed_update[OF that, of "(Ip_Arr t)[i := x]" 4] typed_lengths(5)[OF that]
      by (simp add: config_types_def config_lengths_def any_type_def)
  qed
  define t where "t = (let s' = (if pos < 5 then (if User_Arr s ! pos = 1 then s\<lparr>System_Feature_Arr := (System_Feature_Arr s)[pos := MENU_SET]\<rparr>
      else if User_Arr s ! pos = 0 then s\<lparr>System_Feature_Arr := (System_Feature_Arr s)[pos := MENU_RESET]\<rparr> else s) else s);
      s' = En_Or_Dis_UpData s' in if pos = 0x0f then set_brightness s' else s')"
  have t: "typed (config_of t)"
    unfolding t_def Let_def using assms f by (auto intro!: inv_intros)
  show ?thesis
    unfolding Update_Flash_Arr_def Let_def t_def[unfolded Let_def, symmetric]
    using t ip[OF t] setters_typed[OF t] by simp
qed

lemma Send_User_Data_typed [inv_intros]:
  assumes "typed (config_of s)"
  shows "typed (config_of (Send_User_Data cmd s))"
proof -
  have e: "config_of (t\<lparr>send_to_eth := r, effects := es\<rparr>) = config_of t" "config_of (t\<lparr>send_to_eth := r\<rparr>) = config_of t"
    "config_of (Set_Update_Flash_Flag f t) = config_of t" "config_of (t\<lparr>User_Arr := ua\<rparr>) = config_of t" for es t r f ua
    by (simp_all add: config_of_def Set_Update_Flash_Flag_def)
  show ?thesis
    unfolding Send_User_Data_def Let_def using assms by (auto intro!: Update_Flash_Arr_typed simp: e)
qed

lemma Send_User_Data_flash [simp]: "store_flash (Send_User_Data cmd s) = store_flash s"
proof -
  have f: "store_flash (Update_Flash_Arr pos t) = store_flash t" for pos t
    by (simp add: Update_Flash_Arr_def Let_def set_brightness_def Set_Config_Format_def Set_Config_Video_Input_def
      Set_Config_Video_Output_def Set_UTCoffset_Num_def Set_SRC_MODE_def Set_Config_SRC_synctype_def
      Set_Config_SRC_clocktype_def Set_Config_SRC_syncframe_def Set_Config_Display_mode_def)
  show ?thesis by (simp add: Send_User_Data_def Let_def Set_Update_Flash_Flag_def f)
qed

section \<open>Saving, loading and the factory reset\<close>

lemma typed_lengths_config: "typed c \<Longrightarrow> map length c = config_lengths"
  by (simp add: typed_def)

lemma wf_save [inv_intros]: "store_wf s \<Longrightarrow> store_wf (Write2Flash hal v s)"
proof -
  assume a: "store_wf s"
  have f: "length (fold (\<lambda>i u. if g ! i = MENU_SET then u[i := 1] else if g ! i = MENU_RESET then u[i := 0] else u) is u) = length u"
    for g "is" and u :: bytes
    by (rule length_fold_features)
  have "length (User_Arr (Update_User_Arr v t)) = length (User_Arr t)" for t
    by (simp add: Update_User_Arr_def Let_def f split: option.split)
  then show ?thesis
    using a by (simp add: store_wf_def) (simp add: Write2Flash_def Let_def)
qed

lemma save_typed:
  assumes "hal_laws hal" "store_wf s" "typed (config_of s)"
  shows "typed (config_of (Write2Flash hal v s))" "typed_flash (store_flash (Write2Flash hal v s))"
proof -
  show "typed (config_of (Write2Flash hal v s))" using assms(3) by simp
  show "typed_flash (store_flash (Write2Flash hal v s))"
    using Write2Flash_saved(1)[OF assms(1,2), of v] assms(3) unfolding typed_flash_def by blast
qed

lemma block_is_upd: "x < a \<or> a + length bs \<le> x \<Longrightarrow> block_is (m(x := b)) (a, bs) = block_is m (a, bs)"
  unfolding block_is_def by (intro arg_cong2[where f = "(=)"] map_cong) auto

lemma restore_typed:
  assumes "hal_laws hal" "typed_flash (store_flash s)"
  shows "typed_flash (store_flash (Restore_Flash hal s))"
proof -
  obtain c r where c: "saved (store_flash s) c r" "typed c" "r = [0] \<or> r = [1]"
    using assms(2) by (auto simp: typed_flash_def)
  let ?m = "(cells (store_flash s))(RESTORE_NUM_ADDR := 0)"
  obtain a0 a1 a2 a3 a4 a5 a6 a7 a8 a9 a10 a11 a12 where
    l: "c = [a0, a1, a2, a3, a4, a5, a6, a7, a8, a9, a10, a11, a12]"
    "length a0 = 5" "length a1 = 17" "length a2 = 3" "length a3 = 2" "length a4 = 4" "length a5 = 6"
    "length a6 = 1" "length a7 = 2" "length a8 = 12" "length a9 = 3" "length a10 = 6" "length a11 = 3"
    "length a12 = 2"
    by (rule thirteen[OF typed_lengths_config[OF c(2)]])
  have "list_all (block_is ?m) (zip config_addrs (c @ [[0]]))"
    using c(1) l(2-) by (simp add: saved_def l(1) config_addrs_def block_is_upd addr_defs num_defs) (simp add: block_is_def)
  then have "saved (store_flash (Restore_Flash hal s)) c [0]"
    by (simp add: saved_def Restore_Flash_cells[OF assms(1)])
  then show ?thesis using c(2) unfolding typed_flash_def by blast
qed

lemma load_typed:
  assumes "hal_laws hal" "typed_flash (store_flash s)"
  shows "typed (config_of (snd (ReadFlash2Arr hal v s)))" "typed_flash (store_flash (snd (ReadFlash2Arr hal v s)))"
proof -
  obtain c r where c: "saved (store_flash s) c r" "typed c" "r = [0] \<or> r = [1]"
    using assms(2) by (auto simp: typed_flash_def)
  note lc = typed_lengths_config[OF c(2)]
  have "typed (config_of (snd (ReadFlash2Arr hal v s))) \<and> typed_flash (store_flash (snd (ReadFlash2Arr hal v s)))"
  proof (cases "r = [1]")
    case True
    then show ?thesis using ReadFlash2Arr_saved[of s c] c lc unfolding typed_flash_def by auto
  next
    case False
    then have r: "r = [0]" using c(3) by simp
    then have r0: "romflash_pages_read RESTORE_NUM_ADDR RESTORE_NUM (store_flash s) = [0]"
      using saved_restore[OF c(1) lc] by simp
    let ?f = "romflash_pages_read En_Or_Dis_NUM_ADDR En_Or_Dis_NUM (store_flash s)"
    obtain a0 cs where a: "c = a0 # cs" "length a0 = 5" using lc by (auto simp: config_lengths_def map_eq_Cons_conv)
    then have "block_is (cells (store_flash s)) (En_Or_Dis_NUM_ADDR, c ! 0)" "length (c ! 0) = 5"
      using c(1) by (simp_all add: saved_def config_addrs_def)
    then have "?f = c ! 0" by (simp add: read_block_is En_Or_Dis_NUM_def)
    then have "typed (factory_config ?f)"
      using typed_nth[OF c(2), of 0] by (intro factory_typed) (simp_all add: config_types_def config_lengths_def)
    then show ?thesis
      using ReadFlash2Arr_factory(2,3)[OF assms(1) r0, of v] unfolding typed_flash_def by auto
  qed
  then show "typed (config_of (snd (ReadFlash2Arr hal v s)))" "typed_flash (store_flash (snd (ReadFlash2Arr hal v s)))"
    by simp_all
qed

lemma wf_load:
  assumes "store_wf s" "map length (config_of (snd (ReadFlash2Arr hal v s))) = config_lengths"
  shows "store_wf (snd (ReadFlash2Arr hal v s))"
proof -
  have l: "length (romflash_pages_read a n fl) = n" for a n fl by (simp add: romflash_pages_read_def)
  have "length (User_Arr (Update_User_Arr v t)) = length (User_Arr t)" "length (RESTORE (Update_User_Arr v t)) = length (RESTORE t)" for t
    by (simp_all add: Update_User_Arr_def Let_def length_fold_features split: option.split)
  moreover have "User_Arr (load_arrays t) = User_Arr t" for t by (simp add: load_arrays_def Let_def)
  ultimately show ?thesis
    using assms unfolding store_wf_def by (simp add: ReadFlash2Arr_def Let_def l RESTORE_NUM_def)
qed

section \<open>The callbacks of the menu\<close>

text \<open>Nothing that the type of a box depends on has changed.\<close>

definition same_config :: "ui \<Rightarrow> ui \<Rightarrow> bool" where
  "same_config u u' \<longleftrightarrow> (\<forall>m k. save_status m k u' = save_status m k u) \<and> config_of (cfg u') = config_of (cfg u) \<and>
     store_flash (cfg u') = store_flash (cfg u) \<and> length (RESTORE (cfg u')) = length (RESTORE (cfg u)) \<and>
     length (User_Arr (cfg u')) = length (User_Arr (cfg u))"

lemma same_config_refl [simp]: "same_config u u"
  by (simp add: same_config_def)

lemma same_config_trans: "same_config u v \<Longrightarrow> same_config v w \<Longrightarrow> same_config u w"
  by (simp add: same_config_def)

lemma same_config_menu: "same_config u u' \<Longrightarrow> menu_config u' = menu_config u"
  by (simp add: same_config_def menu_config_def config_of_def)

lemma same_config_typed: "same_config u u' \<Longrightarrow> typed_box u \<Longrightarrow> typed_box u'"
  using same_config_menu[of u u'] by (simp add: typed_box_def same_config_def store_wf_def)

lemma same_configI: "menus u' = menus u \<Longrightarrow> cfg u' = cfg u \<Longrightarrow> same_config u u'"
  by (simp add: same_config_def save_status_def)

lemma same_config_draw [simp]: "same_config u (draw es u)"
  by (simp add: same_config_def save_status_draw)

lemma Update_User_Arr_length [simp]: "length (User_Arr (Update_User_Arr v s)) = length (User_Arr s)"
  by (simp add: Update_User_Arr_def Let_def length_fold_features split: option.split)

lemma Write2Flash_lengths [simp]:
  "length (RESTORE (Write2Flash hal v s)) = length (RESTORE s)" "length (User_Arr (Write2Flash hal v s)) = length (User_Arr s)"
  by (simp_all add: Write2Flash_def Let_def)

lemma Arr_Update_lengths [simp]:
  "length (RESTORE (cfg (Arr_Update e u))) = length (RESTORE (cfg u))"
  "length (User_Arr (cfg (Arr_Update e u))) = length (User_Arr (cfg u))"
  by (simp_all add: Arr_Update_def map_cfg_def)

lemma store_frames [simp]:
  "RESTORE (Set_FPGA_Reg_Config a r s) = RESTORE s" "User_Arr (Set_FPGA_Reg_Config a r s) = User_Arr s"
  "RESTORE (Set_Status x s) = RESTORE s" "length (User_Arr (Set_Status x s)) = length (User_Arr s)"
  "config_of (Set_Status x s) = config_of s" "store_flash (Set_Status x s) = store_flash s"
  by (simp_all add: Set_FPGA_Reg_Config_def Set_Status_def config_of_def)

lemma render_lengths:
  "length (RESTORE (cfg (run_render e c w u))) = length (RESTORE (cfg u))"
  "length (User_Arr (cfg (run_render e c w u))) = length (User_Arr (cfg u))"
  by (cases c; simp add: run_render.simps render_defs Let_def show_offset_def Display_Version_def Restart_Action_def
      Restore_Action_def Restore_Flash_def Update_Action_def Display_Video_Format_def Display_Audio_Format_def
      Display_Ethernet_Status_def Display_Error_Status_def Read_Eth_Link_Status_def split_def)+

lemma selection_render_typed:
  assumes "hal_laws (env_hal e)" "menus_ok (menus u)" "typed_box u" "column_ok c m i" "selection_pos c = Some p"
  shows "typed_box (run_render e c i u)"
proof (cases "video_menu c \<and> status (menus u m ! i) = NON_OPERATE")
  case True
  then show ?thesis using video_render(1)[OF _ assms(4,5), of u] assms(3) by simp
next
  case False
  have wf: "store_wf (cfg u)" and t: "typed (menu_config u)" using assms(3) by (simp_all add: typed_box_def)
  note r = selection_result[OF assms(5,4,2) wf assms(1) False]
  have "typed (config_of (cfg (run_render e c i u)))"
    unfolding r(1) by (rule selected_typed[OF t assms(5,4)])
  moreover from this have "typed_flash (store_flash (cfg (run_render e c i u)))"
    using r(3) unfolding typed_flash_def by blast
  ultimately show ?thesis
    using r(2,4) wf render_lengths[of e c i u] by (simp add: typed_box_def synced_def store_wf_def)
qed

lemma restore_box: "hal_laws hal \<Longrightarrow> typed_box u \<Longrightarrow> typed_box (map_cfg (Restore_Flash hal) u)"
proof -
  assume a: "hal_laws hal" "typed_box u"
  have c: "config_of (Restore_Flash hal s) = config_of s" "RESTORE (Restore_Flash hal s) = RESTORE s"
    "User_Arr (Restore_Flash hal s) = User_Arr s" for s
    by (simp_all add: Restore_Flash_def config_of_def)
  then have "menu_config (map_cfg (Restore_Flash hal) u) = menu_config u" by simp
  then show ?thesis
    using a restore_typed[OF a(1), of "cfg u"] by (simp add: typed_box_def store_wf_def c)
qed

lemma other_render_typed:
  assumes "hal_laws (env_hal e)" "typed_box u" "selection_pos c = None"
  shows "typed_box (run_render e c i u)"
proof (cases "c = System_Universal \<and> i = 2")
  case True
  have "run_render e c i u = draw [ReStart] (map_cfg (Restore_Flash (env_hal e)) (draw [OLED_Clear] u))"
    using True by (simp add: run_render.simps render_defs Let_def Restore_Action_def map_cfg_def draw_def)
  then show ?thesis
    using same_config_typed[OF same_config_draw] restore_box[OF assms(1) same_config_typed[OF same_config_draw assms(2)]] by simp
next
  case False
  have "same_config u (run_render e c i u)"
    using assms(3) False unfolding same_config_def
    by (cases c) (auto simp: selection_pos_def run_render.simps render_defs Let_def show_offset_def Display_Version_def
      Restart_Action_def Update_Action_def Display_Video_Format_def Display_Audio_Format_def
      Display_Ethernet_Status_def Display_Error_Status_def Read_Eth_Link_Status_def split_def save_status_def)
  then show ?thesis using assms(2) same_config_typed by blast
qed

lemma render_typed:
  assumes "hal_laws (env_hal e)" "menus_ok (menus u)" "typed_box u" "column_ok c m i"
  shows "typed_box (run_render e c i u)"
  using selection_render_typed[OF assms] other_render_typed[OF assms(1,3)] by (cases "selection_pos c") auto

lemma same_config_frames [simp]:
  "same_config u (set_once c x u)" "same_config u (set_temp c x u)" "same_config u (ip_mac_char u)"
  "same_config u (ip_int_to_char b u)" "same_config u (my_mac_int_to_char b u)" "same_config u (Set_button_num ch u)"
  "same_config u (Set_Display_Once_Flag x u)" "same_config u (set_current s u)"
  by (simp_all add: same_config_def) (simp_all add: save_status_def)

lemma same_config_then_draw: "same_config u v \<Longrightarrow> same_config u (draw es v)"
  by (rule same_config_trans[OF _ same_config_draw])

lemma same_config_show_offset [simp]: "same_config u (show_offset x u)"
proof -
  have "same_config v (v\<lparr>ip_char := s\<rparr>)" for v s by (rule same_configI) simp_all
  from same_config_trans[OF same_config_frames(4) this] show ?thesis
    unfolding show_offset_def Let_def by (rule same_config_then_draw)
qed

lemma Arr_Update_box:
  assumes "hal_laws (env_hal e)" "typed_box u"
  shows "typed_box (Arr_Update e u)"
proof -
  have w: "store_wf (cfg u)" "typed (menu_config u)" using assms(2) by (simp_all add: typed_box_def)
  have "saved (store_flash (cfg (Arr_Update e u))) (menu_config u) [1]"
    using w by (intro Arr_Update_saved[OF assms(1)]) (simp_all add: typed_def store_wf_def)
  then have "typed_flash (store_flash (cfg (Arr_Update e u)))" using w(2) unfolding typed_flash_def by blast
  moreover have "map length (menu_config u) = config_lengths" using w(2) by (simp add: typed_def)
  ultimately show ?thesis using w by (simp add: typed_box_def store_wf_def Arr_Update_config)
qed

text \<open>The editors write the free bytes only.\<close>

lemma put_box:
  assumes "\<And>s. config_of (f s) = (config_of s)[p := g s]" "\<And>s. store_flash (f s) = store_flash s"
    "\<And>s. RESTORE (f s) = RESTORE s" "\<And>s. User_Arr (f s) = User_Arr s" "p \<in> {4, 5, 6}"
    "\<And>s. typed (config_of s) \<Longrightarrow> length (g s) = config_lengths ! p"
    and "typed_box u"
  shows "typed_box (map_cfg f u)"
proof -
  have t: "typed (config_of (cfg u))" "typed (menu_config u)" using assms(7) by (simp_all add: typed_box_def)
  have k: "config_types ! p = any_type" using assms(5) by (auto simp: config_types_def)
  have up: "typed (c[p := g (cfg u)])" if "typed c" for c
    using typed_update[OF that assms(6)[OF t(1)]] k by (simp add: any_type_def)
  have "menu_config (map_cfg f u) = (menu_config u)[p := g (cfg u)]"
  proof -
    have m: "menu_config v = list_update (list_update (list_update (menu_config w) 4 (config_of (cfg v) ! 4)) 5 (config_of (cfg v) ! 5)) 6 (config_of (cfg v) ! 6)"
      if "menus v = menus w" for v w
      using that by (simp add: menu_config_def config_of_def save_status_def)
    show ?thesis
      using m[of "map_cfg f u" u] assms(1)[of "cfg u"] assms(5) by (auto simp: menu_config_def config_of_def)
  qed
  moreover have "map length (config_of (f (cfg u))) = config_lengths"
    using up[OF t(1)] assms(1) by (simp add: typed_def)
  ultimately show ?thesis
    using assms(7) up[OF t(1)] up[OF t(2)] by (simp add: typed_box_def store_wf_def assms(1-4))
qed

lemma put_address_box:
  "typed_box u \<Longrightarrow> typed_box (map_cfg (\<lambda>c. c\<lparr>Mac_Arr := (Mac_Arr c)[i := x]\<rparr>) u)"
  "typed_box u \<Longrightarrow> typed_box (map_cfg (\<lambda>c. c\<lparr>Ip_Arr := (Ip_Arr c)[i := x]\<rparr>) u)"
  "typed_box u \<Longrightarrow> typed_box (map_cfg (\<lambda>c. c\<lparr>utc_offset_num := x\<rparr>) u)"
  by (rule put_box[where p = 5 and g = "\<lambda>c. (Mac_Arr c)[i := x]"] put_box[where p = 4 and g = "\<lambda>c. (Ip_Arr c)[i := x]"]
      put_box[where p = 6 and g = "\<lambda>_. [x]"]; simp add: config_of_def typed_def config_lengths_def)+

lemma edit_typed:
  assumes "hal_laws (env_hal e)" "typed_box u" "\<And>x u. typed_box u \<Longrightarrow> typed_box (map_cfg (put x) u)"
    and "\<And>u. same_config u (after_save u)" "\<And>x u. same_config u (view x u)"
  shows "typed_box (snd (edit_value e c get put after_save view r u))"
proof -
  let ?v = "draw [OLED_Clear] u"
  let ?w = "if temp ?v c \<noteq> get (cfg ?v) \<and> once ?v c = 1 then set_temp c (get (cfg ?v)) ?v else ?v"
  have w: "typed_box ?w"
    using same_config_typed[OF same_config_draw assms(2)] same_config_typed[OF same_config_frames(2)] by auto
  have s: "typed_box (set_once c x u)" "typed_box (set_temp c x u)" "typed_box (view b u)" "typed_box (after_save u)"
    "typed_box (draw es u)" if "typed_box u" for x b u es
    using same_config_typed[OF _ that] assms(4,5) by auto
  show ?thesis
    unfolding edit_value_def Let_def[of ?v] Let_def[of ?w]
    using s w assms(3) Arr_Update_box[OF assms(1)] by (cases r) (simp_all add: Let_def)
qed

lemma handler_typed:
  assumes "hal_laws (env_hal e)" "typed_box u" "\<not> is_exit c" "run_handler e c r w u = Some (b, u')"
  shows "typed_box u'"
proof -
  have "typed_box (snd (the (run_handler e c r w u)))"
  proof (cases "c \<in> {Config_Network_MAC_Action, Config_Network_IP_Action, Config_GPS_Action}")
    case True
    have v: "same_config u (let u = my_mac_int_to_char x u in draw [OLED_ShowString 0 MENU_Y (cstr (mac_char u)) 12] u)"
      "same_config u (let u = ip_int_to_char x u in draw [OLED_ShowString 0 MENU_Y (cstr (ip_char u)) 12] u)"
      "same_config u (show_offset x (draw es u))" for x u es
      by (simp_all add: Let_def same_config_then_draw same_config_trans[OF same_config_draw same_config_show_offset])
    have a: "same_config u (draw es (ip_mac_char (draw es' u)))" "same_config u (ip_mac_char (draw es u))" for u es es'
      by (simp_all add: same_config_then_draw same_config_trans[OF same_config_draw same_config_frames(3)])
    show ?thesis
      using True assms(1,2) by (auto simp: handler_defs intro!: edit_typed put_address_box v a)
  next
    case False
    then show ?thesis
      using assms(2,3) same_config_typed[OF _ assms(2)]
        other_render_typed[OF assms(1,2), of System_Universal w] other_render_typed[OF assms(1,2), of Status_Print w]
        other_render_typed[OF assms(1,2), of Status_Synch_Print w]
      by (cases c) (auto simp: handler_defs choice_switch_def is_exit_def selection_pos_def run_render.simps
          intro: same_config_trans[OF same_config_draw same_config_frames(1)] split: MENU_BUTTON_ROLE.split)
  qed
  then show ?thesis using assms(4) by auto
qed

section \<open>Keys\<close>

lemma scroll_same:
  assumes "(case r of MENU_UP \<Rightarrow> scroll_up u | MENU_DOWN \<Rightarrow> scroll_down u
      | MENU_CONFIRM \<Rightarrow> scroll_confirm u | MENU_CANCEL \<Rightarrow> scroll_cancel u | MENU_NONE \<Rightarrow> Some u) = Some v"
  shows "same_config u v"
proof -
  have "menus v = menus u \<and> cfg v = cfg u"
  proof (cases r)
    case MENU_CONFIRM
    then show ?thesis
      using assms by (auto simp: scroll_confirm_def setState_def resetState_def Let_def bind_eq_Some_conv split: if_splits option.splits)
  qed (use assms in \<open>auto simp: scroll_up_def scroll_down_def scroll_cancel_def Let_def bind_eq_Some_conv split: if_splits\<close>)
  then show ?thesis by (intro same_configI) simp_all
qed

lemma renderMenu_same: "renderMenu u = Some v \<Longrightarrow> same_config u v"
  by (auto simp: renderMenu_def bind_eq_Some_conv)

lemma refresh_typed:
  assumes "hal_laws (env_hal e)" "menu_inv u" "typed_box u" "refresh e u = Some u'"
  shows "typed_box u'"
  using assms(2)
proof (cases rule: menu_inv_cases)
  case (level m)
  then show ?thesis using refresh_level[OF level(1,2,4), of e] assms(4) same_config_typed[OF same_config_draw assms(3)] by simp
next
  case (callback k m c)
  have "current_item_idx (current u) = current_item_idx (menu_states u ! k)"
    using in_callbackD(5)[OF callback(4)] callback(3) by (simp add: current_def)
  then have "column_ok c m (current_item_idx (current u))" using in_callbackD(8)[OF callback(4)] by simp
  then show ?thesis
    using refresh_callback[OF callback, of e] assms(4) render_typed[OF assms(1) callback(1) assms(3)] by simp
qed

lemma scrollMenu_typed:
  assumes "hal_laws (env_hal e)" "menus_ok (menus u)" "levels_ok (menu_states u)" "chain (menu_states u) (current_state u) m"
    and "typed_box u" "scrollMenu e r u = Some u'"
  shows "typed_box u'"
proof -
  obtain v where v: "(case r of MENU_UP \<Rightarrow> scroll_up u | MENU_DOWN \<Rightarrow> scroll_down u
      | MENU_CONFIRM \<Rightarrow> scroll_confirm u | MENU_CANCEL \<Rightarrow> scroll_cancel u | MENU_NONE \<Rightarrow> Some u) = Some v" "menu_inv v"
    using scroll_inv[OF assms(2-4), of r] by auto
  then have "refresh e v = Some u'" using assms(6) by (simp add: scrollMenu_def)
  then show ?thesis
    using refresh_typed[OF assms(1) v(2)] same_config_typed[OF scroll_same[OF v(1)] assms(5)] by simp
qed

lemma exit_typed:
  assumes "menus_ok (menus u)" "levels_ok (menu_states u)" "current_state u = 4"
    "in_callback (menu_states u) k m c" "is_exit c" "typed_box u" "run_handler e c r w u = Some (b, u')"
  shows "typed_box u'"
proof -
  have s: "Set_Exit u = u" by (rule set_exit_same[OF assms(2,3)])
  let ?v = "Set_button_num CHR ''d'' (Set_button_num CHR ''d'' u)"
  have v: "typed_box ?v" "typed_box (Set_button_num CHR ''d'' u)"
    using same_config_typed[OF same_config_frames(6)] assms(6) by blast+
  have "\<exists>es k. scrollMenu e MENU_CANCEL ?v = Some (draw es (?v\<lparr>current_state := k\<rparr>))"
    using scrollMenu_cancel_callback[of ?v k m c] assms(1-4) by auto
  then obtain x where x: "scrollMenu e MENU_CANCEL ?v = Some x" "typed_box x"
    using same_config_typed[OF same_config_then_draw[OF same_configI] v(1)] by auto
  have t: "typed_box (set_once c n y)" "typed_box (Set_Display_Once_Flag z y)" if "typed_box y" for c n y z
    using same_config_typed[OF same_config_frames(1) that] same_config_typed[OF same_config_frames(7) that] .
  show ?thesis
    using assms(5,7) x v t
    by (cases r) (auto simp: is_exit_def Exit_ActionCallback_def Exit2MainMenu_ActionCallback_def s Let_def)
qed

lemma poll_typed:
  assumes "hal_laws (env_hal e)" "menu_inv u" "typed_box u" "menuPollButtons e key u = Some u'"
  shows "typed_box u'"
proof (cases "role_of_key key = MENU_NONE")
  case True
  then have "same_config u u'" using assms(4) by (auto simp: menuPollButtons_def Let_def intro!: same_configI)
  then show ?thesis using assms(3) same_config_typed by blast
next
  case False
  let ?u = "u\<lparr>button := (button u)\<lparr>role := role_of_key key, state := 0xF000, pressed := True\<rparr>\<rparr>"
  have t: "typed_box ?u" by (rule same_config_typed[OF same_configI assms(3)]) simp_all
  from assms(2) show ?thesis
  proof (cases rule: menu_inv_cases)
    case (level m)
    have "level (current ?u) \<noteq> MENU_CALLBACK"
      using current_level[of ?u] level by (simp add: MENU_CALLBACK_def)
    then have "scrollMenu e (role_of_key key) ?u = Some u'"
      using False assms(4) by (simp add: menuPollButtons_def Let_def)
    then show ?thesis using scrollMenu_typed[OF assms(1) _ _ _ t] level by simp
  next
    case (callback k m c)
    note poll = menuPollButtons_callback[OF callback False refl, of e]
    obtain b v where h: "run_handler e c (role_of_key key) (current_item_idx (menu_states u ! k)) ?u = Some (b, v)"
      using assms(4)[unfolded poll] by (auto simp: bind_eq_Some_conv)
    have v: "typed_box v"
    proof (cases "is_exit c")
      case True
      show ?thesis using exit_typed[of ?u k m c, OF _ _ _ _ True t h] callback by simp
    next
      case False
      show ?thesis by (rule handler_typed[OF assms(1) t False h])
    qed
    show ?thesis
    proof (cases b)
      case True
      then obtain n where "renderMenu (v\<lparr>current_state := n\<rparr>) = Some u'"
        using assms(4)[unfolded poll] h by (auto simp: bind_eq_Some_conv)
      then have "same_config v u'"
        using same_config_trans[OF same_configI renderMenu_same, of "v\<lparr>current_state := n\<rparr>"] by simp
      then show ?thesis using v same_config_typed by blast
    next
      case False
      then show ?thesis using assms(4)[unfolded poll] h v by simp
    qed
  qed
qed

section \<open>Everything the box does\<close>

text \<open>Power-up with some contents of RAM and flash.\<close>

definition power_up :: "env \<Rightarrow> store \<Rightarrow> ui" where
  "power_up e ram = menuInit (ui0 (snd (ReadFlash2Arr (env_hal e) (env_vers e) ram)))"

text \<open>A key, a command of the PC, the two halves of the poll that follows a command, the time-out of the
  menu, a status of the FPGA or the link, the flag of the poll, something drawn on the display, a power cycle with arbitrary RAM, and whatever changes neither the menu nor the
  store (events, clocks, counters).\<close>

inductive box_step :: "env \<Rightarrow> ui \<Rightarrow> ui \<Rightarrow> bool" for e where
  key: "menuPollButtons e k u = Some u' \<Longrightarrow> box_step e u u'"
| command: "box_step e u (map_cfg (Send_User_Data cmd) u)"
| to_menu: "box_step e u (Arr_Init u)"
| to_flash: "box_step e u (map_cfg (Write2Flash (env_hal e) (env_vers e)) u)"
| timeout: "menuReset u = Some u' \<Longrightarrow> box_step e u u'"
| leave: "box_step e u (menuReset_No_RenderMenu u)"
| status: "box_step e u (map_cfg (Set_Status x) u)"
| flag: "box_step e u (map_cfg (Set_Update_Flash_Flag f) u)"
| drawing: "box_step e u (draw es u)"
| restart: "store_wf ram \<Longrightarrow> box_step e u (power_up e (ram\<lparr>store_flash := store_flash (cfg u)\<rparr>))"
| other: "menus u' = menus u \<Longrightarrow> menu_states u' = menu_states u \<Longrightarrow> current_state u' = current_state u \<Longrightarrow>
    cfg u' = cfg u \<Longrightarrow> box_step e u u'"

lemma reset_typed: "typed_box u \<Longrightarrow> typed_box (menuReset_No_RenderMenu u)"
  by (rule same_config_typed[OF same_configI]) (simp_all add: menuReset_No_RenderMenu_def resetState_def setState_def)

lemma Arr_Init_typed:
  assumes "typed_box u" "menus_ok (menus u)"
  shows "typed_box (Arr_Init u)"
proof -
  have "synced (Arr_Init u)" using assms by (intro Arr_Init_synced) (simp_all add: typed_box_def)
  then show ?thesis using assms(1) by (simp add: typed_box_def synced_def)
qed

lemma power_up_typed:
  assumes "hal_laws (env_hal e)" "store_wf ram" "typed_flash (store_flash ram)"
  shows "typed_box (power_up e ram)" "menu_inv (power_up e ram)"
proof -
  let ?s = "snd (ReadFlash2Arr (env_hal e) (env_vers e) ram)"
  let ?u = "menuReset_No_RenderMenu (ui0 ?s)"
  note t = load_typed[OF assms(1,3), of "env_vers e"]
  have wf: "store_wf ?s" using wf_load[OF assms(2)] t(1) by (simp add: typed_def)
  have c: "cfg ?u = ?s" by (simp add: menuReset_No_RenderMenu_def resetState_def setState_def ui0_def)
  have "menus_ok (menus ?u)" using menu_inv_reset(1)[OF ui0_ok] by (simp add: menu_inv_def)
  then have "synced (Arr_Init ?u)" using wf c by (intro Arr_Init_synced) simp_all
  then show "typed_box (power_up e ram)"
    using t wf c by (simp add: power_up_def menuInit_def typed_box_def synced_def)
  show "menu_inv (power_up e ram)" unfolding power_up_def by (rule menuInit_inv)
qed

lemma menu_config_save: "menu_config (map_cfg (Write2Flash hal v) u) = menu_config u"
  by (rule menu_config_map_cfg) simp

lemma command_typed:
  assumes "typed_box u"
  shows "typed_box (map_cfg (Send_User_Data cmd) u)"
proof -
  let ?s = "Send_User_Data cmd (cfg u)"
  have t: "typed (config_of ?s)" using assms by (intro Send_User_Data_typed) (simp add: typed_box_def)
  have m: "menu_config v = list_update (list_update (list_update (menu_config w) 4 (config_of (cfg v) ! 4)) 5 (config_of (cfg v) ! 5)) 6 (config_of (cfg v) ! 6)"
    if "menus v = menus w" for v w
    using that by (simp add: menu_config_def config_of_def save_status_def)
  have up: "typed (c[p := config_of ?s ! p])" if "typed c" "p \<in> {4, 5, 6}" for c p
  proof (rule typed_update[OF that(1)])
    show "length (config_of ?s ! p) = config_lengths ! p" using typed_nth(2)[OF t, of p] that(2) by auto
    show "(config_types ! p) (config_of ?s ! p)" using that(2) by (auto simp: config_types_def any_type_def)
  qed
  have "typed (menu_config (map_cfg (Send_User_Data cmd) u))"
    unfolding m[of "map_cfg (Send_User_Data cmd) u" u, OF map_cfg_frame(3)] map_cfg_frame
    using assms by (intro up) (simp_all add: typed_box_def)
  then show ?thesis
    using assms t Send_User_Data_wf[of "cfg u" cmd] by (simp add: typed_box_def)
qed

lemma box_step_typed:
  assumes "hal_laws (env_hal e)" "box_step e u u'" "menu_inv u" "typed_box u"
  shows "menu_inv u' \<and> typed_box u'"
  using assms(2)
proof (cases rule: box_step.cases)
  case (key k)
  then show ?thesis
    using poll_inv[OF assms(3), of k e] poll_typed[OF assms(1,3,4)] by (auto split: if_splits)
next
  case (command cmd)
  then show ?thesis
    using command_typed[OF assms(4)] assms(3) by (simp add: menu_inv_def)
next
  case to_menu
  then show ?thesis
    using Arr_Init_typed[OF assms(4)] assms(3) menu_inv_cong[OF assms(3), of "Arr_Init u"] by (simp add: menu_inv_def)
next
  case to_flash
  have "store_wf (cfg u)" "typed (config_of (cfg u))" "typed (menu_config u)" using assms(4) by (simp_all add: typed_box_def)
  then show ?thesis
    using to_flash assms(3) save_typed[OF assms(1), of "cfg u" "env_vers e"] wf_save
    by (simp add: typed_box_def menu_config_save menu_inv_def)
next
  case timeout
  have i: "menu_inv (menuReset_No_RenderMenu u)" using assms(3) menu_inv_reset(1)[of u] by (simp add: menu_inv_def)
  have "renderMenu (menuReset_No_RenderMenu u) = Some u'"
    using timeout by (simp add: menuReset_def menuReset_No_RenderMenu_def)
  then obtain es where "u' = draw es (menuReset_No_RenderMenu u)" by (auto simp: renderMenu_def bind_eq_Some_conv)
  then show ?thesis
    using i reset_typed[OF assms(4)] same_config_typed[OF same_config_draw] by auto
next
  case leave
  then show ?thesis
    using reset_typed[OF assms(4)] assms(3) menu_inv_reset(1)[of u] by (simp add: menu_inv_def)
next
  case (status x)
  have "same_config u (map_cfg (Set_Status x) u)" by (simp add: same_config_def save_status_def)
  then show ?thesis using status assms(3) same_config_typed[OF _ assms(4)] by (simp add: menu_inv_def)
next
  case (flag f)
  have "same_config u (map_cfg (Set_Update_Flash_Flag f) u)"
    by (simp add: same_config_def save_status_def Set_Update_Flash_Flag_def config_of_def)
  then show ?thesis using flag assms(3) same_config_typed[OF _ assms(4)] by (simp add: menu_inv_def)
next
  case (drawing es)
  then show ?thesis using assms(3) same_config_typed[OF same_config_draw assms(4)] by simp
next
  case (restart ram)
  then show ?thesis
    using power_up_typed[OF assms(1), of "ram\<lparr>store_flash := store_flash (cfg u)\<rparr>"] assms(4) by (simp add: typed_box_def)
next
  case other
  then show ?thesis
    using assms(3) same_config_typed[OF same_configI assms(4)] by (simp add: menu_inv_def)
qed

text \<open>C38: Whatever happens to the box after power-up on a valid saved configuration, in any order and any number of
  times: keys, commands of the PC with arbitrary bytes, deferred saves, refreshes and time-outs of the menu,
  factory resets and power cycles with arbitrary RAM.  The configuration stays well typed, in RAM, in the statuses
  the menus show and in the copy in flash: a list of options never has two entries chosen, source mode and
  brightness have exactly one, a feature is on or off, and only video inputs and outputs are ever
  disabled.\<close>

theorem choices_stay_exclusive:
  assumes "hal_laws (env_hal e)" "store_wf ram" "typed_flash (store_flash ram)" "(box_step e)\<^sup>*\<^sup>* (power_up e ram) u"
  shows "typed (config_of (cfg u)) \<and> typed (menu_config u) \<and> typed_flash (store_flash (cfg u))"
proof -
  have "menu_inv u \<and> typed_box u"
    using assms(4)
  proof (induction rule: rtranclp_induct)
    case base
    then show ?case using power_up_typed[OF assms(1-3)] by simp
  next
    case (step v w)
    then show ?case using box_step_typed[OF assms(1)] by blast
  qed
  then show ?thesis by (simp add: typed_box_def)
qed

text \<open>A format number that does not exist and the source mode, then a key, on the box of the example.\<close>

theorem choices_stay_exclusive_witness:
  "\<exists>u. menuPollButtons demo_env evKeyDown (map_cfg (Send_User_Data [3, 0x1f, 1]) (map_cfg (Send_User_Data [3, 0x10, 200])
      (power_up demo_env (Write2Flash nor_flash demo_versions demo_store)))) = Some u \<and>
    typed (config_of (cfg u)) \<and> typed_flash (store_flash (cfg u))"
proof -
  let ?ram = "Write2Flash nor_flash demo_versions demo_store"
  let ?u = "map_cfg (Send_User_Data [3, 0x1f, 1]) (map_cfg (Send_User_Data [3, 0x10, 200]) (power_up demo_env ?ram))"
  have h: "hal_laws (env_hal demo_env)" by (simp add: demo_env_def nor_flash_laws)
  have "switch_type (one_set 5 0)" using one_set_type(2)[of 5 0] by (simp add: choice_type_def switch_type_def)
  then have "typed (config_of demo_store)"
    using demo_store_wf
    by (simp add: typed_def store_wf_def config_of_def demo_store_def config_types_def any_type_def one_set_type
        Default_System_Feature_Arr_def)
  then have ram: "store_wf ?ram" "typed_flash (store_flash ?ram)"
    using save_typed(2)[OF nor_flash_laws demo_store_wf] wf_save[OF demo_store_wf] by blast+
  have "menu_inv ?u" using power_up_typed(2)[OF h ram] by (simp add: menu_inv_def)
  moreover have "\<not> (at_home_exit ?u \<and> evKeyDown = evKeyCancal)" by (simp add: evKeyDown_def evKeyCancal_def)
  ultimately obtain u where u: "menuPollButtons demo_env evKeyDown ?u = Some u"
    using poll_inv[of ?u evKeyDown demo_env] by auto
  have "(box_step demo_env)\<^sup>*\<^sup>* (power_up demo_env ?ram) ?u"
    using command[of demo_env] by (meson rtranclp.rtrancl_refl rtranclp.rtrancl_into_rtrancl)
  then have "(box_step demo_env)\<^sup>*\<^sup>* (power_up demo_env ?ram) u" using key[OF u] by (rule rtranclp.rtrancl_into_rtrancl)
  from choices_stay_exclusive[OF h ram this] show ?thesis using u by blast
qed

end
