(* ===== verification/FpgaLink.thy ===== *)
theory FpgaLink
  imports StatusList
begin

text \<open>
  \<open>driver/spi/spi4.c\<close> and the polling side of \<open>driver/usart/uart2.c\<close>: the register
  protocol with the FPGA.  A request is three bytes (command, address, data); the FPGA
  answers three bytes of which the second must echo the address that stands in
  \<open>Write_Data[1]\<close> when the transfer completes.  The statics of the file are the record
  \<open>spi4\<close>; a transfer appends the level of the chip select and the request to the trace
  \<open>spi_bus\<close>.  What the FPGA answers is an argument: \<open>fpga_reply n q\<close> are the bytes that
  come back for the request \<open>q\<close> in the \<open>n\<close>-th transfer since power on.  The HAL calls
  start the transfer and do not fail; the messages the code prints when they do are not
  modelled.

  Interrupts are explicit.  A transfer that has been started is completed by one run of
  \<open>SPI4_TxRxCpltCallback\<close>, either as a step of its own (\<open>spi_complete\<close>) or inside a loop
  \<open>while(spi_lock == 1)\<close>, which can only be left by that interrupt (\<open>spi_wait\<close>).
\<close>

section \<open>The state\<close>

definition Write_Flag :: u8 where "Write_Flag = 0x01"
definition Read_Flag :: u8 where "Read_Flag = 0x00"
definition JIT_REG_ADDR_1 :: u8 where "JIT_REG_ADDR_1 = 0x80"
definition JIT_REG_ADDR_2 :: u8 where "JIT_REG_ADDR_2 = 0x81"
definition SRC_MODE_ADDR :: u8 where "SRC_MODE_ADDR = 0x04"
definition FW_REG_ADDR :: bytes where "FW_REG_ADDR = [0x94, 0x95, 0x96, 0x97, 0x98]"

record spi4 =
  Write_Data :: bytes
  Read_Data :: bytes
  spi_lock :: u8
  retry_flag :: u8
  NSS :: u8
  jit_reg_num_1 :: u8
  jit_reg_num_2 :: u8
  fw_reg_num :: bytes
  config_r82_num :: u8
  config_r83_num :: u8
  config_r84_num :: u8
  config_r87_num :: u8
  config_r88_num :: u8
  config_r89_num :: u8
  config_r8a_num :: u8
  config_r8b_num :: u8
  config_r8c_num :: u8
  config_r8d_num :: u8
  config_r8e_num :: u8
  spi_bus :: "(u8 \<times> bytes) list"
  spi_store :: store

record fpga_env =
  phy_link_reg :: u32
  fpga_reply :: "nat \<Rightarrow> bytes \<Rightarrow> bytes"

definition Set_NSS_Status :: "u8 \<Rightarrow> spi4 \<Rightarrow> spi4" where
  "Set_NSS_Status status s = s\<lparr>NSS := (if status \<noteq> 0 then 1 else 0)\<rparr>"

definition Set_Retry_SPI4 :: "u8 \<Rightarrow> spi4 \<Rightarrow> spi4" where
  "Set_Retry_SPI4 num s = s\<lparr>retry_flag := (if num \<noteq> 0 then 1 else 0)\<rparr>"

definition Get_Retry_SPI4_Flag :: "spi4 \<Rightarrow> u8" where
  "Get_Retry_SPI4_Flag s = retry_flag s"

definition spi_Get_FW :: "spi4 \<Rightarrow> bytes option" where
  "spi_Get_FW s = (if fw_reg_num s ! 0 \<noteq> 0 then Some (fw_reg_num s) else None)"

section \<open>Completion of a transfer\<close>

text \<open>The chain of comparisons on the address of a read.\<close>

definition store_reading :: "u8 \<Rightarrow> u8 \<Rightarrow> spi4 \<Rightarrow> spi4" where
  "store_reading Addr Data s =
     (if Addr = JIT_REG_ADDR_1 then s\<lparr>jit_reg_num_1 := Data\<rparr>
      else if Addr = JIT_REG_ADDR_2 then s\<lparr>jit_reg_num_2 := Data\<rparr>
      else if Addr = FW_REG_ADDR ! 0 then s\<lparr>fw_reg_num := (fw_reg_num s)[0 := Data]\<rparr>
      else if Addr = FW_REG_ADDR ! 1 then s\<lparr>fw_reg_num := (fw_reg_num s)[1 := Data]\<rparr>
      else if Addr = FW_REG_ADDR ! 2 then s\<lparr>fw_reg_num := (fw_reg_num s)[2 := Data]\<rparr>
      else if Addr = FW_REG_ADDR ! 3 then s\<lparr>fw_reg_num := (fw_reg_num s)[3 := Data]\<rparr>
      else if Addr = FW_REG_ADDR ! 4 then s\<lparr>fw_reg_num := (fw_reg_num s)[4 := Data]\<rparr>
      else if Addr = 0x82 then s\<lparr>config_r82_num := Data\<rparr>
      else if Addr = 0x83 then s\<lparr>config_r83_num := Data\<rparr>
      else if Addr = 0x84 then s\<lparr>config_r84_num := Data\<rparr>
      else if Addr = 0x87 then s\<lparr>config_r87_num := Data\<rparr>
      else if Addr = 0x88 then s\<lparr>config_r88_num := Data\<rparr>
      else if Addr = 0x89 then s\<lparr>config_r89_num := Data\<rparr>
      else if Addr = 0x8a then s\<lparr>config_r8a_num := Data\<rparr>
      else if Addr = 0x8b then s\<lparr>config_r8b_num := Data\<rparr>
      else if Addr = 0x8c then s\<lparr>config_r8c_num := Data\<rparr>
      else if Addr = 0x8d then s\<lparr>config_r8d_num := Data\<rparr>
      else if Addr = 0x8e then s\<lparr>config_r8e_num := Data\<rparr>
      else s)"

text \<open>What an accepted answer does: \<open>SRC_MODE_ADDR\<close> has its own two branches, which do
  nothing.\<close>

definition accept_reading :: "spi4 \<Rightarrow> spi4" where
  "accept_reading s =
     (let Command = Read_Data s ! 0; Addr = Read_Data s ! 1; Data = Read_Data s ! 2;
          s = (if Addr = 0xff then s\<lparr>spi_store := Set_Status 0 (spi_store s)\<rparr> else s)
      in if Addr = SRC_MODE_ADDR then s
         else if Command = Read_Flag then store_reading Addr Data s else s)"

text \<open>The answer goes on to the PC when the PHY reports a link.\<close>

definition forward_reading :: "fpga_env \<Rightarrow> bytes \<Rightarrow> store \<Rightarrow> store" where
  "forward_reading e rd c =
     (let (link, c) = Read_Eth_Link_Status (phy_link_reg e) c
      in if link = 1 then emit [Eth_Send_api (take 3 rd)] c else c)"

definition SPI4_TxRxCpltCallback :: "fpga_env \<Rightarrow> spi4 \<Rightarrow> spi4" where
  "SPI4_TxRxCpltCallback e s =
     (let s = Set_NSS_Status 1 s;
          s = (if Write_Data s ! 1 = Read_Data s ! 1
               then (let s = Set_Retry_SPI4 0 (accept_reading s)
                     in s\<lparr>spi_store := forward_reading e (Read_Data s) (spi_store s)\<rparr>)
               else Set_Retry_SPI4 1 s)
      in s\<lparr>spi_lock := 0\<rparr>)"

text \<open>The HAL stores the three received bytes and calls the callback.\<close>

definition spi_complete :: "fpga_env \<Rightarrow> spi4 \<Rightarrow> spi4" where
  "spi_complete e s =
     SPI4_TxRxCpltCallback e
       (s\<lparr>Read_Data := mem_write (Read_Data s) 0
            (take 3 (fpga_reply e (length (spi_bus s)) (snd (last (spi_bus s)))))\<rparr>)"

text \<open>The loop \<open>while(spi_lock == 1)\<close>.\<close>

definition spi_wait :: "fpga_env \<Rightarrow> spi4 \<Rightarrow> spi4" where
  "spi_wait e s = (if spi_lock s = 1 then spi_complete e s else s)"

section \<open>Requests\<close>

text \<open>Taking the lock and the two HAL calls.\<close>

definition spi_start :: "bytes \<Rightarrow> spi4 \<Rightarrow> spi4" where
  "spi_start q s = s\<lparr>spi_lock := 1, spi_bus := spi_bus s @ [(NSS s, q)]\<rparr>"

definition Send_To_Fpga :: "fpga_env \<Rightarrow> bytes \<Rightarrow> spi4 \<Rightarrow> spi4" where
  "Send_To_Fpga e Send_Data s =
     (let s = s\<lparr>Write_Data := (Write_Data s)[0 := Send_Data ! 0, 1 := Send_Data ! 1, 2 := Send_Data ! 2]\<rparr>;
          s = Set_NSS_Status 0 s;
          s = spi_wait e s
      in spi_start (take 3 Send_Data) s)"

definition Test_Send_To_Fpga :: "fpga_env \<Rightarrow> spi4 \<Rightarrow> spi4" where
  "Test_Send_To_Fpga e s =
     (let s = Set_NSS_Status 0 s; s = spi_wait e s in spi_start (take 3 (Write_Data s)) s)"

text \<open>The register writes come in two shapes: those that pull the chip select low after
  the wait, and those that pull it low before.\<close>

definition write_after_wait :: "fpga_env \<Rightarrow> u8 \<Rightarrow> u8 \<Rightarrow> spi4 \<Rightarrow> spi4" where
  "write_after_wait e addr ch s =
     (let s = s\<lparr>Write_Data := (Write_Data s)[0 := Write_Flag, 1 := addr, 2 := ch]\<rparr>;
          s = spi_wait e s;
          s = Set_NSS_Status 0 s
      in spi_start (take 3 (Write_Data s)) s)"

definition write_before_wait :: "fpga_env \<Rightarrow> u8 \<Rightarrow> u8 \<Rightarrow> spi4 \<Rightarrow> spi4" where
  "write_before_wait e addr ch s =
     (let s = s\<lparr>Write_Data := (Write_Data s)[0 := Write_Flag, 1 := addr, 2 := ch]\<rparr>;
          s = Set_NSS_Status 0 s;
          s = spi_wait e s
      in spi_start (take 3 (Write_Data s)) s)"

definition Send_FPGA_Restart :: "fpga_env \<Rightarrow> u8 \<Rightarrow> spi4 \<Rightarrow> spi4" where
  "Send_FPGA_Restart e ch = write_after_wait e 0x00 ch"
definition spi_Send_Test_Pattern :: "fpga_env \<Rightarrow> u8 \<Rightarrow> spi4 \<Rightarrow> spi4" where
  "spi_Send_Test_Pattern e ch = write_after_wait e 0x01 ch"
definition spi_Send_Src_Mode :: "fpga_env \<Rightarrow> u8 \<Rightarrow> spi4 \<Rightarrow> spi4" where
  "spi_Send_Src_Mode e ch = write_before_wait e SRC_MODE_ADDR ch"
definition spi_Send_ClockSync_Mode :: "fpga_env \<Rightarrow> u8 \<Rightarrow> spi4 \<Rightarrow> spi4" where
  "spi_Send_ClockSync_Mode e ch = write_before_wait e 0x0D ch"
definition spi_Send_SyncType_Mode :: "fpga_env \<Rightarrow> u8 \<Rightarrow> spi4 \<Rightarrow> spi4" where
  "spi_Send_SyncType_Mode e ch = write_before_wait e 0x06 ch"
definition spi_Send_SyncFrame_Mode :: "fpga_env \<Rightarrow> u8 \<Rightarrow> spi4 \<Rightarrow> spi4" where
  "spi_Send_SyncFrame_Mode e ch = write_before_wait e 0x10 ch"
definition Send_GPS_Sec_Pulse :: "fpga_env \<Rightarrow> u8 \<Rightarrow> spi4 \<Rightarrow> spi4" where
  "Send_GPS_Sec_Pulse e Pulse = write_after_wait e 0x0f Pulse"
definition Send_GPS_Dirft :: "fpga_env \<Rightarrow> u8 \<Rightarrow> u8 \<Rightarrow> spi4 \<Rightarrow> spi4" where
  "Send_GPS_Dirft e addr data = write_after_wait e addr data"
definition spi_Send_Format_2_0x05 :: "fpga_env \<Rightarrow> u8 \<Rightarrow> spi4 \<Rightarrow> spi4" where
  "spi_Send_Format_2_0x05 e ch = write_after_wait e 0x05 ch"
definition spi_Send_Format_2_0x11 :: "fpga_env \<Rightarrow> u8 \<Rightarrow> spi4 \<Rightarrow> spi4" where
  "spi_Send_Format_2_0x11 e ch = write_after_wait e 0x11 ch"

definition Retry_SPI4 :: "fpga_env \<Rightarrow> spi4 \<Rightarrow> spi4" where
  "Retry_SPI4 e s =
     (let s = Set_Retry_SPI4 0 s; s = spi_wait e s in Send_To_Fpga e (Write_Data s) s)"

section \<open>Register reads\<close>

text \<open>A getter starts the read of its register and returns what an earlier read has left
  in the variable.\<close>

definition read_reg :: "fpga_env \<Rightarrow> u8 \<Rightarrow> (spi4 \<Rightarrow> u8) \<Rightarrow> spi4 \<Rightarrow> u8 \<times> spi4" where
  "read_reg e addr num s =
     (let s = spi_wait e s; s = Send_To_Fpga e [Read_Flag, addr, 0x00] s in (num s, s))"

definition Get_Jit_Reg_1 :: "fpga_env \<Rightarrow> spi4 \<Rightarrow> u8 \<times> spi4" where
  "Get_Jit_Reg_1 e = read_reg e JIT_REG_ADDR_1 jit_reg_num_1"
definition Get_Jit_Reg_2 :: "fpga_env \<Rightarrow> spi4 \<Rightarrow> u8 \<times> spi4" where
  "Get_Jit_Reg_2 e = read_reg e JIT_REG_ADDR_2 jit_reg_num_2"
definition Get_Reg_0x82 :: "fpga_env \<Rightarrow> spi4 \<Rightarrow> u8 \<times> spi4" where
  "Get_Reg_0x82 e = read_reg e 0x82 config_r82_num"
definition Get_Reg_0x83 :: "fpga_env \<Rightarrow> spi4 \<Rightarrow> u8 \<times> spi4" where
  "Get_Reg_0x83 e = read_reg e 0x83 config_r83_num"
definition Get_Reg_0x84 :: "fpga_env \<Rightarrow> spi4 \<Rightarrow> u8 \<times> spi4" where
  "Get_Reg_0x84 e = read_reg e 0x84 config_r84_num"
definition Get_Reg_0x87 :: "fpga_env \<Rightarrow> spi4 \<Rightarrow> u8 \<times> spi4" where
  "Get_Reg_0x87 e = read_reg e 0x87 config_r87_num"
definition Get_Reg_0x88 :: "fpga_env \<Rightarrow> spi4 \<Rightarrow> u8 \<times> spi4" where
  "Get_Reg_0x88 e = read_reg e 0x88 config_r88_num"
definition Get_Reg_0x89 :: "fpga_env \<Rightarrow> spi4 \<Rightarrow> u8 \<times> spi4" where
  "Get_Reg_0x89 e = read_reg e 0x89 config_r89_num"
definition Get_Reg_0x8a :: "fpga_env \<Rightarrow> spi4 \<Rightarrow> u8 \<times> spi4" where
  "Get_Reg_0x8a e = read_reg e 0x8a config_r8a_num"
definition Get_Reg_0x8b :: "fpga_env \<Rightarrow> spi4 \<Rightarrow> u8 \<times> spi4" where
  "Get_Reg_0x8b e = read_reg e 0x8b config_r8b_num"
definition Get_Reg_0x8c :: "fpga_env \<Rightarrow> spi4 \<Rightarrow> u8 \<times> spi4" where
  "Get_Reg_0x8c e = read_reg e 0x8c config_r8c_num"
definition Get_Reg_0x8d :: "fpga_env \<Rightarrow> spi4 \<Rightarrow> u8 \<times> spi4" where
  "Get_Reg_0x8d e = read_reg e 0x8d config_r8d_num"
definition Get_Reg_0x8e :: "fpga_env \<Rightarrow> spi4 \<Rightarrow> u8 \<times> spi4" where
  "Get_Reg_0x8e e = read_reg e 0x8e config_r8e_num"

section \<open>The writes the configuration asks for\<close>

fun spi_effect :: "fpga_env \<Rightarrow> effect \<Rightarrow> spi4 \<Rightarrow> spi4" where
  "spi_effect e (Send_Test_Pattern ch) s = spi_Send_Test_Pattern e ch s"
| "spi_effect e (Send_Src_Mode ch) s = spi_Send_Src_Mode e ch s"
| "spi_effect e (Send_ClockSync_Mode ch) s = spi_Send_ClockSync_Mode e ch s"
| "spi_effect e (Send_SyncType_Mode ch) s = spi_Send_SyncType_Mode e ch s"
| "spi_effect e (Send_SyncFrame_Mode ch) s = spi_Send_SyncFrame_Mode e ch s"
| "spi_effect e (Send_Format_2_0x05 ch) s = spi_Send_Format_2_0x05 e ch s"
| "spi_effect e (Send_Format_2_0x11 ch) s = spi_Send_Format_2_0x11 e ch s"
| "spi_effect e _ s = s"

text \<open>\<open>Set_FPGA_Reg_Config\<close> of the configuration store, with its calls carried out.\<close>

definition spi_Set_FPGA_Reg_Config :: "fpga_env \<Rightarrow> nat \<Rightarrow> u8 \<Rightarrow> spi4 \<Rightarrow> spi4" where
  "spi_Set_FPGA_Reg_Config e sector_addr reg_addr s =
     (let c = Set_FPGA_Reg_Config sector_addr reg_addr (spi_store s);
          calls = drop (length (effects (spi_store s))) (effects c)
      in fold (spi_effect e) calls (s\<lparr>spi_store := c\<rparr>))"

section \<open>The sweep after power on\<close>

record sweep_statics =
  sweep_timeout :: nat
  sweep_addr :: nat
  fpga_flag :: u8

definition sweep_statics0 :: sweep_statics where
  "sweep_statics0 = \<lparr>sweep_timeout = 0, sweep_addr = 0, fpga_flag = 0\<rparr>"

text \<open>\<open>v\<close> gives the versions other than the one read from the FPGA.\<close>

definition Power_On_Read_Reg_Once ::
  "fpga_env \<Rightarrow> versions \<Rightarrow> sweep_statics \<times> spi4 \<Rightarrow> sweep_statics \<times> spi4" where
  "Power_On_Read_Reg_Once e v ps =
     (let p = fst ps; s = snd ps;
          s = s\<lparr>Write_Data := (Write_Data s)[0 := Read_Flag, 1 := of_nat (sweep_addr p), 2 := 0x00]\<rparr>
      in if sweep_addr p \<le> 0xB8
         then if 500 \<le> sweep_timeout p
              then (let (p, s) =
                          (if sweep_addr p \<le> 0x80
                           then if sweep_addr p = 0
                                then if fpga_flag p = 0 then (p\<lparr>fpga_flag := 1\<rparr>, s)
                                     else (p\<lparr>sweep_addr := sweep_addr p + 1\<rparr>, s)
                                else (p\<lparr>sweep_addr := sweep_addr p + 1\<rparr>,
                                      spi_Set_FPGA_Reg_Config e 0 (of_nat (sweep_addr p)) s)
                           else (p\<lparr>sweep_addr := sweep_addr p + 1\<rparr>, Send_To_Fpga e (take 3 (Write_Data s)) s))
                    in if sweep_addr p > 0xB8
                       then (p, s\<lparr>spi_store :=
                                  Set_Status 0 (Update_User_Arr (v\<lparr>Get_FW := spi_Get_FW s\<rparr>) (spi_store s))\<rparr>)
                       else (p, s))
              else (p\<lparr>sweep_timeout := sweep_timeout p + 1\<rparr>, s\<lparr>spi_store := Set_Status 2 (spi_store s)\<rparr>)
         else (p, s))"

text \<open>Ten milliseconds: one call, and the transfer it may have started ends.\<close>

definition sweep_tick :: "fpga_env \<Rightarrow> versions \<Rightarrow> sweep_statics \<times> spi4 \<Rightarrow> sweep_statics \<times> spi4" where
  "sweep_tick e v ps = (let (p, s) = Power_On_Read_Reg_Once e v ps in (p, spi_wait e s))"

section \<open>Requests from the debug port and the retry\<close>

text \<open>Statics of \<open>uart2.c\<close> used by the poll: the bytes the interrupt has stored
  (\<open>usart2_rx_buf\<close> up to \<open>rxcount\<close>), the position in the request and \<open>retry_times\<close>.\<close>

record debug_port =
  usart2_received :: bytes
  Spi_Trans_Count :: nat
  retry_times :: u8

text \<open>\<open>rxcount\<close> wraps at 16, and with it all that was received is forgotten.\<close>

definition USART2_Rx_Deal :: "u8 \<Rightarrow> debug_port \<Rightarrow> debug_port" where
  "USART2_Rx_Deal ch d =
     (if length (usart2_received d) + 1 = 16 then d\<lparr>usart2_received := []\<rparr>
      else d\<lparr>usart2_received := usart2_received d @ [ch]\<rparr>)"

text \<open>The loop over \<open>len\<close>: it stops at the third byte of a request.\<close>

fun trans_loop :: "nat \<Rightarrow> nat \<Rightarrow> bool \<times> nat" where
  "trans_loop 0 c = (False, c)"
| "trans_loop (Suc len) c = (if c + 1 = 3 then (True, 0) else trans_loop len (c + 1))"

text \<open>\<open>None\<close> is the write past the end of \<open>Write_Data\<close>.\<close>

definition pollint_spi_transmit :: "fpga_env \<Rightarrow> debug_port \<times> spi4 \<Rightarrow> (debug_port \<times> spi4) option" where
  "pollint_spi_transmit e ds =
     (let d = fst ds; s = snd ds; b = usart2_received d; len = length b
      in if Spi_Trans_Count d + len > 16 then None
         else (let s = s\<lparr>Write_Data := mem_write (Write_Data s) (Spi_Trans_Count d) b\<rparr>;
                   d = d\<lparr>usart2_received := []\<rparr>
               in if len \<noteq> 0
                  then (let (full, c) = trans_loop len (Spi_Trans_Count d);
                            d = d\<lparr>Spi_Trans_Count := c, retry_times := 0\<rparr>
                        in Some (d, if full then Test_Send_To_Fpga e s else s))
                  else if Get_Retry_SPI4_Flag s \<noteq> 0
                  then Some (d\<lparr>retry_times := 1\<rparr>, if retry_times d = 0 then Retry_SPI4 e s else s)
                  else Some (d, s)))"

section \<open>Requests from the network\<close>

text \<open>The ring of requests of \<open>app/ethernetif.c\<close>, filled by the receive interrupt.\<close>

record eth_ring =
  Eth_Buf_Read :: nat
  Eth_Buf_Write :: nat
  Eth_Buf :: "bytes list"
  dstpot_1 :: u8
  dstpot_2 :: u8

definition eth_ring0 :: eth_ring where
  "eth_ring0 = \<lparr>Eth_Buf_Read = 0, Eth_Buf_Write = 0, Eth_Buf = replicate 256 [0, 0, 0],
     dstpot_1 = 0, dstpot_2 = 0\<rparr>"

text \<open>\<open>buffer\<close> is the DMA buffer of the received frame.\<close>

definition eth_irq_input :: "bytes \<Rightarrow> eth_ring \<Rightarrow> eth_ring" where
  "eth_irq_input buffer r =
     (if buffer ! 36 = 0x50 \<and> buffer ! 37 = 0x04
      then r\<lparr>Eth_Buf := (Eth_Buf r)[Eth_Buf_Write r := mem_read buffer 42 3],
             Eth_Buf_Write := (Eth_Buf_Write r + 1) mod 256,
             dstpot_1 := buffer ! 34, dstpot_2 := buffer ! 35\<rparr>
      else r)"

definition eth_dispatch :: "fpga_env \<Rightarrow> bytes \<Rightarrow> spi4 \<Rightarrow> spi4" where
  "eth_dispatch e q s =
     (if q ! 0 = 0x02 \<or> q ! 0 = 0x03 then s\<lparr>spi_store := Send_User_Data q (spi_store s)\<rparr>
      else if q ! 0 = 0x00 \<or> q ! 0 = 0x01 then Send_To_Fpga e q s
      else s)"

definition pollint_eth_send :: "fpga_env \<Rightarrow> eth_ring \<times> spi4 \<Rightarrow> eth_ring \<times> spi4" where
  "pollint_eth_send e rs =
     (let r = fst rs; s = snd rs in
      if Eth_Buf_Read r \<noteq> Eth_Buf_Write r
      then (let s = eth_dispatch e (Eth_Buf r ! Eth_Buf_Read r) s
            in (r\<lparr>Eth_Buf_Read := (Eth_Buf_Read r + 1) mod 256\<rparr>, s))
      else (r, s))"

section \<open>Transfers\<close>

lemma store_reading_frame [simp]:
  "Write_Data (store_reading a d s) = Write_Data s" "Read_Data (store_reading a d s) = Read_Data s"
  "spi_bus (store_reading a d s) = spi_bus s" "spi_lock (store_reading a d s) = spi_lock s"
  "NSS (store_reading a d s) = NSS s" "retry_flag (store_reading a d s) = retry_flag s"
  "spi_store (store_reading a d s) = spi_store s"
  by (simp_all add: store_reading_def)

lemma accept_reading_frame [simp]:
  "Write_Data (accept_reading s) = Write_Data s" "Read_Data (accept_reading s) = Read_Data s"
  "spi_bus (accept_reading s) = spi_bus s" "spi_lock (accept_reading s) = spi_lock s"
  "NSS (accept_reading s) = NSS s" "retry_flag (accept_reading s) = retry_flag s"
  by (simp_all add: accept_reading_def Let_def)

lemma Set_NSS_frame [simp]:
  "Write_Data (Set_NSS_Status b s) = Write_Data s" "Read_Data (Set_NSS_Status b s) = Read_Data s"
  "spi_bus (Set_NSS_Status b s) = spi_bus s" "spi_lock (Set_NSS_Status b s) = spi_lock s"
  "NSS (Set_NSS_Status b s) = (if b \<noteq> 0 then 1 else 0)" "retry_flag (Set_NSS_Status b s) = retry_flag s"
  "spi_store (Set_NSS_Status b s) = spi_store s"
  by (simp_all add: Set_NSS_Status_def)

lemma Set_Retry_frame [simp]:
  "Write_Data (Set_Retry_SPI4 b s) = Write_Data s" "Read_Data (Set_Retry_SPI4 b s) = Read_Data s"
  "spi_bus (Set_Retry_SPI4 b s) = spi_bus s" "spi_lock (Set_Retry_SPI4 b s) = spi_lock s"
  "NSS (Set_Retry_SPI4 b s) = NSS s" "retry_flag (Set_Retry_SPI4 b s) = (if b \<noteq> 0 then 1 else 0)"
  "spi_store (Set_Retry_SPI4 b s) = spi_store s"
  by (simp_all add: Set_Retry_SPI4_def)

lemma callback_frame [simp]:
  "Write_Data (SPI4_TxRxCpltCallback e s) = Write_Data s" "Read_Data (SPI4_TxRxCpltCallback e s) = Read_Data s"
  "spi_bus (SPI4_TxRxCpltCallback e s) = spi_bus s" "spi_lock (SPI4_TxRxCpltCallback e s) = 0"
  "NSS (SPI4_TxRxCpltCallback e s) = 1"
  "retry_flag (SPI4_TxRxCpltCallback e s) = (if Write_Data s ! 1 = Read_Data s ! 1 then 0 else 1)"
  by (simp_all add: SPI4_TxRxCpltCallback_def Let_def)

lemma spi_complete_frame [simp]:
  "Write_Data (spi_complete e s) = Write_Data s" "spi_bus (spi_complete e s) = spi_bus s"
  "spi_lock (spi_complete e s) = 0" "NSS (spi_complete e s) = 1"
  "length (Read_Data (spi_complete e s)) = length (Read_Data s)"
  by (simp_all add: spi_complete_def)

text \<open>The reply that ends the transfer in flight.\<close>

definition reply_now :: "fpga_env \<Rightarrow> spi4 \<Rightarrow> bytes" where
  "reply_now e s = fpga_reply e (length (spi_bus s)) (snd (last (spi_bus s)))"

lemma spi_complete_retry:
  "length (Read_Data s) = 16 \<Longrightarrow> length (reply_now e s) = 3 \<Longrightarrow>
   retry_flag (spi_complete e s) = (if Write_Data s ! 1 = reply_now e s ! 1 then 0 else 1)"
  by (simp add: spi_complete_def reply_now_def[symmetric] nth_mem_write)

lemma spi_wait_frame [simp]:
  "Write_Data (spi_wait e s) = Write_Data s" "spi_bus (spi_wait e s) = spi_bus s"
  "NSS (spi_wait e s) = (if spi_lock s = 1 then 1 else NSS s)"
  "spi_lock (spi_wait e s) = (if spi_lock s = 1 then 0 else spi_lock s)"
  by (simp_all add: spi_wait_def)

lemma spi_wait_idle: "spi_lock s = 0 \<Longrightarrow> spi_wait e s = s"
  by (simp add: spi_wait_def)

lemma length_Read_Data_wait [simp]: "length (Read_Data (spi_wait e s)) = length (Read_Data s)"
  by (simp add: spi_wait_def)

lemma spi_start_frame [simp]:
  "Write_Data (spi_start q s) = Write_Data s" "Read_Data (spi_start q s) = Read_Data s"
  "spi_bus (spi_start q s) = spi_bus s @ [(NSS s, q)]"
  "spi_lock (spi_start q s) = 1" "NSS (spi_start q s) = NSS s" "retry_flag (spi_start q s) = retry_flag s"
  "spi_store (spi_start q s) = spi_store s"
  by (simp_all add: spi_start_def)

lemma take3: "length w \<ge> 3 \<Longrightarrow> take 3 w = [w ! 0, w ! 1, w ! 2]"
  by (cases w; cases "tl w"; cases "tl (tl w)") (auto simp: numeral_3_eq_3)

lemma take3_tag [simp]:
  "length w = 16 \<Longrightarrow> take 3 (w[0 := a, Suc 0 := b, 2 := c]) = [a, b, c]"
  by (subst take3) auto

text \<open>What the two shapes of write leave behind.\<close>

lemma write_after_wait_frame:
  assumes "length (Write_Data s) = 16"
  shows "spi_bus (write_after_wait e a d s) = spi_bus s @ [(0, [Write_Flag, a, d])]"
    and "Write_Data (write_after_wait e a d s) = (Write_Data s)[0 := Write_Flag, 1 := a, 2 := d]"
    and "spi_lock (write_after_wait e a d s) = 1"
    and "length (Read_Data (write_after_wait e a d s)) = length (Read_Data s)"
  using assms by (simp_all add: write_after_wait_def Let_def)

lemma write_before_wait_frame:
  assumes "length (Write_Data s) = 16"
  shows "spi_bus (write_before_wait e a d s) =
      spi_bus s @ [(if spi_lock s = 1 then 1 else 0, [Write_Flag, a, d])]"
    and "Write_Data (write_before_wait e a d s) = (Write_Data s)[0 := Write_Flag, 1 := a, 2 := d]"
    and "spi_lock (write_before_wait e a d s) = 1"
    and "length (Read_Data (write_before_wait e a d s)) = length (Read_Data s)"
  using assms by (simp_all add: write_before_wait_def Let_def)

lemma Send_To_Fpga_frame:
  assumes "length (Write_Data s) = 16" "length q = 3"
  shows "spi_bus (Send_To_Fpga e q s) = spi_bus s @ [(if spi_lock s = 1 then 1 else 0, q)]"
    and "Write_Data (Send_To_Fpga e q s) = (Write_Data s)[0 := q ! 0, 1 := q ! 1, 2 := q ! 2]"
    and "spi_lock (Send_To_Fpga e q s) = 1"
    and "length (Read_Data (Send_To_Fpga e q s)) = length (Read_Data s)"
  using assms by (simp_all add: Send_To_Fpga_def Let_def)

text \<open>The level of the chip select during a request: the writes of the test pattern, the GPS
  pulse, the drift and the format always go out with the FPGA selected; the writes of source
  mode, clock mode, sync type and sync frame pull the line low before they wait for the
  transfer in flight, whose completion raises it again, so on a busy link they go out with
  the FPGA deselected.\<close>

theorem chip_select_levels:
  "length (Write_Data s) = 16 \<Longrightarrow>
   fst (last (spi_bus (spi_Send_Test_Pattern e ch s))) = 0 \<and>
   fst (last (spi_bus (Send_GPS_Sec_Pulse e ch s))) = 0 \<and>
   fst (last (spi_bus (Send_GPS_Dirft e a ch s))) = 0 \<and>
   fst (last (spi_bus (spi_Send_Format_2_0x05 e ch s))) = 0 \<and>
   fst (last (spi_bus (spi_Send_Format_2_0x11 e ch s))) = 0 \<and>
   fst (last (spi_bus (spi_Send_Src_Mode e ch s))) = (if spi_lock s = 1 then 1 else 0) \<and>
   fst (last (spi_bus (spi_Send_ClockSync_Mode e ch s))) = (if spi_lock s = 1 then 1 else 0) \<and>
   fst (last (spi_bus (spi_Send_SyncType_Mode e ch s))) = (if spi_lock s = 1 then 1 else 0) \<and>
   fst (last (spi_bus (spi_Send_SyncFrame_Mode e ch s))) = (if spi_lock s = 1 then 1 else 0)"
  by (simp add: spi_Send_Test_Pattern_def Send_GPS_Sec_Pulse_def Send_GPS_Dirft_def
      spi_Send_Format_2_0x05_def spi_Send_Format_2_0x11_def spi_Send_Src_Mode_def
      spi_Send_ClockSync_Mode_def spi_Send_SyncType_Mode_def spi_Send_SyncFrame_Mode_def
      write_after_wait_frame write_before_wait_frame)

section \<open>Polling a register\<close>

definition getters :: "((fpga_env \<Rightarrow> spi4 \<Rightarrow> u8 \<times> spi4) \<times> u8 \<times> (spi4 \<Rightarrow> u8)) list" where
  "getters =
     [(Get_Jit_Reg_1, 0x80, jit_reg_num_1), (Get_Jit_Reg_2, 0x81, jit_reg_num_2),
      (Get_Reg_0x82, 0x82, config_r82_num), (Get_Reg_0x83, 0x83, config_r83_num),
      (Get_Reg_0x84, 0x84, config_r84_num), (Get_Reg_0x87, 0x87, config_r87_num),
      (Get_Reg_0x88, 0x88, config_r88_num), (Get_Reg_0x89, 0x89, config_r89_num),
      (Get_Reg_0x8a, 0x8a, config_r8a_num), (Get_Reg_0x8b, 0x8b, config_r8b_num),
      (Get_Reg_0x8c, 0x8c, config_r8c_num), (Get_Reg_0x8d, 0x8d, config_r8d_num),
      (Get_Reg_0x8e, 0x8e, config_r8e_num)]"

lemmas getter_defs = Get_Jit_Reg_1_def Get_Jit_Reg_2_def Get_Reg_0x82_def Get_Reg_0x83_def
  Get_Reg_0x84_def Get_Reg_0x87_def Get_Reg_0x88_def Get_Reg_0x89_def Get_Reg_0x8a_def
  Get_Reg_0x8b_def Get_Reg_0x8c_def Get_Reg_0x8d_def Get_Reg_0x8e_def
  JIT_REG_ADDR_1_def JIT_REG_ADDR_2_def

lemma getter_reads: "(get, addr, num) \<in> set getters \<Longrightarrow> get e = read_reg e addr num"
  by (auto simp: getters_def getter_defs)

text \<open>The values of the readings, as a function of the address.\<close>

lemma reading_frame:
  assumes "(get, addr, num) \<in> set getters"
  shows "num (spi_start q s) = num s" "num (Set_NSS_Status b s) = num s"
    "num (Set_Retry_SPI4 b s) = num s" "num (s\<lparr>Read_Data := r\<rparr>) = num s" "num (s\<lparr>Write_Data := r\<rparr>) = num s"
    "num (s\<lparr>spi_lock := l\<rparr>) = num s" "num (s\<lparr>spi_store := c\<rparr>) = num s"
  using assms
  by (auto simp: getters_def spi_start_def Set_NSS_Status_def Set_Retry_SPI4_def)

text \<open>Which variable a read register lands in.\<close>

lemma store_reading_num:
  "jit_reg_num_1 (store_reading a d s) = (if a = 0x80 then d else jit_reg_num_1 s)"
  "jit_reg_num_2 (store_reading a d s) = (if a = 0x81 then d else jit_reg_num_2 s)"
  "config_r82_num (store_reading a d s) = (if a = 0x82 then d else config_r82_num s)"
  "config_r83_num (store_reading a d s) = (if a = 0x83 then d else config_r83_num s)"
  "config_r84_num (store_reading a d s) = (if a = 0x84 then d else config_r84_num s)"
  "config_r87_num (store_reading a d s) = (if a = 0x87 then d else config_r87_num s)"
  "config_r88_num (store_reading a d s) = (if a = 0x88 then d else config_r88_num s)"
  "config_r89_num (store_reading a d s) = (if a = 0x89 then d else config_r89_num s)"
  "config_r8a_num (store_reading a d s) = (if a = 0x8a then d else config_r8a_num s)"
  "config_r8b_num (store_reading a d s) = (if a = 0x8b then d else config_r8b_num s)"
  "config_r8c_num (store_reading a d s) = (if a = 0x8c then d else config_r8c_num s)"
  "config_r8d_num (store_reading a d s) = (if a = 0x8d then d else config_r8d_num s)"
  "config_r8e_num (store_reading a d s) = (if a = 0x8e then d else config_r8e_num s)"
  by (simp_all add: store_reading_def JIT_REG_ADDR_1_def JIT_REG_ADDR_2_def FW_REG_ADDR_def)

lemma store_reading_get:
  assumes "(get, addr, num) \<in> set getters"
  shows "num (store_reading a d s) = (if a = addr then d else num s)"
  using assms unfolding getters_def list.set
  by (elim insertE emptyE Pair_inject) (simp_all only: store_reading_num)

lemma accept_reading_get:
  assumes "(get, addr, num) \<in> set getters" "Read_Data s ! 0 = Read_Flag"
  shows "num (accept_reading s) = (if Read_Data s ! 1 = addr then Read_Data s ! 2 else num s)"
proof -
  have "addr \<noteq> SRC_MODE_ADDR" "addr \<noteq> 0xff"
    using assms(1) by (auto simp: getters_def SRC_MODE_ADDR_def)
  then show ?thesis
    using assms(2)
    by (simp add: accept_reading_def Let_def store_reading_get[OF assms(1)] reading_frame[OF assms(1)])
qed

lemma complete_reading:
  assumes "(get, addr, num) \<in> set getters" "length (Read_Data s) = 16"
    and "reply_now e s = [Read_Flag, a, v]" "Write_Data s ! 1 = a"
  shows "num (spi_complete e s) = (if a = addr then v else num s)"
  using assms(2-)
  by (simp add: spi_complete_def reply_now_def[symmetric] SPI4_TxRxCpltCallback_def Let_def
      accept_reading_get[OF assms(1)] reading_frame[OF assms(1)] numeral_2_eq_2)

lemma read_reg_idle:
  assumes "(get, addr, num) \<in> set getters" "spi_lock s = 0" "length (Write_Data s) = 16"
  shows "get e s = (num s, Send_To_Fpga e [Read_Flag, addr, 0] s)"
    and "(get', addr', num') \<in> set getters \<Longrightarrow> num' (Send_To_Fpga e [Read_Flag, addr, 0] s) = num' s"
  using assms(2,3)
  by (simp_all add: getter_reads[OF assms(1)] read_reg_def spi_wait_idle Send_To_Fpga_def Let_def
      reading_frame[OF assms(1)] reading_frame)

text \<open>C26: On an idle link a getter of the FPGA registers answers the previous reading and puts
  one read request on the bus; when the FPGA has answered, exactly the variable of that
  register holds the value, the next call returns it, and the link is idle and deselected
  with no retry pending.\<close>

theorem register_poll:
  assumes "(get, addr, num) \<in> set getters" "(get', addr', num') \<in> set getters"
    and "spi_lock s = 0" "length (Write_Data s) = 16" "length (Read_Data s) = 16"
    and "fpga_reply e (length (spi_bus s) + 1) [Read_Flag, addr, 0] = [Read_Flag, addr, v]"
  shows "fst (get e s) = num s \<and>
    (let s' = spi_complete e (snd (get e s)) in
       spi_bus s' = spi_bus s @ [(0, [Read_Flag, addr, 0])] \<and>
       fst (get e s') = v \<and>
       num' s' = (if addr' = addr then v else num' s) \<and>
       spi_lock s' = 0 \<and> NSS s' = 1 \<and> retry_flag s' = 0)"
proof -
  let ?s = "Send_To_Fpga e [Read_Flag, addr, 0] s"
  have g: "get e s = (num s, ?s)"
    using assms by (intro read_reg_idle)
  have f: "spi_bus ?s = spi_bus s @ [(0, [Read_Flag, addr, 0])]" "Write_Data ?s ! 1 = addr"
      "length (Read_Data ?s) = 16" "length (Write_Data ?s) = 16"
    using assms by (simp_all add: Send_To_Fpga_frame)
  then have r: "reply_now e ?s = [Read_Flag, addr, v]"
    using assms(6) by (simp add: reply_now_def)
  have "fst (get e (spi_complete e ?s)) = num (spi_complete e ?s)"
    using assms(1) f by (subst read_reg_idle) simp_all
  then show ?thesis
    using g f r complete_reading[OF assms(1) f(3) r f(2)] complete_reading[OF assms(2) f(3) r f(2)]
      read_reg_idle(2)[OF assms(1,3,4) assms(2)] assms(1,2)
    by (auto simp: Let_def spi_complete_retry)
qed

definition demo_spi :: "store \<Rightarrow> spi4" where
  "demo_spi c = \<lparr>Write_Data = [0x00, 0x5a, 0x5a] @ replicate 13 0, Read_Data = replicate 16 0,
     spi_lock = 0, retry_flag = 0, NSS = 1, jit_reg_num_1 = 0, jit_reg_num_2 = 0,
     fw_reg_num = replicate 5 0, config_r82_num = 0, config_r83_num = 0, config_r84_num = 0,
     config_r87_num = 0, config_r88_num = 0, config_r89_num = 0, config_r8a_num = 0,
     config_r8b_num = 0, config_r8c_num = 0, config_r8d_num = 0, config_r8e_num = 0,
     spi_bus = [], spi_store = c\<rparr>"

text \<open>An FPGA that echoes the request and answers every read with 0x1b.\<close>

definition echo_env :: fpga_env where
  "echo_env = \<lparr>phy_link_reg = 0x784d,
     fpga_reply = (\<lambda>n q. [q ! 0, q ! 1, if q ! 0 = Read_Flag then 0x1b else q ! 2])\<rparr>"

lemma register_poll_witness:
  "fst (Get_Reg_0x83 echo_env (demo_spi demo_store)) = 0 \<and>
   fst (Get_Reg_0x83 echo_env (spi_complete echo_env (snd (Get_Reg_0x83 echo_env (demo_spi demo_store))))) = 0x1b"
  using register_poll[where get = Get_Reg_0x83 and addr = "0x83" and num = config_r83_num
      and get' = Get_Reg_0x84 and addr' = "0x84" and num' = config_r84_num
      and s = "demo_spi demo_store" and e = echo_env and v = "0x1b"]
  by (simp add: getters_def demo_spi_def echo_env_def Read_Flag_def Let_def)

section \<open>Changing the video format\<close>

lemma format_calls:
  assumes "Config_Format_Arr c = one_set 17 k" "k < 17"
  shows "Set_FPGA_Reg_Config CONFIG_FORMAT_NUM_ADDR 0 c =
    emit [Send_Format_2_0x05 (fst (format_reg ! k)), Send_Format_2_0x11 (snd (format_reg ! k))] c"
proof -
  let ?m = "map (\<lambda>(a, b). [Send_Format_2_0x05 a, Send_Format_2_0x11 b]) format_reg"
  have L: "length format_reg = 17" by (simp add: format_reg_def)
  have "first_branch (Config_Format_Arr c) ?m = ?m ! k"
    unfolding assms(1) by (rule first_branch_one_set) (simp_all add: assms(2) L)
  then have f: "first_branch (Config_Format_Arr c) ?m =
      [Send_Format_2_0x05 (fst (format_reg ! k)), Send_Format_2_0x11 (snd (format_reg ! k))]"
    by (simp add: nth_map L assms(2) split_def)
  have "Set_FPGA_Reg_Config CONFIG_FORMAT_NUM_ADDR 0 c = emit (first_branch (Config_Format_Arr c) ?m) c"
    by (simp add: Set_FPGA_Reg_Config_def num_defs addr_defs)
  then show ?thesis by (simp only: f)
qed

text \<open>C28: Choosing a video format writes two registers back to back.  Both requests go out,
  but the tag of the first is overwritten before its answer is checked: whatever the FPGA
  answered to the write of register 0x05, afterwards a retry is pending exactly if the
  answer to register 0x11 was wrong, and the retry would repeat only that one.\<close>

theorem format_write_check:
  assumes "k < 17" "Config_Format_Arr (spi_store s) = one_set 17 k"
    and "spi_lock s = 0" "length (Write_Data s) = 16" "length (Read_Data s) = 16"
    and "\<And>n q. length (fpga_reply e n q) = 3"
  shows "let s' = spi_complete e (spi_Set_FPGA_Reg_Config e CONFIG_FORMAT_NUM_ADDR 0 s);
             (a, b) = format_reg ! k
    in spi_bus s' = spi_bus s @ [(0, [Write_Flag, 0x05, a]), (0, [Write_Flag, 0x11, b])] \<and>
       retry_flag s' = (if fpga_reply e (length (spi_bus s) + 2) [Write_Flag, 0x11, b] ! 1 = 0x11 then 0 else 1) \<and>
       take 3 (Write_Data s') = [Write_Flag, 0x11, b]"
proof -
  obtain a b where ab: "format_reg ! k = (a, b)" by (cases "format_reg ! k")
  let ?c = "emit [Send_Format_2_0x05 a, Send_Format_2_0x11 b] (spi_store s)"
  let ?s1 = "write_after_wait e 0x05 a (s\<lparr>spi_store := ?c\<rparr>)"
  let ?s2 = "write_after_wait e 0x11 b ?s1"
  have run: "spi_Set_FPGA_Reg_Config e CONFIG_FORMAT_NUM_ADDR 0 s = ?s2"
    using format_calls[OF assms(2,1)] ab
    by (simp add: spi_Set_FPGA_Reg_Config_def Let_def spi_Send_Format_2_0x05_def spi_Send_Format_2_0x11_def)
  have w1: "length (Write_Data ?s1) = 16" "length (Read_Data ?s1) = 16"
      "spi_bus ?s1 = spi_bus s @ [(0, [Write_Flag, 0x05, a])]"
    using assms by (simp_all add: write_after_wait_frame)
  have w2: "length (Write_Data ?s2) = 16" "length (Read_Data ?s2) = 16" "Write_Data ?s2 ! 1 = 0x11"
      "spi_bus ?s2 = spi_bus s @ [(0, [Write_Flag, 0x05, a]), (0, [Write_Flag, 0x11, b])]"
      "take 3 (Write_Data ?s2) = [Write_Flag, 0x11, b]"
    using w1 by (simp_all add: write_after_wait_frame)
  have r: "reply_now e ?s2 = fpga_reply e (length (spi_bus s) + 2) [Write_Flag, 0x11, b]"
    unfolding reply_now_def w2(4) by simp
  have "retry_flag (spi_complete e ?s2) = (if Write_Data ?s2 ! 1 = reply_now e ?s2 ! 1 then 0 else 1)"
    by (rule spi_complete_retry) (simp_all add: w2(2) r assms(6))
  then show ?thesis
    unfolding run ab Let_def case_prod_conv spi_complete_frame w2(3-5) r
    by auto
qed

text \<open>An FPGA that never answers the first request.\<close>

definition deaf_env :: fpga_env where
  "deaf_env = \<lparr>phy_link_reg = 0x784d,
     fpga_reply = (\<lambda>n q. if n = 1 then [0, 0, 0] else [q ! 0, q ! 1, q ! 2])\<rparr>"

lemma format_write_check_witness:
  "retry_flag (spi_complete deaf_env
     (spi_Set_FPGA_Reg_Config deaf_env CONFIG_FORMAT_NUM_ADDR 0 (demo_spi demo_store))) = 0"
  using format_write_check[of 4 "demo_spi demo_store" deaf_env]
  by (simp add: demo_spi_def demo_store_def deaf_env_def Let_def split_def)

section \<open>The retry\<close>

text \<open>C29: After a failed transfer the poll repeats the request once; from then on, as long as
  nothing arrives on the debug port, it does nothing in any state of the link: no later
  failure is ever repeated.\<close>

theorem retry_only_once:
  assumes "usart2_received d = []" "Spi_Trans_Count d \<le> 16" "retry_times d = 0"
    and "retry_flag s = 1" "spi_lock s = 0" "length (Write_Data s) = 16"
  shows "\<exists>s'. pollint_spi_transmit e (d, s) = Some (d\<lparr>retry_times := 1\<rparr>, s') \<and>
      spi_bus s' = spi_bus s @ [(0, take 3 (Write_Data s))] \<and>
      pollint_spi_transmit e (d\<lparr>retry_times := 1\<rparr>, t) = Some (d\<lparr>retry_times := 1\<rparr>, t)"
proof -
  have "take 3 (take 3 (Write_Data s)) = take 3 (Write_Data s)" by simp
  then have "spi_bus (Retry_SPI4 e s) = spi_bus s @ [(0, take 3 (Write_Data s))]"
    using assms by (simp add: Retry_SPI4_def Let_def spi_wait_def Send_To_Fpga_def)
  then show ?thesis
    using assms(1-4) by (cases d) (simp add: pollint_spi_transmit_def Let_def Get_Retry_SPI4_Flag_def)
qed

definition demo_port :: debug_port where
  "demo_port = \<lparr>usart2_received = [], Spi_Trans_Count = 0, retry_times = 0\<rparr>"

lemma retry_only_once_witness:
  "\<exists>s'. pollint_spi_transmit echo_env (demo_port, (demo_spi demo_store)\<lparr>retry_flag := 1\<rparr>) =
      Some (demo_port\<lparr>retry_times := 1\<rparr>, s') \<and> spi_bus s' = [(0, [0x00, 0x5a, 0x5a])] \<and>
    pollint_spi_transmit echo_env (demo_port\<lparr>retry_times := 1\<rparr>, s'\<lparr>retry_flag := 1\<rparr>) =
      Some (demo_port\<lparr>retry_times := 1\<rparr>, s'\<lparr>retry_flag := 1\<rparr>)"
proof -
  show ?thesis
    using retry_only_once[of demo_port "(demo_spi demo_store)\<lparr>retry_flag := 1\<rparr>" echo_env]
    by (auto simp: demo_port_def demo_spi_def)
qed

lemma chip_select_levels_witness:
  "fst (last (spi_bus (spi_Send_Src_Mode echo_env 0x80 (spi_Send_Test_Pattern echo_env 0 (demo_spi demo_store))))) = 1"
proof -
  have w: "length (Write_Data (demo_spi demo_store)) = 16" by (simp add: demo_spi_def)
  have "length (Write_Data (spi_Send_Test_Pattern echo_env 0 (demo_spi demo_store))) = 16"
      "spi_lock (spi_Send_Test_Pattern echo_env 0 (demo_spi demo_store)) = 1"
    unfolding spi_Send_Test_Pattern_def by (simp_all add: write_after_wait_frame[OF w] w)
  then show ?thesis by (simp add: chip_select_levels)
qed

section \<open>The sweep\<close>

text \<open>The read requests among what was sent.\<close>

definition reads_of :: "spi4 \<Rightarrow> bytes list" where
  "reads_of s = filter (\<lambda>q. q ! 0 = Read_Flag) (map snd (spi_bus s))"

lemma reads_write_after_wait [simp]:
  "length (Write_Data s) = 16 \<Longrightarrow> reads_of (write_after_wait e a d s) = reads_of s"
  by (simp add: reads_of_def write_after_wait_frame Write_Flag_def Read_Flag_def)

lemma reads_write_before_wait [simp]:
  "length (Write_Data s) = 16 \<Longrightarrow> reads_of (write_before_wait e a d s) = reads_of s"
  by (simp add: reads_of_def write_before_wait_frame Write_Flag_def Read_Flag_def)

lemma spi_effect_frame:
  assumes "length (Write_Data s) = 16"
  shows "reads_of (spi_effect e x s) = reads_of s" and "length (Write_Data (spi_effect e x s)) = 16"
  using assms
  by (cases x; simp add: spi_Send_Test_Pattern_def spi_Send_Src_Mode_def spi_Send_ClockSync_Mode_def
      spi_Send_SyncType_Mode_def spi_Send_SyncFrame_Mode_def spi_Send_Format_2_0x05_def
      spi_Send_Format_2_0x11_def write_after_wait_frame write_before_wait_frame)+

lemma fold_spi_effect_frame:
  "length (Write_Data s) = 16 \<Longrightarrow>
   reads_of (fold (spi_effect e) xs s) = reads_of s \<and> length (Write_Data (fold (spi_effect e) xs s)) = 16"
  by (induction xs arbitrary: s) (simp_all add: spi_effect_frame)

lemma config_write_frame:
  assumes "length (Write_Data s) = 16"
  shows "reads_of (spi_Set_FPGA_Reg_Config e sec a s) = reads_of s"
    and "length (Write_Data (spi_Set_FPGA_Reg_Config e sec a s)) = 16"
  using fold_spi_effect_frame[of "s\<lparr>spi_store := c\<rparr>" e xs for c xs] assms
  by (simp_all add: spi_Set_FPGA_Reg_Config_def Let_def reads_of_def)

lemma reads_spi_wait [simp]: "reads_of (spi_wait e s) = reads_of s"
  by (simp add: reads_of_def)

lemma reads_Send_To_Fpga:
  "length (Write_Data s) = 16 \<Longrightarrow> length q = 3 \<Longrightarrow> q ! 0 = Read_Flag \<Longrightarrow>
   reads_of (Send_To_Fpga e q s) = reads_of s @ [q]"
  by (simp add: reads_of_def Send_To_Fpga_frame)

text \<open>Where the sweep stands after \<open>n\<close> ticks: 500 ticks of waiting, two at address 0, then
  one for each address.\<close>

definition sweep_at :: "nat \<Rightarrow> sweep_statics" where
  "sweep_at n =
     (if n \<le> 500 then \<lparr>sweep_timeout = n, sweep_addr = 0, fpga_flag = 0\<rparr>
      else \<lparr>sweep_timeout = 500, sweep_addr = min (n - 501) 0xB9, fpga_flag = 1\<rparr>)"

definition sweep_reads :: "nat \<Rightarrow> bytes list" where
  "sweep_reads n = map (\<lambda>a. [Read_Flag, of_nat a, 0]) [0x81..<sweep_addr (sweep_at n)]"

text \<open>The read a tick adds.\<close>

definition sweep_new :: "nat \<Rightarrow> bytes list" where
  "sweep_new n = (let a = sweep_addr (sweep_at n)
     in if 0x81 \<le> a \<and> a \<le> 0xB8 then [[Read_Flag, of_nat a, 0]] else [])"

lemma sweep_addr_at: "sweep_addr (sweep_at n) = min (n - 501) 0xB9"
  by (simp add: sweep_at_def)

lemma sweep_reads_Suc: "sweep_reads (Suc n) = sweep_reads n @ sweep_new n"
proof (cases "501 \<le> n \<and> n \<le> 685")
  case True
  then obtain m where m: "n = m + 501" "m \<le> 184" by (intro that[of "n - 501"]) auto
  then have "min (Suc n - 501) 0xB9 = Suc m" "min (n - 501) 0xB9 = m" by auto
  then show ?thesis
    using m by (auto simp: sweep_reads_def sweep_new_def sweep_addr_at Let_def)
next
  case False
  then have "min (Suc n - 501) 0xB9 = min (n - 501) 0xB9" by auto
  with False show ?thesis
    by (auto simp: sweep_reads_def sweep_new_def sweep_addr_at Let_def)
qed

lemma Status_Flag_Set_Status [simp]:
  "Status_Flag (Set_Status 0 c) = 0" "Status_Flag (Set_Status 2 c) = 2"
  by (simp_all add: Set_Status_def)

lemma Update_User_Arr_frame: "Status_Flag (Update_User_Arr v c) = Status_Flag c"
  by (simp add: Update_User_Arr_def Let_def)

lemma sweep_step:
  assumes "length (Write_Data s) = 16"
  obtains s' where "Power_On_Read_Reg_Once e v (sweep_at n, s) = (sweep_at (Suc n), s')"
    and "length (Write_Data s') = 16"
    and "reads_of s' = reads_of s @ sweep_new n"
    and "n < 500 \<Longrightarrow> Status_Flag (spi_store s') = 2 \<and> spi_lock s' = spi_lock s"
    and "n = 685 \<Longrightarrow> Status_Flag (spi_store s') = 0"
proof -
  let ?a = "sweep_addr (sweep_at n)"
  let ?s = "s\<lparr>Write_Data := (Write_Data s)[0 := Read_Flag, 1 := of_nat ?a, 2 := 0x00]\<rparr>"
  have w: "length (Write_Data ?s) = 16" "reads_of ?s = reads_of s"
    using assms by (simp_all add: reads_of_def)
  consider "n < 500" | "n = 500" | "n = 501" | "502 \<le> n" "n \<le> 629" | "630 \<le> n" "n \<le> 684"
    | "n = 685" | "686 \<le> n"
    by linarith
  then show thesis
  proof cases
    case 1
    then show thesis
      using w by (intro that[of "?s\<lparr>spi_store := Set_Status 2 (spi_store s)\<rparr>"])
        (auto simp: Power_On_Read_Reg_Once_def sweep_at_def sweep_new_def Let_def reads_of_def)
  next
    case 2
    then show thesis
      using w by (intro that[of ?s]) (auto simp: Power_On_Read_Reg_Once_def sweep_at_def sweep_new_def Let_def)
  next
    case 3
    then show thesis
      using w by (intro that[of ?s]) (auto simp: Power_On_Read_Reg_Once_def sweep_at_def sweep_new_def Let_def)
  next
    case 4
    then have a: "?a = n - 501" "0 < ?a" "?a \<le> 0x80" by (auto simp: sweep_addr_at)
    then have "sweep_at (Suc n) = (sweep_at n)\<lparr>sweep_addr := ?a + 1\<rparr>" "sweep_timeout (sweep_at n) = 500"
      using 4 by (auto simp: sweep_at_def)
    then show thesis
      using a w 4 by (intro that[of "spi_Set_FPGA_Reg_Config e 0 (of_nat ?a) ?s"])
        (auto simp: Power_On_Read_Reg_Once_def sweep_new_def Let_def config_write_frame)
  next
    case 5
    then have a: "?a = n - 501" "0x80 < ?a" "?a \<le> 0xB7" by (auto simp: sweep_addr_at)
    then have "sweep_at (Suc n) = (sweep_at n)\<lparr>sweep_addr := ?a + 1\<rparr>" "sweep_timeout (sweep_at n) = 500"
      using 5 by (auto simp: sweep_at_def)
    then show thesis
      using a w 5 by (intro that[of "Send_To_Fpga e (take 3 (Write_Data ?s)) ?s"])
        (auto simp: Power_On_Read_Reg_Once_def sweep_new_def Let_def reads_Send_To_Fpga Send_To_Fpga_frame)
  next
    case 6
    then have a: "?a = 0xB8" by (simp add: sweep_addr_at)
    then have p: "sweep_at (Suc n) = (sweep_at n)\<lparr>sweep_addr := 0xB9\<rparr>" "sweep_timeout (sweep_at n) = 500"
      using 6 by (auto simp: sweep_at_def)
    let ?t = "Send_To_Fpga e (take 3 (Write_Data ?s)) ?s"
    let ?u = "?t\<lparr>spi_store := Set_Status 0 (Update_User_Arr (v\<lparr>Get_FW := spi_Get_FW ?t\<rparr>) (spi_store ?t))\<rparr>"
    have "reads_of ?u = reads_of ?t" by (simp add: reads_of_def)
    then show thesis
      using a p w 6 by (intro that[of ?u])
        (auto simp: Power_On_Read_Reg_Once_def sweep_new_def Let_def reads_Send_To_Fpga Send_To_Fpga_frame)
  next
    case 7
    then have a: "?a = 0xB9" by (simp add: sweep_addr_at)
    then have "sweep_at (Suc n) = sweep_at n" using 7 by (auto simp: sweep_at_def)
    then show thesis
      using a w 7 by (intro that[of ?s]) (auto simp: Power_On_Read_Reg_Once_def sweep_new_def Let_def)
  qed
qed

text \<open>The sweep, tick by tick, whatever the FPGA answers.\<close>

lemma sweep_run:
  assumes "length (Write_Data s) = 16"
  shows "\<exists>t. (sweep_tick e v ^^ n) (sweep_statics0, s) = (sweep_at n, t) \<and> length (Write_Data t) = 16 \<and>
    reads_of t = reads_of s @ sweep_reads n \<and>
    (spi_lock s = 0 \<and> 0 < n \<and> n \<le> 500 \<longrightarrow> Status_Flag (spi_store t) = 2 \<and> spi_lock t = 0)"
proof (induction n)
  case 0
  then show ?case
    using assms by (simp add: sweep_statics0_def sweep_at_def sweep_reads_def)
next
  case (Suc n)
  then obtain t where t: "(sweep_tick e v ^^ n) (sweep_statics0, s) = (sweep_at n, t)"
      "length (Write_Data t) = 16" "reads_of t = reads_of s @ sweep_reads n"
      "spi_lock s = 0 \<and> 0 < n \<and> n \<le> 500 \<longrightarrow> spi_lock t = 0"
    by (elim exE conjE) blast
  have t0: "n = 0 \<Longrightarrow> t = s" using t(1) by simp
  obtain u where u: "Power_On_Read_Reg_Once e v (sweep_at n, t) = (sweep_at (Suc n), u)"
      "length (Write_Data u) = 16" "reads_of u = reads_of t @ sweep_new n"
      "n < 500 \<Longrightarrow> Status_Flag (spi_store u) = 2 \<and> spi_lock u = spi_lock t"
    using sweep_step[OF t(2), of e v n] by metis
  have "(sweep_tick e v ^^ Suc n) (sweep_statics0, s) = (sweep_at (Suc n), spi_wait e u)"
    using t(1) u(1) by (simp add: sweep_tick_def)
  moreover have "spi_wait e u = u" if "spi_lock s = 0" "n < 500"
    using that u(4) t(4) t0 by (cases "n = 0") (auto simp: spi_wait_def)
  ultimately show ?case
    using u t t0 by (intro exI[of _ "spi_wait e u"]) (auto simp: sweep_reads_Suc)
qed

text \<open>C27: The sweep after power on ends: for every behaviour of the FPGA, 5 seconds (500 ticks)
  of status 2 are followed by one pass over the addresses that reads each of 0x81 to 0xB8
  exactly once and in order; the 686th tick reports status 0, and no later tick reads
  anything.\<close>

theorem power_on_sweep:
  assumes "length (Write_Data s) = 16" "spi_lock s = 0" "m < 500"
  shows "reads_of (snd ((sweep_tick e v ^^ (686 + k)) (sweep_statics0, s))) =
      reads_of s @ map (\<lambda>a. [Read_Flag, of_nat a, 0]) [0x81..<0xB9] \<and>
    sweep_addr (fst ((sweep_tick e v ^^ (686 + k)) (sweep_statics0, s))) = 0xB9 \<and>
    Status_Flag (spi_store (snd (Power_On_Read_Reg_Once e v
            ((sweep_tick e v ^^ 685) (sweep_statics0, s))))) = 0 \<and>
    Status_Flag (spi_store (snd ((sweep_tick e v ^^ Suc m) (sweep_statics0, s)))) = 2"
proof (intro conjI)
  have a: "sweep_addr (sweep_at (686 + k)) = 0xB9" by (simp add: sweep_addr_at)
  obtain t where t: "(sweep_tick e v ^^ (686 + k)) (sweep_statics0, s) = (sweep_at (686 + k), t)"
      "reads_of t = reads_of s @ sweep_reads (686 + k)"
    using sweep_run[OF assms(1), where e = e and v = v and n = "686 + k"] by (elim exE conjE)
  show "reads_of (snd ((sweep_tick e v ^^ (686 + k)) (sweep_statics0, s))) =
      reads_of s @ map (\<lambda>a. [Read_Flag, of_nat a, 0]) [0x81..<0xB9]"
    "sweep_addr (fst ((sweep_tick e v ^^ (686 + k)) (sweep_statics0, s))) = 0xB9"
    unfolding t(1) fst_conv snd_conv t(2) sweep_reads_def a by simp_all
next
  obtain t where t: "(sweep_tick e v ^^ 685) (sweep_statics0, s) = (sweep_at 685, t)" "length (Write_Data t) = 16"
    using sweep_run[OF assms(1), where e = e and v = v and n = 685] by (elim exE conjE)
  obtain u where "Power_On_Read_Reg_Once e v (sweep_at 685, t) = (sweep_at (Suc 685), u)"
      "Status_Flag (spi_store u) = 0"
    using sweep_step[OF t(2), where e = e and v = v and n = 685] by metis
  then show "Status_Flag (spi_store (snd (Power_On_Read_Reg_Once e v
            ((sweep_tick e v ^^ 685) (sweep_statics0, s))))) = 0"
    unfolding t(1) by simp
next
  show "Status_Flag (spi_store (snd ((sweep_tick e v ^^ Suc m) (sweep_statics0, s)))) = 2"
    using sweep_run[OF assms(1), where e = e and v = v and n = "Suc m"] assms(2,3)
    by (elim exE conjE) (simp del: funpow.simps)
qed

lemma power_on_sweep_witness:
  "sweep_addr (fst ((sweep_tick echo_env demo_versions ^^ (686 + 0)) (sweep_statics0, demo_spi demo_store))) = 0xB9 \<and>
   Status_Flag (spi_store (snd ((sweep_tick echo_env demo_versions ^^ Suc 7) (sweep_statics0, demo_spi demo_store)))) = 2"
  using power_on_sweep[where s = "demo_spi demo_store" and e = echo_env and v = demo_versions and k = 0 and m = 7]
  by (simp add: demo_spi_def del: funpow.simps)

section \<open>The ring of network requests\<close>

definition eth_ring_ok :: "eth_ring \<Rightarrow> bool" where
  "eth_ring_ok r \<longleftrightarrow> Eth_Buf_Read r < 256 \<and> Eth_Buf_Write r < 256 \<and> length (Eth_Buf r) = 256"

definition eth_waiting :: "eth_ring \<Rightarrow> nat" where
  "eth_waiting r = (Eth_Buf_Write r + 256 - Eth_Buf_Read r) mod 256"

definition eth_pending :: "eth_ring \<Rightarrow> bytes list" where
  "eth_pending r = ring_slice (Eth_Buf r) (Eth_Buf_Read r) (eth_waiting r)"

text \<open>A frame for the port of the box, and the request in it.\<close>

definition eth_accepts :: "bytes \<Rightarrow> bool" where
  "eth_accepts f \<longleftrightarrow> f ! 36 = 0x50 \<and> f ! 37 = 0x04"

lemma eth_waiting_write:
  assumes "eth_ring_ok r"
  shows "(Eth_Buf_Read r + eth_waiting r) mod 256 = Eth_Buf_Write r" "eth_waiting r < 256"
  using assms by (auto simp: eth_ring_ok_def eth_waiting_def mod_simps)

lemma eth_waiting_0: "eth_ring_ok r \<Longrightarrow> eth_waiting r = 0 \<longleftrightarrow> Eth_Buf_Read r = Eth_Buf_Write r"
  by (auto simp: eth_ring_ok_def eth_waiting_def mod_if split: if_splits)

lemma eth_irq_ok: "eth_ring_ok r \<Longrightarrow> eth_ring_ok (eth_irq_input f r)"
  by (simp add: eth_ring_ok_def eth_irq_input_def)

lemma eth_poll_ok: "eth_ring_ok r \<Longrightarrow> eth_ring_ok (fst (pollint_eth_send e (r, s)))"
  by (simp add: eth_ring_ok_def pollint_eth_send_def Let_def)

lemma eth_irq_waiting:
  assumes "eth_ring_ok r" "eth_accepts f"
  shows "eth_waiting (eth_irq_input f r) = (if eth_waiting r < 255 then eth_waiting r + 1 else 0)"
proof -
  have "eth_waiting (eth_irq_input f r) = (eth_waiting r + 1) mod 256"
  proof -
    have "((Eth_Buf_Write r + 1) mod 256 + (256 - Eth_Buf_Read r)) mod 256 =
        ((Eth_Buf_Write r + (256 - Eth_Buf_Read r)) mod 256 + 1) mod 256"
      by (simp add: mod_simps)
    then show ?thesis
      using assms by (simp add: eth_irq_input_def eth_accepts_def eth_waiting_def eth_ring_ok_def)
  qed
  then show ?thesis using eth_waiting_write(2)[OF assms(1)] by (simp add: mod_if)
qed

lemma eth_irq_pending:
  assumes "eth_ring_ok r" "eth_accepts f"
  shows "eth_pending (eth_irq_input f r) =
    (if length (eth_pending r) < 255 then eth_pending r @ [mem_read f 42 3] else [])"
proof (cases "eth_waiting r < 255")
  case True
  have L: "length (Eth_Buf r) = 256" using assms(1) by (simp add: eth_ring_ok_def)
  have "eth_pending (eth_irq_input f r) =
      ring_slice ((Eth_Buf r)[Eth_Buf_Write r := mem_read f 42 3]) (Eth_Buf_Read r) (Suc (eth_waiting r))"
    using assms True unfolding eth_pending_def by (subst eth_irq_waiting) (simp_all add: eth_irq_input_def eth_accepts_def)
  then show ?thesis
    using ring_slice_snoc[of "eth_waiting r" "Eth_Buf r" "Eth_Buf_Read r" "mem_read f 42 3"] True L
      eth_waiting_write[OF assms(1)] by (simp add: eth_pending_def)
next
  case False
  then have "eth_waiting (eth_irq_input f r) = 0" using assms by (simp add: eth_irq_waiting)
  with False show ?thesis by (simp add: eth_pending_def)
qed

lemma eth_poll_pending:
  assumes "eth_ring_ok r"
  shows "eth_pending (fst (pollint_eth_send e (r, s))) = tl (eth_pending r)"
    and "snd (pollint_eth_send e (r, s)) =
      (if eth_pending r = [] then s else eth_dispatch e (hd (eth_pending r)) s)"
proof -
  have L: "length (Eth_Buf r) = 256" "Eth_Buf_Read r < 256" using assms by (simp_all add: eth_ring_ok_def)
  show "eth_pending (fst (pollint_eth_send e (r, s))) = tl (eth_pending r)"
    "snd (pollint_eth_send e (r, s)) =
      (if eth_pending r = [] then s else eth_dispatch e (hd (eth_pending r)) s)"
  proof (atomize (full), cases "eth_waiting r")
    case 0
    then show "eth_pending (fst (pollint_eth_send e (r, s))) = tl (eth_pending r) \<and>
      snd (pollint_eth_send e (r, s)) =
        (if eth_pending r = [] then s else eth_dispatch e (hd (eth_pending r)) s)"
      using eth_waiting_0[OF assms] by (simp add: pollint_eth_send_def eth_pending_def)
  next
    case (Suc n)
    have w: "eth_waiting (r\<lparr>Eth_Buf_Read := (Eth_Buf_Read r + 1) mod 256\<rparr>) = n"
      using Suc assms by (auto simp: eth_waiting_def eth_ring_ok_def mod_if split: if_splits)
    show "eth_pending (fst (pollint_eth_send e (r, s))) = tl (eth_pending r) \<and>
      snd (pollint_eth_send e (r, s)) =
        (if eth_pending r = [] then s else eth_dispatch e (hd (eth_pending r)) s)"
      using Suc w L eth_waiting_0[OF assms] ring_slice_Suc[of "Eth_Buf_Read r" "Eth_Buf r" n]
      by (simp add: pollint_eth_send_def eth_pending_def Let_def)
  qed
qed

text \<open>C30: The ring of network requests holds at most 255: an accepted frame is queued behind the
  waiting ones, each poll takes and carries out the oldest, but the frame that arrives while
  255 are waiting makes the ring look empty, and all 256 requests are lost.\<close>

theorem eth_ring_bound:
  assumes "eth_ring_ok r" "eth_accepts f"
  shows "eth_pending (eth_irq_input f r) =
      (if length (eth_pending r) < 255 then eth_pending r @ [mem_read f 42 3] else []) \<and>
    eth_pending (fst (pollint_eth_send e (r, s))) = tl (eth_pending r) \<and>
    snd (pollint_eth_send e (r, s)) =
      (case eth_pending r of [] \<Rightarrow> s | q # qs \<Rightarrow> eth_dispatch e q s) \<and>
    eth_ring_ok (eth_irq_input f r) \<and> eth_ring_ok (fst (pollint_eth_send e (r, s)))"
  using assms eth_poll_pending[OF assms(1), of e s]
  by (simp add: eth_irq_pending eth_irq_ok eth_poll_ok split: list.split)

lemma eth_ring_bound_witness:
  "eth_pending (eth_irq_input (replicate 36 0 @ [0x50, 0x04, 0, 0, 0, 0, 0x02, 0x10, 0x00]) eth_ring0) =
    [[0x02, 0x10, 0x00]]"
proof -
  have p: "eth_pending eth_ring0 = []" by (simp add: eth_pending_def eth_ring0_def eth_waiting_def)
  show ?thesis
    using eth_ring_bound[of eth_ring0 "replicate 36 0 @ [0x50, 0x04, 0, 0, 0, 0, 0x02, 0x10, 0x00]"]
    unfolding p by (simp add: eth_ring_ok_def eth_ring0_def eth_accepts_def mem_read_def nth_append)
qed

end
