(* ===== verification/Gps.thy ===== *)
theory Gps
  imports FpgaLink
begin

text \<open>
  The GPS receiver: the NMEA input of \<open>driver/usart/uart4.c\<close>, the pulse-per-second
  measurement of \<open>driver/gps_pps/gps_pps.c\<close> and the clock of \<open>driver/rtc/rtc.c\<close>.
  The structure \<open>Save_Data\<close> consists of characters only and is kept as its 52 bytes, so
  that a copy that is longer than its field is what it is in the code: it runs into the
  fields behind it.  A copy past the end of the structure or of a local array is \<open>None\<close>.
\<close>

section \<open>NMEA sentences\<close>

definition GPS_Buffer_size :: nat where "GPS_Buffer_size = 500"

text \<open>Offsets of the fields of \<open>_SaveData\<close>.\<close>

definition off_isParseData :: nat where "off_isParseData = 1"
definition off_UTCTime :: nat where "off_UTCTime = 2"
definition off_UTCDate :: nat where "off_UTCDate = 13"
definition off_latitude :: nat where "off_latitude = 24"
definition off_N_S :: nat where "off_N_S = 35"
definition off_longitude :: nat where "off_longitude = 37"
definition off_E_W :: nat where "off_E_W = 49"
definition off_isUsefull :: nat where "off_isUsefull = 51"
definition SaveData_size :: nat where "SaveData_size = 52"

lemmas gps_offsets = off_isParseData_def off_UTCTime_def off_UTCDate_def off_latitude_def off_N_S_def
  off_longitude_def off_E_W_def off_isUsefull_def SaveData_size_def

record gps =
  Save_Data :: bytes
  utc_time :: u8
  uart4_rx :: bytes

text \<open>\<open>strstr(buf + i, ",")\<close>; the bytes behind the buffer read as zero.\<close>

function find_comma :: "bytes \<Rightarrow> nat \<Rightarrow> nat option" where
  "find_comma buf i =
     (if length buf \<le> i then None
      else if buf ! i = 0x2c then Some i
      else if buf ! i = 0 then None
      else find_comma buf (Suc i))"
  by pat_completeness auto
termination by (relation "measure (\<lambda>(buf, i). length buf - i)") auto

declare find_comma.simps [simp del]

definition copy_field :: "nat \<Rightarrow> bytes \<Rightarrow> gps \<Rightarrow> gps option" where
  "copy_field off text g =
     (if off + length text \<le> SaveData_size
      then Some (g\<lparr>Save_Data := mem_write (Save_Data g) off text\<rparr>) else None)"

text \<open>One case of the switch; \<open>u\<close> is \<open>usefullBuffer[0]\<close>.  The \<open>break\<close> of the two
  direction fields stands under the \<open>if\<close> in front of it: an empty direction falls through,
  for \<open>N_S\<close> into the longitude.\<close>

definition parse_field :: "nat \<Rightarrow> bytes \<Rightarrow> gps \<times> u8 \<Rightarrow> (gps \<times> u8) option" where
  "parse_field i text gu =
     (let (g, u) = gu in
      if i = 1 then map_option (\<lambda>g. (g\<lparr>utc_time := 1\<rparr>, u)) (copy_field off_UTCTime text g)
      else if i = 2 then (if 2 < length text then None
                          else Some (g, if text = [] then u else hd text))
      else if i = 3 then map_option (\<lambda>g. (g, u)) (copy_field off_latitude text g)
      else if i = 4 then (case copy_field off_N_S text g of
               None \<Rightarrow> None
             | Some g \<Rightarrow> if Save_Data g ! off_N_S \<noteq> 0 then Some (g, u)
                        else map_option (\<lambda>g. (g, u)) (copy_field off_longitude text g))
      else if i = 5 then map_option (\<lambda>g. (g, u)) (copy_field off_longitude text g)
      else if i = 6 then map_option (\<lambda>g. (g, u)) (copy_field off_E_W text g)
      else if i = 9 then map_option (\<lambda>g. (g, u)) (copy_field off_UTCDate text g)
      else Some (g, u))"

definition mark_parsed :: "gps \<times> u8 \<Rightarrow> gps \<times> u8" where
  "mark_parsed gu =
     (let (g, u) = gu; d = (Save_Data g)[off_isParseData := 1]
      in (g\<lparr>Save_Data := (if u = 0x41 then d[off_isUsefull := 1]
                          else if u = 0x56 then d[off_isUsefull := 0] else d)\<rparr>, u))"

text \<open>The loop over the fields; \<open>sub\<close> is the index \<open>subString - buf\<close>.\<close>

fun parse_loop :: "bytes \<Rightarrow> nat list \<Rightarrow> nat \<Rightarrow> gps \<times> u8 \<Rightarrow> (gps \<times> u8) option" where
  "parse_loop buf [] sub gu = Some gu"
| "parse_loop buf (i # is) sub gu =
     (let sub = Suc sub in
      case find_comma buf sub of
        Some nxt \<Rightarrow>
          (case parse_field i (mem_read buf sub (nxt - sub)) gu of
             None \<Rightarrow> None
           | Some gu \<Rightarrow> parse_loop buf is nxt (mark_parsed gu))
      | None \<Rightarrow> parse_loop buf is sub gu)"

text \<open>\<open>u\<close> is what the stack holds where \<open>usefullBuffer\<close> will be.  Without any comma the
  null pointer is incremented and searched.\<close>

definition parseGpsBuffer :: "u8 \<Rightarrow> bytes \<Rightarrow> gps \<Rightarrow> gps option" where
  "parseGpsBuffer u buf g =
     (if buf ! 0 = 0x24 \<and> buf ! 4 = 0x4d \<and> buf ! 5 = 0x43
      then (case find_comma buf 0 of
              None \<Rightarrow> None
            | Some c \<Rightarrow> map_option fst (parse_loop buf [1..<10] c (g, u)))
      else Some g)"

text \<open>Cutting the received bytes at newlines; \<open>buf\<close> is \<open>Gprmc_BUF\<close>, which starts with
  whatever the stack holds.\<close>

fun gps_lines :: "u8 \<Rightarrow> bytes \<Rightarrow> nat \<Rightarrow> bytes \<Rightarrow> gps \<Rightarrow> gps option" where
  "gps_lines u [] n buf g = Some g"
| "gps_lines u (ch # chs) n buf g =
     (if ch = 0x0a
      then (case parseGpsBuffer u buf g of None \<Rightarrow> None | Some g \<Rightarrow> gps_lines u chs 0 buf g)
      else if n < GPS_Buffer_size then gps_lines u chs (n + 1) (buf[n := ch]) g
      else None)"

definition UART4_RX_Deal :: "u8 \<Rightarrow> gps \<Rightarrow> gps" where
  "UART4_RX_Deal ch g =
     (if length (uart4_rx g) + 1 = 0x200 then g\<lparr>uart4_rx := []\<rparr> else g\<lparr>uart4_rx := uart4_rx g @ [ch]\<rparr>)"

definition pollint_GPS :: "u8 \<Rightarrow> bytes \<Rightarrow> gps \<Rightarrow> gps option" where
  "pollint_GPS u stack g =
     (let data = uart4_rx g; g = g\<lparr>uart4_rx := []\<rparr>
      in if GPS_Buffer_size < length data then None else gps_lines u data 0 stack g)"

definition Get_gps_value :: "gps \<Rightarrow> u8" where
  "Get_gps_value g = Save_Data g ! off_isUsefull"

section \<open>The time shown\<close>

text \<open>\<open>int8_t\<close> arithmetic of \<open>Get_UTCTime\<close>.\<close>

definition to_int8 :: "int \<Rightarrow> int" where
  "to_int8 x = sint (word_of_int x :: 8 word)"

function hour_down :: "int \<Rightarrow> int" where
  "hour_down t = (if 24 < t then hour_down (t - 24) else t)"
  by pat_completeness auto
termination by (relation "measure nat") auto

function hour_up :: "int \<Rightarrow> int" where
  "hour_up t = (if t < 0 then hour_up (t + 24) else t)"
  by pat_completeness auto
termination by (relation "measure (\<lambda>t. nat (- t))") auto

declare hour_down.simps [simp del] hour_up.simps [simp del]

definition local_hour :: "int \<Rightarrow> int \<Rightarrow> int" where
  "local_hour t offset = hour_up (hour_down (to_int8 (to_int8 t + offset)))"

text \<open>The line it writes into the buffer of the main page, or nothing.\<close>

definition Get_UTCTime :: "store \<Rightarrow> gps \<Rightarrow> bytes option \<times> gps" where
  "Get_UTCTime s g =
     (let c = (\<lambda>i. Save_Data g ! (off_UTCTime + i)) in
      if c 0 \<noteq> 0
      then (let g = (if utc_time g \<noteq> 0
                     then (let t = local_hour ((uint (c 0) - 0x30) * 10 + (uint (c 1) - 0x30))
                                     (sint (Get_UTCoffset_Num s));
                               d = (Save_Data g)[off_UTCTime := word_of_int (t div 10) + 0x30,
                                                 off_UTCTime + 1 := word_of_int (t mod 10) + 0x30]
                           in g\<lparr>Save_Data := d, utc_time := 0\<rparr>)
                     else g);
                c = (\<lambda>i. Save_Data g ! (off_UTCTime + i))
            in (Some [c 0, c 1, 0x68, c 2, c 3, 0x6d, c 4, c 5, 0x73],
                g\<lparr>Save_Data := mem_write (Save_Data g) off_UTCTime (replicate 11 0)\<rparr>))
      else (None, g))"

section \<open>The real-time clock\<close>

record rtc_time =
  Hours :: u8
  Minutes :: u8
  Seconds :: u8
  SubSeconds :: u32

record rtc_date =
  Month :: u8
  Date :: u8
  Year :: u8

definition SYNCHPRRDIV :: u32 where "SYNCHPRRDIV = 19999"

text \<open>The first two, the second two and the last two of six digits, packed.\<close>

definition bcd_pair :: "bytes \<Rightarrow> nat \<Rightarrow> u8" where
  "bcd_pair t i = (t ! i - 48) * 16 + (t ! (i + 1) - 48)"

text \<open>The structures handed to \<open>HAL_RTC_SetTime\<close> and \<open>HAL_RTC_SetDate\<close> in BCD format.\<close>

definition Set_RTC_Time :: "bytes \<Rightarrow> rtc_time" where
  "Set_RTC_Time Time = \<lparr>Hours = bcd_pair Time 0, Minutes = bcd_pair Time 2, Seconds = bcd_pair Time 4, SubSeconds = 0\<rparr>"

definition Set_RTC_Date :: "bytes \<Rightarrow> rtc_date" where
  "Set_RTC_Date D = \<lparr>Month = bcd_pair D 0, Date = bcd_pair D 2, Year = bcd_pair D 4\<rparr>"

definition Get_RTC_clk :: "rtc_time \<Rightarrow> u32" where
  "Get_RTC_clk t =
     ((ucast (Hours t) * 60 + ucast (Minutes t)) * 60 + ucast (Seconds t)) * (SYNCHPRRDIV + 1)
       + ((SYNCHPRRDIV + 1) - SubSeconds t)"

definition Get_RTCtime :: "rtc_time \<Rightarrow> bytes" where
  "Get_RTCtime t =
     (let d = (\<lambda>n. [n div 10 + 48, n mod 10 + 48])
      in d (Hours t) @ [0x3a] @ d (Minutes t) @ [0x3a] @ d (Seconds t) @ ascii '' RTC'')"

definition Get_UTCDate :: "gps \<Rightarrow> (rtc_date \<times> bytes) option \<times> gps" where
  "Get_UTCDate g =
     (let d = mem_read (Save_Data g) off_UTCDate 11 in
      if d ! 0 \<noteq> 0
      then (Some (Set_RTC_Date d, [0x32, 0x30, d ! 4, d ! 5, 0x2f, d ! 2, d ! 3, 0x2f, d ! 0, d ! 1]),
            g\<lparr>Save_Data := mem_write (Save_Data g) off_UTCDate (replicate 11 0)\<rparr>)
      else (None, g))"

definition Get_Latitude :: "gps \<Rightarrow> bytes option" where
  "Get_Latitude g =
     (let l = mem_read (Save_Data g) off_latitude 11 in
      if Save_Data g ! off_UTCDate \<noteq> 0 then Some [l ! 0, l ! 1, 0x27, l ! 2, l ! 3, 0x27] else None)"

section \<open>Pulse per second\<close>

record pps =
  Send_Sec_Plus_Flag :: u8
  GPS_Sec :: u8
  Rewrite_GPS_Sec :: u8
  Reset_Pulse_Flag :: u8
  Send_Dirft_Flag :: u8
  Delay_Arr :: "u32 list"
  Average_Arr :: "u32 list"
  pps_x :: nat
  FiFo_Active :: u8
  FiFo_Active_cnt :: nat
  clk_drift_calc :: u32
  clk_dirft_current :: u32
  pps_cnt :: nat
  previous_cpuclk :: u32
  config_rw9_num :: u8
  config_rwa_num :: u8
  config_rwb_num :: u8
  config_rwc_num :: u8
  dirft_reg :: nat

definition Tol_Arr_Numb :: nat where "Tol_Arr_Numb = 128"
definition FiFo_Active_cnt_MAX :: nat where "FiFo_Active_cnt_MAX = 128"

definition Set_Send_Sec_Plus :: "u8 \<Rightarrow> u8 \<Rightarrow> pps \<Rightarrow> pps" where
  "Set_Send_Sec_Plus flag Sec p =
     (if flag \<noteq> 0 then p\<lparr>Send_Sec_Plus_Flag := 1, GPS_Sec := Sec\<rparr> else p\<lparr>Send_Sec_Plus_Flag := 0\<rparr>)"

definition Get_Send_Sec_Plus :: "pps \<Rightarrow> u8" where "Get_Send_Sec_Plus p = Send_Sec_Plus_Flag p"

definition Get_GPS_Sec :: "pps \<Rightarrow> u8 \<times> pps" where
  "Get_GPS_Sec p = (let r = push_bit 1 (GPS_Sec p) in (r, p\<lparr>Rewrite_GPS_Sec := r\<rparr>))"

definition Send_GPS_info :: "fpga_env \<Rightarrow> pps \<times> spi4 \<Rightarrow> pps \<times> spi4" where
  "Send_GPS_info e ps =
     (let (p, s) = ps in
      if Get_Send_Sec_Plus p \<noteq> 0
      then ((Set_Send_Sec_Plus 0 0 p)\<lparr>Reset_Pulse_Flag := 1\<rparr>, Send_GPS_Sec_Pulse e 0x80 s)
      else if Reset_Pulse_Flag p \<noteq> 0
      then (p\<lparr>Reset_Pulse_Flag := 0\<rparr>, Send_GPS_Sec_Pulse e 0x00 s)
      else (p, s))"

definition Set_Send_Dirft_Flag :: "u8 \<Rightarrow> pps \<Rightarrow> pps" where
  "Set_Send_Dirft_Flag flag p = p\<lparr>Send_Dirft_Flag := (if flag \<noteq> 0 then 1 else 0)\<rparr>"

definition Get_Send_Dirft_Flag :: "pps \<Rightarrow> u8" where "Get_Send_Dirft_Flag p = Send_Dirft_Flag p"

definition Send_Dirft :: "fpga_env \<Rightarrow> pps \<times> spi4 \<Rightarrow> pps \<times> spi4" where
  "Send_Dirft e ps =
     (let (p, s) = ps in
      if dirft_reg p = 1 then (p\<lparr>dirft_reg := 2\<rparr>, Send_GPS_Dirft e 0x09 (config_rw9_num p) s)
      else if dirft_reg p = 2 then (p\<lparr>dirft_reg := 3\<rparr>, Send_GPS_Dirft e 0x0a (config_rwa_num p) s)
      else if dirft_reg p = 3 then (p\<lparr>dirft_reg := 4\<rparr>, Send_GPS_Dirft e 0x0b (config_rwb_num p) s)
      else if dirft_reg p = 4
      then ((Set_Send_Dirft_Flag 0 p)\<lparr>dirft_reg := 1\<rparr>, Send_GPS_Dirft e 0x0c (config_rwc_num p) s)
      else (p\<lparr>dirft_reg := 1\<rparr>, s))"

text \<open>The four bytes of a drift.\<close>

definition set_drift_bytes :: "u32 \<Rightarrow> pps \<Rightarrow> pps" where
  "set_drift_bytes d p =
     p\<lparr>config_rwc_num := ucast (d mod 0x100), config_rwb_num := ucast ((d mod 0x10000) div 0x100),
       config_rwa_num := ucast ((d mod 0x1000000) div 0x10000), config_rw9_num := ucast (d div 0x1000000)\<rparr>"

text \<open>A delay that is accepted.  The counters \<open>cnt\<close>, \<open>FiFo_Active_cnt\<close> and \<open>x\<close> stay below
  130 and do not wrap.\<close>

definition pps_average :: "u32 \<Rightarrow> pps \<Rightarrow> u32" where
  "pps_average cpu_delay p =
     (clk_dirft_current p * of_nat (pps_cnt p) + cpu_delay) div of_nat (pps_cnt p + 1)"

definition pps_fifo :: "pps \<Rightarrow> pps" where
  "pps_fifo p =
     (let p = p\<lparr>FiFo_Active_cnt := FiFo_Active_cnt p + 1\<rparr>
      in if FiFo_Active_cnt p > FiFo_Active_cnt_MAX
         then p\<lparr>FiFo_Active_cnt := FiFo_Active_cnt_MAX, FiFo_Active := 1\<rparr>
         else p\<lparr>FiFo_Active := 0\<rparr>)"

definition pps_accept :: "u32 \<Rightarrow> pps \<Rightarrow> pps" where
  "pps_accept cpu_delay p =
     (let avg = pps_average cpu_delay p;
          p = p\<lparr>clk_dirft_current := avg, Average_Arr := (Average_Arr p)[pps_x p := avg],
                Delay_Arr := (Delay_Arr p)[pps_x p := cpu_delay],
                pps_x := (pps_x p + 1) mod Tol_Arr_Numb, pps_cnt := pps_cnt p + 1\<rparr>;
          p = pps_fifo p;
          p = (if FiFo_Active p \<noteq> 0
               then Set_Send_Dirft_Flag 1 (set_drift_bytes (clk_dirft_current p)
                      (p\<lparr>clk_drift_calc := clk_dirft_current p\<rparr>))
               else p)
      in if pps_cnt p > Tol_Arr_Numb then p\<lparr>pps_cnt := Tol_Arr_Numb\<rparr> else p)"

text \<open>The interrupt, with the value of \<open>Get_RTC_clk\<close>.  The comparisons with 1.2 and 0.8 times
  the average are in double precision, which orders them and an integer as the exact
  products.\<close>

definition delay_rejected :: "u32 \<Rightarrow> pps \<Rightarrow> bool" where
  "delay_rejected cpu_delay p \<longleftrightarrow>
     6 * unat (clk_dirft_current p) < 5 * unat cpu_delay \<or> 5 * unat cpu_delay < 4 * unat (clk_dirft_current p)"

definition GPS_PPS_Interrupt :: "u32 \<Rightarrow> pps \<Rightarrow> pps" where
  "GPS_PPS_Interrupt current_cpuclk p =
     (let cpu_delay = current_cpuclk - previous_cpuclk p;
          p = (if delay_rejected cpu_delay p
               then p\<lparr>previous_cpuclk := current_cpuclk, FiFo_Active_cnt := 0, FiFo_Active := 0\<rparr>
               else pps_accept cpu_delay p);
          p = p\<lparr>previous_cpuclk := current_cpuclk\<rparr>;
          p = Set_Send_Sec_Plus 1 0 p
      in Set_Send_Dirft_Flag 1 (set_drift_bytes (clk_dirft_current p) p))"

section \<open>Properties of the time\<close>

lemma hour_down_spec: "hour_down t mod 24 = t mod 24 \<and> hour_down t \<le> 24 \<and> (0 < t \<longrightarrow> 0 < hour_down t) \<and> (t \<le> 24 \<longrightarrow> hour_down t = t)"
proof (induction t rule: hour_down.induct)
  case (1 t)
  show ?case
  proof (cases "24 < t")
    case True
    have "(t - 24) mod 24 = t mod 24" by (metis minus_mod_self2)
    then show ?thesis using 1[OF True] True by (subst (1 2 3) hour_down.simps) (auto simp: hour_down.simps[of t])
  qed (simp add: hour_down.simps)
qed

lemma hour_up_spec: "hour_up t mod 24 = t mod 24 \<and> 0 \<le> hour_up t \<and> (t < 0 \<longrightarrow> hour_up t < 24) \<and> (0 \<le> t \<longrightarrow> hour_up t = t)"
proof (induction t rule: hour_up.induct)
  case (1 t)
  show ?case
  proof (cases "t < 0")
    case True
    have "(t + 24) mod 24 = t mod 24" by simp
    then show ?thesis using 1[OF True] True by (cases "t + 24 < 0") (auto simp: hour_up.simps[of t])
  qed (simp add: hour_up.simps)
qed

lemma to_int8_id: "- 128 \<le> x \<Longrightarrow> x < 128 \<Longrightarrow> to_int8 x = x"
  by (simp add: to_int8_def sint_sbintrunc' signed_take_bit_int_eq_self)

text \<open>The hour shown for a UTC hour and an offset from -128 to 127 hours is the sum modulo 24
  and both loops end; but the first loop stops at 24, so whenever the sum is a positive
  multiple of 24 the display says 24 instead of 00.\<close>

theorem local_hour_range:
  assumes "0 \<le> h" "h < 24" "- 128 \<le> h + d" "h + d < 128"
  shows "local_hour h d mod 24 = (h + d) mod 24 \<and> 0 \<le> local_hour h d \<and> local_hour h d \<le> 24 \<and>
    (local_hour h d = 24 \<longleftrightarrow> 0 < h + d \<and> 24 dvd h + d)"
proof -
  have t: "to_int8 (to_int8 h + d) = h + d" using assms by (simp add: to_int8_id)
  let ?a = "hour_down (h + d)"
  have a: "?a mod 24 = (h + d) mod 24" "?a \<le> 24" "0 < h + d \<longrightarrow> 0 < ?a" "h + d \<le> 24 \<longrightarrow> ?a = h + d"
    using hour_down_spec[of "h + d"] by auto
  have b: "hour_up ?a mod 24 = ?a mod 24" "0 \<le> hour_up ?a" "?a < 0 \<longrightarrow> hour_up ?a < 24" "0 \<le> ?a \<longrightarrow> hour_up ?a = ?a"
    using hour_up_spec[of ?a] by auto
  have "hour_up ?a = 24 \<longleftrightarrow> 0 < h + d \<and> 24 dvd h + d"
  proof
    assume "hour_up ?a = 24"
    then have "?a = 24" using b by (cases "0 \<le> ?a") auto
    then show "0 < h + d \<and> 24 dvd h + d" using a by (cases "h + d \<le> 24") (auto simp: dvd_eq_mod_eq_0)
  next
    assume h: "0 < h + d \<and> 24 dvd h + d"
    then have "24 dvd ?a" "0 < ?a" using a by (auto simp: dvd_eq_mod_eq_0)
    then have "?a = 24" using a(2) by (auto elim!: dvdE)
    then show "hour_up ?a = 24" using b by simp
  qed
  then show ?thesis using a b unfolding local_hour_def t by (cases "0 \<le> ?a") auto
qed

lemma local_hour_range_witness: "local_hour 16 8 = 24"
  using local_hour_range[of 16 8] by simp

section \<open>Properties of the clock\<close>

text \<open>A decimal digit as a character.\<close>

definition is_digit :: "u8 \<Rightarrow> bool" where "is_digit c \<longleftrightarrow> 48 \<le> c \<and> c \<le> 57"

text \<open>The conversion of the HAL from BCD to binary.\<close>

definition RTC_Bcd2ToByte :: "u8 \<Rightarrow> u8" where
  "RTC_Bcd2ToByte v = drop_bit 4 (v AND 0xF0) * 10 + (v AND 0x0F)"

definition bin_time :: "rtc_time \<Rightarrow> rtc_time" where
  "bin_time t = t\<lparr>Hours := RTC_Bcd2ToByte (Hours t), Minutes := RTC_Bcd2ToByte (Minutes t), Seconds := RTC_Bcd2ToByte (Seconds t)\<rparr>"

lemma digit_cases: "is_digit c \<Longrightarrow> c \<in> {48, 49, 50, 51, 52, 53, 54, 55, 56, 57}"
proof -
  assume "is_digit c"
  then have "48 \<le> unat c" "unat c \<le> 57" by (auto simp: is_digit_def word_le_nat_alt)
  then have "unat c \<in> {48, 49, 50, 51, 52, 53, 54, 55, 56, 57}" by simp presburger
  then show ?thesis by (auto simp: word_unat_eq_iff)
qed

lemma bcd_digits:
  assumes "is_digit a" "is_digit b"
  shows "RTC_Bcd2ToByte ((a - 48) * 16 + (b - 48)) div 10 + 48 = a"
    and "RTC_Bcd2ToByte ((a - 48) * 16 + (b - 48)) mod 10 + 48 = b"
  using digit_cases[OF assms(1)] digit_cases[OF assms(2)]
  by (auto simp: RTC_Bcd2ToByte_def)


text \<open>Six digits packed by Set_RTC_Time, read back from the clock in binary and formatted by
  Get_RTCtime give the same digits.\<close>

theorem rtc_time_roundtrip:
  assumes "length t = 6" "\<forall>c \<in> set t. is_digit c"
  shows "Get_RTCtime (bin_time (Set_RTC_Time t)) =
    [t ! 0, t ! 1, 0x3a, t ! 2, t ! 3, 0x3a, t ! 4, t ! 5] @ ascii '' RTC''"
proof -
  have "is_digit (t ! i)" if "i < 6" for i using assms that by auto
  then have "RTC_Bcd2ToByte (bcd_pair t i) div 10 + 48 = t ! i \<and> RTC_Bcd2ToByte (bcd_pair t i) mod 10 + 48 = t ! Suc i"
    if "i < 5" for i using that bcd_digits[of "t ! i" "t ! Suc i"] by (simp add: bcd_pair_def)
  from this[of 0] this[of 2] this[of 4] show ?thesis
    by (simp add: Get_RTCtime_def bin_time_def Set_RTC_Time_def Let_def numeral_eq_Suc)
qed

lemma rtc_time_roundtrip_witness:
  "Get_RTCtime (bin_time (Set_RTC_Time [50, 51, 53, 57, 48, 55])) = ascii ''23:59:07 RTC''"
  using rtc_time_roundtrip[of "[50, 51, 53, 57, 48, 55]"] by (simp add: is_digit_def ascii_def)

text \<open>C33: The date of a sentence (ddmmyy) is shown on the page as 20yy/mm/dd, but it reaches the
  real-time clock with day and month exchanged; it is delivered once.\<close>

theorem rtc_date_swapped:
  assumes "length (Save_Data g) = 52" "mem_read (Save_Data g) off_UTCDate 6 = [d1, d0, m1, m0, y1, y0]"
    and "\<forall>c \<in> {d1, d0, m1, m0, y1, y0}. is_digit c"
  shows "\<exists>r line g'. Get_UTCDate g = (Some (r, line), g') \<and>
    line = [0x32, 0x30, y1, y0, 0x2f, m1, m0, 0x2f, d1, d0] \<and>
    Month r = (d1 - 48) * 16 + (d0 - 48) \<and> Date r = (m1 - 48) * 16 + (m0 - 48) \<and>
    Year r = (y1 - 48) * 16 + (y0 - 48) \<and> fst (Get_UTCDate g') = None"
proof -
  have n: "mem_read (Save_Data g) off_UTCDate 11 ! i = mem_read (Save_Data g) off_UTCDate 6 ! i" if "i < 6" for i
    using assms(1) that by (simp add: off_UTCDate_def)
  have d: "mem_read (Save_Data g) off_UTCDate 11 ! 0 = d1" "mem_read (Save_Data g) off_UTCDate 11 ! 1 = d0"
    "mem_read (Save_Data g) off_UTCDate 11 ! 2 = m1" "mem_read (Save_Data g) off_UTCDate 11 ! 3 = m0"
    "mem_read (Save_Data g) off_UTCDate 11 ! 4 = y1" "mem_read (Save_Data g) off_UTCDate 11 ! 5 = y0"
    using n[of 0] n[of 1] n[of 2] n[of 3] n[of 4] n[of 5] assms(2) by simp_all
  have "d1 \<noteq> 0" using assms(3) by (auto simp: is_digit_def)
  moreover have "mem_read (mem_write (Save_Data g) off_UTCDate (replicate 11 0)) off_UTCDate 11 = replicate 11 0"
    using mem_read_write_same[of off_UTCDate "replicate 11 0" "Save_Data g"] assms(1) by (simp add: off_UTCDate_def)
  ultimately show ?thesis
    using d by (simp add: Get_UTCDate_def Let_def Set_RTC_Date_def bcd_pair_def)
qed

section \<open>Sentences\<close>

text \<open>Text without a comma or a terminator.\<close>

definition plain :: "bytes \<Rightarrow> bool" where "plain f \<longleftrightarrow> (\<forall>c \<in> set f. c \<noteq> 0x2c \<and> c \<noteq> 0)"

lemma find_comma_field:
  "plain f \<Longrightarrow> find_comma (pre @ f @ 0x2c # post) (length pre) = Some (length pre + length f)"
proof (induction f arbitrary: pre)
  case Nil
  then show ?case by (subst find_comma.simps) simp
next
  case (Cons c f)
  then have "find_comma ((pre @ [c]) @ f @ 0x2c # post) (length (pre @ [c])) = Some (length (pre @ [c]) + length f)"
    by (intro Cons.IH) (simp add: plain_def)
  then show ?case using Cons.prems by (subst find_comma.simps) (simp add: plain_def nth_append)
qed

text \<open>The comma-terminated fields, and what the loop does with them one after the other.\<close>

definition fields :: "bytes list \<Rightarrow> bytes" where "fields fs = concat (map (\<lambda>f. f @ [0x2c]) fs)"

fun parse_fields :: "nat \<Rightarrow> bytes list \<Rightarrow> gps \<times> u8 \<Rightarrow> (gps \<times> u8) option" where
  "parse_fields i [] gu = Some gu"
| "parse_fields i (f # fs) gu =
     (case parse_field i f gu of None \<Rightarrow> None | Some gu \<Rightarrow> parse_fields (Suc i) fs (mark_parsed gu))"

lemma parse_loop_fields:
  "\<forall>f \<in> set fs. plain f \<Longrightarrow>
   parse_loop (pre @ 0x2c # fields fs @ post) [i..<i + length fs] (length pre) gu = parse_fields i fs gu"
proof (induction fs arbitrary: pre i gu)
  case (Cons f fs)
  let ?b = "pre @ 0x2c # fields (f # fs) @ post"
  have b: "?b = (pre @ [0x2c]) @ f @ 0x2c # fields fs @ post" by (simp add: fields_def)
  have c: "find_comma ?b (Suc (length pre)) = Some (Suc (length pre) + length f)"
    using find_comma_field[of f "pre @ [0x2c]" "fields fs @ post"] Cons.prems unfolding b by simp
  have t: "mem_read ?b (Suc (length pre)) (length f) = f"
    by (simp add: mem_read_def fields_def)
  have ih: "parse_loop ?b [Suc i..<Suc i + length fs] (Suc (length pre) + length f) gu' = parse_fields (Suc i) fs gu'" for gu'
    using Cons.IH[of "pre @ 0x2c # f" "Suc i" gu'] Cons.prems by (simp add: fields_def)
  have u: "[i..<i + length (f # fs)] = i # [Suc i..<Suc i + length fs]" by (subst upt_conv_Cons) simp_all
  show ?case
    unfolding u parse_loop.simps Let_def c using t ih by (simp split: option.split)
qed simp

text \<open>Fields that fit their place in \<open>Save_Data\<close>.\<close>

definition field_fits :: "nat \<Rightarrow> bytes \<Rightarrow> bool" where
  "field_fits i f \<longleftrightarrow> plain f \<and>
     (i = 1 \<longrightarrow> length f \<le> 11) \<and> (i = 2 \<longrightarrow> f = [0x41] \<or> f = [0x56]) \<and> (i = 3 \<longrightarrow> length f \<le> 11) \<and>
     (i = 4 \<longrightarrow> length f \<in> {1, 2}) \<and> (i = 5 \<longrightarrow> length f \<le> 12) \<and> (i = 6 \<longrightarrow> length f \<le> 2) \<and>
     (i = 9 \<longrightarrow> length f \<le> 11)"

definition mark :: "u8 \<Rightarrow> bytes \<Rightarrow> bytes" where
  "mark u d =
     (let d = d[off_isParseData := 1]
      in if u = 0x41 then d[off_isUsefull := 1] else if u = 0x56 then d[off_isUsefull := 0] else d)"

lemma mark_parsed_mark: "mark_parsed (g, u) = (g\<lparr>Save_Data := mark u (Save_Data g)\<rparr>, u)"
  by (simp add: mark_parsed_def mark_def Let_def)

lemma length_mark [simp]: "length (mark u d) = length d"
  by (simp add: mark_def Let_def)

lemma mark_nth: "2 \<le> i \<Longrightarrow> i < 51 \<Longrightarrow> mark u d ! i = d ! i"
  by (simp add: mark_def Let_def gps_offsets)

lemma mem_read_mark: "2 \<le> off \<Longrightarrow> off + n \<le> 51 \<Longrightarrow> length d = 52 \<Longrightarrow> mem_read (mark u d) off n = mem_read d off n"
  by (intro nth_equalityI) (simp_all add: mark_nth)

lemma mark_usefull:
  "length d = 52 \<Longrightarrow> mark 0x41 d ! 51 = 1" "length d = 52 \<Longrightarrow> mark 0x56 d ! 51 = 0"
  by (simp_all add: mark_def Let_def gps_offsets)

text \<open>Writing and reading fields of the structure.\<close>

lemma copy_field_ok:
  "off + length t \<le> 52 \<Longrightarrow> copy_field off t g = Some (g\<lparr>Save_Data := mem_write (Save_Data g) off t\<rparr>)"
  by (simp add: copy_field_def SaveData_size_def)

lemma parse_field_simps:
  "length t \<le> 11 \<Longrightarrow> parse_field 1 t (g, u) =
     Some (g\<lparr>Save_Data := mem_write (Save_Data g) off_UTCTime t, utc_time := 1\<rparr>, u)"
  "parse_field 2 [c] (g, u) = Some (g, c)"
  "length t \<le> 11 \<Longrightarrow> parse_field 3 t (g, u) = Some (g\<lparr>Save_Data := mem_write (Save_Data g) off_latitude t\<rparr>, u)"
  "length t \<le> 12 \<Longrightarrow> parse_field 5 t (g, u) = Some (g\<lparr>Save_Data := mem_write (Save_Data g) off_longitude t\<rparr>, u)"
  "length t \<le> 2 \<Longrightarrow> parse_field 6 t (g, u) = Some (g\<lparr>Save_Data := mem_write (Save_Data g) off_E_W t\<rparr>, u)"
  "parse_field 7 t (g, u) = Some (g, u)" "parse_field 8 t (g, u) = Some (g, u)"
  "length t \<le> 11 \<Longrightarrow> parse_field 9 t (g, u) = Some (g\<lparr>Save_Data := mem_write (Save_Data g) off_UTCDate t\<rparr>, u)"
  by (simp_all add: parse_field_def Let_def copy_field_ok gps_offsets)

lemma parse_field_4:
  "length t \<in> {1, 2} \<Longrightarrow> plain t \<Longrightarrow> length (Save_Data g) = 52 \<Longrightarrow>
   parse_field 4 t (g, u) = Some (g\<lparr>Save_Data := mem_write (Save_Data g) off_N_S t\<rparr>, u)"
  by (cases t) (auto simp: parse_field_def Let_def copy_field_ok gps_offsets nth_mem_write plain_def)

lemma rmc_data:
  assumes "length (Save_Data g) = 52" "field_fits 1 f1" "field_fits 2 f2" "field_fits 3 f3" "field_fits 4 f4"
    and "field_fits 5 f5" "field_fits 6 f6" "field_fits 9 f9"
  shows "\<exists>g'. parse_fields 1 [f1, f2, f3, f4, f5, f6, f7, f8, f9] (g, u) = Some (g', hd f2) \<and> utc_time g' = 1 \<and>
    mem_read (Save_Data g') off_UTCTime (length f1) = f1 \<and>
    mem_read (Save_Data g') off_latitude (length f3) = f3 \<and>
    mem_read (Save_Data g') off_N_S (length f4) = f4 \<and>
    mem_read (Save_Data g') off_longitude (length f5) = f5 \<and>
    mem_read (Save_Data g') off_E_W (length f6) = f6 \<and>
    mem_read (Save_Data g') off_UTCDate (length f9) = f9 \<and>
    Get_gps_value g' = (if f2 = [0x41] then 1 else 0) \<and> length (Save_Data g') = 52"
proof -
  have L: "length f1 \<le> 11" "length f3 \<le> 11" "length f4 \<in> {1, 2}" "plain f4" "length f5 \<le> 12" "length f6 \<le> 2" "length f9 \<le> 11"
    using assms by (simp_all add: field_fits_def)
  have L4: "length f4 \<le> 2" using L(3) by auto
  obtain c where c: "f2 = [c]" "c = 0x41 \<or> c = 0x56" using assms(3) by (auto simp: field_fits_def)
  have n: "Suc 1 = 2" "Suc 2 = 3" "Suc 3 = 4" "Suc 4 = 5" "Suc 5 = 6" "Suc 6 = 7" "Suc 7 = 8" "Suc 8 = 9" by simp_all
  obtain d t r where g: "g = \<lparr>Save_Data = d, utc_time = t, uart4_rx = r\<rparr>" by (cases g)
  have d: "length d = 52" using assms(1) g by simp
  let ?d1 = "mark u (mem_write d off_UTCTime f1)"
  let ?d3 = "mark c (mem_write (mark c ?d1) off_latitude f3)"
  let ?d4 = "mark c (mem_write ?d3 off_N_S f4)"
  let ?d5 = "mark c (mem_write ?d4 off_longitude f5)"
  let ?d6 = "mark c (mark c (mark c (mem_write ?d5 off_E_W f6)))"
  let ?d9 = "mark c (mem_write ?d6 off_UTCDate f9)"
  let ?g = "\<lparr>Save_Data = ?d9, utc_time = 1, uart4_rx = r\<rparr>"
  have "parse_fields 1 [f1, f2, f3, f4, f5, f6, f7, f8, f9] (g, u) = Some (?g, c)"
    unfolding parse_fields.simps n c g using L
    by (simp only: parse_field_simps parse_field_4 d mark_parsed_mark option.case gps.select_convs
        gps.update_convs length_mark length_mem_write)
  moreover have "Get_gps_value ?g = (if c = 0x41 then 1 else 0)"
    using c(2) d by (auto simp: Get_gps_value_def off_isUsefull_def mark_usefull)
  moreover have "mem_read ?d9 off_UTCTime (length f1) = f1" "mem_read ?d9 off_latitude (length f3) = f3"
    "mem_read ?d9 off_N_S (length f4) = f4" "mem_read ?d9 off_longitude (length f5) = f5"
    "mem_read ?d9 off_E_W (length f6) = f6" "mem_read ?d9 off_UTCDate (length f9) = f9"
    using L(1,2,5-7) L4 d by (simp_all add: gps_offsets mem_read_mark mem_read_write_other)
  ultimately show ?thesis
    using d c by (intro exI[of _ ?g]) simp
qed

text \<open>C32: An RMC sentence whose fields fit their places is parsed whatever the stack held: time,
  latitude, direction, longitude, direction and date land in Save_Data unchanged, the fix is
  valid exactly for status A, and no copy leaves the structure.\<close>

theorem rmc_sentence:
  assumes "length (Save_Data g) = 52" "length pre = 6" "plain pre" "pre ! 0 = 0x24" "pre ! 4 = 0x4d" "pre ! 5 = 0x43"
    and "field_fits 1 f1" "field_fits 2 f2" "field_fits 3 f3" "field_fits 4 f4"
    and "field_fits 5 f5" "field_fits 6 f6" "plain f7" "plain f8" "field_fits 9 f9"
  shows "\<exists>g'. parseGpsBuffer u (pre @ 0x2c # fields [f1, f2, f3, f4, f5, f6, f7, f8, f9] @ rest) g = Some g' \<and>
    utc_time g' = 1 \<and>
    mem_read (Save_Data g') off_UTCTime (length f1) = f1 \<and>
    mem_read (Save_Data g') off_latitude (length f3) = f3 \<and>
    mem_read (Save_Data g') off_N_S (length f4) = f4 \<and>
    mem_read (Save_Data g') off_longitude (length f5) = f5 \<and>
    mem_read (Save_Data g') off_E_W (length f6) = f6 \<and>
    mem_read (Save_Data g') off_UTCDate (length f9) = f9 \<and>
    Get_gps_value g' = (if f2 = [0x41] then 1 else 0) \<and> length (Save_Data g') = 52"
proof -
  let ?fs = "[f1, f2, f3, f4, f5, f6, f7, f8, f9]"
  let ?buf = "pre @ 0x2c # fields ?fs @ rest"
  have plain: "\<forall>f \<in> set ?fs. plain f" using assms by (simp add: field_fits_def)
  have c: "find_comma ?buf 0 = Some (length pre)"
    using find_comma_field[OF assms(3), of "[]" "fields ?fs @ rest"] by simp
  obtain g' where g': "parse_fields 1 ?fs (g, u) = Some (g', hd f2)"
      "utc_time g' = 1 \<and>
    mem_read (Save_Data g') off_UTCTime (length f1) = f1 \<and>
    mem_read (Save_Data g') off_latitude (length f3) = f3 \<and>
    mem_read (Save_Data g') off_N_S (length f4) = f4 \<and>
    mem_read (Save_Data g') off_longitude (length f5) = f5 \<and>
    mem_read (Save_Data g') off_E_W (length f6) = f6 \<and>
    mem_read (Save_Data g') off_UTCDate (length f9) = f9 \<and>
    Get_gps_value g' = (if f2 = [0x41] then 1 else 0) \<and> length (Save_Data g') = 52"
    using rmc_data[OF assms(1,7-12,15), of f8 f7 u] rmc_data[OF assms(1,7-12,15), of f7 f8 u] by blast
  have "1 + length ?fs = 10" by simp
  then have u9: "[1..<10] = [1..<1 + length ?fs]" by (simp only:)
  have h: "?buf ! 0 = 0x24" "?buf ! 4 = 0x4d" "?buf ! 5 = 0x43" using assms(2,4-6) by (simp_all add: nth_append)
  have "parse_loop ?buf [1..<10] (length pre) (g, u) = Some (g', hd f2)"
    unfolding u9 parse_loop_fields[OF plain] by (rule g'(1))
  then have "parseGpsBuffer u ?buf g = Some g'"
    unfolding parseGpsBuffer_def h c by simp
  with g'(2) show ?thesis by blast
qed

lemma rmc_sentence_witness:
  "\<exists>g'. parseGpsBuffer 0 (ascii ''$GPRMC'' @ 0x2c # fields [ascii ''083559'', ascii ''A'', ascii ''47'', ascii ''N'',
      ascii ''8'', ascii ''E'', ascii ''0'', ascii ''7'', ascii ''091202''] @ ascii '',,A'')
      \<lparr>Save_Data = replicate 52 0, utc_time = 0, uart4_rx = []\<rparr> = Some g' \<and>
    mem_read (Save_Data g') off_UTCTime 6 = ascii ''083559'' \<and> Get_gps_value g' = 1 \<and>
    mem_read (Save_Data g') off_UTCDate 6 = ascii ''091202''"
proof -
  let ?g = "\<lparr>Save_Data = replicate 52 0, utc_time = 0, uart4_rx = []\<rparr>"
  have p: "length (Save_Data ?g) = 52" "length (ascii ''$GPRMC'') = 6" "plain (ascii ''$GPRMC'')"
    "ascii ''$GPRMC'' ! 0 = 0x24" "ascii ''$GPRMC'' ! 4 = 0x4d" "ascii ''$GPRMC'' ! 5 = 0x43"
    by (simp_all add: plain_def ascii_def)
  have f: "field_fits 1 (ascii ''083559'')" "field_fits 2 (ascii ''A'')" "field_fits 3 (ascii ''47'')"
    "field_fits 4 (ascii ''N'')" "field_fits 5 (ascii ''8'')" "field_fits 6 (ascii ''E'')"
    "plain (ascii ''0'')" "plain (ascii ''7'')" "field_fits 9 (ascii ''091202'')"
    by (simp_all add: field_fits_def plain_def ascii_def)
  have l: "length (ascii ''083559'') = 6" "length (ascii ''091202'') = 6" "ascii ''A'' = [0x41]"
    by (simp_all add: ascii_def)
  show ?thesis
    using rmc_sentence[OF p f, of 0 "ascii '',,A''"] unfolding l by (elim exE conjE) (intro exI conjI, simp_all)
qed

section \<open>Properties of the pulse\<close>

text \<open>The interrupt never touches the position of the transmission and always asks for one.\<close>

lemma set_drift_frame [simp]:
  "dirft_reg (set_drift_bytes d p) = dirft_reg p" "clk_dirft_current (set_drift_bytes d p) = clk_dirft_current p"
  "pps_cnt (set_drift_bytes d p) = pps_cnt p" "pps_x (set_drift_bytes d p) = pps_x p"
  "FiFo_Active (set_drift_bytes d p) = FiFo_Active p" "FiFo_Active_cnt (set_drift_bytes d p) = FiFo_Active_cnt p"
  "Average_Arr (set_drift_bytes d p) = Average_Arr p" "Delay_Arr (set_drift_bytes d p) = Delay_Arr p"
  "previous_cpuclk (set_drift_bytes d p) = previous_cpuclk p"
  by (simp_all add: set_drift_bytes_def)

lemma flag_frame [simp]:
  "dirft_reg (Set_Send_Dirft_Flag f p) = dirft_reg p" "clk_dirft_current (Set_Send_Dirft_Flag f p) = clk_dirft_current p"
  "pps_cnt (Set_Send_Dirft_Flag f p) = pps_cnt p" "pps_x (Set_Send_Dirft_Flag f p) = pps_x p"
  "FiFo_Active (Set_Send_Dirft_Flag f p) = FiFo_Active p" "FiFo_Active_cnt (Set_Send_Dirft_Flag f p) = FiFo_Active_cnt p"
  "Average_Arr (Set_Send_Dirft_Flag f p) = Average_Arr p" "Delay_Arr (Set_Send_Dirft_Flag f p) = Delay_Arr p"
  "previous_cpuclk (Set_Send_Dirft_Flag f p) = previous_cpuclk p"
  "dirft_reg (Set_Send_Sec_Plus f c p) = dirft_reg p" "clk_dirft_current (Set_Send_Sec_Plus f c p) = clk_dirft_current p"
  "pps_cnt (Set_Send_Sec_Plus f c p) = pps_cnt p" "pps_x (Set_Send_Sec_Plus f c p) = pps_x p"
  "FiFo_Active (Set_Send_Sec_Plus f c p) = FiFo_Active p" "FiFo_Active_cnt (Set_Send_Sec_Plus f c p) = FiFo_Active_cnt p"
  "Average_Arr (Set_Send_Sec_Plus f c p) = Average_Arr p" "Delay_Arr (Set_Send_Sec_Plus f c p) = Delay_Arr p"
  "previous_cpuclk (Set_Send_Sec_Plus f c p) = previous_cpuclk p"
  by (simp_all add: Set_Send_Dirft_Flag_def Set_Send_Sec_Plus_def)

lemma pps_fifo_frame [simp]:
  "dirft_reg (pps_fifo p) = dirft_reg p" "clk_dirft_current (pps_fifo p) = clk_dirft_current p"
  "pps_cnt (pps_fifo p) = pps_cnt p" "pps_x (pps_fifo p) = pps_x p"
  "Average_Arr (pps_fifo p) = Average_Arr p" "Delay_Arr (pps_fifo p) = Delay_Arr p"
  by (simp_all add: pps_fifo_def Let_def)

lemma pps_accept_frame:
  "dirft_reg (pps_accept d p) = dirft_reg p" "clk_dirft_current (pps_accept d p) = pps_average d p"
  "pps_cnt (pps_accept d p) = min (pps_cnt p + 1) 128" "pps_x (pps_accept d p) = (pps_x p + 1) mod 128"
  "FiFo_Active_cnt (pps_accept d p) = min (FiFo_Active_cnt p + 1) 128"
  "FiFo_Active (pps_accept d p) = (if FiFo_Active_cnt p < 128 then 0 else 1)"
  "length (Average_Arr (pps_accept d p)) = length (Average_Arr p)"
  "length (Delay_Arr (pps_accept d p)) = length (Delay_Arr p)"
  by (auto simp: pps_accept_def Let_def Tol_Arr_Numb_def pps_fifo_def FiFo_Active_cnt_MAX_def)

lemma pps_interrupt_sends:
  "dirft_reg (GPS_PPS_Interrupt c p) = dirft_reg p"
  "Send_Dirft_Flag (GPS_PPS_Interrupt c p) = 1"
  "config_rw9_num (GPS_PPS_Interrupt c p) = ucast (clk_dirft_current (GPS_PPS_Interrupt c p) div 0x1000000)"
  "config_rwa_num (GPS_PPS_Interrupt c p) = ucast ((clk_dirft_current (GPS_PPS_Interrupt c p) mod 0x1000000) div 0x10000)"
  "config_rwb_num (GPS_PPS_Interrupt c p) = ucast ((clk_dirft_current (GPS_PPS_Interrupt c p) mod 0x10000) div 0x100)"
  "config_rwc_num (GPS_PPS_Interrupt c p) = ucast (clk_dirft_current (GPS_PPS_Interrupt c p) mod 0x100)"
proof -
  define q where "q = (if delay_rejected (c - previous_cpuclk p) p
               then p\<lparr>previous_cpuclk := c, FiFo_Active_cnt := 0, FiFo_Active := 0\<rparr>
               else pps_accept (c - previous_cpuclk p) p)"
  have r: "dirft_reg q = dirft_reg p" by (simp add: q_def pps_accept_frame)
  show "dirft_reg (GPS_PPS_Interrupt c p) = dirft_reg p"
    unfolding GPS_PPS_Interrupt_def Let_def q_def[symmetric] using r by simp
  show "Send_Dirft_Flag (GPS_PPS_Interrupt c p) = 1"
    unfolding GPS_PPS_Interrupt_def Let_def q_def[symmetric] by (simp add: Set_Send_Dirft_Flag_def)
  show "config_rw9_num (GPS_PPS_Interrupt c p) = ucast (clk_dirft_current (GPS_PPS_Interrupt c p) div 0x1000000)"
    "config_rwa_num (GPS_PPS_Interrupt c p) = ucast ((clk_dirft_current (GPS_PPS_Interrupt c p) mod 0x1000000) div 0x10000)"
    "config_rwb_num (GPS_PPS_Interrupt c p) = ucast ((clk_dirft_current (GPS_PPS_Interrupt c p) mod 0x10000) div 0x100)"
    "config_rwc_num (GPS_PPS_Interrupt c p) = ucast (clk_dirft_current (GPS_PPS_Interrupt c p) mod 0x100)"
    unfolding GPS_PPS_Interrupt_def Let_def q_def[symmetric]
    by (simp_all add: Set_Send_Dirft_Flag_def set_drift_bytes_def)
qed

lemma unat_ucast_8: "unat (w :: u32) < 256 \<Longrightarrow> unat (ucast w :: u8) = unat w"
  by (simp add: unsigned_ucast_eq take_bit_nat_eq_self)

lemma drift_value:
  fixes d :: u32
  shows "unat (ucast (d div 0x1000000) :: u8) * 2 ^ 24 + unat (ucast ((d mod 0x1000000) div 0x10000) :: u8) * 2 ^ 16
    + unat (ucast ((d mod 0x10000) div 0x100) :: u8) * 2 ^ 8 + unat (ucast (d mod 0x100) :: u8) = unat d"
proof -
  have u: "unat (d div 0x1000000) = unat d div 0x1000000" "unat (d mod 0x100) = unat d mod 0x100"
    "unat ((d mod 0x1000000) div 0x10000) = unat d mod 0x1000000 div 0x10000"
    "unat ((d mod 0x10000) div 0x100) = unat d mod 0x10000 div 0x100"
    by (simp_all add: unat_div unat_mod)
  have lt: "unat d < 0x100000000" using unsigned_less[of d] by simp
  then have b: "unat (d div 0x1000000) < 256" "unat ((d mod 0x1000000) div 0x10000) < 256"
    "unat ((d mod 0x10000) div 0x100) < 256" "unat (d mod 0x100) < 256"
    unfolding u by (simp_all add: less_mult_imp_div_less)
  have m: "unat d mod 0x1000000 mod 0x10000 = unat d mod 0x10000" "unat d mod 0x10000 mod 0x100 = unat d mod 0x100"
    by (simp_all add: mod_mod_cancel)
  have "unat d div 0x1000000 * 0x1000000 + unat d mod 0x1000000 div 0x10000 * 0x10000
      + unat d mod 0x10000 div 0x100 * 0x100 + unat d mod 0x100 = unat d"
    using div_mult_mod_eq[of "unat d" "0x1000000"] div_mult_mod_eq[of "unat d mod 0x1000000" "0x10000"]
      div_mult_mod_eq[of "unat d mod 0x10000" "0x100"] unfolding m by linarith
  then show ?thesis by (simp add: unat_ucast_8[OF b(1)] unat_ucast_8[OF b(2)] unat_ucast_8[OF b(3)] unat_ucast_8[OF b(4)] u)
qed

lemma Send_Dirft_steps:
  "dirft_reg p = 1 \<Longrightarrow> Send_Dirft e (p, s) = (p\<lparr>dirft_reg := 2\<rparr>, Send_GPS_Dirft e 0x09 (config_rw9_num p) s)"
  "dirft_reg p = 2 \<Longrightarrow> Send_Dirft e (p, s) = (p\<lparr>dirft_reg := 3\<rparr>, Send_GPS_Dirft e 0x0a (config_rwa_num p) s)"
  "dirft_reg p = 3 \<Longrightarrow> Send_Dirft e (p, s) = (p\<lparr>dirft_reg := 4\<rparr>, Send_GPS_Dirft e 0x0b (config_rwb_num p) s)"
  "dirft_reg p = 4 \<Longrightarrow> Send_Dirft e (p, s) =
     ((Set_Send_Dirft_Flag 0 p)\<lparr>dirft_reg := 1\<rparr>, Send_GPS_Dirft e 0x0c (config_rwc_num p) s)"
  by (simp_all add: Send_Dirft_def)

text \<open>C34: After every pulse, accepted or not and however many accepted ones came before, the
  measured average is due for transmission; four polls send its four bytes, most significant
  first, to registers 9 to 12 with the FPGA selected, and then nothing is due.\<close>

theorem drift_reaches_fpga:
  assumes "dirft_reg p = 1" "length (Write_Data s) = 16"
  shows "let p1 = GPS_PPS_Interrupt c p; (p2, s2) = (Send_Dirft e ^^ 4) (p1, s) in
    Send_Dirft_Flag p1 = 1 \<and> Send_Dirft_Flag p2 = 0 \<and> dirft_reg p2 = 1 \<and>
    (\<exists>b3 b2 b1 b0. spi_bus s2 = spi_bus s @ [(0, [Write_Flag, 0x09, b3]), (0, [Write_Flag, 0x0a, b2]),
         (0, [Write_Flag, 0x0b, b1]), (0, [Write_Flag, 0x0c, b0])] \<and>
       unat b3 * 2 ^ 24 + unat b2 * 2 ^ 16 + unat b1 * 2 ^ 8 + unat b0 = unat (clk_dirft_current p1))"
proof -
  define p1 where "p1 = GPS_PPS_Interrupt c p"
  have r: "dirft_reg p1 = 1" "Send_Dirft_Flag p1 = 1"
    "config_rw9_num p1 = ucast (clk_dirft_current p1 div 0x1000000)"
    "config_rwa_num p1 = ucast ((clk_dirft_current p1 mod 0x1000000) div 0x10000)"
    "config_rwb_num p1 = ucast ((clk_dirft_current p1 mod 0x10000) div 0x100)"
    "config_rwc_num p1 = ucast (clk_dirft_current p1 mod 0x100)"
    using pps_interrupt_sends[of c p] assms(1) by (simp_all add: p1_def)
  let ?s1 = "Send_GPS_Dirft e 0x09 (config_rw9_num p1) s"
  let ?s2 = "Send_GPS_Dirft e 0x0a (config_rwa_num p1) ?s1"
  let ?s3 = "Send_GPS_Dirft e 0x0b (config_rwb_num p1) ?s2"
  let ?s4 = "Send_GPS_Dirft e 0x0c (config_rwc_num p1) ?s3"
  have run: "(Send_Dirft e ^^ 4) (p1, s) = ((Set_Send_Dirft_Flag 0 (p1\<lparr>dirft_reg := 4\<rparr>))\<lparr>dirft_reg := 1\<rparr>, ?s4)"
    using r(1) by (simp add: numeral_eq_Suc Send_Dirft_steps[unfolded numeral_eq_Suc])
  have "spi_bus ?s4 = spi_bus s @ [(0, [Write_Flag, 0x09, config_rw9_num p1]), (0, [Write_Flag, 0x0a, config_rwa_num p1]),
         (0, [Write_Flag, 0x0b, config_rwb_num p1]), (0, [Write_Flag, 0x0c, config_rwc_num p1])]"
    using assms(2) by (simp add: Send_GPS_Dirft_def write_after_wait_frame)
  moreover have "unat (config_rw9_num p1) * 2 ^ 24 + unat (config_rwa_num p1) * 2 ^ 16 +
      unat (config_rwb_num p1) * 2 ^ 8 + unat (config_rwc_num p1) = unat (clk_dirft_current p1)"
    unfolding r by (rule drift_value)
  ultimately show ?thesis
    unfolding p1_def[symmetric] Let_def run using r(2) by (auto simp: Set_Send_Dirft_Flag_def)
qed

definition pps_ok :: "pps \<Rightarrow> bool" where
  "pps_ok p \<longleftrightarrow> pps_cnt p \<le> 128 \<and> FiFo_Active_cnt p \<le> 128 \<and> pps_x p < 128 \<and>
     length (Average_Arr p) = 128 \<and> length (Delay_Arr p) = 128"

lemma unat_of_nat_32: "n < 4294967296 \<Longrightarrow> unat (of_nat n :: u32) = n"
  by (simp add: unsigned_of_nat take_bit_nat_eq_self)

text \<open>The product and the sum wrap at 32 bits before the division; they do not up to 33 MHz.\<close>

lemma pps_average_value:
  assumes "pps_cnt p \<le> 128"
  shows "unat (pps_average d p) =
    (unat (clk_dirft_current p) * pps_cnt p + unat d) mod 4294967296 div (pps_cnt p + 1)"
proof -
  let ?n = "unat (clk_dirft_current p) * pps_cnt p + unat d"
  have "clk_dirft_current p * of_nat (pps_cnt p) + d = of_nat ?n" by simp
  then have "pps_average d p = of_nat ?n div of_nat (pps_cnt p + 1)"
    unfolding pps_average_def by simp
  then show ?thesis
    unfolding unat_div using unat_of_nat_32[of "pps_cnt p + 1"] assms(1)
    by (simp add: unat_div unat_of_nat del: of_nat_add of_nat_mult of_nat_Suc)
qed

lemma no_wrap_33MHz:
  assumes "n \<le> 128" "a \<le> 33000000" "5 * d \<le> 6 * a"
  shows "a * n + d < (4294967296 :: nat)"
proof -
  have "a * n \<le> 33000000 * 128" using assms(1,2) by (intro mult_mono) auto
  then show ?thesis using assms(2,3) by linarith
qed

text \<open>The average of a value and its neighbour stays between four fifths and six fifths.\<close>

lemma average_between:
  fixes a d n :: nat
  assumes "5 * d \<le> 6 * a" "4 * a \<le> 5 * d"
  shows "5 * ((a * n + d) div (n + 1)) \<le> 6 * a" "4 * a \<le> 5 * ((a * n + d) div (n + 1)) + 4"
proof -
  define q where "q = (a * n + d) div (n + 1)"
  have q: "q * (n + 1) \<le> a * n + d" "a * n + d < (n + 1) + q * (n + 1)"
    unfolding q_def using dividend_less_div_times[of "n + 1" "a * n + d"] by (simp_all only: div_times_less_eq_dividend)
  have "(5 * q) * (n + 1) = 5 * (q * (n + 1))" "(6 * a) * (n + 1) = 6 * (a * n) + 6 * a" by simp_all
  then have "(5 * q) * (n + 1) \<le> (6 * a) * (n + 1)"
    using q(1) assms(1) by linarith
  then show "5 * ((a * n + d) div (n + 1)) \<le> 6 * a"
    unfolding q_def[symmetric] by (simp only: mult_le_cancel2)
  have "(4 * a) * (n + 1) = 4 * (a * n) + 4 * a" "(5 * q + 5) * (n + 1) = 5 * (q * (n + 1)) + 5 * (n + 1)"
    by (simp_all add: add_mult_distrib)
  moreover have "4 * X + 4 * a < 5 * Y + 5 * N" if "X + d < N + Y" for X Y N :: nat
    using that assms(2) by linarith
  from this[OF q(2)] have "4 * (a * n) + 4 * a < 5 * (q * (n + 1)) + 5 * (n + 1)" .
  ultimately have "(4 * a) * (n + 1) < (5 * q + 5) * (n + 1)" by (simp only:)
  then have "4 * a < 5 * q + 5" by (simp only: mult_less_cancel2)
  then show "4 * a \<le> 5 * ((a * n + d) div (n + 1)) + 4" unfolding q_def[symmetric] by simp
qed

text \<open>C35: A pulse whose distance to the previous one is more than a fifth off the average leaves
  the average alone and restarts the count of valid pulses.  Any other one replaces it by the
  quotient of the 32-bit sum: the exact mean, within a fifth of the old value, as long as that sum is
  below 2 to the 32, which holds for every average up to 33 MHz, and a wrapped one above (the interrupt itself
  keeps no such bound: each pulse may raise the average by a fifth).  The indices and counters
  stay in range in every case.\<close>

theorem pps_average_bounds:
  assumes "pps_ok p"
  shows "let d = unat (c - previous_cpuclk p); p' = GPS_PPS_Interrupt c p; a = unat (clk_dirft_current p);
      n = pps_cnt p; a' = unat (clk_dirft_current p') in
    pps_ok p' \<and> previous_cpuclk p' = c \<and>
    (if 6 * a < 5 * d \<or> 5 * d < 4 * a
     then clk_dirft_current p' = clk_dirft_current p \<and> FiFo_Active_cnt p' = 0
     else a' = (a * n + d) mod 2 ^ 32 div (n + 1) \<and>
          (a * n + d < 2 ^ 32 \<longrightarrow> a' = (a * n + d) div (n + 1) \<and> 4 * a \<le> 5 * a' + 4 \<and> 5 * a' \<le> 6 * a) \<and>
          (a \<le> 33000000 \<longrightarrow> a * n + d < 2 ^ 32))"
proof -
  define d where "d = c - previous_cpuclk p"
  define q where "q = (if delay_rejected d p
               then p\<lparr>previous_cpuclk := c, FiFo_Active_cnt := 0, FiFo_Active := 0\<rparr> else pps_accept d p)"
  define p' where "p' = GPS_PPS_Interrupt c p"
  have f: "clk_dirft_current p' = clk_dirft_current q" "pps_cnt p' = pps_cnt q" "pps_x p' = pps_x q"
    "FiFo_Active_cnt p' = FiFo_Active_cnt q" "Average_Arr p' = Average_Arr q" "Delay_Arr p' = Delay_Arr q"
    "previous_cpuclk p' = c"
    unfolding p'_def GPS_PPS_Interrupt_def Let_def d_def[symmetric] q_def[symmetric] by simp_all
  have ok: "pps_ok p'"
    using assms(1) unfolding pps_ok_def f by (auto simp: q_def pps_accept_frame)
  have n: "pps_cnt p \<le> 128" using assms by (simp add: pps_ok_def)
  show ?thesis
  proof (cases "delay_rejected d p")
    case True
    then show ?thesis
      unfolding Let_def d_def[symmetric] p'_def[symmetric] using ok f
      by (auto simp: q_def delay_rejected_def)
  next
    case False
    have v: "unat (clk_dirft_current p') =
        (unat (clk_dirft_current p) * pps_cnt p + unat d) mod 4294967296 div (pps_cnt p + 1)"
      unfolding f(1) using pps_average_value[OF n, of d] False by (simp add: q_def pps_accept_frame)
    have b: "5 * unat d \<le> 6 * unat (clk_dirft_current p)" "4 * unat (clk_dirft_current p) \<le> 5 * unat d"
      using False by (auto simp: delay_rejected_def)
    show ?thesis
      unfolding Let_def d_def[symmetric] p'_def[symmetric] v
      using ok f(7) b average_between[OF b, of "pps_cnt p"] no_wrap_33MHz[OF n _ b(1)] by auto
  qed
qed

definition demo_pps :: pps where
  "demo_pps = \<lparr>Send_Sec_Plus_Flag = 0, GPS_Sec = 0, Rewrite_GPS_Sec = 0, Reset_Pulse_Flag = 0, Send_Dirft_Flag = 0,
     Delay_Arr = replicate 128 0, Average_Arr = replicate 128 0, pps_x = 0, FiFo_Active = 0, FiFo_Active_cnt = 0,
     clk_drift_calc = 0, clk_dirft_current = 12500000, pps_cnt = 0, previous_cpuclk = 0, config_rw9_num = 0,
     config_rwa_num = 0, config_rwb_num = 0, config_rwc_num = 0, dirft_reg = 1\<rparr>"

text \<open>The default average of 12.5 MHz, and 40 MHz after 128 valid pulses: the mean wraps to about
  7 MHz.\<close>

lemma pps_average_bounds_witness:
  "unat (clk_dirft_current (GPS_PPS_Interrupt 12500100 demo_pps)) = 12500100 \<and> pps_ok (GPS_PPS_Interrupt 12500100 demo_pps) \<and>
   unat (clk_dirft_current (GPS_PPS_Interrupt 40000000 (demo_pps\<lparr>clk_dirft_current := 40000000, pps_cnt := 128\<rparr>))) = 6705679"
  using pps_average_bounds[of demo_pps 12500100]
    pps_average_bounds[of "demo_pps\<lparr>clk_dirft_current := 40000000, pps_cnt := 128\<rparr>" 40000000]
  by (simp add: demo_pps_def pps_ok_def Let_def)

lemma drift_reaches_fpga_witness:
  "Send_Dirft_Flag (GPS_PPS_Interrupt 5 demo_pps) = 1 \<and>
   Send_Dirft_Flag (fst ((Send_Dirft echo_env ^^ 4) (GPS_PPS_Interrupt 5 demo_pps, demo_spi demo_store))) = 0"
  using drift_reaches_fpga[where p = demo_pps and s = "demo_spi demo_store" and e = echo_env and c = 5]
  by (simp add: demo_pps_def demo_spi_def Let_def split_def del: funpow.simps)

lemma rtc_date_swapped_witness:
  "\<exists>r line g'. Get_UTCDate \<lparr>Save_Data = mem_write (replicate 52 0) off_UTCDate (ascii ''091202''), utc_time = 0, uart4_rx = []\<rparr>
      = (Some (r, line), g') \<and> Month r = 0x09 \<and> Date r = 0x12"
proof -
  let ?g = "\<lparr>Save_Data = mem_write (replicate 52 0) off_UTCDate (ascii ''091202''), utc_time = 0, uart4_rx = []\<rparr>"
  have "mem_read (Save_Data ?g) off_UTCDate 6 = [48, 57, 49, 50, 48, 50]"
    by (simp add: off_UTCDate_def ascii_def mem_read_def numeral_eq_Suc)
  then show ?thesis
    using rtc_date_swapped[of ?g 48 57 49 50 48 50] by (auto simp: is_digit_def)
qed

end
