(* ===== verification/MainPage.thy ===== *)
theory MainPage
  imports Gps MenuProps
begin

text \<open>
  \<open>driver/oled_meau/main_meau.c\<close>: the page shown while nobody uses the menu (time, delay,
  status and the flags at the bottom) and the countdown that switches between it and the
  menu.  The statics of the file are the
  record \<open>main_page\<close>; the countdown itself and the event queue are in the record \<open>ui\<close>.  The
  registers read from the FPGA go over the link of \<open>FpgaLink\<close>.
\<close>

section \<open>State\<close>

record main_page =
  blink_flag :: u8
  blink_n :: u8
  enable_key_feature :: u8
  Static_Display_Once :: u8
  judge :: bytes
  pre_mode :: u8
  clear_Oled_Flag :: u8
  Display_Line_16 :: "bytes list"
  Display_Line_12 :: "bytes list"

definition main_page0 :: main_page where
  "main_page0 = \<lparr>blink_flag = 0, blink_n = 1, enable_key_feature = 0, Static_Display_Once = 1,
     judge = replicate 5 0x61, pre_mode = 0, clear_Oled_Flag = 1,
     Display_Line_16 = replicate 4 (replicate 20 0), Display_Line_12 = replicate 8 (replicate 20 0)\<rparr>"

definition get_blink_flag :: "main_page \<Rightarrow> u8" where "get_blink_flag m = blink_flag m"

definition set_blink_flag :: "main_page \<Rightarrow> main_page" where
  "set_blink_flag m =
     (if blink_n m \<noteq> 0 then m\<lparr>blink_n := 0, blink_flag := 1\<rparr> else m\<lparr>blink_n := 1, blink_flag := 0\<rparr>)"

definition Clear_Arr :: "main_page \<Rightarrow> main_page" where
  "Clear_Arr m = m\<lparr>Display_Line_12 := replicate 8 (replicate 20 0), Display_Line_16 := replicate 4 (replicate 20 0)\<rparr>"

definition Set_Key_Feature :: "u8 \<Rightarrow> main_page \<Rightarrow> main_page" where
  "Set_Key_Feature f m = m\<lparr>enable_key_feature := (if f \<noteq> 0 then 1 else 0)\<rparr>"

definition Get_Key_Feature_Flag :: "main_page \<Rightarrow> u8" where
  "Get_Key_Feature_Flag m = enable_key_feature m"

abbreviation text12 :: "u8 \<Rightarrow> u8 \<Rightarrow> string \<Rightarrow> effect" where
  "text12 x y s \<equiv> OLED_ShowString x y (ascii s) 12"

text \<open>Drawing calls go to the trace of the store, which travels with the link.\<close>

definition draw_on :: "effect list \<Rightarrow> spi4 \<Rightarrow> spi4" where
  "draw_on es s = s\<lparr>spi_store := emit es (spi_store s)\<rparr>"

section \<open>The pieces of the page\<close>

definition Page0_piece4_Static_Display :: "effect list" where
  "Page0_piece4_Static_Display =
     [text12 0 0 ''  +/-'', OLED_ShowChar 64 0 0x2e 12, OLED_ShowChar 80 0 0x6d 12, OLED_ShowChar 88 0 0x73 12]"

text \<open>\<open>char line_2[3] = "000"\<close> has no terminating zero: \<open>behind\<close> is what the stack holds after it, up
  to a zero.  \<open>-1\<close> is passed as a byte.\<close>

definition Page0_piece4_Dynamic_Display :: "bytes \<Rightarrow> store \<Rightarrow> gps \<Rightarrow> effect list \<times> gps" where
  "Page0_piece4_Dynamic_Display behind c g =
     (let (line, g) = Get_UTCTime c g;
          line_1 = (case line of None \<Rightarrow> [] | Some l \<Rightarrow> cstr l)
      in ((if Get_GPS_Display_Status c = 1
           then [OLED_ShowString 40 (- 1) line_1 12, text12 0 (- 1) ''UTC: '']
           else if Get_GPS_Display_Status c = 0
           then [text12 40 (- 1) ''          '', text12 0 (- 1) ''     '']
           else []) @
          [OLED_ShowString 40 0 (ascii ''000'' @ cstr behind) 12, OLED_ShowChar 72 0 0x31 12], g))"

definition Page0_piece3_Static_Display :: "store \<Rightarrow> effect list" where
  "Page0_piece3_Static_Display c =
     (let mode = Get_Config_Display_mode c in
      if mode = 3
      then [OLED_ShowString 0 2 (ascii '' AVG: s'') 16, OLED_ShowChar 80 2 0x2e 16, OLED_ShowChar 96 2 0x6d 16,
            OLED_ShowChar 104 2 0x73 16,
            OLED_ShowString 0 4 (ascii '' JIT: s'') 16, OLED_ShowChar 80 4 0x2e 16, OLED_ShowChar 96 4 0x6d 16,
            OLED_ShowChar 104 4 0x73 16]
      else if mode = 1 \<or> mode = 2
      then [OLED_ShowChar 84 0 0x73 32, OLED_ShowChar 52 4 0x2e 32, OLED_ShowChar 84 4 0x6d 32, OLED_ShowChar 100 4 0x73 32]
      else [])"

text \<open>The delay as five characters: seconds, three digits, the digit behind the point.\<close>

record delay_text =
  sec :: u8
  line_4 :: bytes
  dt_j :: u8

definition no_delay :: delay_text where
  "no_delay = \<lparr>sec = 0x39, line_4 = [0x39, 0x39, 0x39], dt_j = 0x39\<rparr>"

definition wire_delay :: "fpga_env \<Rightarrow> spi4 \<Rightarrow> delay_text \<times> spi4" where
  "wire_delay e s =
     (let (reg_0, s) = Get_Reg_0x8e e s; (reg_1, s) = Get_Jit_Reg_1 e s; (reg_2, s) = Get_Jit_Reg_2 e s
      in (\<lparr>sec = reg_0 + 0x30,
           line_4 = [drop_bit 4 (reg_1 AND 0xf0) + 0x30, (reg_1 AND 0x0f) + 0x30, drop_bit 4 (reg_2 AND 0xf0) + 0x30],
           dt_j = (reg_2 AND 0x0f) + 0x30\<rparr>, s))"

definition jitter_text :: "u8 \<Rightarrow> u32 \<Rightarrow> delay_text" where
  "jitter_text reg_1 jitter =
     (let q = jitter div 0x9c4
      in \<lparr>sec = reg_1 + 0x30,
          line_4 = [ucast ((q mod 10000) div 1000 + 0x30), ucast ((q mod 1000) div 100 + 0x30),
                    ucast ((q mod 100) div 10 + 0x30)],
          dt_j = ucast (q mod 10 + 0x30)\<rparr>)"

definition gps_delay :: "fpga_env \<Rightarrow> spi4 \<Rightarrow> delay_text \<times> spi4" where
  "gps_delay e s =
     (let (reg_1, s) = Get_Reg_0x88 e s in
      if reg_1 < 0x09
      then (let (reg_5, s) = Get_Reg_0x8c e s; (reg_4, s) = Get_Reg_0x8b e s;
                (reg_3, s) = Get_Reg_0x8a e s; (reg_2, s) = Get_Reg_0x89 e s;
                jitter = ucast reg_5 + ucast reg_4 * 0x100 + ucast reg_3 * 0x10000 + ucast reg_2 * 0x1000000
            in (jitter_text reg_1 jitter, s))
      else (no_delay, s))"

definition read_delay :: "fpga_env \<Rightarrow> u8 \<Rightarrow> u8 \<Rightarrow> spi4 \<Rightarrow> delay_text \<times> spi4" where
  "read_delay e clocktype lock s =
     (if clocktype = 0x01
      then if drop_bit 2 (lock AND 0x04) = 1 then wire_delay e s else (no_delay, s)
      else if clocktype = 0x03 \<or> clocktype = 0x02
      then if drop_bit 3 (lock AND 0x08) = 1 then gps_delay e s else (no_delay, s)
      else (\<lparr>sec = 0x30, line_4 = [0x39, 0x39, 0x39], dt_j = 0x30\<rparr>, s))"

text \<open>A digit is drawn when it differs from the one drawn last or \<open>Static_Display_Once\<close> is set;
  then \<open>judge_k\<close> becomes \<open>v\<close>.\<close>

definition show_digit :: "nat \<Rightarrow> u8 \<Rightarrow> nat \<Rightarrow> u8 \<Rightarrow> effect list \<Rightarrow> effect list \<times> main_page \<Rightarrow> effect list \<times> main_page" where
  "show_digit n x k v es dm =
     (if judge (snd dm) ! n \<noteq> x \<or> Static_Display_Once (snd dm) = 1
      then (fst dm @ es, (snd dm)\<lparr>judge := (judge (snd dm))[k := v]\<rparr>) else dm)"

text \<open>The last of the five assigns \<open>judge_4\<close>, not \<open>judge_0\<close>, as the source does.\<close>

definition show_delay :: "u8 \<Rightarrow> delay_text \<Rightarrow> main_page \<Rightarrow> effect list \<times> main_page" where
  "show_delay mode d m =
     (let l = (!) (line_4 d); j = dt_j d; s = sec d in
      if mode = 3
      then (let two = (\<lambda>x ch. [OLED_ShowChar x 4 ch 16, OLED_ShowChar x 2 ch 16]) in
            show_digit 0 s 4 j (two 40 s)
           (show_digit 4 j 4 j (two 88 j)
           (show_digit 3 (l 2) 3 (l 2) (two 72 (l 2))
           (show_digit 2 (l 1) 2 (l 1) (two 64 (l 1))
           (show_digit 1 (l 0) 1 (l 0) (two 56 (l 0)) ([], m))))))
      else if mode = 1 \<or> mode = 2
      then show_digit 0 s 4 j [OLED_ShowChar 68 0 s 32]
          (show_digit 4 j 4 j [OLED_ShowChar 68 4 j 32]
          (show_digit 3 (l 2) 3 (l 2) [OLED_ShowChar 36 4 (l 2) 32]
          (show_digit 2 (l 1) 2 (l 1) [OLED_ShowChar 20 4 (l 1) 32]
          (show_digit 1 (l 0) 1 (l 0) [OLED_ShowChar 4 4 (l 0) 32] ([], m)))))
      else ([], m))"

text \<open>\<open>lock\<close> is \<open>return_Reg_0x8d_num()\<close>.\<close>

definition Page0_piece3_Dynamic_Display ::
  "fpga_env \<Rightarrow> u8 \<Rightarrow> main_page \<times> spi4 \<Rightarrow> main_page \<times> spi4" where
  "Page0_piece3_Dynamic_Display e lock ms =
     (let (m, s) = ms; c = spi_store s;
          (d, s) = read_delay e (Get_Config_SRC_clocktype c) lock s;
          (es, m) = show_delay (Get_Config_Display_mode c) d m
      in (m, draw_on es s))"

definition Page0_piece2_Dynamic_Display :: "u8 \<Rightarrow> main_page \<Rightarrow> effect list" where
  "Page0_piece2_Dynamic_Display st m =
     text12 0 5 ''  STATUS:'' #
     (if st = 1 then [text12 72 5 (if get_blink_flag m \<noteq> 0 then ''ERROR'' else ''     '')]
      else if st = 0 then [text12 72 5 ''GOOD'']
      else if st = 2 then [text12 72 5 ''INIT''] else [])"

definition Page0_piece1_Static_Display :: "u8 \<Rightarrow> effect list" where
  "Page0_piece1_Static_Display src_status = [text12 64 6 (if src_status = 1 then ''MASTER '' else ''SLAVE '')]"

definition Page0_piece1_Dynamic_Display :: "u8 \<Rightarrow> u8 \<Rightarrow> u8 \<Rightarrow> store \<Rightarrow> main_page \<Rightarrow> effect list" where
  "Page0_piece1_Dynamic_Display gps_status vid_status src_status c m =
     (let line_6_2 = (if Get_Config_Display_mode c = 2 then ''AUD '' else ''VID '') in
      (if Get_GPS_Display_Status c = 1
       then (if gps_status = 0 then [text12 0 6 (if get_blink_flag m \<noteq> 0 then ''GPS '' else ''   '')]
             else [text12 0 6 ''GPS ''])
       else if Get_GPS_Display_Status c = 0 then [text12 0 6 ''   ''] else []) @
      (if vid_status = 0 then [text12 32 6 (if get_blink_flag m \<noteq> 0 then line_6_2 else ''   '')]
       else [text12 32 6 line_6_2]) @
      (if src_status = 1 then [text12 64 6 ''MASTER'']
       else if src_status = 0 then [text12 64 6 ''SLAVE ''] else []))"

section \<open>The page and the countdown\<close>

text \<open>What the page is made of besides its own statics.\<close>

record page_env =
  pe_fpga :: fpga_env
  pe_behind :: bytes

definition Dsp_interface ::
  "page_env \<Rightarrow> u8 \<Rightarrow> fpga_status \<Rightarrow> main_page \<times> gps \<times> spi4 \<Rightarrow> main_page \<times> gps \<times> spi4" where
  "Dsp_interface e num r mgs =
     (let (m, g, s) = mgs; c = spi_store s;
          mode = Get_Config_Display_mode c;
          Status = Get_Status c;
          (num, m, s) = (if mode \<noteq> pre_mode m
                         then (1, m\<lparr>pre_mode := mode, Static_Display_Once := 1\<rparr>, draw_on [OLED_Clear] s)
                         else (num, m, s));
          m = m\<lparr>Display_Line_16 := replicate 4 (replicate 20 0)\<rparr>;
          delay = (\<lambda>m s. if Status = 0 then Page0_piece3_Dynamic_Display (pe_fpga e) (return_Reg_0x8d_num r) (m, s)
                         else (m, s))
      in if mode = 3
         then (let s = (if num \<noteq> 0 then draw_on (Page0_piece4_Static_Display @ Page0_piece3_Static_Display c) s else s);
                   (es, g) = Page0_piece4_Dynamic_Display (pe_behind e) c g;
                   (m, s) = delay m (draw_on es s);
                   s = draw_on (Page0_piece2_Dynamic_Display Status m) s;
                   s = draw_on (Page0_piece1_Dynamic_Display (Get_gps_value g) (Get_vid_link_flag r) (Get_SRC_MODE c) c m) s
               in (m, g, s))
         else if mode = 1 \<or> mode = 2
         then (let (m, s) = delay m (draw_on (Page0_piece3_Static_Display c) s) in (m, g, s))
         else (m, g, s))"

text \<open>The page on the state of the menu: the store goes to the link and back.\<close>

definition Dsp_on_ui :: "page_env \<Rightarrow> u8 \<Rightarrow> main_page \<times> gps \<times> spi4 \<times> ui \<Rightarrow> main_page \<times> gps \<times> spi4 \<times> ui" where
  "Dsp_on_ui e num b =
     (let (m, g, s, u) = b;
          (m, g, s) = Dsp_interface e num (fpga u) (m, g, s\<lparr>spi_store := cfg u\<rparr>)
      in (m, g, s, u\<lparr>cfg := spi_store s\<rparr>))"

definition Pollint_Display_Main_menu ::
  "page_env \<Rightarrow> main_page \<times> gps \<times> spi4 \<times> ui \<Rightarrow> (main_page \<times> gps \<times> spi4 \<times> ui) option" where
  "Pollint_Display_Main_menu e b =
     (let (m, g, s, u) = b in
      if cnt_down u \<noteq> 0
      then (let u = u\<lparr>cnt_down := cnt_down u - 1\<rparr> in
            if clear_Oled_Flag m = 0
            then (let m = Set_Key_Feature 0 (m\<lparr>clear_Oled_Flag := 1\<rparr>);
                      u = u\<lparr>event_q := ClearAllEvent (event_q u)\<rparr>
                  in do { u \<leftarrow> menuReset u; Some (m, g, s, u) })
            else Some (Set_Key_Feature 1 m, g, s, u))
      else (let m = Set_Key_Feature 0 m;
                u = (if clear_Oled_Flag m \<noteq> 0 then draw [OLED_Clear] (menuReset_No_RenderMenu u) else u);
                (m, g, s, u) = Dsp_on_ui e (clear_Oled_Flag m) (m, g, s, u)
            in Some (m\<lparr>clear_Oled_Flag := 0\<rparr>, g, s, u)))"

end
