(* ===== verification/Keypad.thy ===== *)
theory Keypad
  imports MenuItems
begin

text \<open>
  \<open>driver/input/key.c\<close>: the three keys, sampled every 10 ms.  \<open>GetKey\<close> filters the samples
  and reports a press, a long press and a release; \<open>key_Scan\<close> turns the releases into
  events for the menu.  What \<open>key_Scan\<close> asks of other components (the countdown of the
  main page, the work mode, the event queue, the menu's button) is the list of actions it
  returns, in the order of the calls; the main loop carries them out.
\<close>

section \<open>Model\<close>

definition NULL_KEY :: u16 where "NULL_KEY = 0xffff"
definition NOR_KEY :: u16 where "NOR_KEY = 0x8000"
definition RESET_KEY :: u16 where "RESET_KEY = 0x4000"
definition CNT_DOWN :: u16 where "CNT_DOWN = 300"
definition KeyFilterLen :: nat where "KeyFilterLen = 3"
definition MODE_KEY :: u8 where "MODE_KEY = 5"
definition evRst :: u8 where "evRst = 0x20"

record keypad =
  SCodeBuf :: bytes
  PreKeyCode :: u8
  PressedKey :: u8
  KeyPressCount :: u16
  KeyScanCode :: u8
  key_3s :: u8

definition key_Par_Init :: "keypad \<Rightarrow> keypad" where
  "key_Par_Init k = k\<lparr>SCodeBuf := replicate KeyFilterLen 0xff, PreKeyCode := 0xff,
     PressedKey := 0xff, KeyPressCount := 0, KeyScanCode := 0\<rparr>"

text \<open>The levels of PA10, PA11 and PA12; a pressed key reads low.\<close>

record key_pins =
  PA10 :: bool
  PA11 :: bool
  PA12 :: bool

definition GetScanCode :: "key_pins \<Rightarrow> u8" where
  "GetScanCode p = (if \<not> PA10 p then 0x04 else if \<not> PA11 p then 0x05 else if \<not> PA12 p then 0x06 else 0xff)"

text \<open>The answer of the filter once the three samples agree on \<open>ch\<close>.\<close>

definition filtered_key :: "u8 \<Rightarrow> keypad \<Rightarrow> u16 \<times> keypad" where
  "filtered_key ch k =
     (if ch = 0xff
      then if PressedKey k = 0xff then (NULL_KEY, k\<lparr>PreKeyCode := 0xff, KeyPressCount := 0\<rparr>)
           else if PreKeyCode k \<noteq> 0xff then (NULL_KEY, k\<lparr>PreKeyCode := 0xff\<rparr>)
           else (NOR_KEY + ucast (PressedKey k),
                 k\<lparr>KeyScanCode := 0xff, KeyPressCount := 0, PressedKey := 0xff\<rparr>)
      else if PressedKey k = 0xff
      then if ch = PreKeyCode k
           then (ucast ch, k\<lparr>PressedKey := ch, KeyPressCount := 1, KeyScanCode := ch\<rparr>)
           else (NULL_KEY, k\<lparr>PreKeyCode := ch\<rparr>)
      else if ch = PreKeyCode k
      then if PressedKey k = ch
           then (let k = k\<lparr>KeyPressCount := KeyPressCount k + 1\<rparr>
                 in (if KeyPressCount k = 50 then RESET_KEY + ucast ch else NULL_KEY, k))
           else (NOR_KEY + ucast (PressedKey k),
                 k\<lparr>KeyScanCode := 0xff, KeyPressCount := 0, PreKeyCode := 0xff, PressedKey := 0xff\<rparr>)
      else (NULL_KEY, k\<lparr>PreKeyCode := ch\<rparr>))"

definition GetKey :: "key_pins \<Rightarrow> keypad \<Rightarrow> u16 \<times> keypad" where
  "GetKey p k =
     (let b = [GetScanCode p, SCodeBuf k ! 0, SCodeBuf k ! 1];
          k = k\<lparr>SCodeBuf := b\<rparr>
      in if b ! 1 \<noteq> b ! 0 \<or> b ! 2 \<noteq> b ! 0 then (NULL_KEY, k) else filtered_key (b ! 0) k)"

datatype key_action =
    Set_cnt_down u16
  | SetWorkMode u8
  | PushEvt_EvtPar u8 u8
  | PushEvt_OnlyEvt u8
  | Set_button_num char

definition key_event :: "u8 \<Rightarrow> key_action list" where
  "key_event ev = [Set_cnt_down CNT_DOWN, SetWorkMode MODE_KEY, PushEvt_EvtPar ev MODE_KEY]"

definition key_Scan :: "key_pins \<Rightarrow> keypad \<Rightarrow> key_action list \<times> keypad" where
  "key_Scan p k =
     (let (tmp, k) = GetKey p k in
      if tmp = NULL_KEY then ([], k)
      else if tmp AND NOR_KEY \<noteq> 0
      then if key_3s k = 0
           then (if tmp = 0x8004 then key_event evKeyUP
                 else if tmp = 0x8005 then key_event evKeyDown
                 else if tmp = 0x8006 then key_event evKeyConfirm
                 else [], k)
           else ([], k\<lparr>key_3s := 0\<rparr>)
      else if tmp AND RESET_KEY \<noteq> 0
      then ([Set_button_num CHR ''d'', Set_cnt_down 120, PushEvt_OnlyEvt evRst], k\<lparr>key_3s := 1\<rparr>)
      else ([], k))"

text \<open>A sequence of samples.\<close>

fun scan_run :: "key_pins list \<Rightarrow> keypad \<Rightarrow> key_action list \<times> keypad" where
  "scan_run [] k = ([], k)"
| "scan_run (p # ps) k = (let (a, k) = key_Scan p k; (as, k) = scan_run ps k in (a @ as, k))"

section \<open>Debouncing\<close>

definition keypad0 :: keypad where
  "keypad0 = \<lparr>SCodeBuf = replicate 3 0xff, PreKeyCode = 0xff, PressedKey = 0xff,
     KeyPressCount = 0, KeyScanCode = 0, key_3s = 0\<rparr>"

lemma scan_run_append:
  "scan_run (ps @ qs) k =
    (let (a, k) = scan_run ps k; (b, k) = scan_run qs k in (a @ b, k))"
  by (induction ps arbitrary: k) (auto simp: Let_def split_def)

text \<open>Nothing pressed and nothing pending; \<open>KeyScanCode\<close> is not read by the scan.\<close>

definition idle_keypad :: "keypad \<Rightarrow> bool" where
  "idle_keypad k \<longleftrightarrow> SCodeBuf k = [0xff, 0xff, 0xff] \<and> PreKeyCode k = 0xff \<and> PressedKey k = 0xff \<and>
     KeyPressCount k = 0 \<and> key_3s k = 0"

definition held :: "u8 \<Rightarrow> u16 \<Rightarrow> u8 \<Rightarrow> keypad \<Rightarrow> bool" where
  "held c n l k \<longleftrightarrow> SCodeBuf k = [c, c, c] \<and> PreKeyCode k = c \<and> PressedKey k = c \<and>
     KeyPressCount k = n \<and> key_3s k = l"

definition key_codes :: "u8 list" where "key_codes = [0x04, 0x05, 0x06]"

definition event_of_code :: "u8 \<Rightarrow> u8" where
  "event_of_code c = (if c = 0x04 then evKeyUP else if c = 0x05 then evKeyDown else evKeyConfirm)"

definition long_press :: "key_action list" where
  "long_press = [Set_button_num CHR ''d'', Set_cnt_down 120, PushEvt_OnlyEvt evRst]"

lemmas scan_defs = key_Scan_def GetKey_def filtered_key_def Let_def NULL_KEY_def NOR_KEY_def RESET_KEY_def

text \<open>One sample: the three samples differ, or agree.\<close>

lemma scan_mismatch:
  "SCodeBuf k = [a, b, d] \<Longrightarrow> a \<noteq> GetScanCode p \<or> b \<noteq> GetScanCode p \<Longrightarrow>
   key_Scan p k = ([], k\<lparr>SCodeBuf := [GetScanCode p, a, b]\<rparr>)"
  by (auto simp: key_Scan_def GetKey_def Let_def)

lemma scan_match:
  "SCodeBuf k = [c, c, d] \<Longrightarrow> GetScanCode p = c \<Longrightarrow>
   GetKey p k = filtered_key c (k\<lparr>SCodeBuf := [c, c, c]\<rparr>)"
  by (simp add: GetKey_def Let_def)

lemma scan_match_press:
  assumes "SCodeBuf k = [c, c, d]" "GetScanCode p = c" "c \<in> set key_codes" "PressedKey k = 0xff"
  shows "PreKeyCode k = 0xff \<Longrightarrow> key_Scan p k = ([], k\<lparr>SCodeBuf := [c, c, c], PreKeyCode := c\<rparr>)"
    and "PreKeyCode k = c \<Longrightarrow> key_Scan p k =
      ([], k\<lparr>SCodeBuf := [c, c, c], PressedKey := c, KeyPressCount := 1, KeyScanCode := c\<rparr>)"
proof -
  have c: "c = 4 \<or> c = 5 \<or> c = 6" using assms(3) by (simp add: key_codes_def)
  then show "PreKeyCode k = 0xff \<Longrightarrow> key_Scan p k = ([], k\<lparr>SCodeBuf := [c, c, c], PreKeyCode := c\<rparr>)"
    and "PreKeyCode k = c \<Longrightarrow> key_Scan p k =
      ([], k\<lparr>SCodeBuf := [c, c, c], PressedKey := c, KeyPressCount := 1, KeyScanCode := c\<rparr>)"
    unfolding key_Scan_def scan_match[OF assms(1,2)] filtered_key_def NULL_KEY_def NOR_KEY_def RESET_KEY_def
    using assms(4) by (elim disjE; simp)+
qed

lemma scan_match_release:
  assumes "SCodeBuf k = [0xff, 0xff, d]" "GetScanCode p = 0xff" "c \<in> set key_codes" "PressedKey k = c"
  shows "PreKeyCode k \<noteq> 0xff \<Longrightarrow> key_Scan p k = ([], k\<lparr>SCodeBuf := [0xff, 0xff, 0xff], PreKeyCode := 0xff\<rparr>)"
    and "PreKeyCode k = 0xff \<Longrightarrow> key_Scan p k =
      (if key_3s k = 0 then key_event (event_of_code c) else [],
       k\<lparr>SCodeBuf := [0xff, 0xff, 0xff], KeyScanCode := 0xff, KeyPressCount := 0, PressedKey := 0xff, key_3s := 0\<rparr>)"
proof -
  have c: "c = 4 \<or> c = 5 \<or> c = 6" using assms(3) by (simp add: key_codes_def)
  show "PreKeyCode k \<noteq> 0xff \<Longrightarrow> key_Scan p k = ([], k\<lparr>SCodeBuf := [0xff, 0xff, 0xff], PreKeyCode := 0xff\<rparr>)"
    unfolding key_Scan_def scan_match[OF assms(1,2)] filtered_key_def NULL_KEY_def NOR_KEY_def RESET_KEY_def
    using assms(4) c by (elim disjE; simp)
  show "PreKeyCode k = 0xff \<Longrightarrow> key_Scan p k =
      (if key_3s k = 0 then key_event (event_of_code c) else [],
       k\<lparr>SCodeBuf := [0xff, 0xff, 0xff], KeyScanCode := 0xff, KeyPressCount := 0, PressedKey := 0xff, key_3s := 0\<rparr>)"
    unfolding key_Scan_def scan_match[OF assms(1,2)] filtered_key_def NULL_KEY_def NOR_KEY_def RESET_KEY_def
      event_of_code_def
    using assms(4) c by (elim disjE; simp)
qed

lemma four: "replicate 4 p = [p, p, p, p]"
  by (simp add: numeral_eq_Suc)

lemma press_steps:
  assumes "idle_keypad k" "GetScanCode p = c" "c \<in> set key_codes"
  shows "key_Scan p k = ([], k\<lparr>SCodeBuf := [c, 0xff, 0xff]\<rparr>)"
    and "key_Scan p (k\<lparr>SCodeBuf := [c, 0xff, 0xff]\<rparr>) = ([], k\<lparr>SCodeBuf := [c, c, 0xff]\<rparr>)"
    and "key_Scan p (k\<lparr>SCodeBuf := [c, c, 0xff]\<rparr>) = ([], k\<lparr>SCodeBuf := [c, c, c], PreKeyCode := c\<rparr>)"
proof -
  have c: "c \<noteq> 0xff" using assms(3) by (auto simp: key_codes_def)
  have k: "SCodeBuf k = [0xff, 0xff, 0xff]" "PreKeyCode k = 0xff" "PressedKey k = 0xff"
    using assms(1) by (simp_all add: idle_keypad_def)
  show "key_Scan p k = ([], k\<lparr>SCodeBuf := [c, 0xff, 0xff]\<rparr>)"
    using scan_mismatch[of k "0xff" "0xff" "0xff" p] k c assms(2) by auto
  show "key_Scan p (k\<lparr>SCodeBuf := [c, 0xff, 0xff]\<rparr>) = ([], k\<lparr>SCodeBuf := [c, c, 0xff]\<rparr>)"
    using scan_mismatch[of "k\<lparr>SCodeBuf := [c, 0xff, 0xff]\<rparr>" c "0xff" "0xff" p] c assms(2) by auto
  show "key_Scan p (k\<lparr>SCodeBuf := [c, c, 0xff]\<rparr>) = ([], k\<lparr>SCodeBuf := [c, c, c], PreKeyCode := c\<rparr>)"
    using scan_match_press(1)[of "k\<lparr>SCodeBuf := [c, c, 0xff]\<rparr>" c "0xff" p] k assms by simp
qed

lemma press_four:
  assumes "idle_keypad k" "GetScanCode p = c" "c \<in> set key_codes"
  shows "\<exists>k'. scan_run (replicate 4 p) k = ([], k') \<and> held c 1 0 k'"
proof -
  have k: "PressedKey k = 0xff" "key_3s k = 0" using assms(1) by (simp_all add: idle_keypad_def)
  let ?k3 = "k\<lparr>SCodeBuf := [c, c, c], PreKeyCode := c\<rparr>"
  have "key_Scan p ?k3 = ([], ?k3\<lparr>PressedKey := c, KeyPressCount := 1, KeyScanCode := c\<rparr>)"
    using scan_match_press(2)[of ?k3 c c p] k assms by simp
  then have "scan_run (replicate 4 p) k = ([], ?k3\<lparr>PressedKey := c, KeyPressCount := 1, KeyScanCode := c\<rparr>)"
    using press_steps[OF assms] by (simp add: four)
  then show ?thesis using k by (intro exI) (auto simp: held_def)
qed

text \<open>Fewer than four samples of a key leave nothing pressed, and a release clears them.\<close>

definition unpressed :: "keypad \<Rightarrow> bool" where
  "unpressed k \<longleftrightarrow> length (SCodeBuf k) = 3 \<and> PressedKey k = 0xff \<and> KeyPressCount k = 0 \<and> key_3s k = 0"

lemma press_three:
  assumes "idle_keypad k" "GetScanCode p = c" "c \<in> set key_codes" "n < 4"
  shows "\<exists>k'. scan_run (replicate n p) k = ([], k') \<and> unpressed k'"
proof -
  have u: "unpressed (k\<lparr>SCodeBuf := [x, y, z]\<rparr>)" "unpressed (k\<lparr>SCodeBuf := [x, y, z], PreKeyCode := w\<rparr>)" for x y z w
    using assms(1) by (simp_all add: unpressed_def idle_keypad_def)
  have "unpressed k" using assms(1) by (simp add: unpressed_def idle_keypad_def)
  moreover have "n = 0 \<or> n = 1 \<or> n = 2 \<or> n = 3" using assms(4) by linarith
  ultimately show ?thesis
    using press_steps[OF assms(1-3)] u by (elim disjE) (simp_all add: numeral_eq_Suc)
qed

lemma release_step:
  assumes "unpressed k" "GetScanCode q = 0xff" "SCodeBuf k = [a, b, d]"
  shows "\<exists>k'. key_Scan q k = ([], k') \<and> unpressed k' \<and> SCodeBuf k' = [0xff, a, b] \<and>
    (a = 0xff \<and> b = 0xff \<longrightarrow> idle_keypad k')"
proof (cases "a = 0xff \<and> b = 0xff")
  case True
  then have s: "SCodeBuf k = [0xff, 0xff, d]" using assms(3) by simp
  show ?thesis
    unfolding key_Scan_def scan_match[OF s assms(2)] filtered_key_def
    using assms(1) True by (simp add: unpressed_def idle_keypad_def)
next
  case False
  then show ?thesis using scan_mismatch[OF assms(3)] assms by (auto simp: unpressed_def)
qed

lemma release_unpressed:
  assumes "unpressed k" "GetScanCode q = 0xff"
  shows "\<exists>k'. scan_run (replicate 4 q) k = ([], k') \<and> idle_keypad k'"
proof -
  obtain a b d where s: "SCodeBuf k = [a, b, d]"
    using assms(1) by (auto simp: unpressed_def numeral_eq_Suc length_Suc_conv)
  obtain k1 where k1: "key_Scan q k = ([], k1)" "unpressed k1" "SCodeBuf k1 = [0xff, a, b]"
    using release_step[OF assms s] by blast
  obtain k2 where k2: "key_Scan q k1 = ([], k2)" "unpressed k2" "SCodeBuf k2 = [0xff, 0xff, a]"
    using release_step[OF k1(2) assms(2) k1(3)] by blast
  obtain k3 where k3: "key_Scan q k2 = ([], k3)" "unpressed k3" "SCodeBuf k3 = [0xff, 0xff, 0xff]"
    using release_step[OF k2(2) assms(2) k2(3)] by blast
  obtain k4 where "key_Scan q k3 = ([], k4)" "idle_keypad k4"
    using release_step[OF k3(2) assms(2) k3(3)] by blast
  then show ?thesis using k1(1) k2(1) k3(1) by (simp add: four)
qed

lemma hold_one:
  assumes "held c n l k" "GetScanCode p = c" "c \<in> set key_codes"
  shows "\<exists>k'. key_Scan p k = (if n + 1 = 50 then (long_press, k') else ([], k')) \<and>
    held c (n + 1) (if n + 1 = 50 then 1 else l) k'"
  using assms
  by (auto simp: key_codes_def held_def scan_defs long_press_def)

lemma release_four:
  assumes "held c n l k" "GetScanCode p = 0xff" "c \<in> set key_codes"
  shows "\<exists>k'. scan_run (replicate 4 p) k = (if l = 0 then key_event (event_of_code c) else [], k') \<and> idle_keypad k'"
proof -
  have c: "c \<noteq> 0xff" using assms(3) by (auto simp: key_codes_def)
  have k: "SCodeBuf k = [c, c, c]" "PreKeyCode k = c" "PressedKey k = c" "key_3s k = l"
    using assms(1) by (simp_all add: held_def)
  let ?k1 = "k\<lparr>SCodeBuf := [0xff, c, c]\<rparr>" and ?k2 = "k\<lparr>SCodeBuf := [0xff, 0xff, c]\<rparr>"
  let ?k3 = "k\<lparr>SCodeBuf := [0xff, 0xff, 0xff], PreKeyCode := 0xff\<rparr>"
  let ?k4 = "?k3\<lparr>KeyScanCode := 0xff, KeyPressCount := 0, PressedKey := 0xff, key_3s := 0\<rparr>"
  have s: "key_Scan p k = ([], ?k1)" "key_Scan p ?k1 = ([], ?k2)"
    using scan_mismatch[of k c c c p] scan_mismatch[of ?k1 "0xff" c c p] k c assms(2) by auto
  have "key_Scan p ?k2 = ([], ?k3)"
    using scan_match_release(1)[of ?k2 c p c] k c assms by simp
  moreover have "key_Scan p ?k3 = (if l = 0 then key_event (event_of_code c) else [], ?k4)"
    using scan_match_release(2)[of ?k3 "0xff" p c] k assms by simp
  ultimately have "scan_run (replicate 4 p) k = (if l = 0 then key_event (event_of_code c) else [], ?k4)"
    using s by (simp add: four)
  then show ?thesis by (intro exI) (auto simp: idle_keypad_def)
qed

text \<open>Holding the key for \<open>j\<close> more samples: the 16-bit count passes 50 once per 65536 samples.\<close>

definition resets :: "nat \<Rightarrow> key_action list" where
  "resets r = concat (replicate r long_press)"

lemma resets_simps [simp]: "resets 0 = []" "resets r @ long_press = resets (Suc r)" "resets (Suc 0) = long_press"
proof -
  show "resets r @ long_press = resets (Suc r)"
    by (induction r) (simp_all add: resets_def)
qed (simp_all add: resets_def)

lemma mod_65536:
  "(j + 2) mod 65536 = 50 \<longleftrightarrow> j mod 65536 = (48 :: nat)"
  "(Suc j + 65487) div 65536 = (j + 65487) div 65536 + (if j mod 65536 = 48 then 1 else (0 :: nat))"
proof -
  define q r where "q = j div 65536" and "r = j mod 65536"
  have j: "j = r + 65536 * q" "j mod 65536 = r" and r: "r < 65536" by (simp_all add: q_def r_def)
  have "j + 2 = (r + 2) + 65536 * q" unfolding j(1) by simp
  then have "(j + 2) mod 65536 = (r + 2) mod 65536" by (simp only: mod_mult_self2)
  also have "\<dots> = (if r + 2 < 65536 then r + 2 else r + 2 - 65536)" using r by (simp add: le_mod_geq)
  finally show "(j + 2) mod 65536 = 50 \<longleftrightarrow> j mod 65536 = 48" using r unfolding j(2) by auto
  have "(j + k) div 65536 = q + (r + k) div 65536" for k
  proof -
    have "j + k = (r + k) + 65536 * q" unfolding j(1) by simp
    then show ?thesis by (simp only: div_mult_self2)
  qed
  from this[of 65487] this[of 65488]
  have d: "(j + 65487) div 65536 = q + (r + 65487) div 65536" "(Suc j + 65487) div 65536 = q + (r + 65488) div 65536"
    by simp_all
  have "(r + 65487) div 65536 = (if r < 49 then 0 else 1)" "(r + 65488) div 65536 = (if r < 48 then 0 else 1)"
    using r by (auto intro: div_nat_eqI)
  then show "(Suc j + 65487) div 65536 = (j + 65487) div 65536 + (if j mod 65536 = 48 then 1 else 0)"
    unfolding d j(2) by auto
qed

lemma count_is_50: "(of_nat (j + 1) + 1 = (50 :: u16)) = (j mod 65536 = 48)"
proof -
  have "of_nat (j + 1) + 1 = (of_nat (j + 2) :: u16)" by simp
  moreover have "(of_nat (j + 2) = (of_nat 50 :: u16)) = ((j + 2) mod 65536 = 50)"
    unfolding word_of_nat_eq_iff take_bit_eq_mod by simp
  ultimately show ?thesis unfolding mod_65536(1)[symmetric] by (metis of_nat_numeral)
qed

lemma hold_many:
  assumes "held c 1 0 k" "GetScanCode p = c" "c \<in> set key_codes"
  shows "\<exists>k'. scan_run (replicate j p) k = (resets ((j + 65487) div 65536), k') \<and>
    held c (of_nat (j + 1)) (if j < 49 then 0 else 1) k'"
proof (induction j)
  case 0
  then show ?case using assms(1) by simp
next
  case (Suc j)
  then obtain k' where k': "scan_run (replicate j p) k = (resets ((j + 65487) div 65536), k')"
      "held c (of_nat (j + 1)) (if j < 49 then 0 else 1) k'"
    by auto
  obtain k'' where k'': "key_Scan p k' = (if j mod 65536 = 48 then (long_press, k'') else ([], k''))"
      "held c (of_nat (j + 1) + 1) (if j mod 65536 = 48 then 1 else if j < 49 then 0 else 1) k''"
    using hold_one[OF k'(2) assms(2,3)] unfolding count_is_50 by blast
  have r: "replicate (Suc j) p = replicate j p @ [p]" by (simp add: replicate_append_same)
  note d = mod_65536(2)[of j]
  have "scan_run (replicate (Suc j) p) k = (resets ((Suc j + 65487) div 65536), k'')"
    unfolding r scan_run_append k'(1) d using k''(1) by (auto split: if_splits)
  moreover have "(if j mod 65536 = 48 then 1 else if j < 49 then 0 else 1) = (if Suc j < 49 then 0 else (1 :: u8))"
    by auto
  then have "held c (of_nat (Suc j + 1)) (if Suc j < 49 then 0 else 1) k''"
    using k''(2) by (simp add: add.commute)
  ultimately show ?case by blast
qed

lemma idle_stays:
  assumes "idle_keypad k" "GetScanCode p = 0xff"
  shows "\<exists>k'. scan_run (replicate m p) k = ([], k') \<and> idle_keypad k'"
proof (induction m)
  case (Suc m)
  have "key_Scan p k = ([], k) \<or> (\<exists>k'. key_Scan p k = ([], k') \<and> k' = k)"
    using assms by (auto simp: idle_keypad_def scan_defs)
  then show ?case using Suc assms by auto
qed (use assms in simp)

text \<open>A key is held for \<open>n\<close> samples and then released for \<open>m\<close>.\<close>

lemma press_short:
  assumes "idle_keypad k" "GetScanCode p = c" "c \<in> set key_codes" "GetScanCode q = 0xff" "n < 4" "4 \<le> m"
  shows "\<exists>k1 k2. scan_run (replicate n p) k = ([], k1) \<and> scan_run (replicate m q) k1 = ([], k2) \<and> idle_keypad k2"
proof -
  have m: "replicate m q = replicate 4 q @ replicate (m - 4) q"
    using assms(6) by (simp flip: replicate_add)
  obtain k1 where k1: "scan_run (replicate n p) k = ([], k1)" "unpressed k1"
    using press_three[OF assms(1-3,5)] by blast
  obtain k2 where k2: "scan_run (replicate 4 q) k1 = ([], k2)" "idle_keypad k2"
    using release_unpressed[OF k1(2) assms(4)] by blast
  obtain k3 where "scan_run (replicate (m - 4) q) k2 = ([], k3)" "idle_keypad k3"
    using idle_stays[OF k2(2) assms(4)] by blast
  then show ?thesis
    using k1(1) k2(1) unfolding m scan_run_append by (intro exI[of _ k1] exI[of _ k3]) simp
qed

lemma press_long:
  assumes "idle_keypad k" "GetScanCode p = c" "c \<in> set key_codes" "GetScanCode q = 0xff"
    and "4 \<le> n" "4 \<le> m"
  shows "\<exists>k1 k2. scan_run (replicate n p) k = (resets ((n + 65483) div 65536), k1) \<and>
    scan_run (replicate m q) k1 = (if n < 53 then key_event (event_of_code c) else [], k2) \<and> idle_keypad k2"
proof -
  define j where "j = n - 4"
  have n: "replicate n p = replicate 4 p @ replicate j p" and m: "replicate m q = replicate 4 q @ replicate (m - 4) q"
    using assms(5,6) by (simp_all add: j_def flip: replicate_add)
  have j: "j < 49 \<longleftrightarrow> n < 53" "j + 65487 = n + 65483" using assms(5) by (auto simp: j_def)
  obtain k0 where k0: "scan_run (replicate 4 p) k = ([], k0)" "held c 1 0 k0"
    using press_four[OF assms(1-3)] by blast
  obtain k1 where k1: "scan_run (replicate j p) k0 = (resets ((n + 65483) div 65536), k1)"
      "held c (of_nat (j + 1)) (if n < 53 then 0 else 1) k1"
    using hold_many[OF k0(2) assms(2,3), of j] unfolding j by blast
  obtain k3 where k3: "scan_run (replicate 4 q) k1 = (if n < 53 then key_event (event_of_code c) else [], k3)"
      "idle_keypad k3"
    using release_four[OF k1(2) assms(4,3)] by (auto split: if_splits)
  obtain k4 where k4: "scan_run (replicate (m - 4) q) k3 = ([], k4)" "idle_keypad k4"
    using idle_stays[OF k3(2) assms(4)] by blast
  have "scan_run (replicate n p) k = (resets ((n + 65483) div 65536), k1)"
    unfolding n scan_run_append k0(1) k1(1) Let_def case_prod_conv by simp
  moreover have "scan_run (replicate m q) k1 = (if n < 53 then key_event (event_of_code c) else [], k4)"
    unfolding m scan_run_append k3(1) k4(1) Let_def case_prod_conv by simp
  ultimately show ?thesis using k4(2) by blast
qed

lemma press_key:
  assumes "idle_keypad k" "GetScanCode p = c" "c \<in> set key_codes" "GetScanCode q = 0xff"
    and "4 \<le> n" "n < 53" "4 \<le> m"
  shows "\<exists>k'. scan_run (replicate n p @ replicate m q) k = (key_event (event_of_code c), k') \<and> idle_keypad k'"
proof -
  have "(n + 65483) div 65536 = 0" using assms(6) by simp
  then show ?thesis
    using press_long[OF assms(1-5,7)] assms(6) by (auto simp: scan_run_append)
qed

text \<open>C31: One press of a key of any length, seen from a released keypad: held for fewer than 4
  samples (40 ms) it is ignored as bounce; from 4 to 52 samples nothing is pushed until its
  release pushes exactly the one event of that key; a longer one pushes a reset event at the 53rd sample
  (half a second) and, because the count of samples has 16 bits, again after every further 65536
  (eleven minutes), and its release pushes nothing.  In every case the keypad is released again
  after four samples, so a sequence of presses is a sequence of such answers.\<close>

theorem key_press_events:
  assumes "idle_keypad k" "c \<in> {0x04, 0x05, 0x06}" "GetScanCode p = c" "GetScanCode q = 0xff" "4 \<le> m"
  shows "\<exists>k1 k2. scan_run (replicate n p) k =
      (concat (replicate ((n + 65483) div 65536) [Set_button_num CHR ''d'', Set_cnt_down 120, PushEvt_OnlyEvt evRst]), k1) \<and>
    scan_run (replicate m q) k1 = (if 4 \<le> n \<and> n < 53 then key_event (event_of_code c) else [], k2) \<and> idle_keypad k2"
proof -
  have c: "c \<in> set key_codes" using assms(2) by (auto simp: key_codes_def)
  show ?thesis
  proof (cases "n < 4")
    case True
    moreover from this have "(n + 65483) div 65536 = 0" by simp
    ultimately show ?thesis using press_short[OF assms(1,3) c assms(4) True assms(5)] by simp
  next
    case False
    then have "4 \<le> n" by simp
    from press_long[OF assms(1,3) c assms(4) this assms(5), unfolded resets_def long_press_def] False
    show ?thesis by simp
  qed
qed

text \<open>A press of 100 ms, and one held for 65589 samples, which asks for the reset twice.\<close>

lemma key_press_events_witness:
  "(\<exists>k1 k2. scan_run (replicate 10 \<lparr>PA10 = True, PA11 = False, PA12 = True\<rparr>) keypad0 = ([], k1) \<and>
     scan_run (replicate 5 \<lparr>PA10 = True, PA11 = True, PA12 = True\<rparr>) k1 =
       ([Set_cnt_down 300, SetWorkMode 5, PushEvt_EvtPar 0xb1 5], k2) \<and> idle_keypad k2) \<and>
   (\<exists>k1. scan_run (replicate 65589 \<lparr>PA10 = True, PA11 = False, PA12 = True\<rparr>) keypad0 =
     ([Set_button_num CHR ''d'', Set_cnt_down 120, PushEvt_OnlyEvt evRst,
       Set_button_num CHR ''d'', Set_cnt_down 120, PushEvt_OnlyEvt evRst], k1))"
proof -
  let ?p = "\<lparr>PA10 = True, PA11 = False, PA12 = True\<rparr>" and ?q = "\<lparr>PA10 = True, PA11 = True, PA12 = True\<rparr>"
  have h: "idle_keypad keypad0" "GetScanCode ?p = 0x05" "GetScanCode ?q = 0xff"
    by (simp_all add: idle_keypad_def keypad0_def GetScanCode_def numeral_3_eq_3)
  have c: "0x05 \<in> {0x04, 0x05, 0x06 :: u8}" by simp
  have m: "4 \<le> (5 :: nat)" by simp
  note t = key_press_events[OF h(1) c h(2,3) m]
  let ?r = "[Set_button_num CHR ''d'', Set_cnt_down 120, PushEvt_OnlyEvt evRst]"
  have "(10 + 65483) div 65536 = (0 :: nat)" "(65589 + 65483) div 65536 = Suc (Suc 0)" by simp_all
  then have d: "concat (replicate ((10 + 65483) div 65536) ?r) = []" "concat (replicate ((65589 + 65483) div 65536) ?r) = ?r @ ?r"
    by (simp_all only: replicate.simps concat.simps append_Nil2)
  have r: "(if 4 \<le> (10 :: nat) \<and> (10 :: nat) < 53 then key_event (event_of_code 0x05) else []) =
      [Set_cnt_down 300, SetWorkMode 5, PushEvt_EvtPar 0xb1 5]"
    by (simp add: key_event_def event_of_code_def CNT_DOWN_def MODE_KEY_def evKeyDown_def)
  have "\<exists>k1. scan_run (replicate 65589 ?p) keypad0 = (?r @ ?r, k1)"
    using t[of 65589] unfolding d(2) by (elim exE conjE) (rule exI)
  then show ?thesis using t[of 10] unfolding d(1) r append.simps by (rule conjI[rotated])
qed

end
