(* ===== verification/OledFont.thy ===== *)
theory OledFont
  imports Prelude
begin

text \<open>
  The glyph tables of \<open>include/oledfont.h\<close> that the display driver reads, generated from the
  source row by row: a glyph is a run of columns, one byte for each column of a page, bit 0
  the top pixel.  The tables under \<open>#if 0\<close> and \<open>F8X20\<close>, which nothing reads, are left out.
\<close>

definition F6x8 :: "bytes list" where
  "F6x8 = [
    [0, 0, 0, 0, 0, 0, 0, 0],
    [0, 0, 0, 0x2f, 0, 0, 0, 0],
    [0, 0, 0x7, 0, 0x7, 0, 0, 0],
    [0, 0x14, 0x7f, 0x14, 0x7f, 0x14, 0, 0],
    [0, 0x24, 0x2a, 0x7f, 0x2a, 0x12, 0, 0],
    [0, 0x62, 0x64, 0x8, 0x13, 0x23, 0, 0],
    [0, 0x36, 0x49, 0x55, 0x22, 0x50, 0, 0],
    [0, 0, 0x5, 0x3, 0, 0, 0, 0],
    [0, 0, 0x1c, 0x22, 0x41, 0, 0, 0],
    [0, 0, 0x41, 0x22, 0x1c, 0, 0, 0],
    [0, 0x14, 0x8, 0x3e, 0x8, 0x14, 0, 0],
    [0, 0x8, 0x8, 0x3e, 0x8, 0x8, 0, 0],
    [0, 0, 0, 0xa0, 0x60, 0, 0, 0],
    [0, 0x8, 0x8, 0x8, 0x8, 0x8, 0, 0],
    [0, 0, 0x60, 0x60, 0, 0, 0, 0],
    [0, 0x20, 0x10, 0x8, 0x4, 0x2, 0, 0],
    [0, 0x3e, 0x51, 0x49, 0x45, 0x3e, 0, 0],
    [0, 0, 0x42, 0x7f, 0x40, 0, 0, 0],
    [0, 0x42, 0x61, 0x51, 0x49, 0x46, 0, 0],
    [0, 0x21, 0x41, 0x45, 0x4b, 0x31, 0, 0],
    [0, 0x18, 0x14, 0x12, 0x7f, 0x10, 0, 0],
    [0, 0x27, 0x45, 0x45, 0x45, 0x39, 0, 0],
    [0, 0x3c, 0x4a, 0x49, 0x49, 0x30, 0, 0],
    [0, 1, 0x71, 0x9, 0x5, 0x3, 0, 0],
    [0, 0x36, 0x49, 0x49, 0x49, 0x36, 0, 0],
    [0, 0x6, 0x49, 0x49, 0x29, 0x1e, 0, 0],
    [0, 0, 0x36, 0x36, 0, 0, 0, 0],
    [0, 0, 0x56, 0x36, 0, 0, 0, 0],
    [0, 0x8, 0x14, 0x22, 0x41, 0, 0, 0],
    [0, 0x14, 0x14, 0x14, 0x14, 0x14, 0, 0],
    [0, 0, 0x41, 0x22, 0x14, 0x8, 0, 0],
    [0, 0x2, 1, 0x51, 0x9, 0x6, 0, 0],
    [0, 0x32, 0x49, 0x59, 0x51, 0x3e, 0, 0],
    [0, 0x7c, 0x12, 0x11, 0x12, 0x7c, 0, 0],
    [0, 0x7f, 0x49, 0x49, 0x49, 0x36, 0, 0],
    [0, 0x3e, 0x41, 0x41, 0x41, 0x22, 0, 0],
    [0, 0x7f, 0x41, 0x41, 0x22, 0x1c, 0, 0],
    [0, 0x7f, 0x49, 0x49, 0x49, 0x41, 0, 0],
    [0, 0x7f, 0x9, 0x9, 0x9, 1, 0, 0],
    [0, 0x3e, 0x41, 0x49, 0x49, 0x7a, 0, 0],
    [0, 0x7f, 0x8, 0x8, 0x8, 0x7f, 0, 0],
    [0, 0, 0x41, 0x7f, 0x41, 0, 0, 0],
    [0, 0x20, 0x40, 0x41, 0x3f, 1, 0, 0],
    [0, 0x7f, 0x8, 0x14, 0x22, 0x41, 0, 0],
    [0, 0x7f, 0x40, 0x40, 0x40, 0x40, 0, 0],
    [0, 0x7f, 0x2, 0xc, 0x2, 0x7f, 0, 0],
    [0, 0x7f, 0x4, 0x8, 0x10, 0x7f, 0, 0],
    [0, 0x3e, 0x41, 0x41, 0x41, 0x3e, 0, 0],
    [0, 0x7f, 0x9, 0x9, 0x9, 0x6, 0, 0],
    [0, 0x3e, 0x41, 0x51, 0x21, 0x5e, 0, 0],
    [0, 0x7f, 0x9, 0x19, 0x29, 0x46, 0, 0],
    [0, 0x46, 0x49, 0x49, 0x49, 0x31, 0, 0],
    [0, 1, 1, 0x7f, 1, 1, 0, 0],
    [0, 0x3f, 0x40, 0x40, 0x40, 0x3f, 0, 0],
    [0, 0x1f, 0x20, 0x40, 0x20, 0x1f, 0, 0],
    [0, 0x3f, 0x40, 0x38, 0x40, 0x3f, 0, 0],
    [0, 0x63, 0x14, 0x8, 0x14, 0x63, 0, 0],
    [0, 0x7, 0x8, 0x70, 0x8, 0x7, 0, 0],
    [0, 0x61, 0x51, 0x49, 0x45, 0x43, 0, 0],
    [0, 0, 0x7f, 0x41, 0x41, 0, 0, 0],
    [0, 0x55, 0x2a, 0x55, 0x2a, 0x55, 0, 0],
    [0, 0, 0x41, 0x41, 0x7f, 0, 0, 0],
    [0, 0x4, 0x2, 1, 0x2, 0x4, 0, 0],
    [0, 0x40, 0x40, 0x40, 0x40, 0x40, 0, 0],
    [0, 0, 1, 0x2, 0x4, 0, 0, 0],
    [0, 0x20, 0x54, 0x54, 0x54, 0x78, 0, 0],
    [0, 0x7f, 0x48, 0x44, 0x44, 0x38, 0, 0],
    [0, 0x38, 0x44, 0x44, 0x44, 0x20, 0, 0],
    [0, 0x38, 0x44, 0x44, 0x48, 0x7f, 0, 0],
    [0, 0x38, 0x54, 0x54, 0x54, 0x18, 0, 0],
    [0, 0x8, 0x7e, 0x9, 1, 0x2, 0, 0],
    [0, 0x18, 0xa4, 0xa4, 0xa4, 0x7c, 0, 0],
    [0, 0x7f, 0x8, 0x4, 0x4, 0x78, 0, 0],
    [0, 0, 0x44, 0x7d, 0x40, 0, 0, 0],
    [0, 0x40, 0x80, 0x84, 0x7d, 0, 0, 0],
    [0, 0x7f, 0x10, 0x28, 0x44, 0, 0, 0],
    [0, 0, 0x41, 0x7f, 0x40, 0, 0, 0],
    [0, 0x7c, 0x4, 0x18, 0x4, 0x78, 0, 0],
    [0, 0x7c, 0x8, 0x4, 0x4, 0x78, 0, 0],
    [0, 0x38, 0x44, 0x44, 0x44, 0x38, 0, 0],
    [0, 0xfc, 0x24, 0x24, 0x24, 0x18, 0, 0],
    [0, 0x18, 0x24, 0x24, 0x18, 0xfc, 0, 0],
    [0, 0x7c, 0x8, 0x4, 0x4, 0x8, 0, 0],
    [0, 0x48, 0x54, 0x54, 0x54, 0x20, 0, 0],
    [0, 0x4, 0x3f, 0x44, 0x40, 0x20, 0, 0],
    [0, 0x3c, 0x40, 0x40, 0x20, 0x7c, 0, 0],
    [0, 0x1c, 0x20, 0x40, 0x20, 0x1c, 0, 0],
    [0, 0x3c, 0x40, 0x30, 0x40, 0x3c, 0, 0],
    [0, 0x44, 0x28, 0x10, 0x28, 0x44, 0, 0],
    [0, 0x1c, 0xa0, 0xa0, 0xa0, 0x7c, 0, 0],
    [0, 0x44, 0x64, 0x54, 0x4c, 0x44, 0, 0]]"

definition F8X16 :: bytes where
  "F8X16 = concat [
    [0, 0, 0, 0, 0, 0, 0, 0, 0, 0, 0, 0, 0, 0, 0, 0],
    [0, 0, 0, 0xf8, 0, 0, 0, 0, 0, 0, 0, 0x33, 0x30, 0, 0, 0],
    [0, 0x10, 0xc, 0x6, 0x10, 0xc, 0x6, 0, 0, 0, 0, 0, 0, 0, 0, 0],
    [0x40, 0xc0, 0x78, 0x40, 0xc0, 0x78, 0x40, 0, 0x4, 0x3f, 0x4, 0x4, 0x3f, 0x4, 0x4, 0],
    [0, 0x70, 0x88, 0xfc, 0x8, 0x30, 0, 0, 0, 0x18, 0x20, 0xff, 0x21, 0x1e, 0, 0],
    [0xf0, 0x8, 0xf0, 0, 0xe0, 0x18, 0, 0, 0, 0x21, 0x1c, 0x3, 0x1e, 0x21, 0x1e, 0],
    [0, 0xf0, 0x8, 0x88, 0x70, 0, 0, 0, 0x1e, 0x21, 0x23, 0x24, 0x19, 0x27, 0x21, 0x10],
    [0x10, 0x16, 0xe, 0, 0, 0, 0, 0, 0, 0, 0, 0, 0, 0, 0, 0],
    [0, 0, 0, 0xe0, 0x18, 0x4, 0x2, 0, 0, 0, 0, 0x7, 0x18, 0x20, 0x40, 0],
    [0, 0x2, 0x4, 0x18, 0xe0, 0, 0, 0, 0, 0x40, 0x20, 0x18, 0x7, 0, 0, 0],
    [0x40, 0x40, 0x80, 0xf0, 0x80, 0x40, 0x40, 0, 0x2, 0x2, 1, 0xf, 1, 0x2, 0x2, 0],
    [0, 0, 0, 0xf0, 0, 0, 0, 0, 1, 1, 1, 0x1f, 1, 1, 1, 0],
    [0, 0, 0, 0, 0, 0, 0, 0, 0x80, 0xb0, 0x70, 0, 0, 0, 0, 0],
    [0, 0, 0, 0, 0, 0, 0, 0, 0, 1, 1, 1, 1, 1, 1, 1],
    [0, 0, 0, 0, 0, 0, 0, 0, 0, 0x30, 0x30, 0, 0, 0, 0, 0],
    [0, 0, 0, 0, 0x80, 0x60, 0x18, 0x4, 0, 0x60, 0x18, 0x6, 1, 0, 0, 0],
    [0, 0xe0, 0x10, 0x8, 0x8, 0x10, 0xe0, 0, 0, 0xf, 0x10, 0x20, 0x20, 0x10, 0xf, 0],
    [0, 0x10, 0x10, 0xf8, 0, 0, 0, 0, 0, 0x20, 0x20, 0x3f, 0x20, 0x20, 0, 0],
    [0, 0x70, 0x8, 0x8, 0x8, 0x88, 0x70, 0, 0, 0x30, 0x28, 0x24, 0x22, 0x21, 0x30, 0],
    [0, 0x30, 0x8, 0x88, 0x88, 0x48, 0x30, 0, 0, 0x18, 0x20, 0x20, 0x20, 0x11, 0xe, 0],
    [0, 0, 0xc0, 0x20, 0x10, 0xf8, 0, 0, 0, 0x7, 0x4, 0x24, 0x24, 0x3f, 0x24, 0],
    [0, 0xf8, 0x8, 0x88, 0x88, 0x8, 0x8, 0, 0, 0x19, 0x21, 0x20, 0x20, 0x11, 0xe, 0],
    [0, 0xe0, 0x10, 0x88, 0x88, 0x18, 0, 0, 0, 0xf, 0x11, 0x20, 0x20, 0x11, 0xe, 0],
    [0, 0x38, 0x8, 0x8, 0xc8, 0x38, 0x8, 0, 0, 0, 0, 0x3f, 0, 0, 0, 0],
    [0, 0x70, 0x88, 0x8, 0x8, 0x88, 0x70, 0, 0, 0x1c, 0x22, 0x21, 0x21, 0x22, 0x1c, 0],
    [0, 0xe0, 0x10, 0x8, 0x8, 0x10, 0xe0, 0, 0, 0, 0x31, 0x22, 0x22, 0x11, 0xf, 0],
    [0, 0, 0, 0xc0, 0xc0, 0, 0, 0, 0, 0, 0, 0x30, 0x30, 0, 0, 0],
    [0, 0, 0, 0x80, 0, 0, 0, 0, 0, 0, 0x80, 0x60, 0, 0, 0, 0],
    [0, 0, 0x80, 0x40, 0x20, 0x10, 0x8, 0, 0, 1, 0x2, 0x4, 0x8, 0x10, 0x20, 0],
    [0x40, 0x40, 0x40, 0x40, 0x40, 0x40, 0x40, 0, 0x4, 0x4, 0x4, 0x4, 0x4, 0x4, 0x4, 0],
    [0, 0x8, 0x10, 0x20, 0x40, 0x80, 0, 0, 0, 0x20, 0x10, 0x8, 0x4, 0x2, 1, 0],
    [0, 0x70, 0x48, 0x8, 0x8, 0x8, 0xf0, 0, 0, 0, 0, 0x30, 0x36, 1, 0, 0],
    [0xc0, 0x30, 0xc8, 0x28, 0xe8, 0x10, 0xe0, 0, 0x7, 0x18, 0x27, 0x24, 0x23, 0x14, 0xb, 0],
    [0, 0, 0xc0, 0x38, 0xe0, 0, 0, 0, 0x20, 0x3c, 0x23, 0x2, 0x2, 0x27, 0x38, 0x20],
    [0x8, 0xf8, 0x88, 0x88, 0x88, 0x70, 0, 0, 0x20, 0x3f, 0x20, 0x20, 0x20, 0x11, 0xe, 0],
    [0xc0, 0x30, 0x8, 0x8, 0x8, 0x8, 0x38, 0, 0x7, 0x18, 0x20, 0x20, 0x20, 0x10, 0x8, 0],
    [0x8, 0xf8, 0x8, 0x8, 0x8, 0x10, 0xe0, 0, 0x20, 0x3f, 0x20, 0x20, 0x20, 0x10, 0xf, 0],
    [0x8, 0xf8, 0x88, 0x88, 0xe8, 0x8, 0x10, 0, 0x20, 0x3f, 0x20, 0x20, 0x23, 0x20, 0x18, 0],
    [0x8, 0xf8, 0x88, 0x88, 0xe8, 0x8, 0x10, 0, 0x20, 0x3f, 0x20, 0, 0x3, 0, 0, 0],
    [0xc0, 0x30, 0x8, 0x8, 0x8, 0x38, 0, 0, 0x7, 0x18, 0x20, 0x20, 0x22, 0x1e, 0x2, 0],
    [0x8, 0xf8, 0x8, 0, 0, 0x8, 0xf8, 0x8, 0x20, 0x3f, 0x21, 1, 1, 0x21, 0x3f, 0x20],
    [0, 0x8, 0x8, 0xf8, 0x8, 0x8, 0, 0, 0, 0x20, 0x20, 0x3f, 0x20, 0x20, 0, 0],
    [0, 0, 0x8, 0x8, 0xf8, 0x8, 0x8, 0, 0xc0, 0x80, 0x80, 0x80, 0x7f, 0, 0, 0],
    [0x8, 0xf8, 0x88, 0xc0, 0x28, 0x18, 0x8, 0, 0x20, 0x3f, 0x20, 1, 0x26, 0x38, 0x20, 0],
    [0x8, 0xf8, 0x8, 0, 0, 0, 0, 0, 0x20, 0x3f, 0x20, 0x20, 0x20, 0x20, 0x30, 0],
    [0x8, 0xf8, 0xf8, 0, 0xf8, 0xf8, 0x8, 0, 0x20, 0x3f, 0, 0x3f, 0, 0x3f, 0x20, 0],
    [0x8, 0xf8, 0x30, 0xc0, 0, 0x8, 0xf8, 0x8, 0x20, 0x3f, 0x20, 0, 0x7, 0x18, 0x3f, 0],
    [0xe0, 0x10, 0x8, 0x8, 0x8, 0x10, 0xe0, 0, 0xf, 0x10, 0x20, 0x20, 0x20, 0x10, 0xf, 0],
    [0x8, 0xf8, 0x8, 0x8, 0x8, 0x8, 0xf0, 0, 0x20, 0x3f, 0x21, 1, 1, 1, 0, 0],
    [0xe0, 0x10, 0x8, 0x8, 0x8, 0x10, 0xe0, 0, 0xf, 0x18, 0x24, 0x24, 0x38, 0x50, 0x4f, 0],
    [0x8, 0xf8, 0x88, 0x88, 0x88, 0x88, 0x70, 0, 0x20, 0x3f, 0x20, 0, 0x3, 0xc, 0x30, 0x20],
    [0, 0x70, 0x88, 0x8, 0x8, 0x8, 0x38, 0, 0, 0x38, 0x20, 0x21, 0x21, 0x22, 0x1c, 0],
    [0x18, 0x8, 0x8, 0xf8, 0x8, 0x8, 0x18, 0, 0, 0, 0x20, 0x3f, 0x20, 0, 0, 0],
    [0x8, 0xf8, 0x8, 0, 0, 0x8, 0xf8, 0x8, 0, 0x1f, 0x20, 0x20, 0x20, 0x20, 0x1f, 0],
    [0x8, 0x78, 0x88, 0, 0, 0xc8, 0x38, 0x8, 0, 0, 0x7, 0x38, 0xe, 1, 0, 0],
    [0xf8, 0x8, 0, 0xf8, 0, 0x8, 0xf8, 0, 0x3, 0x3c, 0x7, 0, 0x7, 0x3c, 0x3, 0],
    [0x8, 0x18, 0x68, 0x80, 0x80, 0x68, 0x18, 0x8, 0x20, 0x30, 0x2c, 0x3, 0x3, 0x2c, 0x30, 0x20],
    [0x8, 0x38, 0xc8, 0, 0xc8, 0x38, 0x8, 0, 0, 0, 0x20, 0x3f, 0x20, 0, 0, 0],
    [0x10, 0x8, 0x8, 0x8, 0xc8, 0x38, 0x8, 0, 0x20, 0x38, 0x26, 0x21, 0x20, 0x20, 0x18, 0],
    [0, 0, 0, 0xfe, 0x2, 0x2, 0x2, 0, 0, 0, 0, 0x7f, 0x40, 0x40, 0x40, 0],
    [0, 0xc, 0x30, 0xc0, 0, 0, 0, 0, 0, 0, 0, 1, 0x6, 0x38, 0xc0, 0],
    [0, 0x2, 0x2, 0x2, 0xfe, 0, 0, 0, 0, 0x40, 0x40, 0x40, 0x7f, 0, 0, 0],
    [0, 0, 0x4, 0x2, 0x2, 0x2, 0x4, 0, 0, 0, 0, 0, 0, 0, 0, 0],
    [0, 0, 0, 0, 0, 0, 0, 0, 0x80, 0x80, 0x80, 0x80, 0x80, 0x80, 0x80, 0x80],
    [0, 0x2, 0x2, 0x4, 0, 0, 0, 0, 0, 0, 0, 0, 0, 0, 0, 0],
    [0, 0, 0x80, 0x80, 0x80, 0x80, 0, 0, 0, 0x19, 0x24, 0x22, 0x22, 0x22, 0x3f, 0x20],
    [0x8, 0xf8, 0, 0x80, 0x80, 0, 0, 0, 0, 0x3f, 0x11, 0x20, 0x20, 0x11, 0xe, 0],
    [0, 0, 0, 0x80, 0x80, 0x80, 0, 0, 0, 0xe, 0x11, 0x20, 0x20, 0x20, 0x11, 0],
    [0, 0, 0, 0x80, 0x80, 0x88, 0xf8, 0, 0, 0xe, 0x11, 0x20, 0x20, 0x10, 0x3f, 0x20],
    [0, 0, 0x80, 0x80, 0x80, 0x80, 0, 0, 0, 0x1f, 0x22, 0x22, 0x22, 0x22, 0x13, 0],
    [0, 0x80, 0x80, 0xf0, 0x88, 0x88, 0x88, 0x18, 0, 0x20, 0x20, 0x3f, 0x20, 0x20, 0, 0],
    [0, 0, 0x80, 0x80, 0x80, 0x80, 0x80, 0, 0, 0x6b, 0x94, 0x94, 0x94, 0x93, 0x60, 0],
    [0x8, 0xf8, 0, 0x80, 0x80, 0x80, 0, 0, 0x20, 0x3f, 0x21, 0, 0, 0x20, 0x3f, 0x20],
    [0, 0x80, 0x98, 0x98, 0, 0, 0, 0, 0, 0x20, 0x20, 0x3f, 0x20, 0x20, 0, 0],
    [0, 0, 0, 0x80, 0x98, 0x98, 0, 0, 0, 0xc0, 0x80, 0x80, 0x80, 0x7f, 0, 0],
    [0x8, 0xf8, 0, 0, 0x80, 0x80, 0x80, 0, 0x20, 0x3f, 0x24, 0x2, 0x2d, 0x30, 0x20, 0],
    [0, 0x8, 0x8, 0xf8, 0, 0, 0, 0, 0, 0x20, 0x20, 0x3f, 0x20, 0x20, 0, 0],
    [0x80, 0x80, 0x80, 0x80, 0x80, 0x80, 0x80, 0, 0x20, 0x3f, 0x20, 0, 0x3f, 0x20, 0, 0x3f],
    [0x80, 0x80, 0, 0x80, 0x80, 0x80, 0, 0, 0x20, 0x3f, 0x21, 0, 0, 0x20, 0x3f, 0x20],
    [0, 0, 0x80, 0x80, 0x80, 0x80, 0, 0, 0, 0x1f, 0x20, 0x20, 0x20, 0x20, 0x1f, 0],
    [0x80, 0x80, 0, 0x80, 0x80, 0, 0, 0, 0x80, 0xff, 0xa1, 0x20, 0x20, 0x11, 0xe, 0],
    [0, 0, 0, 0x80, 0x80, 0x80, 0x80, 0, 0, 0xe, 0x11, 0x20, 0x20, 0xa0, 0xff, 0x80],
    [0x80, 0x80, 0x80, 0, 0x80, 0x80, 0x80, 0, 0x20, 0x20, 0x3f, 0x21, 0x20, 0, 1, 0],
    [0, 0, 0x80, 0x80, 0x80, 0x80, 0x80, 0, 0, 0x33, 0x24, 0x24, 0x24, 0x24, 0x19, 0],
    [0, 0x80, 0x80, 0xe0, 0x80, 0x80, 0, 0, 0, 0, 0, 0x1f, 0x20, 0x20, 0, 0],
    [0x80, 0x80, 0, 0, 0, 0x80, 0x80, 0, 0, 0x1f, 0x20, 0x20, 0x20, 0x10, 0x3f, 0x20],
    [0x80, 0x80, 0x80, 0, 0, 0x80, 0x80, 0x80, 0, 1, 0xe, 0x30, 0x8, 0x6, 1, 0],
    [0x80, 0x80, 0, 0x80, 0, 0x80, 0x80, 0x80, 0xf, 0x30, 0xc, 0x3, 0xc, 0x30, 0xf, 0],
    [0, 0x80, 0x80, 0, 0x80, 0x80, 0x80, 0, 0, 0x20, 0x31, 0x2e, 0xe, 0x31, 0x20, 0],
    [0x80, 0x80, 0x80, 0, 0, 0x80, 0x80, 0x80, 0x80, 0x81, 0x8e, 0x70, 0x18, 0x6, 1, 0],
    [0, 0x80, 0x80, 0x80, 0x80, 0x80, 0x80, 0, 0, 0x21, 0x30, 0x2c, 0x22, 0x21, 0x30, 0],
    [0, 0, 0, 0, 0x80, 0x7c, 0x2, 0x2, 0, 0, 0, 0, 0, 0x3f, 0x40, 0x40],
    [0, 0, 0, 0, 0xff, 0, 0, 0, 0, 0, 0, 0, 0xff, 0, 0, 0],
    [0, 0x2, 0x2, 0x7c, 0x80, 0, 0, 0, 0, 0x40, 0x40, 0x3f, 0, 0, 0, 0],
    [0, 0x6, 1, 1, 0x2, 0x2, 0x4, 0x4, 0, 0, 0, 0, 0, 0, 0, 0]]"

definition F32X32 :: bytes where
  "F32X32 = concat [
    [0, 0, 0, 0, 0, 0, 0, 0, 0, 0, 0, 0, 0, 0, 0, 0],
    [0, 0, 0, 0, 0, 0, 0, 0, 0, 0, 0, 0, 0, 0, 0, 0],
    [0, 0, 0, 0, 0, 0, 0, 0, 0, 0, 0, 0, 0, 0, 0, 0],
    [0, 0, 0, 0, 0, 0, 0, 0, 0, 0, 0, 0, 0, 0, 0, 0],
    [0, 0, 0, 0, 0, 0, 0xc0, 0xc0, 0xc0, 0xc0, 0, 0, 0, 0, 0, 0],
    [0, 0, 0, 0, 0, 0, 0xf, 0xff, 0xff, 0x1f, 0, 0, 0, 0, 0, 0],
    [0, 0, 0, 0, 0, 0, 0, 0x1f, 0x1f, 0, 0, 0, 0, 0, 0, 0],
    [0, 0, 0, 0, 0, 0, 0x6, 0xf, 0xf, 0x6, 0, 0, 0, 0, 0, 0],
    [0, 0, 0, 0x80, 0xe0, 0x78, 0x3c, 0x1c, 0x80, 0xe0, 0x78, 0x3c, 0x1c, 0, 0, 0],
    [0, 0, 0x3, 1, 0, 0, 0, 0x3, 1, 0, 0, 0, 0, 0, 0, 0],
    [0, 0, 0, 0, 0, 0, 0, 0, 0, 0, 0, 0, 0, 0, 0, 0],
    [0, 0, 0, 0, 0, 0, 0, 0, 0, 0, 0, 0, 0, 0, 0, 0],
    [0, 0, 0, 0, 0, 0xc0, 0, 0, 0, 0, 0, 0, 0xc0, 0, 0, 0],
    [0, 0x38, 0x38, 0x38, 0xf8, 0x3f, 0x38, 0x38, 0x38, 0x38, 0x38, 0xf8, 0x3f, 0x38, 0x38, 0],
    [0, 0x70, 0x70, 0xf0, 0xff, 0x70, 0x70, 0x70, 0x70, 0x70, 0xf0, 0xff, 0x70, 0x70, 0x70, 0],
    [0, 0, 0, 0xf, 0, 0, 0, 0, 0, 0, 0xf, 0, 0, 0, 0, 0],
    [0, 0, 0, 0, 0x80, 0x80, 0x40, 0xf0, 0x40, 0x40, 0x80, 0x80, 0, 0, 0, 0],
    [0, 0, 0, 0x1e, 0x7f, 0xf0, 0xc0, 0xff, 0, 0, 0xc, 0xf, 0xf, 0, 0, 0],
    [0, 0, 0xc0, 0xc0, 0xc0, 0, 1, 0xff, 0x7, 0x7, 0x1e, 0xfc, 0xf0, 0, 0, 0],
    [0, 0, 0x3, 0x7, 0x4, 0x8, 0x8, 0x7f, 0x8, 0xc, 0x6, 0x3, 1, 0, 0, 0],
    [0, 0x80, 0xc0, 0x40, 0xc0, 0x80, 0, 0, 0, 0, 0, 0xc0, 0, 0, 0, 0],
    [0x7e, 0xff, 0, 0, 0, 0xff, 0x7e, 0, 0xe0, 0x1c, 0x3, 0, 0, 0, 0, 0],
    [0, 1, 0x3, 0x2, 0x83, 0x61, 0x1c, 0x3, 0xf8, 0xfe, 0x3, 1, 0x3, 0xfe, 0xf8, 0],
    [0, 0, 0, 0xc, 0x3, 0, 0, 0, 1, 0x7, 0xc, 0x8, 0xc, 0x7, 1, 0],
    [0, 0, 0, 0x80, 0xc0, 0x40, 0x40, 0xc0, 0, 0, 0, 0, 0, 0, 0, 0],
    [0, 0, 0x7f, 0xff, 0xc0, 0x80, 0x60, 0x3f, 0xf, 0, 0, 0, 0, 0, 0, 0],
    [0xf8, 0xfc, 0x3, 0x3, 0xf, 0x3e, 0x78, 0xe0, 0x80, 0x81, 0x71, 0xf, 1, 1, 0, 0],
    [1, 0x3, 0x6, 0xc, 0x8, 0x8, 0x8, 0x5, 0x3, 0x7, 0xe, 0xc, 0xc, 0x6, 0x3, 0],
    [0, 0, 0x1c, 0x1c, 0xfc, 0x78, 0, 0, 0, 0, 0, 0, 0, 0, 0, 0],
    [0, 0x2, 0x3, 1, 0, 0, 0, 0, 0, 0, 0, 0, 0, 0, 0, 0],
    [0, 0, 0, 0, 0, 0, 0, 0, 0, 0, 0, 0, 0, 0, 0, 0],
    [0, 0, 0, 0, 0, 0, 0, 0, 0, 0, 0, 0, 0, 0, 0, 0],
    [0, 0, 0, 0, 0, 0, 0, 0, 0, 0, 0xc0, 0x60, 0x30, 0x8, 0x4, 0],
    [0, 0, 0, 0, 0, 0, 0, 0xf0, 0xfc, 0xf, 1, 0, 0, 0, 0, 0],
    [0, 0, 0, 0, 0, 0, 0, 0x1f, 0x7f, 0xe0, 0, 0, 0, 0, 0, 0],
    [0, 0, 0, 0, 0, 0, 0, 0, 0, 1, 0x7, 0xc, 0x18, 0x20, 0x40, 0],
    [0, 0x4, 0x8, 0x30, 0x60, 0xc0, 0, 0, 0, 0, 0, 0, 0, 0, 0, 0],
    [0, 0, 0, 0, 0, 1, 0xf, 0xfc, 0xf0, 0, 0, 0, 0, 0, 0, 0],
    [0, 0, 0, 0, 0, 0, 0xe0, 0xff, 0x1f, 0, 0, 0, 0, 0, 0, 0],
    [0, 0x40, 0x20, 0x18, 0xc, 0x7, 1, 0, 0, 0, 0, 0, 0, 0, 0, 0],
    [0, 0, 0, 0, 0, 0, 0, 0, 0, 0, 0, 0, 0, 0, 0, 0],
    [0, 0, 0x18, 0x38, 0x30, 0x60, 0x40, 0x86, 0xff, 0x8f, 0x40, 0x60, 0x30, 0x38, 0x18, 0],
    [0, 0, 0x18, 0x1c, 0xc, 0x6, 0x2, 0xf1, 0xff, 0xe1, 0x2, 0x6, 0xc, 0x1c, 0x18, 0],
    [0, 0, 0, 0, 0, 0, 0, 0, 0, 0, 0, 0, 0, 0, 0, 0],
    [0, 0, 0, 0, 0, 0, 0, 0, 0, 0, 0, 0, 0, 0, 0, 0],
    [0, 0, 0, 0, 0, 0, 0, 0, 0xfe, 0, 0, 0, 0, 0, 0, 0],
    [0, 0, 1, 1, 1, 1, 1, 1, 0xff, 1, 1, 1, 1, 1, 1, 0],
    [0, 0, 0, 0, 0, 0, 0, 0, 0, 0, 0, 0, 0, 0, 0, 0],
    [0, 0, 0, 0, 0, 0, 0, 0, 0, 0, 0, 0, 0, 0, 0, 0],
    [0, 0, 0, 0, 0, 0, 0, 0, 0, 0, 0, 0, 0, 0, 0, 0],
    [0, 0, 0, 0, 0, 0, 0, 0, 0, 0, 0, 0, 0, 0, 0, 0],
    [0, 0x80, 0xc7, 0x47, 0x3f, 0x1e, 0, 0, 0, 0, 0, 0, 0, 0, 0, 0],
    [0, 0, 0, 0, 0, 0, 0, 0, 0, 0, 0, 0, 0, 0, 0, 0],
    [0, 0, 0, 0, 0, 0, 0, 0, 0, 0, 0, 0, 0, 0, 0, 0],
    [0, 1, 1, 1, 1, 1, 1, 1, 1, 1, 1, 1, 1, 1, 1, 0],
    [0, 0, 0, 0, 0, 0, 0, 0, 0, 0, 0, 0, 0, 0, 0, 0],
    [0, 0, 0, 0, 0, 0, 0, 0, 0, 0, 0, 0, 0, 0, 0, 0],
    [0, 0, 0, 0, 0, 0, 0, 0, 0, 0, 0, 0, 0, 0, 0, 0],
    [0, 0, 0, 0, 0, 0, 0, 0, 0, 0, 0, 0, 0, 0, 0, 0],
    [0, 0, 0x6, 0xf, 0xf, 0x6, 0, 0, 0, 0, 0, 0, 0, 0, 0, 0],
    [0, 0, 0, 0, 0, 0, 0, 0, 0, 0, 0, 0, 0xc0, 0x70, 0x18, 0],
    [0, 0, 0, 0, 0, 0, 0, 0, 0xc0, 0x70, 0x1c, 0x7, 1, 0, 0, 0],
    [0, 0, 0, 0, 0xc0, 0x70, 0x1c, 0x7, 1, 0, 0, 0, 0, 0, 0, 0],
    [0, 0x30, 0x1c, 0x7, 1, 0, 0, 0, 0, 0, 0, 0, 0, 0, 0, 0],
    [0, 0, 0, 0, 0, 0x80, 0xc0, 0x40, 0x40, 0x40, 0x80, 0, 0, 0, 0, 0],
    [0, 0, 0xf0, 0xfe, 0xf, 1, 0, 0, 0, 0, 1, 0x7, 0xfe, 0xf0, 0, 0],
    [0, 0, 0x3f, 0xff, 0xc0, 0, 0, 0, 0, 0, 0, 0x80, 0xff, 0x3f, 0, 0],
    [0, 0, 0, 1, 0x3, 0x6, 0xc, 0x8, 0x8, 0x8, 0x6, 0x3, 1, 0, 0, 0],
    [0, 0, 0, 0, 0, 0, 0, 0x80, 0xc0, 0, 0, 0, 0, 0, 0, 0],
    [0, 0, 0, 1, 1, 1, 1, 0xff, 0xff, 0, 0, 0, 0, 0, 0, 0],
    [0, 0, 0, 0, 0, 0, 0, 0xff, 0xff, 0, 0, 0, 0, 0, 0, 0],
    [0, 0, 0, 0x8, 0x8, 0x8, 0xc, 0xf, 0xf, 0xc, 0x8, 0x8, 0x8, 0, 0, 0],
    [0, 0, 0, 0, 0x80, 0x40, 0x40, 0x40, 0x40, 0x40, 0xc0, 0x80, 0x80, 0, 0, 0],
    [0, 0, 0x1e, 0x19, 0, 0, 0, 0, 0, 0, 0, 0xc1, 0xff, 0x3e, 0, 0],
    [0, 0, 0, 0, 0x80, 0x40, 0x30, 0x18, 0xc, 0x6, 0x3, 1, 0, 0xc0, 0, 0],
    [0, 0, 0xe, 0xd, 0xc, 0xc, 0xc, 0xc, 0xc, 0xc, 0xc, 0xc, 0xe, 0x3, 0, 0],
    [0, 0, 0, 0x80, 0x80, 0x40, 0x40, 0x40, 0x40, 0xc0, 0x80, 0, 0, 0, 0, 0],
    [0, 0, 0xf, 0xf, 0, 0, 0, 0, 0, 0x80, 0xc1, 0x7f, 0x3e, 0, 0, 0],
    [0, 0, 0xc0, 0xc0, 0, 0, 1, 1, 1, 0x3, 0x2, 0x6, 0xfc, 0xf0, 0, 0],
    [0, 0, 0x3, 0x7, 0x4, 0x8, 0x8, 0x8, 0x8, 0x8, 0x4, 0x6, 0x3, 0, 0, 0],
    [0, 0, 0, 0, 0, 0, 0, 0, 0, 0xc0, 0xc0, 0, 0, 0, 0, 0],
    [0, 0, 0, 0, 0x80, 0x60, 0x10, 0xc, 0x3, 0xff, 0xff, 0, 0, 0, 0, 0],
    [0, 0x30, 0x2c, 0x26, 0x21, 0x20, 0x20, 0x20, 0x20, 0xff, 0xff, 0x20, 0x20, 0x20, 0, 0],
    [0, 0, 0, 0, 0, 0, 0x8, 0x8, 0x8, 0xf, 0xf, 0x8, 0x8, 0x8, 0, 0],
    [0, 0, 0, 0, 0xc0, 0xc0, 0xc0, 0xc0, 0xc0, 0xc0, 0xc0, 0xc0, 0xc0, 0xc0, 0, 0],
    [0, 0, 0, 0xff, 0, 0x80, 0x40, 0x40, 0x40, 0x40, 0xc0, 0x80, 0, 0, 0, 0],
    [0, 0, 0xc0, 0xc3, 1, 0, 0, 0, 0, 0, 0, 1, 0xff, 0xfc, 0, 0],
    [0, 0, 0x3, 0x4, 0x4, 0x8, 0x8, 0x8, 0x8, 0x8, 0x4, 0x7, 0x3, 0, 0, 0],
    [0, 0, 0, 0, 0, 0x80, 0x80, 0x40, 0x40, 0x40, 0x40, 0x80, 0x80, 0, 0, 0],
    [0, 0, 0xe0, 0xfc, 0x7, 0x81, 0xc0, 0x40, 0x40, 0x40, 0xc0, 0x83, 0x3, 0, 0, 0],
    [0, 0, 0x7f, 0xff, 0x83, 0, 0, 0, 0, 0, 0, 1, 0xff, 0xfc, 0, 0],
    [0, 0, 0, 1, 0x7, 0x6, 0xc, 0x8, 0x8, 0x8, 0xc, 0x6, 0x3, 0, 0, 0],
    [0, 0, 0, 0xc0, 0xc0, 0xc0, 0xc0, 0xc0, 0xc0, 0xc0, 0xc0, 0xc0, 0xc0, 0xc0, 0, 0],
    [0, 0, 0xe, 0x3, 0, 0, 0, 0, 0, 0xe0, 0x18, 0x6, 1, 0, 0, 0],
    [0, 0, 0, 0, 0, 0, 0xc0, 0xfc, 0x3, 0, 0, 0, 0, 0, 0, 0],
    [0, 0, 0, 0, 0, 0, 0xf, 0xf, 0, 0, 0, 0, 0, 0, 0, 0],
    [0, 0, 0, 0, 0x80, 0xc0, 0x40, 0x40, 0x40, 0x40, 0xc0, 0x80, 0, 0, 0, 0],
    [0, 0, 0x3e, 0x7f, 0xf1, 0xc0, 0xc0, 0x80, 0, 0, 0x80, 0x41, 0x7f, 0x1e, 0, 0],
    [0, 0xf0, 0xfc, 0xe, 0x2, 1, 1, 1, 0x3, 0x7, 0xe, 0x1e, 0xfc, 0xf0, 0, 0],
    [0, 1, 0x3, 0x6, 0x4, 0x8, 0x8, 0x8, 0x8, 0x8, 0x4, 0x6, 0x3, 1, 0, 0],
    [0, 0, 0, 0x80, 0x80, 0x40, 0x40, 0x40, 0x40, 0x40, 0x80, 0, 0, 0, 0, 0],
    [0, 0xfc, 0xff, 0x3, 0, 0, 0, 0, 0, 0, 0, 0x3, 0xfe, 0xf8, 0, 0],
    [0, 1, 0x3, 0x7, 0xc, 0x8, 0x8, 0x8, 0x8, 0x4, 0x6, 0xe1, 0x7f, 0x1f, 0, 0],
    [0, 0, 0x7, 0x7, 0x8, 0x8, 0x8, 0x8, 0xc, 0x6, 0x3, 1, 0, 0, 0, 0],
    [0, 0, 0, 0, 0, 0, 0, 0, 0, 0, 0, 0, 0, 0, 0, 0],
    [0, 0, 0, 0, 0, 0, 0xc0, 0xe0, 0xe0, 0xc0, 0, 0, 0, 0, 0, 0],
    [0, 0, 0, 0, 0, 0, 0, 1, 1, 0, 0, 0, 0, 0, 0, 0],
    [0, 0, 0, 0, 0, 0, 0x6, 0xf, 0xf, 0x6, 0, 0, 0, 0, 0, 0],
    [0, 0, 0, 0, 0, 0, 0, 0, 0, 0, 0, 0, 0, 0, 0, 0],
    [0, 0, 0, 0, 0, 0, 0xc0, 0xc0, 0xc0, 0, 0, 0, 0, 0, 0, 0],
    [0, 0, 0, 0, 0, 0, 1, 1, 1, 0, 0, 0, 0, 0, 0, 0],
    [0, 0, 0, 0, 0, 0, 0x6e, 0x7e, 0x1e, 0, 0, 0, 0, 0, 0, 0],
    [0, 0, 0, 0, 0, 0, 0, 0, 0, 0, 0, 0, 0x80, 0x40, 0, 0],
    [0, 0, 0, 0, 0x80, 0x40, 0x20, 0x10, 0x8, 0x4, 0x2, 1, 0, 0, 0, 0],
    [0, 0, 0, 0x3, 0x4, 0x8, 0x10, 0x20, 0x40, 0x80, 0, 0, 0, 0, 0, 0],
    [0, 0, 0, 0, 0, 0, 0, 0, 0, 0, 1, 0x2, 0x4, 0x8, 0, 0],
    [0, 0, 0, 0, 0, 0, 0, 0, 0, 0, 0, 0, 0, 0, 0, 0],
    [0, 0x20, 0x20, 0x20, 0x20, 0x20, 0x20, 0x20, 0x20, 0x20, 0x20, 0x20, 0x20, 0x20, 0x20, 0],
    [0, 0x8, 0x8, 0x8, 0x8, 0x8, 0x8, 0x8, 0x8, 0x8, 0x8, 0x8, 0x8, 0x8, 0x8, 0],
    [0, 0, 0, 0, 0, 0, 0, 0, 0, 0, 0, 0, 0, 0, 0, 0],
    [0, 0, 0x40, 0x80, 0, 0, 0, 0, 0, 0, 0, 0, 0, 0, 0, 0],
    [0, 0, 0, 0, 1, 0x2, 0x4, 0x8, 0x10, 0x20, 0x40, 0x80, 0, 0, 0, 0],
    [0, 0, 0, 0, 0, 0, 0x80, 0x40, 0x20, 0x10, 0x8, 0x4, 0x3, 0, 0, 0],
    [0, 0, 0x8, 0x4, 0x2, 1, 0, 0, 0, 0, 0, 0, 0, 0, 0, 0],
    [0, 0, 0, 0, 0x80, 0x80, 0x40, 0x40, 0x40, 0x40, 0x40, 0x80, 0x80, 0, 0, 0],
    [0, 0, 0x3c, 0x3f, 0x39, 0, 0, 0, 0, 0, 0, 0x80, 0xc1, 0x7f, 0x3e, 0],
    [0, 0, 0, 0, 0, 0, 0, 0, 0x3e, 0x3, 1, 1, 0, 0, 0, 0],
    [0, 0, 0, 0, 0, 0, 0x6, 0xf, 0xf, 0x6, 0, 0, 0, 0, 0, 0],
    [0, 0, 0, 0, 0, 0x80, 0xc0, 0x40, 0x40, 0x40, 0x40, 0x80, 0, 0, 0, 0],
    [0, 0xe0, 0xfc, 0xe, 0x3, 0x81, 0xe0, 0x78, 0xc, 0x4, 0xf8, 0x3c, 1, 0x6, 0xf8, 0],
    [0, 0x1f, 0xff, 0xc0, 0, 0x3f, 0x7f, 0x40, 0x20, 0x3c, 0x7f, 0x40, 0x20, 0x18, 0x87, 0],
    [0, 0, 0, 0x3, 0x6, 0x4, 0x8, 0x8, 0x8, 0x8, 0x8, 0x4, 0x6, 0x3, 0, 0],
    [0, 0, 0, 0, 0, 0, 0xc0, 0xc0, 0xc0, 0, 0, 0, 0, 0, 0, 0],
    [0, 0, 0, 0, 0xc0, 0x7c, 0x3, 0x3, 0x3f, 0xfc, 0x80, 0, 0, 0, 0, 0],
    [0, 0, 0x80, 0x7c, 0xf, 0x8, 0x8, 0x8, 0x8, 0xb, 0x7f, 0xf8, 0x80, 0, 0, 0],
    [0x8, 0xc, 0xf, 0x8, 0x8, 0, 0, 0, 0, 0, 0x8, 0xf, 0xf, 0xc, 0x8, 0],
    [0, 0x40, 0x40, 0xc0, 0xc0, 0x40, 0x40, 0x40, 0x40, 0x40, 0xc0, 0x80, 0x80, 0, 0, 0],
    [0, 0, 0, 0xff, 0xff, 0, 0, 0, 0, 0, 0x80, 0xc1, 0x7f, 0x3e, 0, 0],
    [0, 0, 0, 0xff, 0xff, 1, 1, 1, 1, 1, 1, 0x2, 0x6, 0xfc, 0xf0, 0],
    [0, 0x8, 0x8, 0xf, 0xf, 0x8, 0x8, 0x8, 0x8, 0x8, 0x8, 0xc, 0x6, 0x3, 1, 0],
    [0, 0, 0, 0, 0, 0x80, 0xc0, 0x40, 0x40, 0x40, 0x40, 0x80, 0x80, 0x80, 0, 0],
    [0, 0xe0, 0xfc, 0x1e, 0x3, 0, 0, 0, 0, 0, 0, 0, 1, 0x3, 0xe, 0],
    [0, 0x3f, 0xff, 0xc0, 0, 0, 0, 0, 0, 0, 0, 0, 0, 0, 0xc0, 0],
    [0, 0, 0, 0x3, 0x6, 0x4, 0x8, 0x8, 0x8, 0x8, 0x8, 0x4, 0x2, 1, 0, 0],
    [0, 0x40, 0x40, 0xc0, 0xc0, 0x40, 0x40, 0x40, 0x40, 0xc0, 0x80, 0x80, 0, 0, 0, 0],
    [0, 0, 0, 0xff, 0xff, 0, 0, 0, 0, 0, 0, 1, 0xf, 0xfc, 0xf0, 0],
    [0, 0, 0, 0xff, 0xff, 0, 0, 0, 0, 0, 0, 0, 0xc0, 0xff, 0x1f, 0],
    [0, 0x8, 0x8, 0xf, 0xf, 0x8, 0x8, 0x8, 0x8, 0xc, 0x4, 0x3, 0x3, 0, 0, 0],
    [0, 0x40, 0x40, 0xc0, 0xc0, 0x40, 0x40, 0x40, 0x40, 0x40, 0x40, 0x40, 0xc0, 0xc0, 0, 0],
    [0, 0, 0, 0xff, 0xff, 0, 0, 0, 0, 0, 0x80, 0xe0, 0, 1, 0x6, 0],
    [0, 0, 0, 0xff, 0xff, 1, 1, 1, 1, 1, 0x3, 0xf, 0, 0, 0x80, 0],
    [0, 0x8, 0x8, 0xf, 0xf, 0x8, 0x8, 0x8, 0x8, 0x8, 0x8, 0x8, 0xc, 0xe, 1, 0],
    [0, 0x40, 0x40, 0xc0, 0xc0, 0x40, 0x40, 0x40, 0x40, 0x40, 0x40, 0xc0, 0xc0, 0xc0, 0, 0],
    [0, 0, 0, 0xff, 0xff, 0, 0, 0, 0, 0, 0x80, 0xe0, 0, 1, 0x6, 0],
    [0, 0, 0, 0xff, 0xff, 1, 1, 1, 1, 1, 0x3, 0x1f, 0, 0, 0, 0],
    [0, 0x8, 0x8, 0xf, 0xf, 0x8, 0x8, 0, 0, 0, 0, 0, 0, 0, 0, 0],
    [0, 0, 0, 0, 0x80, 0x80, 0x40, 0x40, 0x40, 0x40, 0x80, 0x80, 0, 0, 0, 0],
    [0, 0xe0, 0xfc, 0xe, 0x3, 0, 0, 0, 0, 0, 0, 0x3, 0xe, 0, 0, 0],
    [0, 0x1f, 0xff, 0xc0, 0, 0, 0, 0, 0, 0x4, 0x4, 0xfc, 0xfc, 0x4, 0x4, 0],
    [0, 0, 0, 0x3, 0x6, 0xc, 0x8, 0x8, 0x8, 0x8, 0x4, 0x3, 0x3, 0, 0, 0],
    [0x40, 0x40, 0xc0, 0xc0, 0x40, 0x40, 0, 0, 0, 0, 0x40, 0x40, 0xc0, 0xc0, 0x40, 0x40],
    [0, 0, 0xff, 0xff, 0, 0, 0, 0, 0, 0, 0, 0, 0xff, 0xff, 0, 0],
    [0, 0, 0xff, 0xff, 1, 1, 1, 1, 1, 1, 1, 1, 0xff, 0xff, 0, 0],
    [0x8, 0x8, 0xf, 0xf, 0x8, 0x8, 0, 0, 0, 0, 0x8, 0x8, 0xf, 0xf, 0x8, 0x8],
    [0, 0, 0, 0x40, 0x40, 0x40, 0x40, 0xc0, 0xc0, 0x40, 0x40, 0x40, 0x40, 0, 0, 0],
    [0, 0, 0, 0, 0, 0, 0, 0xff, 0xff, 0, 0, 0, 0, 0, 0, 0],
    [0, 0, 0, 0, 0, 0, 0, 0xff, 0xff, 0, 0, 0, 0, 0, 0, 0],
    [0, 0, 0, 0x8, 0x8, 0x8, 0x8, 0xf, 0xf, 0x8, 0x8, 0x8, 0x8, 0, 0, 0],
    [0, 0, 0, 0, 0, 0x40, 0x40, 0x40, 0x40, 0xc0, 0xc0, 0x40, 0x40, 0x40, 0x40, 0],
    [0, 0, 0, 0, 0, 0, 0, 0, 0, 0xff, 0xff, 0, 0, 0, 0, 0],
    [0, 0, 0, 0, 0, 0, 0, 0, 0, 0xff, 0xff, 0, 0, 0, 0, 0],
    [0, 0x70, 0xf0, 0xf0, 0x80, 0x80, 0x80, 0xc0, 0x60, 0x3f, 0x1f, 0, 0, 0, 0, 0],
    [0, 0x40, 0x40, 0xc0, 0xc0, 0x40, 0x40, 0, 0, 0x40, 0xc0, 0xc0, 0x40, 0x40, 0, 0],
    [0, 0, 0, 0xff, 0xff, 0, 0x80, 0xe0, 0x18, 0x6, 0x3, 0, 0, 0, 0, 0],
    [0, 0, 0, 0xff, 0xff, 0x3, 0, 0x3, 0xf, 0x3c, 0xf0, 0xc0, 0, 0, 0, 0],
    [0, 0x8, 0x8, 0xf, 0xf, 0x8, 0x8, 0, 0, 0, 0x9, 0xf, 0xe, 0x8, 0x8, 0],
    [0, 0x40, 0x40, 0xc0, 0xc0, 0x40, 0x40, 0, 0, 0, 0, 0, 0, 0, 0, 0],
    [0, 0, 0, 0xff, 0xff, 0, 0, 0, 0, 0, 0, 0, 0, 0, 0, 0],
    [0, 0, 0, 0xff, 0xff, 0, 0, 0, 0, 0, 0, 0, 0, 0, 0x80, 0],
    [0, 0x8, 0x8, 0xf, 0xf, 0x8, 0x8, 0x8, 0x8, 0x8, 0x8, 0x8, 0xc, 0xe, 1, 0],
    [0x40, 0x40, 0xc0, 0xc0, 0x80, 0, 0, 0, 0, 0, 0, 0x80, 0xc0, 0xc0, 0x40, 0x40],
    [0, 0, 0xff, 0xf, 0xff, 0xf0, 0, 0, 0, 0x80, 0x78, 0x7, 0xff, 0xff, 0, 0],
    [0, 0, 0xff, 0, 1, 0x1f, 0xfe, 0xc0, 0xf0, 0xf, 0, 0, 0xff, 0xff, 0, 0],
    [0x8, 0x8, 0xf, 0x8, 0, 0, 0x3, 0xf, 0, 0, 0x8, 0x8, 0xf, 0xf, 0x8, 0x8],
    [0x40, 0x40, 0xc0, 0xc0, 0x80, 0, 0, 0, 0, 0, 0, 0x40, 0x40, 0xc0, 0x40, 0x40],
    [0, 0, 0xff, 1, 0x7, 0x1e, 0x78, 0xe0, 0x80, 0, 0, 0, 0, 0xff, 0, 0],
    [0, 0, 0xff, 0, 0, 0, 0, 1, 0x7, 0x1e, 0x78, 0xe0, 0x80, 0xff, 0, 0],
    [0x8, 0x8, 0xf, 0x8, 0x8, 0, 0, 0, 0, 0, 0, 1, 0x7, 0xf, 0, 0],
    [0, 0, 0, 0, 0x80, 0x80, 0x40, 0x40, 0x40, 0x40, 0x80, 0x80, 0, 0, 0, 0],
    [0, 0xf0, 0xfc, 0xf, 1, 0, 0, 0, 0, 0, 0, 1, 0xf, 0xfc, 0xe0, 0],
    [0, 0x1f, 0xff, 0xc0, 0, 0, 0, 0, 0, 0, 0, 0, 0xc0, 0xff, 0x3f, 0],
    [0, 0, 0, 0x3, 0x6, 0x4, 0x8, 0x8, 0x8, 0x8, 0x4, 0x6, 0x3, 0, 0, 0],
    [0, 0x40, 0x40, 0xc0, 0xc0, 0x40, 0x40, 0x40, 0x40, 0x40, 0x40, 0xc0, 0x80, 0, 0, 0],
    [0, 0, 0, 0xff, 0xff, 0, 0, 0, 0, 0, 0, 0, 0x81, 0xff, 0x7e, 0],
    [0, 0, 0, 0xff, 0xff, 0x2, 0x2, 0x2, 0x2, 0x2, 0x2, 1, 1, 0, 0, 0],
    [0, 0x8, 0x8, 0xf, 0xf, 0x8, 0x8, 0, 0, 0, 0, 0, 0, 0, 0, 0],
    [0, 0, 0, 0, 0x80, 0x80, 0x40, 0x40, 0x40, 0x40, 0x80, 0x80, 0, 0, 0, 0],
    [0, 0xf0, 0xfc, 0xf, 1, 0, 0, 0, 0, 0, 0, 1, 0xf, 0xfc, 0xf0, 0],
    [0, 0x3f, 0xff, 0x80, 0x80, 0x40, 0x40, 0x40, 0xc0, 0x80, 0, 0, 0x80, 0xff, 0x3f, 0],
    [0, 0, 1, 0x3, 0x7, 0x4, 0x8, 0x8, 0x8, 0xf, 0x3f, 0x76, 0x63, 0x61, 0x10, 0],
    [0, 0x40, 0x40, 0xc0, 0xc0, 0x40, 0x40, 0x40, 0x40, 0x40, 0xc0, 0x80, 0x80, 0, 0, 0],
    [0, 0, 0, 0xff, 0xff, 0, 0, 0, 0, 0, 0x80, 0xc1, 0x7f, 0x3e, 0, 0],
    [0, 0, 0, 0xff, 0xff, 1, 1, 1, 0x7, 0x3f, 0xf9, 0xc0, 0, 0, 0, 0],
    [0, 0x8, 0x8, 0xf, 0xf, 0x8, 0x8, 0, 0, 0, 1, 0xf, 0xe, 0x8, 0x8, 0],
    [0, 0, 0, 0x80, 0xc0, 0x40, 0x40, 0x40, 0x40, 0xc0, 0x80, 0x80, 0xc0, 0, 0, 0],
    [0, 0x3e, 0x7f, 0xe1, 0xc0, 0xc0, 0x80, 0x80, 0, 0, 0, 0x3, 0xf, 0, 0, 0],
    [0, 0xe0, 0x80, 0, 0, 1, 1, 0x3, 0x3, 0x7, 0x6, 0x1e, 0xfc, 0xf0, 0, 0],
    [0, 0, 0xf, 0x6, 0x4, 0x8, 0x8, 0x8, 0x8, 0x8, 0xc, 0x6, 0x3, 1, 0, 0],
    [0, 0, 0xc0, 0xc0, 0x40, 0x40, 0x40, 0xc0, 0xc0, 0x40, 0x40, 0x40, 0x40, 0xc0, 0, 0],
    [0, 0x6, 1, 0, 0, 0, 0, 0xff, 0xff, 0, 0, 0, 0, 1, 0x7, 0],
    [0, 0, 0, 0, 0, 0, 0, 0xff, 0xff, 0, 0, 0, 0, 0, 0, 0],
    [0, 0, 0, 0, 0, 0x8, 0x8, 0xf, 0xf, 0x8, 0x8, 0, 0, 0, 0, 0],
    [0x40, 0x40, 0xc0, 0xc0, 0x40, 0x40, 0, 0, 0, 0, 0x40, 0x40, 0xc0, 0x40, 0x40, 0],
    [0, 0, 0xff, 0xff, 0, 0, 0, 0, 0, 0, 0, 0, 0xff, 0, 0, 0],
    [0, 0, 0xff, 0xff, 0, 0, 0, 0, 0, 0, 0, 0, 0xff, 0, 0, 0],
    [0, 0, 1, 0x7, 0x6, 0xc, 0x8, 0x8, 0x8, 0x8, 0x4, 0x2, 1, 0, 0, 0],
    [0, 0x40, 0x40, 0xc0, 0xc0, 0x40, 0, 0, 0, 0, 0, 0x40, 0xc0, 0xc0, 0x40, 0],
    [0, 0, 0, 0x7, 0xff, 0xf8, 0, 0, 0, 0, 0x80, 0x78, 0x7, 0, 0, 0],
    [0, 0, 0, 0, 0, 0xf, 0xff, 0xf0, 0x80, 0x78, 0x7, 0, 0, 0, 0, 0],
    [0, 0, 0, 0, 0, 0, 0, 0xf, 0x3, 0, 0, 0, 0, 0, 0, 0],
    [0x40, 0xc0, 0xc0, 0x40, 0, 0, 0x40, 0xc0, 0xc0, 0x40, 0, 0, 0x40, 0xc0, 0xc0, 0x40],
    [0, 1, 0xff, 0xf8, 0, 0, 0, 0xf3, 0xff, 0xf8, 0, 0, 0xc0, 0x3f, 0, 0],
    [0, 0, 0, 0x3f, 0xfc, 0xe0, 0x1e, 1, 1, 0xff, 0xfc, 0xf0, 0xf, 0, 0, 0],
    [0, 0, 0, 0, 0xf, 0x3, 0, 0, 0, 0, 0xf, 1, 0, 0, 0, 0],
    [0, 0x40, 0x40, 0xc0, 0xc0, 0x40, 0, 0, 0, 0, 0x40, 0x40, 0xc0, 0x40, 0x40, 0],
    [0, 0, 0, 1, 0x7, 0x1e, 0x78, 0xe0, 0xc0, 0x30, 0xc, 0x3, 0, 0, 0, 0],
    [0, 0, 0, 0, 0x80, 0x60, 0x18, 0x7, 0xf, 0x7c, 0xf0, 0xc0, 0, 0, 0, 0],
    [0, 0x8, 0x8, 0xe, 0xb, 0x8, 0, 0, 0, 0, 0x9, 0xf, 0xe, 0xc, 0x8, 0],
    [0, 0x40, 0xc0, 0xc0, 0xc0, 0x40, 0x40, 0, 0, 0, 0x40, 0x40, 0xc0, 0x40, 0x40, 0],
    [0, 0, 0, 0x3, 0x1f, 0x7c, 0xe0, 0x80, 0, 0x80, 0x70, 0xe, 1, 0, 0, 0],
    [0, 0, 0, 0, 0, 0, 0x3, 0xff, 0xfe, 1, 0, 0, 0, 0, 0, 0],
    [0, 0, 0, 0, 0, 0x8, 0x8, 0xf, 0xf, 0x8, 0x8, 0, 0, 0, 0, 0],
    [0, 0, 0, 0xc0, 0xc0, 0xc0, 0x40, 0x40, 0x40, 0x40, 0x40, 0x40, 0xc0, 0xc0, 0x40, 0],
    [0, 0, 0x6, 0x3, 1, 0, 0, 0, 0xc0, 0xf0, 0x38, 0xe, 0x7, 1, 0, 0],
    [0, 0, 0, 0x80, 0xc0, 0x70, 0x3c, 0xf, 0x3, 0, 0, 0, 0, 0, 0x80, 0],
    [0, 0x8, 0xe, 0xf, 0x9, 0x8, 0x8, 0x8, 0x8, 0x8, 0x8, 0xc, 0xc, 0xf, 1, 0],
    [0, 0, 0, 0, 0, 0, 0xf8, 0xf8, 0x8, 0x8, 0x8, 0x8, 0x8, 0x8, 0, 0],
    [0, 0, 0, 0, 0, 0, 0xff, 0xff, 0, 0, 0, 0, 0, 0, 0, 0],
    [0, 0, 0, 0, 0, 0, 0xff, 0xff, 0, 0, 0, 0, 0, 0, 0, 0],
    [0, 0, 0, 0, 0, 0, 0x3f, 0x3f, 0x20, 0x20, 0x20, 0x20, 0x20, 0x20, 0, 0],
    [0, 0, 0, 0x60, 0xe0, 0, 0, 0, 0, 0, 0, 0, 0, 0, 0, 0],
    [0, 0, 0, 0, 1, 0xf, 0x3c, 0xe0, 0x80, 0, 0, 0, 0, 0, 0, 0],
    [0, 0, 0, 0, 0, 0, 0, 1, 0x7, 0x3c, 0xf0, 0xc0, 0, 0, 0, 0],
    [0, 0, 0, 0, 0, 0, 0, 0, 0, 0, 1, 0x7, 0x3e, 0x78, 0x40, 0],
    [0, 0, 0x8, 0x8, 0x8, 0x8, 0x8, 0x8, 0xf8, 0xf8, 0, 0, 0, 0, 0, 0],
    [0, 0, 0, 0, 0, 0, 0, 0, 0xff, 0xff, 0, 0, 0, 0, 0, 0],
    [0, 0, 0, 0, 0, 0, 0, 0, 0xff, 0xff, 0, 0, 0, 0, 0, 0],
    [0, 0, 0x20, 0x20, 0x20, 0x20, 0x20, 0x20, 0x3f, 0x3f, 0, 0, 0, 0, 0, 0],
    [0, 0, 0, 0, 0x20, 0x10, 0x1c, 0xc, 0xc, 0xc, 0x18, 0x20, 0, 0, 0, 0],
    [0, 0, 0, 0, 0, 0, 0, 0, 0, 0, 0, 0, 0, 0, 0, 0],
    [0, 0, 0, 0, 0, 0, 0, 0, 0, 0, 0, 0, 0, 0, 0, 0],
    [0, 0, 0, 0, 0, 0, 0, 0, 0, 0, 0, 0, 0, 0, 0, 0],
    [0, 0, 0, 0, 0, 0, 0, 0, 0, 0, 0, 0, 0, 0, 0, 0],
    [0, 0, 0, 0, 0, 0, 0, 0, 0, 0, 0, 0, 0, 0, 0, 0],
    [0, 0, 0, 0, 0, 0, 0, 0, 0, 0, 0, 0, 0, 0, 0, 0],
    [0x80, 0x80, 0x80, 0x80, 0x80, 0x80, 0x80, 0x80, 0x80, 0x80, 0x80, 0x80, 0x80, 0x80, 0x80, 0x80],
    [0, 0, 0, 0x4, 0x4, 0x4, 0xc, 0x8, 0x10, 0, 0, 0, 0, 0, 0, 0],
    [0, 0, 0, 0, 0, 0, 0, 0, 0, 0, 0, 0, 0, 0, 0, 0],
    [0, 0, 0, 0, 0, 0, 0, 0, 0, 0, 0, 0, 0, 0, 0, 0],
    [0, 0, 0, 0, 0, 0, 0, 0, 0, 0, 0, 0, 0, 0, 0, 0],
    [0, 0, 0, 0, 0, 0, 0, 0, 0, 0, 0, 0, 0, 0, 0, 0],
    [0, 0, 0x80, 0xc0, 0x40, 0x20, 0x20, 0x20, 0x20, 0x20, 0x60, 0xc0, 0x80, 0, 0, 0],
    [0, 0xc0, 0xe3, 0x33, 0x10, 0x18, 0x8, 0x8, 0x8, 0x8, 0x4, 0xff, 0xff, 0, 0, 0],
    [0, 0x3, 0x7, 0xc, 0x8, 0x8, 0x8, 0x8, 0x8, 0x4, 0x4, 0x7, 0xf, 0x8, 0x8, 0x6],
    [0, 0x40, 0x40, 0xc0, 0xe0, 0, 0, 0, 0, 0, 0, 0, 0, 0, 0, 0],
    [0, 0, 0, 0xff, 0xff, 0x80, 0x40, 0x20, 0x20, 0x20, 0x60, 0xc0, 0xc0, 0, 0, 0],
    [0, 0, 0, 0xff, 0xff, 1, 0, 0, 0, 0, 0, 0, 0xff, 0xff, 0, 0],
    [0, 0, 0, 0xf, 0x7, 0x6, 0x8, 0x8, 0x8, 0x8, 0xc, 0x6, 0x3, 0, 0, 0],
    [0, 0, 0, 0, 0, 0, 0, 0, 0, 0, 0, 0, 0, 0, 0, 0],
    [0, 0, 0, 0, 0xc0, 0xc0, 0x60, 0x20, 0x20, 0x20, 0x20, 0xc0, 0x80, 0, 0, 0],
    [0, 0, 0xfe, 0xff, 1, 0, 0, 0, 0, 0, 0, 0x3, 0x3, 0x80, 0, 0],
    [0, 0, 0, 0x3, 0x7, 0x4, 0x8, 0x8, 0x8, 0x8, 0x8, 0x4, 0x2, 1, 0, 0],
    [0, 0, 0, 0, 0, 0, 0, 0, 0, 0x40, 0x40, 0xc0, 0xe0, 0, 0, 0],
    [0, 0, 0, 0x80, 0xc0, 0x60, 0x20, 0x20, 0x20, 0x20, 0x40, 0xff, 0xff, 0, 0, 0],
    [0, 0, 0xfe, 0xff, 1, 0, 0, 0, 0, 0, 0, 0xff, 0xff, 0, 0, 0],
    [0, 0, 0, 0x3, 0x6, 0xc, 0x8, 0x8, 0x8, 0x4, 0x2, 0xf, 0x7, 0x4, 0x4, 0],
    [0, 0, 0, 0, 0, 0, 0, 0, 0, 0, 0, 0, 0, 0, 0, 0],
    [0, 0, 0, 0, 0xc0, 0x40, 0x20, 0x20, 0x20, 0x20, 0x40, 0xc0, 0x80, 0, 0, 0],
    [0, 0, 0xfe, 0xff, 0x11, 0x10, 0x10, 0x10, 0x10, 0x10, 0x10, 0x10, 0x1f, 0x1e, 0, 0],
    [0, 0, 0, 0x3, 0x7, 0x4, 0xc, 0x8, 0x8, 0x8, 0x8, 0x4, 0x6, 1, 0, 0],
    [0, 0, 0, 0, 0, 0, 0, 0x80, 0x80, 0x40, 0x40, 0x40, 0x40, 0xc0, 0x80, 0],
    [0, 0, 0x20, 0x20, 0x20, 0x20, 0xfe, 0xff, 0x20, 0x20, 0x20, 0x20, 0x20, 0x3, 0x3, 0],
    [0, 0, 0, 0, 0, 0, 0xff, 0xff, 0, 0, 0, 0, 0, 0, 0, 0],
    [0, 0, 0, 0x8, 0x8, 0x8, 0xf, 0xf, 0x8, 0x8, 0x8, 0x8, 0, 0, 0, 0],
    [0, 0, 0, 0, 0, 0, 0, 0, 0, 0, 0, 0, 0, 0, 0, 0],
    [0, 0, 0, 0, 0xc0, 0x40, 0x20, 0x20, 0x20, 0x20, 0x60, 0xc0, 0xa0, 0x60, 0x60, 0],
    [0, 0, 0, 0xc7, 0xff, 0x30, 0x20, 0x20, 0x20, 0x20, 0x30, 0x1f, 0xf, 0, 0, 0],
    [0, 0, 0x38, 0x7d, 0x47, 0x83, 0x83, 0x83, 0x83, 0x83, 0x82, 0x46, 0x7e, 0x3c, 0, 0],
    [0, 0x40, 0x40, 0xc0, 0xe0, 0, 0, 0, 0, 0, 0, 0, 0, 0, 0, 0],
    [0, 0, 0, 0xff, 0xff, 0x80, 0x40, 0x20, 0x20, 0x20, 0x60, 0xc0, 0x80, 0, 0, 0],
    [0, 0, 0, 0xff, 0xff, 0, 0, 0, 0, 0, 0, 0xff, 0xff, 0, 0, 0],
    [0, 0x8, 0x8, 0xf, 0xf, 0x8, 0x8, 0, 0, 0x8, 0x8, 0xf, 0xf, 0x8, 0x8, 0],
    [0, 0, 0, 0, 0, 0, 0x80, 0xc0, 0xc0, 0x80, 0, 0, 0, 0, 0, 0],
    [0, 0, 0, 0x20, 0x20, 0x20, 0x20, 0xe1, 0xf1, 0, 0, 0, 0, 0, 0, 0],
    [0, 0, 0, 0, 0, 0, 0, 0xff, 0xff, 0, 0, 0, 0, 0, 0, 0],
    [0, 0, 0, 0x8, 0x8, 0x8, 0x8, 0xf, 0xf, 0x8, 0x8, 0x8, 0x8, 0, 0, 0],
    [0, 0, 0, 0, 0, 0, 0, 0, 0, 0x80, 0xc0, 0xc0, 0xc0, 0, 0, 0],
    [0, 0, 0, 0, 0, 0, 0x20, 0x20, 0x20, 0x20, 0xe1, 0xf1, 0, 0, 0, 0],
    [0, 0, 0, 0, 0, 0, 0, 0, 0, 0, 0xff, 0xff, 0, 0, 0, 0],
    [0, 0, 0, 0x60, 0xe0, 0x80, 0x80, 0x80, 0x80, 0x60, 0x3f, 0x1f, 0, 0, 0, 0],
    [0, 0x40, 0x40, 0xc0, 0xe0, 0, 0, 0, 0, 0, 0, 0, 0, 0, 0, 0],
    [0, 0, 0, 0xff, 0xff, 0, 0, 0, 0, 0x20, 0xe0, 0x60, 0x20, 0x20, 0, 0],
    [0, 0, 0, 0xff, 0xff, 0x30, 0x18, 0xc, 0x3e, 0x71, 0xc0, 0x80, 0, 0, 0, 0],
    [0, 0x8, 0x8, 0xf, 0xf, 0x8, 0x8, 0, 0, 0, 0x9, 0xf, 0xe, 0xc, 0x8, 0],
    [0, 0, 0, 0x40, 0x40, 0x40, 0x40, 0xc0, 0xe0, 0, 0, 0, 0, 0, 0, 0],
    [0, 0, 0, 0, 0, 0, 0, 0xff, 0xff, 0, 0, 0, 0, 0, 0, 0],
    [0, 0, 0, 0, 0, 0, 0, 0xff, 0xff, 0, 0, 0, 0, 0, 0, 0],
    [0, 0, 0, 0x8, 0x8, 0x8, 0x8, 0xf, 0xf, 0x8, 0x8, 0x8, 0x8, 0, 0, 0],
    [0, 0, 0, 0, 0, 0, 0, 0, 0, 0, 0, 0, 0, 0, 0, 0],
    [0x20, 0xe0, 0xf0, 0x40, 0x20, 0x20, 0x20, 0xe0, 0xc0, 0x40, 0x20, 0x20, 0x20, 0xe0, 0xc0, 0],
    [0, 0xff, 0xff, 0, 0, 0, 0, 0xff, 0xff, 0, 0, 0, 0, 0xff, 0xff, 0],
    [0x8, 0xf, 0xf, 0x8, 0, 0, 0x8, 0xf, 0xf, 0x8, 0, 0, 0x8, 0xf, 0xf, 0x8],
    [0, 0, 0, 0, 0, 0, 0, 0, 0, 0, 0, 0, 0, 0, 0, 0],
    [0, 0x40, 0x40, 0xc0, 0xe0, 0x80, 0x40, 0x20, 0x20, 0x20, 0x60, 0xc0, 0x80, 0, 0, 0],
    [0, 0, 0, 0xff, 0xff, 0, 0, 0, 0, 0, 0, 0xff, 0xff, 0, 0, 0],
    [0, 0x8, 0x8, 0xf, 0xf, 0x8, 0x8, 0, 0, 0x8, 0x8, 0xf, 0xf, 0x8, 0x8, 0],
    [0, 0, 0, 0, 0, 0, 0, 0, 0, 0, 0, 0, 0, 0, 0, 0],
    [0, 0, 0, 0, 0xc0, 0x40, 0x20, 0x20, 0x20, 0x20, 0x40, 0xc0, 0x80, 0, 0, 0],
    [0, 0, 0xfc, 0xff, 1, 0, 0, 0, 0, 0, 0, 1, 0xff, 0xfe, 0, 0],
    [0, 0, 0, 0x3, 0x7, 0x4, 0x8, 0x8, 0x8, 0x8, 0x4, 0x7, 0x3, 0, 0, 0],
    [0, 0, 0, 0, 0, 0, 0, 0, 0, 0, 0, 0, 0, 0, 0, 0],
    [0, 0x40, 0x40, 0xc0, 0xe0, 0x80, 0x40, 0x20, 0x20, 0x20, 0x60, 0xc0, 0x80, 0, 0, 0],
    [0, 0, 0, 0xff, 0xff, 0, 0, 0, 0, 0, 0, 0, 0xff, 0xfe, 0, 0],
    [0, 0x80, 0x80, 0xff, 0xff, 0x86, 0x84, 0x8, 0x8, 0x8, 0xc, 0x7, 0x3, 0, 0, 0],
    [0, 0, 0, 0, 0, 0, 0, 0, 0, 0, 0, 0, 0, 0, 0, 0],
    [0, 0, 0, 0x80, 0xc0, 0x40, 0x20, 0x20, 0x20, 0x60, 0xc0, 0xc0, 0xe0, 0, 0, 0],
    [0, 0, 0xfe, 0xff, 1, 0, 0, 0, 0, 0, 0, 0xff, 0xff, 0, 0, 0],
    [0, 0, 0, 0x3, 0x6, 0xc, 0x8, 0x8, 0x8, 0x84, 0x86, 0xff, 0xff, 0x80, 0x80, 0],
    [0, 0, 0, 0, 0, 0, 0, 0, 0, 0, 0, 0, 0, 0, 0, 0],
    [0, 0x40, 0x40, 0x40, 0x40, 0xe0, 0xe0, 0, 0x80, 0x40, 0x40, 0x20, 0x20, 0xe0, 0xc0, 0],
    [0, 0, 0, 0, 0, 0xff, 0xff, 0x3, 1, 0, 0, 0, 0, 0, 0, 0],
    [0, 0x8, 0x8, 0x8, 0x8, 0xf, 0xf, 0x8, 0x8, 0x8, 0x8, 0, 0, 0, 0, 0],
    [0, 0, 0, 0, 0, 0, 0, 0, 0, 0, 0, 0, 0, 0, 0, 0],
    [0, 0, 0, 0, 0x80, 0xc0, 0x60, 0x20, 0x20, 0x20, 0x20, 0x40, 0xc0, 0xe0, 0, 0],
    [0, 0, 0, 0x80, 0x7, 0xf, 0xc, 0x18, 0x18, 0x38, 0x30, 0x70, 0xe0, 0xc3, 0, 0],
    [0, 0, 0, 0xf, 0x6, 0x4, 0x8, 0x8, 0x8, 0x8, 0x8, 0xc, 0x7, 0x3, 0, 0],
    [0, 0, 0, 0, 0, 0, 0, 0, 0, 0, 0, 0, 0, 0, 0, 0],
    [0, 0, 0x20, 0x20, 0x20, 0x30, 0xf8, 0xff, 0x20, 0x20, 0x20, 0x20, 0x20, 0, 0, 0],
    [0, 0, 0, 0, 0, 0, 0xff, 0xff, 0, 0, 0, 0, 0, 0, 0, 0],
    [0, 0, 0, 0, 0, 0, 0x3, 0x7, 0xc, 0x8, 0x8, 0x8, 0x4, 0x3, 0, 0],
    [0, 0, 0, 0, 0, 0, 0, 0, 0, 0, 0, 0, 0, 0, 0, 0],
    [0, 0x20, 0x20, 0xe0, 0xf0, 0, 0, 0, 0, 0x20, 0x20, 0xe0, 0xf0, 0, 0, 0],
    [0, 0, 0, 0xff, 0xff, 0, 0, 0, 0, 0, 0, 0xff, 0xff, 0, 0, 0],
    [0, 0, 0, 0x3, 0x7, 0xc, 0x8, 0x8, 0x8, 0x4, 0x2, 0xf, 0x7, 0x4, 0x4, 0],
    [0, 0, 0, 0, 0, 0, 0, 0, 0, 0, 0, 0, 0, 0, 0, 0],
    [0, 0x20, 0x20, 0xe0, 0xe0, 0x20, 0, 0, 0, 0, 0x20, 0x20, 0xe0, 0x60, 0x20, 0],
    [0, 0, 0, 1, 0x7, 0x3e, 0xf0, 0xc0, 0, 0xc0, 0x38, 0x7, 1, 0, 0, 0],
    [0, 0, 0, 0, 0, 0, 1, 0xf, 0x7, 1, 0, 0, 0, 0, 0, 0],
    [0, 0, 0, 0, 0, 0, 0, 0, 0, 0, 0, 0, 0, 0, 0, 0],
    [0x20, 0x60, 0xe0, 0x20, 0x20, 0, 0x20, 0xe0, 0xe0, 0x20, 0, 0, 0x20, 0xe0, 0x60, 0x20],
    [0, 0, 0x7, 0x7f, 0xf0, 0x80, 0xf0, 0xf, 0x1f, 0xfc, 0xc0, 0xc0, 0x3c, 0x3, 0, 0],
    [0, 0, 0, 0, 0x7, 0xf, 0, 0, 0, 1, 0xf, 0x3, 0, 0, 0, 0],
    [0, 0, 0, 0, 0, 0, 0, 0, 0, 0, 0, 0, 0, 0, 0, 0],
    [0, 0, 0x20, 0x20, 0xe0, 0xe0, 0xa0, 0, 0, 0x20, 0x20, 0xe0, 0x20, 0x20, 0, 0],
    [0, 0, 0, 0, 0, 0x81, 0x47, 0x3e, 0x38, 0xe6, 0xc1, 0, 0, 0, 0, 0],
    [0, 0x8, 0x8, 0xc, 0xe, 0x9, 0, 0, 0, 0x8, 0x9, 0xf, 0xe, 0x8, 0x8, 0],
    [0, 0, 0, 0, 0, 0, 0, 0, 0, 0, 0, 0, 0, 0, 0, 0],
    [0, 0x20, 0x20, 0xe0, 0xe0, 0x20, 0, 0, 0, 0, 0x20, 0xe0, 0x60, 0x20, 0x20, 0],
    [0, 0, 0, 0, 0x3, 0x1e, 0x78, 0xc0, 0, 0xe0, 0x1c, 0x3, 0, 0, 0, 0],
    [0, 0, 0xc0, 0xc0, 0xc0, 0xc0, 0x60, 0x1f, 0x3, 0, 0, 0, 0, 0, 0, 0],
    [0, 0, 0, 0, 0, 0, 0, 0, 0, 0, 0, 0, 0, 0, 0, 0],
    [0, 0, 0xe0, 0xe0, 0x20, 0x20, 0x20, 0x20, 0x20, 0x20, 0xe0, 0xe0, 0x60, 0, 0, 0],
    [0, 0, 0x3, 0, 0x80, 0xc0, 0xf0, 0x38, 0x1e, 0x7, 0x3, 0, 0, 0x80, 0, 0],
    [0, 0, 0xc, 0xe, 0xb, 0x9, 0x8, 0x8, 0x8, 0x8, 0x8, 0xc, 0xe, 0x3, 0, 0],
    [0, 0, 0, 0, 0, 0, 0, 0, 0, 0, 0xf0, 0x8, 0x4, 0x4, 0, 0],
    [0, 0, 0, 0, 0, 0, 0, 0, 0x80, 0x80, 0x7f, 0, 0, 0, 0, 0],
    [0, 0, 0, 0, 0, 0, 0, 1, 1, 0x2, 0xfc, 0, 0, 0, 0, 0],
    [0, 0, 0, 0, 0, 0, 0, 0, 0, 0, 0x1f, 0x20, 0x40, 0x40, 0, 0],
    [0, 0, 0, 0, 0, 0, 0, 0, 0xff, 0, 0, 0, 0, 0, 0, 0],
    [0, 0, 0, 0, 0, 0, 0, 0, 0xff, 0, 0, 0, 0, 0, 0, 0],
    [0, 0, 0, 0, 0, 0, 0, 0, 0xff, 0, 0, 0, 0, 0, 0, 0],
    [0, 0, 0, 0, 0, 0, 0, 0, 0xff, 0, 0, 0, 0, 0, 0, 0],
    [0, 0, 0, 0x4, 0x4, 0x8, 0xf0, 0, 0, 0, 0, 0, 0, 0, 0, 0],
    [0, 0, 0, 0, 0, 0, 0x7f, 0x80, 0x80, 0, 0, 0, 0, 0, 0, 0],
    [0, 0, 0, 0, 0, 0, 0xfc, 0x2, 1, 1, 0, 0, 0, 0, 0, 0],
    [0, 0, 0, 0x40, 0x40, 0x20, 0x1f, 0, 0, 0, 0, 0, 0, 0, 0, 0],
    [0, 0x18, 0x4, 0x2, 0x2, 0x2, 0x6, 0xc, 0x38, 0x20, 0x60, 0x40, 0x40, 0x20, 0x18, 0],
    [0, 0, 0, 0, 0, 0, 0, 0, 0, 0, 0, 0, 0, 0, 0, 0],
    [0, 0, 0, 0, 0, 0, 0, 0, 0, 0, 0, 0, 0, 0, 0, 0],
    [0, 0, 0, 0, 0, 0, 0, 0, 0, 0, 0, 0, 0, 0, 0, 0]]"

text \<open>Rows of \<open>char [32]\<close>, of which sixteen are given: the rest is zero.\<close>

definition Hzk :: "bytes list" where
  "Hzk = map (\<lambda>r. r @ replicate (32 - length r) 0) [
    [0, 0, 0xf0, 0x10, 0x10, 0x10, 0x10, 0xff, 0x10, 0x10, 0x10, 0x10, 0xf0, 0, 0, 0],
    [0, 0, 0xf, 0x4, 0x4, 0x4, 0x4, 0xff, 0x4, 0x4, 0x4, 0x4, 0xf, 0, 0, 0],
    [0x40, 0x40, 0x40, 0x5f, 0x55, 0x55, 0x55, 0x75, 0x55, 0x55, 0x55, 0x5f, 0x40, 0x40, 0x40, 0],
    [0, 0x40, 0x20, 0xf, 0x9, 0x49, 0x89, 0x79, 0x9, 0x9, 0x9, 0xf, 0x20, 0x40, 0, 0],
    [0, 0xfe, 0x2, 0x42, 0x4a, 0xca, 0x4a, 0x4a, 0xca, 0x4a, 0x4a, 0x42, 0x2, 0xfe, 0, 0],
    [0, 0xff, 0x40, 0x50, 0x4c, 0x43, 0x40, 0x40, 0x4f, 0x50, 0x50, 0x5c, 0x40, 0xff, 0, 0],
    [0, 0, 0xf8, 0x88, 0x88, 0x88, 0x88, 0xff, 0x88, 0x88, 0x88, 0x88, 0xf8, 0, 0, 0],
    [0, 0, 0x1f, 0x8, 0x8, 0x8, 0x8, 0x7f, 0x88, 0x88, 0x88, 0x88, 0x9f, 0x80, 0xf0, 0],
    [0x80, 0x82, 0x82, 0x82, 0x82, 0x82, 0x82, 0xe2, 0xa2, 0x92, 0x8a, 0x86, 0x82, 0x80, 0x80, 0],
    [0, 0, 0, 0, 0, 0x40, 0x80, 0x7f, 0, 0, 0, 0, 0, 0, 0, 0],
    [0x24, 0x24, 0xa4, 0xfe, 0xa3, 0x22, 0, 0x22, 0xcc, 0, 0, 0xff, 0, 0, 0, 0],
    [0x8, 0x6, 1, 0xff, 0, 1, 0x4, 0x4, 0x4, 0x4, 0x4, 0xff, 0x2, 0x2, 0x2, 0],
    [0x10, 0x10, 0x10, 0xff, 0x10, 0x90, 0x8, 0x88, 0x88, 0x88, 0xff, 0x88, 0x88, 0x88, 0x8, 0],
    [0x4, 0x44, 0x82, 0x7f, 1, 0x80, 0x80, 0x40, 0x43, 0x2c, 0x10, 0x28, 0x46, 0x81, 0x80, 0]]"

lemma length_F6x8: "length F6x8 = 91"
  by (simp add: F6x8_def)

lemma F6x8_rows: "list_all (\<lambda>r. length r = 8) F6x8"
  by (simp add: F6x8_def)

lemma length_glyph: "c < 91 \<Longrightarrow> length (F6x8 ! c) = 8"
  using F6x8_rows by (simp add: list_all_length length_F6x8)

lemma length_F8X16: "length F8X16 = 1520"
  by (simp add: F8X16_def)

lemma length_F32X32: "length F32X32 = 6080"
  by (simp add: F32X32_def)

end
