(* ===== verification/Oled.thy ===== *)
theory Oled
  imports OledFont "HOL-Library.Monad_Syntax"
begin

text \<open>
  \<open>driver/oled/oled.c\<close>: the driver of the display.  It has no state of its own, it toggles
  the pins PF10 to PF14; an operation is the sequence of its accesses to the pins, in order,
  and None where C would read past the end of a glyph table.  The functions keep their names
  with a lower-case prefix, the upper-case names are the calls in the trace of the menu
  (\<open>ConfigStore\<close>).  The second part specifies what the controller at the other end of the
  wires makes of them: bytes sampled on the rising clock, and the addressing of the display
  memory by page and column.
\<close>

section \<open>The pins\<close>

datatype oled_pin = SCLK bool | SDIN bool | RST bool | DC bool | CS bool | Delay_ms nat

definition OLED_CMD :: u8 where "OLED_CMD = 0"
definition OLED_DATA :: u8 where "OLED_DATA = 1"
definition Max_Column :: u8 where "Max_Column = 128"

primrec shift_out :: "bool \<Rightarrow> nat \<Rightarrow> u8 \<Rightarrow> oled_pin list" where
  "shift_out neg 0 dat = []"
| "shift_out neg (Suc i) dat =
     [SCLK False, SDIN ((dat AND 0x80 \<noteq> 0) \<noteq> neg), SCLK True] @ shift_out neg i (push_bit 1 dat)"

definition oled_WR_Byte :: "u8 \<Rightarrow> u8 \<Rightarrow> oled_pin list" where
  "oled_WR_Byte dat cmd =
     [DC (cmd \<noteq> 0), CS False] @ shift_out False 8 dat @ [CS True, DC True]"

definition oled_WR_Byte2 :: "u8 \<Rightarrow> u8 \<Rightarrow> oled_pin list" where
  "oled_WR_Byte2 dat cmd =
     [DC (cmd \<noteq> 0), CS False] @ shift_out True 8 dat @ [CS True, DC True]"

section \<open>Addressing, switching and clearing\<close>

definition oled_Set_Pos :: "u8 \<Rightarrow> u8 \<Rightarrow> oled_pin list" where
  "oled_Set_Pos x y =
     (let x = ucast x + 2 :: 32 word in
      oled_WR_Byte (0xb0 + y) OLED_CMD @
      oled_WR_Byte (ucast (drop_bit 4 (x AND 0xf0) OR 0x10)) OLED_CMD @
      oled_WR_Byte (ucast (x AND 0x0f)) OLED_CMD)"

definition oled_Display_On :: "oled_pin list" where
  "oled_Display_On = oled_WR_Byte 0x8d OLED_CMD @ oled_WR_Byte 0x14 OLED_CMD @ oled_WR_Byte 0xaf OLED_CMD"

definition oled_Display_Off :: "oled_pin list" where
  "oled_Display_Off = oled_WR_Byte 0x8d OLED_CMD @ oled_WR_Byte 0x10 OLED_CMD @ oled_WR_Byte 0xae OLED_CMD"

definition oled_Clear_page :: "u8 \<Rightarrow> oled_pin list" where
  "oled_Clear_page i =
     oled_WR_Byte (0xb0 + i) OLED_CMD @ oled_WR_Byte 0x00 OLED_CMD @ oled_WR_Byte 0x10 OLED_CMD @
     concat (map (\<lambda>n. oled_WR_Byte 0 OLED_DATA) [0..<128])"

definition oled_Clear :: "oled_pin list" where
  "oled_Clear = concat (map (\<lambda>i. oled_Clear_page (of_nat i)) [0..<8])"

section \<open>Characters and strings\<close>

text \<open>\<open>n\<close> bytes of a table from \<open>k\<close> on, written as data; \<open>wr\<close> is the routine that writes.\<close>

definition glyph_bytes :: "bytes \<Rightarrow> nat \<Rightarrow> nat \<Rightarrow> bytes option" where
  "glyph_bytes t k n = (if k + n \<le> length t then Some (take n (drop k t)) else None)"

definition write_glyph :: "(u8 \<Rightarrow> u8 \<Rightarrow> oled_pin list) \<Rightarrow> bytes \<Rightarrow> oled_pin list" where
  "write_glyph wr g = concat (map (\<lambda>b. wr b OLED_DATA) g)"

text \<open>The pages of one glyph from \<open>y\<close> on, \<open>w\<close> columns each, from the flat table \<open>t\<close>.\<close>

fun glyph_pages :: "(u8 \<Rightarrow> u8 \<Rightarrow> oled_pin list) \<Rightarrow> bytes \<Rightarrow> nat \<Rightarrow> nat \<Rightarrow> u8 \<Rightarrow> u8 \<Rightarrow> nat \<Rightarrow> oled_pin list option" where
  "glyph_pages wr t k w x y 0 = Some []"
| "glyph_pages wr t k w x y (Suc n) =
     do { g \<leftarrow> glyph_bytes t k w;
          ps \<leftarrow> glyph_pages wr t (k + w) w x (y + 1) n;
          Some (oled_Set_Pos x y @ write_glyph wr g @ ps) }"

definition glyph_12 :: "(u8 \<Rightarrow> u8 \<Rightarrow> oled_pin list) \<Rightarrow> nat \<Rightarrow> u8 \<Rightarrow> u8 \<Rightarrow> oled_pin list option" where
  "glyph_12 wr c x y =
     (if c < length F6x8 then Some (oled_Set_Pos x (y + 1) @ write_glyph wr (take 8 (F6x8 ! c))) else None)"

definition wrap_x :: "u8 \<Rightarrow> u8 \<Rightarrow> u8 \<times> u8" where
  "wrap_x x y = (if x > Max_Column - 1 then (0, y + 2) else (x, y))"

definition oled_ShowChar :: "u8 \<Rightarrow> u8 \<Rightarrow> u8 \<Rightarrow> u8 \<Rightarrow> oled_pin list option" where
  "oled_ShowChar x y chr sz =
     (let c = unat (chr - 0x20); (x, y) = wrap_x x y in
      if sz = 16 then glyph_pages oled_WR_Byte F8X16 (c * 16) 8 x y 2
      else if sz = 12 then glyph_12 oled_WR_Byte c x y
      else if sz = 32 then glyph_pages oled_WR_Byte F32X32 (c * 64) 16 x y 4
      else Some [])"

text \<open>Inverse video; of a large glyph it takes half the columns, and with half the stride.\<close>

definition oled_ShowChar_2 :: "u8 \<Rightarrow> u8 \<Rightarrow> u8 \<Rightarrow> u8 \<Rightarrow> oled_pin list option" where
  "oled_ShowChar_2 x y chr sz =
     (let c = unat (chr - 0x20); (x, y) = wrap_x x y in
      if sz = 16 then glyph_pages oled_WR_Byte2 F8X16 (c * 16) 8 x y 2
      else if sz = 12 then glyph_12 oled_WR_Byte2 c x y
      else if sz = 32 then glyph_pages oled_WR_Byte2 F32X32 (c * 32) 8 x y 4
      else Some [])"

text \<open>\<open>m\<close> is promoted to \<open>u32\<close>; the exponent is a byte and is passed as its value.\<close>

primrec oled_pow :: "u8 \<Rightarrow> nat \<Rightarrow> u32" where
  "oled_pow m 0 = 1"
| "oled_pow m (Suc n) = oled_pow m n * ucast m"

text \<open>The next position within a string.\<close>

definition next_pos :: "u8 \<Rightarrow> u8 \<Rightarrow> u8 \<Rightarrow> u8 \<times> u8" where
  "next_pos step x y = (let x = x + step in if x > 120 then (0, y + 2) else (x, y))"

text \<open>The bytes of the string before its terminating zero.  The index \<open>j\<close> is a byte: a string
  of 256 characters or more would be written for ever, and is None.\<close>

fun show_chars :: "(u8 \<Rightarrow> u8 \<Rightarrow> u8 \<Rightarrow> u8 \<Rightarrow> oled_pin list option) \<Rightarrow> u8 \<Rightarrow> u8 \<Rightarrow> u8 \<Rightarrow> u8 \<Rightarrow> bytes \<Rightarrow> oled_pin list option" where
  "show_chars put step sz x y [] = Some []"
| "show_chars put step sz x y (c # cs) =
     do { p \<leftarrow> put x y c sz;
          ps \<leftarrow> (let (x', y') = next_pos step x y in show_chars put step sz x' y' cs);
          Some (p @ ps) }"

definition oled_ShowString :: "u8 \<Rightarrow> u8 \<Rightarrow> bytes \<Rightarrow> u8 \<Rightarrow> oled_pin list option" where
  "oled_ShowString x y s sz =
     (if length s < 256 then show_chars oled_ShowChar (if sz = 32 then 16 else 8) sz x y s else None)"

definition oled_ShowString_2 :: "u8 \<Rightarrow> u8 \<Rightarrow> bytes \<Rightarrow> u8 \<Rightarrow> oled_pin list option" where
  "oled_ShowString_2 x y s sz =
     (if length s < 256 then show_chars oled_ShowChar_2 8 sz x y s else None)"

text \<open>One position of a number: \<open>t\<close> of \<open>len\<close>.  The flag says whether a digit other than 0 has
  been shown: before that a zero is a blank, except at the last position.\<close>

definition num_char :: "u32 \<Rightarrow> nat \<Rightarrow> nat \<Rightarrow> bool \<Rightarrow> u8 \<times> bool" where
  "num_char num len t enshow =
     (let temp = ucast ((num div oled_pow 10 (len - t - 1)) mod 10) :: u8 in
      if \<not> enshow \<and> t + 1 < len
      then if temp = 0 then (0x20, enshow) else (temp + 0x30, True)
      else (temp + 0x30, enshow))"

fun show_num :: "u8 \<Rightarrow> u8 \<Rightarrow> u32 \<Rightarrow> nat \<Rightarrow> u8 \<Rightarrow> bool \<Rightarrow> nat list \<Rightarrow> oled_pin list option" where
  "show_num x y num len sz enshow [] = Some []"
| "show_num x y num len sz enshow (t # ts) =
     (let (ch, enshow') = num_char num len t enshow in
      do { p \<leftarrow> oled_ShowChar (x + (sz div 2) * of_nat t) y ch sz;
           ps \<leftarrow> show_num x y num len sz enshow' ts;
           Some (p @ ps) })"

definition oled_ShowNum :: "u8 \<Rightarrow> u8 \<Rightarrow> u32 \<Rightarrow> u8 \<Rightarrow> u8 \<Rightarrow> oled_pin list option" where
  "oled_ShowNum x y num len sz = show_num x y num (unat len) sz False [0..<unat len]"

definition oled_ShowCHinese :: "u8 \<Rightarrow> u8 \<Rightarrow> u8 \<Rightarrow> oled_pin list option" where
  "oled_ShowCHinese x y no =
     (if 2 * unat no + 1 < length Hzk
      then Some (oled_Set_Pos x y @ write_glyph oled_WR_Byte (take 16 (Hzk ! (2 * unat no))) @
                 oled_Set_Pos x (y + 1) @ write_glyph oled_WR_Byte (take 16 (Hzk ! (2 * unat no + 1))))
      else None)"

definition oled_DrawBMP :: "u8 \<Rightarrow> u8 \<Rightarrow> u8 \<Rightarrow> u8 \<Rightarrow> bytes \<Rightarrow> oled_pin list option" where
  "oled_DrawBMP x0 y0 x1 y1 bmp =
     glyph_pages oled_WR_Byte bmp 0 (unat x1 - unat x0) x0 y0 (unat y1 - unat y0)"

definition init_commands :: "u8 \<Rightarrow> bytes" where
  "init_commands brightness =
     [0xae, 0x02, 0x10, 0x40, 0x81, if brightness = 0 then 0xff else 0x0f, 0xa1, 0xc8, 0xa6, 0xa8, 0x3f,
      0xd3, 0x00, 0xd5, 0x80, 0xd9, 0xf1, 0xda, 0x12, 0xdb, 0x40, 0x20, 0x02, 0x8d, 0x14, 0xa4, 0xa6,
      0xaf, 0xaf]"

text \<open>\<open>brightness\<close> is \<open>Config_Display_Brightness_Arr[0]\<close>, and \<open>MENU_SET\<close> is 0.\<close>

definition oled_Init :: "u8 \<Rightarrow> oled_pin list" where
  "oled_Init brightness =
     [RST True, Delay_ms 100, RST False, Delay_ms 200, RST True] @
     concat (map (\<lambda>c. oled_WR_Byte c OLED_CMD) (init_commands brightness)) @
     oled_Clear @ oled_Set_Pos 0 0"

section \<open>The wire, seen from the controller\<close>

text \<open>The level of the four wires, and the bits shifted in since the chip was selected.\<close>

record wire =
  w_clk :: bool
  w_din :: bool
  w_dc :: bool
  w_cs :: bool
  w_shift :: u8
  w_bits :: nat

fun wire_step :: "oled_pin \<Rightarrow> wire \<Rightarrow> (bool \<times> u8) list \<times> wire" where
  "wire_step (SDIN b) w = ([], w\<lparr>w_din := b\<rparr>)"
| "wire_step (DC b) w = ([], w\<lparr>w_dc := b\<rparr>)"
| "wire_step (CS b) w = ([], w\<lparr>w_cs := b, w_shift := 0, w_bits := 0\<rparr>)"
| "wire_step (SCLK b) w =
     (if b \<and> \<not> w_clk w \<and> \<not> w_cs w
      then (let sh = push_bit 1 (w_shift w) OR of_bool (w_din w) in
            if w_bits w = 7 then ([(w_dc w, sh)], w\<lparr>w_clk := b, w_shift := 0, w_bits := 0\<rparr>)
            else ([], w\<lparr>w_clk := b, w_shift := sh, w_bits := Suc (w_bits w)\<rparr>))
      else ([], w\<lparr>w_clk := b\<rparr>))"
| "wire_step _ w = ([], w)"

fun receive :: "wire \<Rightarrow> oled_pin list \<Rightarrow> (bool \<times> u8) list" where
  "receive w [] = []"
| "receive w (p # ps) = (let (out, w') = wire_step p w in out @ receive w' ps)"

text \<open>\<open>ps\<close> carries the bytes \<open>ws\<close>, whatever the wires were before and whatever follows.\<close>

definition carries :: "oled_pin list \<Rightarrow> (bool \<times> u8) list \<Rightarrow> bool" where
  "carries ps ws \<longleftrightarrow> (\<forall>w rest. \<exists>w'. receive w (ps @ rest) = ws @ receive w' rest)"

lemma carries_receive: "carries ps ws \<Longrightarrow> receive w ps = ws"
  unfolding carries_def by (metis append_Nil2 receive.simps(1))

lemma carries_Nil: "carries [] []"
  by (auto simp: carries_def)

lemma carries_append: "carries ps ws \<Longrightarrow> carries qs vs \<Longrightarrow> carries (ps @ qs) (ws @ vs)"
  unfolding carries_def by (metis append.assoc)

lemma carries_concat:
  "list_all (\<lambda>x. carries (f x) (g x)) xs \<Longrightarrow> carries (concat (map f xs)) (concat (map g xs))"
  by (induction xs) (auto intro: carries_Nil carries_append)

lemma top_bit: "((x :: u8) AND 0x80 \<noteq> 0) = bit x 7"
  using and_exp_eq_0_iff_not_bit[of x 7] by simp

text \<open>A byte as it is meant, upright or inverse, and a bit shifted into a byte.\<close>

definition pol :: "bool \<Rightarrow> u8 \<Rightarrow> u8" where "pol neg b = (if neg then NOT b else b)"
definition shl :: "u8 \<Rightarrow> u8" where "shl d = push_bit 1 d"
definition shin :: "u8 \<Rightarrow> bool \<Rightarrow> u8" where "shin s b = push_bit 1 s OR of_bool b"

lemma bit_pol: "bit (pol neg b) n = (n < 8 \<and> (bit b n \<noteq> neg))"
  using bit_imp_le_length[of b n] by (auto simp: pol_def bit_simps)

lemma bit_shl: "bit (shl d) n = (0 < n \<and> n < 8 \<and> bit d (n - 1))"
  unfolding shl_def bit_push_bit_iff by (auto simp: possible_bit_def)

lemma bit_shin: "bit (shin s b) n = (if n = 0 then b else n < 8 \<and> bit s (n - 1))"
  unfolding shin_def bit_or_iff bit_push_bit_iff by (auto simp: possible_bit_def bit_simps)

lemma bit_up: "bit (push_bit m (x :: u8)) i = (m \<le> i \<and> i < 8 \<and> bit x (i - m))"
  unfolding bit_push_bit_iff by (auto simp: possible_bit_def)

lemmas byte_bits = bit_or_iff bit_up bit_drop_bit_eq o_def bit_pol bit_shin bit_shl

lemma pol_last: "shin s (bit d 7 \<noteq> neg) = push_bit (Suc 0) s OR drop_bit 7 (pol neg d)"
proof (rule bit_word_eqI)
  fix i assume "i < LENGTH(8)"
  then show "bit (shin s (bit d 7 \<noteq> neg)) i = bit (push_bit (Suc 0) s OR drop_bit 7 (pol neg d)) i"
    unfolding byte_bits by (cases i) auto
qed

lemma pol_step:
  assumes "n < 7"
  shows "push_bit (Suc n) (shin s (bit d 7 \<noteq> neg)) OR drop_bit (7 - n) (pol neg (shl d)) =
   push_bit (Suc (Suc n)) s OR drop_bit (6 - n) (pol neg d)"
proof (rule bit_word_eqI)
  fix i assume i: "i < LENGTH(8)"
  consider "i \<le> n" | "i = Suc n" | "Suc n < i" by linarith
  then show "bit (push_bit (Suc n) (shin s (bit d 7 \<noteq> neg)) OR drop_bit (7 - n) (pol neg (shl d))) i =
    bit (push_bit (Suc (Suc n)) s OR drop_bit (6 - n) (pol neg d)) i"
  proof cases
    case 1
    have "7 - n + i - 1 = 6 - n + i" using assms by auto
    then show ?thesis unfolding byte_bits using assms 1 by auto
  next
    case 2
    then show ?thesis unfolding byte_bits using assms i by auto
  next
    case 3
    then show ?thesis unfolding byte_bits using assms i by auto
  qed
qed

lemma receive_bit:
  "\<not> w_cs w \<Longrightarrow> w_bits w \<noteq> 7 \<Longrightarrow>
   receive w ([SCLK False, SDIN b, SCLK True] @ ps) =
   receive (w\<lparr>w_clk := True, w_din := b, w_shift := shin (w_shift w) b,
              w_bits := Suc (w_bits w)\<rparr>) ps"
  "\<not> w_cs w \<Longrightarrow> w_bits w = 7 \<Longrightarrow>
   receive w ([SCLK False, SDIN b, SCLK True] @ ps) =
   (w_dc w, shin (w_shift w) b) #
   receive (w\<lparr>w_clk := True, w_din := b, w_shift := 0, w_bits := 0\<rparr>) ps"
  by (cases w; simp add: Let_def shin_def)+

lemma shift_out_bit:
  "shift_out neg (Suc i) d = [SCLK False, SDIN (bit d 7 \<noteq> neg), SCLK True] @ shift_out neg i (shl d)"
  unfolding shl_def by (simp add: top_bit)

lemma receive_shift:
  "n < 8 \<Longrightarrow> w_bits w + n = 7 \<Longrightarrow> \<not> w_cs w \<Longrightarrow>
   \<exists>w'. receive w (shift_out neg (Suc n) d @ rest) =
     (w_dc w, push_bit (Suc n) (w_shift w) OR drop_bit (7 - n) (pol neg d)) # receive w' rest"
proof (induction n arbitrary: w d)
  case 0
  then show ?case 
    unfolding shift_out_bit shift_out.simps(1) append_Nil append_assoc 
    by (subst receive_bit(2)) (auto simp only: pol_last diff_zero append_Nil)
next
  case (Suc n)
  have n: "n < 7" "w_bits w \<noteq> 7" using Suc.prems by auto
  show ?case
    unfolding shift_out_bit[of neg "Suc n"] append_assoc receive_bit(1)[OF Suc.prems(3) n(2)]
    using Suc.prems
      Suc.IH[of "w\<lparr>w_clk := True, w_din := (bit d 7 \<noteq> neg), w_shift := shin (w_shift w) (bit d 7 \<noteq> neg),
       w_bits := Suc (w_bits w)\<rparr>" "shl d"]
    by (simp add: pol_step[OF n(1), simplified] del: shift_out.simps)
qed

lemma carries_shift:
  "carries ([DC (c \<noteq> 0), CS False] @ shift_out neg 8 b @ [CS True, DC True]) [(c \<noteq> 0, pol neg b)]"
  unfolding carries_def
proof (intro allI)
  fix w :: wire and rest
  let ?w = "w\<lparr>w_dc := c \<noteq> 0, w_cs := False, w_shift := 0, w_bits := 0\<rparr>"
  obtain w' where w: "receive ?w (shift_out neg 8 b @ [CS True, DC True] @ rest) =
      (c \<noteq> 0, pol neg b) # receive w' ([CS True, DC True] @ rest)"
    using receive_shift[of 7 ?w neg b "[CS True, DC True] @ rest"] by (auto simp: eval_nat_numeral)
  show "\<exists>w'. receive w (([DC (c \<noteq> 0), CS False] @ shift_out neg 8 b @ [CS True, DC True]) @ rest) =
      [(c \<noteq> 0, pol neg b)] @ receive w' rest"
    using w by (auto simp: eval_nat_numeral)
qed

lemma carries_WR_Byte: "carries (oled_WR_Byte b c) [(c \<noteq> 0, b)]"
  unfolding oled_WR_Byte_def using carries_shift[of c False b] by (simp add: pol_def)

lemma carries_WR_Byte2: "carries (oled_WR_Byte2 b c) [(c \<noteq> 0, NOT b)]"
  unfolding oled_WR_Byte2_def using carries_shift[of c True b] by (simp add: pol_def)

text \<open>Both writing routines, and what the driver's routines carry.\<close>

definition write_of :: "bool \<Rightarrow> u8 \<Rightarrow> u8 \<Rightarrow> oled_pin list" where
  "write_of neg = (if neg then oled_WR_Byte2 else oled_WR_Byte)"

lemma carries_write: "carries (write_of neg b c) [(c \<noteq> 0, pol neg b)]"
  by (simp add: write_of_def pol_def carries_WR_Byte carries_WR_Byte2)

lemma carries_glyph:
  "carries (write_glyph (write_of neg) g) (map (\<lambda>b. (True, pol neg b)) g)"
  using carries_concat[of "\<lambda>b. write_of neg b OLED_DATA" "\<lambda>b. [(True, pol neg b)]" g]
    carries_write[of neg _ OLED_DATA]
  by (simp add: write_glyph_def list_all_iff OLED_DATA_def)

definition pos_bytes :: "u8 \<Rightarrow> u8 \<Rightarrow> (bool \<times> u8) list" where
  "pos_bytes x y =
     [(False, 0xb0 + y), (False, ucast (drop_bit 4 ((ucast x + 2 :: 32 word) AND 0xf0) OR 0x10)),
      (False, ucast ((ucast x + 2 :: 32 word) AND 0x0f))]"

lemma carries_command: "carries (oled_WR_Byte c OLED_CMD) [(False, c)]"
  using carries_WR_Byte[of c OLED_CMD] by (simp add: OLED_CMD_def)

lemma carries_Set_Pos: "carries (oled_Set_Pos x y) (pos_bytes x y)"
  unfolding oled_Set_Pos_def pos_bytes_def Let_def
  by (rule carries_append[OF carries_command, of _ "[_, _]", simplified]
           carries_append[OF carries_command, of _ "[_]", simplified] carries_command)+

section \<open>The display memory\<close>

text \<open>The addressing commands the driver uses (\<open>0xb0 + page\<close>, the two halves of the column), and
  data that is stored at the current column, which advances.  Other commands do not move it.\<close>

record panel =
  page :: nat
  col :: nat
  ram :: "nat \<Rightarrow> nat \<Rightarrow> u8"

fun panel_step :: "bool \<times> u8 \<Rightarrow> panel \<Rightarrow> panel" where
  "panel_step (True, b) p =
     p\<lparr>ram := (ram p)(page p := (ram p (page p))(col p := b)), col := col p + 1\<rparr>"
| "panel_step (False, b) p =
     (if b AND 0xf0 = 0xb0 then p\<lparr>page := unat (b AND 0x0f)\<rparr>
      else if b AND 0xf0 = 0x10 then p\<lparr>col := 16 * unat (b AND 0x0f) + col p mod 16\<rparr>
      else if b AND 0xf0 = 0 then p\<lparr>col := 16 * (col p div 16) + unat (b AND 0x0f)\<rparr>
      else p)"

definition panel_run :: "(bool \<times> u8) list \<Rightarrow> panel \<Rightarrow> panel" where
  "panel_run = fold panel_step"

text \<open>The bytes \<open>g\<close> on page \<open>p\<close> from column \<open>c\<close> on.\<close>

definition put_row :: "(nat \<Rightarrow> nat \<Rightarrow> u8) \<Rightarrow> nat \<Rightarrow> nat \<Rightarrow> bytes \<Rightarrow> nat \<Rightarrow> nat \<Rightarrow> u8" where
  "put_row m p c g = m(p := (\<lambda>k. if c \<le> k \<and> k < c + length g then g ! (k - c) else m p k))"

lemma put_row_Nil: "put_row m p c [] = m"
  by (auto simp: put_row_def fun_eq_iff)

lemma put_row_append: "put_row (put_row m p c g) p (c + length g) h = put_row m p c (g @ h)"
  by (auto simp: put_row_def fun_eq_iff nth_append)

lemma put_row_Cons:
  "put_row (m(p := (m p)(c := b))) p (Suc c) g = put_row m p c (b # g)"
proof (intro ext)
  fix q k
  have "k - c = Suc (k - Suc c)" if "Suc c \<le> k" using that by simp
  then show "put_row (m(p := (m p)(c := b))) p (Suc c) g q k = put_row m p c (b # g) q k"
    by (auto simp: put_row_def le_eq_less_or_eq)
qed

lemma panel_run_append: "panel_run (xs @ ys) P = panel_run ys (panel_run xs P)"
  by (simp add: panel_run_def)

lemma panel_data:
  "panel_run (map (\<lambda>b. (True, f b)) g) P =
   P\<lparr>col := col P + length g, ram := put_row (ram P) (page P) (col P) (map f g)\<rparr>"
proof (induction g arbitrary: P)
  case Nil then show ?case by (simp add: panel_run_def put_row_Nil)
next
  case (Cons b g)
  show ?case using Cons[of "panel_step (True, f b) P"]
    by (simp add: panel_run_def put_row_Cons[unfolded fun_upd_def] fun_upd_def)
qed

definition pos_ok :: "u8 \<Rightarrow> bool" where
  "pos_ok x =
   (let c = ucast (drop_bit 4 ((ucast x + 2 :: 32 word) AND 0xf0) OR 0x10) :: u8;
        d = ucast ((ucast x + 2 :: 32 word) AND 0x0f) :: u8 in
    c AND 0xf0 = 0x10 \<and> d AND 0xf0 = 0 \<and> unat (d AND 0x0f) < 16 \<and>
    16 * unat (c AND 0x0f) + unat (d AND 0x0f) = unat x + 2)"

lemma pos_all: "list_all (\<lambda>n. pos_ok (of_nat n)) [0..<128]"
  by code_simp

lemma page_all: "list_all (\<lambda>n. (0xb0 + of_nat n :: u8) AND 0xf0 = 0xb0 \<and> unat ((0xb0 + of_nat n :: u8) AND 0x0f) = n) [0..<8]"
  by code_simp

lemma word_list_all: "list_all (\<lambda>n. P (of_nat n)) [0..<k] \<Longrightarrow> unat (x :: u8) < k \<Longrightarrow> P x"
  by (auto simp: list_all_iff dest!: bspec[of _ _ "unat x"])

lemma panel_pos:
  assumes "unat x < 128" "unat y < 8"
  shows "panel_run (pos_bytes x y) P = P\<lparr>page := unat y, col := unat x + 2\<rparr>"
proof -
  have x: "pos_ok x" using word_list_all[OF pos_all assms(1)] .
  have y: "(0xb0 + y) AND 0xf0 = 0xb0 \<and> unat ((0xb0 + y) AND 0x0f) = unat y"
    using page_all assms(2) by (auto simp: list_all_iff dest!: bspec[of _ _ "unat y"])
  show ?thesis
    using x y unfolding pos_ok_def Let_def by (simp add: pos_bytes_def panel_run_def)
qed

section \<open>Text on the display\<close>

definition has_glyph :: "u8 \<Rightarrow> bool" where
  "has_glyph c \<longleftrightarrow> 0x20 \<le> c \<and> c < 0x7b"

definition glyph12 :: "bool \<Rightarrow> u8 \<Rightarrow> bytes" where
  "glyph12 neg c = map (pol neg) (F6x8 ! unat (c - 0x20))"

definition put_char :: "bool \<Rightarrow> u8 \<Rightarrow> u8 \<Rightarrow> u8 \<Rightarrow> u8 \<Rightarrow> oled_pin list option" where
  "put_char neg = (if neg then oled_ShowChar_2 else oled_ShowChar)"

lemma glyph_index: "has_glyph c \<Longrightarrow> unat (c - 0x20) < 91"
  unfolding has_glyph_def by unat_arith

lemma length_glyph12 [simp]: "has_glyph c \<Longrightarrow> length (glyph12 neg c) = 8"
  by (simp add: glyph12_def length_glyph glyph_index)

lemma char_12:
  assumes "has_glyph c" "unat x < 128"
  obtains ps where "put_char neg x y c 12 = Some ps"
    "carries ps (pos_bytes x (y + 1) @ map (\<lambda>b. (True, pol neg b)) (F6x8 ! unat (c - 0x20)))"
proof
  let ?g = "F6x8 ! unat (c - 0x20)"
  have x: "\<not> x > Max_Column - 1" 
    using assms(2) unfolding Max_Column_def by unat_arith
  have g: "take 8 ?g = ?g" using length_glyph[OF glyph_index[OF assms(1)]] by simp
  show "put_char neg x y c 12 = Some (oled_Set_Pos x (y + 1) @ write_glyph (write_of neg) ?g)"
    using x g glyph_index[OF assms(1)]
    by (simp add: put_char_def oled_ShowChar_def oled_ShowChar_2_def glyph_12_def wrap_x_def Let_def
        write_of_def length_F6x8)
  show "carries (oled_Set_Pos x (y + 1) @ write_glyph (write_of neg) ?g)
     (pos_bytes x (y + 1) @ map (\<lambda>b. (True, pol neg b)) ?g)"
    by (rule carries_append[OF carries_Set_Pos carries_glyph])
qed

lemma panel_char:
  assumes "has_glyph c" "unat x < 128" "unat (y + 1) < 8"
  shows "panel_run (pos_bytes x (y + 1) @ map (\<lambda>b. (True, pol neg b)) (F6x8 ! unat (c - 0x20))) P =
    P\<lparr>page := unat (y + 1), col := unat x + 10,
      ram := put_row (ram P) (unat (y + 1)) (unat x + 2) (glyph12 neg c)\<rparr>"
  using length_glyph[OF glyph_index[OF assms(1)]]
  by (simp add: panel_run_append panel_pos[OF assms(2,3)] panel_data glyph12_def)

lemma unat_of_nat_byte: "n < 256 \<Longrightarrow> unat (of_nat n :: u8) = n"
  by (simp add: unat_of_nat)

lemma next_pos_in_line: "k < 15 \<Longrightarrow> next_pos 8 (of_nat (8 * k)) y = (of_nat (8 * Suc k), y)"
proof -
  assume "k < 15"
  then have "unat (of_nat (8 * Suc k) :: u8) = 8 * Suc k"
    by (intro unat_of_nat_byte) simp
  then have "\<not> (of_nat (8 * Suc k) :: u8) > 120"
    using \<open>k < 15\<close> by (simp add: word_less_nat_alt)
  then show ?thesis by (simp add: next_pos_def Let_def add.commute)
qed

lemma show_chars_12:
  assumes "list_all has_glyph s" "k + length s \<le> 16" "unat (y + 1) < 8"
  shows "\<exists>ps ws. show_chars (put_char neg) 8 12 (of_nat (8 * k)) y s = Some ps \<and> carries ps ws \<and>
    ram (panel_run ws P) = put_row (ram P) (unat (y + 1)) (8 * k + 2) (concat (map (glyph12 neg) s))"
  using assms(1,2)
proof (induction s arbitrary: k P)
  case Nil
  show ?case by (intro exI[of _ "[]"]) (simp add: carries_Nil panel_run_def put_row_Nil)
next
  case (Cons c s)
  let ?x = "of_nat (8 * k) :: u8"
  have x: "unat ?x = 8 * k" using Cons.prems by (intro unat_of_nat_byte) simp
  have c: "has_glyph c" "unat ?x < 128" using Cons.prems x by auto
  obtain ps where ps: "put_char neg ?x y c 12 = Some ps"
    "carries ps (pos_bytes ?x (y + 1) @ map (\<lambda>b. (True, pol neg b)) (F6x8 ! unat (c - 0x20)))"
    using char_12[OF c] .
  let ?P = "P\<lparr>page := unat (y + 1), col := unat ?x + 10,
      ram := put_row (ram P) (unat (y + 1)) (unat ?x + 2) (glyph12 neg c)\<rparr>"
  obtain qs ws where qs: "show_chars (put_char neg) 8 12 (fst (next_pos 8 ?x y)) (snd (next_pos 8 ?x y)) s = Some qs"
    "carries qs ws"
    "ram (panel_run ws ?P) = put_row (ram ?P) (unat (y + 1)) (8 * Suc k + 2) (concat (map (glyph12 neg) s))"
  proof (cases "s = []")
    case True
    then show ?thesis using that[of "[]" "[]"] by (simp add: carries_Nil panel_run_def put_row_Nil)
  next
    case False
    then have k: "k < 15" using Cons.prems by (cases s) auto
    have s: "list_all has_glyph s" "Suc k + length s \<le> 16" using Cons.prems by auto
    show ?thesis
      using Cons.IH[OF s, of ?P] that unfolding next_pos_in_line[OF k] fst_conv snd_conv by blast
  qed
  show ?case
  proof (intro exI conjI)
    show "show_chars (put_char neg) 8 12 ?x y (c # s) = Some (ps @ qs)"
      using ps qs by (simp add: split_def)
    show "carries (ps @ qs) ((pos_bytes ?x (y + 1) @ map (\<lambda>b. (True, pol neg b)) (F6x8 ! unat (c - 0x20))) @ ws)"
      by (rule carries_append[OF ps(2) qs(2)])
    show "ram (panel_run ((pos_bytes ?x (y + 1) @ map (\<lambda>b. (True, pol neg b)) (F6x8 ! unat (c - 0x20))) @ ws) P) =
       put_row (ram P) (unat (y + 1)) (8 * k + 2) (concat (map (glyph12 neg) (c # s)))"
      using qs(3) put_row_append[of "ram P" "unat (y + 1)" "8 * k + 2" "glyph12 neg c"]
        panel_char[OF c assms(3), of neg P] c(1) x
      by (simp only: panel_run_append) (simp add: add.commute)
  qed
qed

lemma show_string_12:
  assumes "list_all has_glyph s" "length s \<le> 16" "unat (y + 1) < 8"
  obtains ps ws where "(if neg then oled_ShowString_2 else oled_ShowString) 0 y s 12 = Some ps"
    "carries ps ws"
    "ram (panel_run ws P) = put_row (ram P) (unat (y + 1)) 2 (concat (map (glyph12 neg) s))"
proof -
  obtain ps ws where *: "show_chars (put_char neg) 8 12 (of_nat (8 * 0)) y s = Some ps" "carries ps ws"
    "ram (panel_run ws P) = put_row (ram P) (unat (y + 1)) (8 * 0 + 2) (concat (map (glyph12 neg) s))"
    using show_chars_12[of s 0 y neg P] assms by auto
  have two: "8 * 0 + 2 = (2 :: nat)" by simp
  show ?thesis
    using that[OF _ *(2) *(3)[unfolded two]] *(1) assms(2)
    by (simp add: oled_ShowString_def oled_ShowString_2_def put_char_def split: if_splits)
qed

section \<open>Clearing\<close>

lemma carries_data: "carries (concat (map (\<lambda>n. oled_WR_Byte 0 OLED_DATA) xs)) (map (\<lambda>b. (True, b)) (replicate (length xs) 0))"
  using carries_concat[of "\<lambda>n. oled_WR_Byte 0 OLED_DATA" "\<lambda>n. [(True, 0)]" xs] carries_WR_Byte[of 0 OLED_DATA]
  by (simp add: list_all_iff OLED_DATA_def map_replicate_const)

definition clear_bytes :: "u8 \<Rightarrow> (bool \<times> u8) list" where
  "clear_bytes i = [(False, 0xb0 + i), (False, 0), (False, 0x10)] @ map (\<lambda>b. (True, b)) (replicate 128 0)"

lemma carries_Clear_page: "carries (oled_Clear_page i) (clear_bytes i)"
proof -
  have "carries (oled_WR_Byte (0xb0 + i) OLED_CMD @ oled_WR_Byte 0x00 OLED_CMD @ oled_WR_Byte 0x10 OLED_CMD @
      concat (map (\<lambda>n. oled_WR_Byte 0 OLED_DATA) [0..<128]))
    ([(False, 0xb0 + i)] @ [(False, 0)] @ [(False, 0x10)] @ map (\<lambda>b. (True, b)) (replicate (length [0..<128]) 0))"
    by (intro carries_append carries_command carries_data)
  then show ?thesis by (simp add: oled_Clear_page_def clear_bytes_def)
qed

lemma panel_clear_page:
  "unat i < 8 \<Longrightarrow> ram (panel_run (clear_bytes i) P) = put_row (ram P) (unat i) 0 (replicate 128 0)"
proof -
  assume "unat i < 8"
  then have i: "(0xb0 + i) AND 0xf0 = 0xb0 \<and> unat ((0xb0 + i) AND 0x0f) = unat i"
    using page_all by (auto simp: list_all_iff dest!: bspec[of _ _ "unat i"])
  have "panel_run [(False, 0xb0 + i), (False, 0), (False, 0x10)] P = P\<lparr>page := unat i, col := 0\<rparr>"
    using i by (simp add: panel_run_def)
  then show ?thesis
    unfolding clear_bytes_def panel_run_append using panel_data[of "\<lambda>b. b" "replicate 128 0"] by simp
qed

definition clear_row :: "(nat \<Rightarrow> u8) \<Rightarrow> nat \<Rightarrow> u8" where
  "clear_row r k = (if k < 128 then 0 else r k)"

lemma panel_clear:
  "n \<le> 8 \<Longrightarrow> ram (panel_run (concat (map (\<lambda>i. clear_bytes (of_nat i)) [0..<n])) P) =
    (\<lambda>p. if p < n then clear_row (ram P p) else ram P p)"
proof (induction n)
  case 0
  show ?case by (simp add: panel_run_def)
next
  case (Suc n)
  have "unat (of_nat n :: u8) = n" using Suc.prems by (intro unat_of_nat_byte) simp
  then have "ram (panel_run (clear_bytes (of_nat n)) Q) = put_row (ram Q) n 0 (replicate 128 0)" for Q
    using panel_clear_page[of "of_nat n" Q] Suc.prems by simp
  then show ?case
    using Suc by (auto simp: panel_run_append put_row_def fun_eq_iff clear_row_def)
qed

lemma carries_Clear: "carries oled_Clear (concat (map (\<lambda>i. clear_bytes (of_nat i)) [0..<8]))"
  unfolding oled_Clear_def by (rule carries_concat) (simp add: list_all_iff carries_Clear_page)

section \<open>Properties\<close>

text \<open>C36: Whatever was on the wires before, the controller samples exactly the bytes that were
  written, each marked as command or data, and the complement of those written with
  \<open>OLED_WR_Byte2\<close>.\<close>

theorem oled_bytes_roundtrip:
  "receive w (concat (map (\<lambda>(neg, dat, cmd). if neg then oled_WR_Byte2 dat cmd else oled_WR_Byte dat cmd) ws)) =
   map (\<lambda>(neg, dat, cmd). (cmd \<noteq> 0, if neg then NOT dat else dat)) ws"
proof -
  have "carries (case x of (neg, dat, cmd) \<Rightarrow> if neg then oled_WR_Byte2 dat cmd else oled_WR_Byte dat cmd)
      [case x of (neg, dat, cmd) \<Rightarrow> (cmd \<noteq> 0, if neg then NOT dat else dat)]" for x
    by (auto simp: carries_WR_Byte carries_WR_Byte2 split: prod.split)
  then have "carries (concat (map (\<lambda>(neg, dat, cmd). if neg then oled_WR_Byte2 dat cmd else oled_WR_Byte dat cmd) ws))
     (concat (map (\<lambda>x. [case x of (neg, dat, cmd) \<Rightarrow> (cmd \<noteq> 0, if neg then NOT dat else dat)]) ws))"
    by (intro carries_concat) (simp add: list_all_iff)
  then show ?thesis by (simp add: carries_receive)
qed

end
