(* ===== verification/Display.thy ===== *)
theory Display
  imports Oled MenuProps
begin

text \<open>
  The menu on the display: the calls a frame of the menu is made of (the trace of the store)
  are carried out by the driver's routines (\<open>Oled\<close>), and what reaches the display memory is
  compared with the menu table.
\<close>

section \<open>Carrying out a frame\<close>

fun screen_call :: "effect \<Rightarrow> oled_pin list option" where
  "screen_call OLED_Clear = Some oled_Clear"
| "screen_call (OLED_ShowString x y s n) = oled_ShowString x y s n"
| "screen_call (OLED_ShowString_2 x y s n) = oled_ShowString_2 x y s n"
| "screen_call (OLED_ShowChar x y c n) = oled_ShowChar x y c n"
| "screen_call (OLED_command c) = Some (oled_WR_Byte c OLED_CMD)"
| "screen_call _ = Some []"

fun screen_pins :: "effect list \<Rightarrow> oled_pin list option" where
  "screen_pins [] = Some []"
| "screen_pins (e # es) =
     do { p \<leftarrow> screen_call e; ps \<leftarrow> screen_pins es; Some (p @ ps) }"

text \<open>The calls \<open>es\<close> change the display memory by \<open>f\<close>.\<close>

definition draws :: "effect list \<Rightarrow> ((nat \<Rightarrow> nat \<Rightarrow> u8) \<Rightarrow> nat \<Rightarrow> nat \<Rightarrow> u8) \<Rightarrow> bool" where
  "draws es f \<longleftrightarrow> (\<exists>ps. screen_pins es = Some ps \<and>
     (\<forall>P. \<exists>ws. carries ps ws \<and> ram (panel_run ws P) = f (ram P)))"

lemma screen_pins_append:
  "screen_pins es = Some ps \<Longrightarrow> screen_pins es' = Some qs \<Longrightarrow> screen_pins (es @ es') = Some (ps @ qs)"
proof (induction es arbitrary: ps)
  case (Cons e es)
  then show ?case by (cases "screen_call e"; cases "screen_pins es") auto
qed simp

lemma draws_Nil: "draws [] (\<lambda>m. m)"
  by (auto simp: draws_def panel_run_def intro!: exI[of _ "[]"] carries_Nil)

lemma draws_append:
  assumes "draws es f" "draws es' g"
  shows "draws (es @ es') (\<lambda>m. g (f m))"
proof -
  obtain ps where ps: "screen_pins es = Some ps" "\<And>P. \<exists>ws. carries ps ws \<and> ram (panel_run ws P) = f (ram P)"
    using assms(1) by (auto simp: draws_def)
  obtain qs where qs: "screen_pins es' = Some qs" "\<And>P. \<exists>ws. carries qs ws \<and> ram (panel_run ws P) = g (ram P)"
    using assms(2) by (auto simp: draws_def)
  have "\<exists>ws. carries (ps @ qs) ws \<and> ram (panel_run ws P) = g (f (ram P))" for P
  proof -
    obtain ws where ws: "carries ps ws" "ram (panel_run ws P) = f (ram P)" using ps(2) by blast
    obtain vs where vs: "carries qs vs" "ram (panel_run vs (panel_run ws P)) = g (ram (panel_run ws P))"
      using qs(2) by blast
    show ?thesis
      using carries_append[OF ws(1) vs(1)] ws(2) vs(2) by (intro exI[of _ "ws @ vs"]) (simp add: panel_run_append)
  qed
  then show ?thesis using screen_pins_append[OF ps(1) qs(1)] unfolding draws_def by blast
qed

lemma draws_clear: "draws [OLED_Clear] (\<lambda>m p. if p < 8 then clear_row (m p) else m p)"
  unfolding draws_def using carries_Clear panel_clear[of 8] by (auto intro!: exI[of _ oled_Clear])

lemma draws_string:
  assumes "list_all has_glyph s" "length s \<le> 16" "unat (y + 1) < 8"
  shows "draws [if neg then OLED_ShowString_2 0 y s 12 else OLED_ShowString 0 y s 12]
    (\<lambda>m. put_row m (unat (y + 1)) 2 (concat (map (glyph12 neg) s)))"
proof -
  have *: "\<exists>ps ws. (if neg then oled_ShowString_2 else oled_ShowString) 0 y s 12 = Some ps \<and> carries ps ws \<and>
     ram (panel_run ws P) = put_row (ram P) (unat (y + 1)) 2 (concat (map (glyph12 neg) s))" for P
    using show_string_12[OF assms, of neg P] by blast
  obtain ps where ps: "(if neg then oled_ShowString_2 else oled_ShowString) 0 y s 12 = Some ps"
    using * by blast
  then have "\<exists>ws. carries ps ws \<and> ram (panel_run ws P) = put_row (ram P) (unat (y + 1)) 2 (concat (map (glyph12 neg) s))" for P
    using *[of P] by auto
  then show ?thesis unfolding draws_def using ps by (intro exI[of _ ps]) auto
qed

lemma draws_char:
  assumes "has_glyph c" "unat x < 128" "unat (y + 1) < 8"
  shows "draws [OLED_ShowChar x y c 12] (\<lambda>m. put_row m (unat (y + 1)) (unat x + 2) (glyph12 False c))"
proof -
  obtain ps where ps: "put_char False x y c 12 = Some ps"
    "carries ps (pos_bytes x (y + 1) @ map (\<lambda>b. (True, pol False b)) (F6x8 ! unat (c - 0x20)))"
    using char_12[OF assms(1,2)] .
  then show ?thesis
    unfolding draws_def using panel_char[OF assms, of False]
    by (intro exI[of _ ps]) (auto simp: put_char_def)
qed

section \<open>The menu, row by row\<close>

text \<open>The bytes \<open>g\<close> on a page from column \<open>c\<close> on; the two columns in front of the first character
  are the offset of \<open>OLED_Set_Pos\<close>.\<close>

definition put_cols :: "nat \<Rightarrow> bytes \<Rightarrow> (nat \<Rightarrow> u8) \<Rightarrow> nat \<Rightarrow> u8" where
  "put_cols c g r k = (if c \<le> k \<and> k < c + length g then g ! (k - c) else r k)"

definition title_fits :: "MENU_ITEM \<Rightarrow> bool" where
  "title_fits it \<longleftrightarrow> list_all has_glyph (cstr (title it)) \<and> length (cstr (title it)) \<le> 16"

definition status_char :: "u8 \<Rightarrow> bytes" where
  "status_char st =
     (if st = MENU_SET then [0x59] else if st = MENU_RESET then [0x4e] else if st = NON_OPERATE then [0x2d] else [])"

text \<open>The page of one menu entry: its title, and its status at column 112 over it.\<close>

definition menu_row :: "bool \<Rightarrow> MENU_ITEM \<Rightarrow> (nat \<Rightarrow> u8) \<Rightarrow> nat \<Rightarrow> u8" where
  "menu_row chosen it r =
     put_cols 114 (concat (map (glyph12 False) (status_char (status it))))
       (put_cols 2 (concat (map (glyph12 chosen) (cstr (title it)))) r)"

lemma put_row_cols: "put_row m p c g = m(p := put_cols c g (m p))"
  by (auto simp: put_row_def put_cols_def fun_eq_iff)

lemma put_cols_Nil: "put_cols c [] r = r"
  by (auto simp: put_cols_def fun_eq_iff)

lemma line_page: "i < 8 \<Longrightarrow> unat ((of_nat i - 1 :: u8) + 1) = i"
  by (simp add: unat_of_nat_byte)

lemma draws_line:
  assumes "title_fits it" "i < 8"
  shows "draws (render_line c i it) (\<lambda>m. m(i := menu_row (i = c) it (m i)))"
proof -
  let ?j = "of_nat i - 1 :: u8" and ?s = "cstr (title it)"
  have j: "unat (?j + 1) = i" using line_page[OF assms(2)] .
  then have j8: "unat (?j + 1) < 8" using assms(2) by simp
  have t: "draws [if i = c then OLED_ShowString_2 0 ?j ?s 12 else OLED_ShowString 0 ?j ?s 12]
      (\<lambda>m. m(i := put_cols 2 (concat (map (glyph12 (i = c)) ?s)) (m i)))"
    using draws_string[of ?s ?j "i = c"] assms j8 unfolding title_fits_def j put_row_cols by blast
  have ch: "draws [OLED_ShowChar 112 ?j ch 12] (\<lambda>m. m(i := put_cols 114 (glyph12 False ch) (m i)))"
    if "has_glyph ch" for ch
    using draws_char[OF that, of 112 ?j] j8 unfolding j put_row_cols by simp
  have g: "has_glyph 0x59" "has_glyph 0x4e" "has_glyph 0x2d" by (simp_all add: has_glyph_def)
  let ?A = "put_cols 2 (concat (map (glyph12 (i = c)) ?s))"
    and ?B = "put_cols 114 (concat (map (glyph12 False) (status_char (status it))))"
  let ?l = "map (\<lambda>ch. OLED_ShowChar 112 ?j ch 12) (status_char (status it))"
  have st: "draws ?l
      (\<lambda>m. m(i := put_cols 114 (concat (map (glyph12 False) (status_char (status it)))) (m i)))"
    using ch[OF g(1)] ch[OF g(2)] ch[OF g(3)] draws_Nil
    unfolding status_char_def by (simp add: put_cols_Nil del: fun_upd_apply)
  have "render_line c i it = [if i = c then OLED_ShowString_2 0 ?j ?s 12 else OLED_ShowString 0 ?j ?s 12] @ ?l"
    unfolding render_line_def status_char_def Let_def
    by (simp add: MENU_SET_def MENU_RESET_def NONE_STATUS_def NON_OPERATE_def)
  then have r: "draws (render_line c i it) (\<lambda>m. (m(i := ?A (m i)))(i := ?B ((m(i := ?A (m i))) i)))"
    using draws_append[OF t st] by (simp only:)
  have "(\<lambda>m. (m(i := ?A (m i)))(i := ?B ((m(i := ?A (m i))) i))) = (\<lambda>m. m(i := menu_row (i = c) it (m i)))"
    by (simp add: fun_eq_iff menu_row_def)
  then show ?thesis using r by (simp only:)
qed

lemma draws_lines:
  assumes "\<forall>i < n. title_fits (f i)" "n \<le> 8"
  shows "draws (concat (map (\<lambda>i. render_line c i (f i)) [0..<n]))
    (\<lambda>m p. if p < n then menu_row (p = c) (f p) (m p) else m p)"
  using assms
proof (induction n)
  case 0
  show ?case using draws_Nil by simp
next
  case (Suc n)
  have "draws (concat (map (\<lambda>i. render_line c i (f i)) [0..<n]) @ render_line c n (f n))
    (\<lambda>m. (\<lambda>p. if p < n then menu_row (p = c) (f p) (m p) else m p)
      (n := menu_row (n = c) (f n) (if n < n then menu_row (n = c) (f n) (m n) else m n)))"
    using draws_append[OF Suc.IH draws_line[of "f n" n c]] Suc.prems by simp
  moreover have "(\<lambda>m. (\<lambda>p. if p < n then menu_row (p = c) (f p) (m p) else m p)
      (n := menu_row (n = c) (f n) (if n < n then menu_row (n = c) (f n) (m n) else m n))) =
    (\<lambda>m p. if p < Suc n then menu_row (p = c) (f p) (m p) else m p)"
    by (auto simp: fun_eq_iff less_Suc_eq)
  ultimately show ?case by simp
qed

text \<open>The memory after a frame: the window starts at entry \<open>j - c\<close>.\<close>

definition frame_memory :: "MENU_ITEM list \<Rightarrow> nat \<Rightarrow> nat \<Rightarrow> (nat \<Rightarrow> nat \<Rightarrow> u8) \<Rightarrow> nat \<Rightarrow> nat \<Rightarrow> u8" where
  "frame_memory its c j m p =
     (if p < min (length its) 8 then menu_row (p = c) (its ! (j - c + p)) (clear_row (m p))
      else if p < 8 then clear_row (m p) else m p)"

lemma draws_frame:
  assumes "level_ok s k" "length its = length (menu_table k)" "list_all title_fits its"
  shows "draws (OLED_Clear # window_lines its s)
    (frame_memory its (cursor_line s) (current_item_idx s))"
proof -
  have n: "\<forall>i < min (length its) 8. title_fits (its ! (current_item_idx s - cursor_line s + i))"
    using assms by (auto simp: level_ok_def Let_def list_all_length OLED_LINES_def)
  have "draws ([OLED_Clear] @ window_lines its s)
    (\<lambda>m p. if p < min (length its) 8
       then menu_row (p = cursor_line s) (its ! (current_item_idx s - cursor_line s + p)) (if p < 8 then clear_row (m p) else m p)
       else if p < 8 then clear_row (m p) else m p)"
    using draws_append[OF draws_clear draws_lines[OF n]] by (simp add: window_lines_def OLED_LINES_def)
  also have "(\<lambda>m p. if p < min (length its) 8
       then menu_row (p = cursor_line s) (its ! (current_item_idx s - cursor_line s + p)) (if p < 8 then clear_row (m p) else m p)
       else if p < 8 then clear_row (m p) else m p) = frame_memory its (cursor_line s) (current_item_idx s)"
    by (auto simp: frame_memory_def fun_eq_iff)
  finally show ?thesis by simp
qed

definition arrow_target :: "u8 \<Rightarrow> menu_id \<Rightarrow> nat \<Rightarrow> nat" where
  "arrow_target key m i =
     (let n = length (menu_table m) in if key = evKeyDown then (i + 1) mod n else (i + n - 1) mod n)"

lemma arrow_frame:
  assumes "showing u m i" "key = evKeyUP \<or> key = evKeyDown" "list_all title_fits (menus u m)"
  obtains u' frame c ps where "menuPollButtons e key u = Some u'" "showing u' m (arrow_target key m i)"
    "event_q u' = event_q u" "menus u' = menus u" "effects (cfg u') = effects (cfg u) @ frame"
    "c < 8" "c \<le> arrow_target key m i" "screen_pins frame = Some ps"
    "\<And>w P. ram (panel_run (receive w ps) P) = frame_memory (menus u m) c (arrow_target key m i) (ram P)"
proof -
  have n: "role_of_key key \<noteq> MENU_NONE" using assms(2) by auto
  have d: "evKeyUP \<noteq> evKeyDown" by (simp add: evKeyUP_def evKeyDown_def)
  let ?j = "arrow_target key m i"
  obtain u1 where u1: "menuPollButtons e key u = scrollMenu e (role_of_key key) u1" "showing u1 m i"
      "cfg u1 = cfg u" "menus u1 = menus u" "event_q u1 = event_q u"
    using poll_showing[OF assms(1) n, of e] by (elim exE conjE)
  have r: "role_of_key key = MENU_UP \<and> ?j = (i + length (menu_table m) - 1) mod length (menu_table m) \<or>
      role_of_key key = MENU_DOWN \<and> ?j = (i + 1) mod length (menu_table m)"
    using assms(2) d by (auto simp: arrow_target_def Let_def)
  obtain u' where u': "scrollMenu e (role_of_key key) u1 = Some u'" "showing u' m ?j"
      "cfg u' = emit (drawn u' m) (cfg u1)" "menus u' = menus u1" "event_q u' = event_q u1"
    using scroll_key[OF u1(2) r, of e] by (elim exE conjE)
  have l: "level_ok (current u') m"
    using u'(2) chain_level by (auto simp: showing_def current_def)
  have len: "length (menus u' m) = length (menu_table m)"
    using u'(2) menus_ok_nth(1) by (auto simp: showing_def)
  have j: "current_item_idx (current u') = ?j" using u'(2) by (simp add: showing_def)
  have "draws (drawn u' m) (frame_memory (menus u m) (cursor_line (current u')) ?j)"
    using draws_frame[OF l len] assms(3) u1(4) u'(4) j by (simp add: drawn_def)
  then obtain ps where ps: "screen_pins (drawn u' m) = Some ps"
      "\<And>P. \<exists>ws. carries ps ws \<and> ram (panel_run ws P) = frame_memory (menus u m) (cursor_line (current u')) ?j (ram P)"
    by (auto simp: draws_def)
  then have f: "ram (panel_run (receive w ps) P) = frame_memory (menus u m) (cursor_line (current u')) ?j (ram P)" for w P
    using carries_receive by metis
  have "cursor_line (current u') < 8" "cursor_line (current u') \<le> ?j"
    using l j by (simp_all add: level_ok_def Let_def OLED_LINES_def)
  then show ?thesis
    using that[of u' "drawn u' m" "cursor_line (current u')" ps] u1 u' ps(1) f by simp
qed

text \<open>C10: What an arrow key puts on the glass: the next entry of the ring is chosen, and the calls of the new frame, carried out pin by pin
  and sampled by the controller, leave in the display memory, on each of the eight pages, the
  title and the status mark of the menu entry that belongs there, the chosen entry and only it
  in inverse video, and clear every page the menu does not fill.\<close>

theorem menu_reaches_display:
  assumes "showing u m i" "key = evKeyUP \<or> key = evKeyDown" "list_all title_fits (menus u m)"
  shows "\<exists>u' frame c ps. menuPollButtons e key u = Some u' \<and> showing u' m (arrow_target key m i) \<and>
    effects (cfg u') = effects (cfg u) @ frame \<and> c < 8 \<and> c \<le> arrow_target key m i \<and> screen_pins frame = Some ps \<and>
    ram (panel_run (receive w ps) P) = frame_memory (menus u m) c (arrow_target key m i) (ram P)"
  using arrow_frame[OF assms, of e] by metis

text \<open>Every title of every menu as the program starts fits its line and has its glyphs.\<close>

lemma table_fits: "list_all title_fits (menu_table m)"
  by (induction m; code_simp)

lemma other_menu:
  "m \<noteq> k \<Longrightarrow> menus (load_status m n arr u) k = menus u k"
  "m \<noteq> k \<Longrightarrow> menus (set_title m i t u) k = menus u k"
  "menus (ip_int_to_char b u) = menus u" "menus (my_mac_int_to_char b u) = menus u"
  by (simp_all add: load_status_def set_title_def ip_int_to_char_def my_mac_int_to_char_def)

lemma fold_menus: "(\<And>x u. menus (f x u) k = menus u k) \<Longrightarrow> menus (fold f xs u) k = menus u k"
  by (induction xs arbitrary: u) simp_all

lemma Arr_Init_home: "menus (Arr_Init u) Home = menus u Home"
  by (simp add: Arr_Init_def ip_mac_char_def Let_def other_menu fold_menus)

lemma home_titles: "list_all title_fits (menus (menuInit (ui0 c)) Home)"
  using table_fits[of Home]
  by (simp add: menuInit_def menuReset_No_RenderMenu_def ui0_def Arr_Init_home resetState_def
      setState_def)

definition wire0 :: wire where
  "wire0 = \<lparr>w_clk = True, w_din = True, w_dc = True, w_cs = True, w_shift = 0, w_bits = 0\<rparr>"

definition panel0 :: panel where
  "panel0 = \<lparr>page = 0, col = 0, ram = (\<lambda>_ _. 0xa5)\<rparr>"

theorem menu_reaches_display_witness:
  "\<exists>u' frame c ps. menuPollButtons demo_env evKeyDown (menuInit (ui0 demo_store)) = Some u' \<and>
    showing u' Home (arrow_target evKeyDown Home 0) \<and>
    effects (cfg u') = effects (cfg (menuInit (ui0 demo_store))) @ frame \<and> c < 8 \<and> c \<le> arrow_target evKeyDown Home 0 \<and>
    screen_pins frame = Some ps \<and>
    ram (panel_run (receive wire0 ps) panel0) =
      frame_memory (menus (menuInit (ui0 demo_store)) Home) c (arrow_target evKeyDown Home 0) (ram panel0)"
  by (rule menu_reaches_display[OF menuInit_showing _ home_titles]) simp

end
