(* ===== verification/MainLoop.thy ===== *)
theory MainLoop
  imports MainPage Keypad Display
begin

text \<open>
  \<open>app/power.c\<close> and the loop of \<open>app/main.c\<close>: what a turn of the main loop does with the event
  it reads, by work mode, and the composition with the keypad.  \<open>ModeOn\<close> calls the user
  register routines of \<open>config_env.c\<close>, returned as a list.
\<close>

section \<open>Events by work mode\<close>

definition MODE_OFF :: u8 where "MODE_OFF = 1"
definition MODE_ERR :: u8 where "MODE_ERR = 2"
definition MODE_RESET :: u8 where "MODE_RESET = 3"
definition MODE_REG :: u8 where "MODE_REG = 4"

datatype mode_call = Romflash_user_reg_save | Romflash_user_reg_get | Romflash_reg_refresh | Print string

definition ModeOn :: "STR_EVENT \<Rightarrow> mode_call list" where
  "ModeOn event =
     (let ev = evt event in
      if ev = 0xa0 then [] else if ev = 0xa1 then []
      else if ev = 0x21 then [Romflash_user_reg_save]
      else if ev = 0x22 then [Romflash_user_reg_get]
      else if ev = 0x24 then [Romflash_reg_refresh]
      else if ev = evRst then [Print ''RESET_KEY event'']
      else [])"

definition powerReset :: "STR_EVENT \<Rightarrow> mode_call list" where
  "powerReset event =
     (let ev = evt event in
      if ev = 0xa0 then [] else if ev = 0xa1 then []
      else if ev = evRst then [Print ''RESET_KEY event''] else [])"

definition ModeKey :: "env \<Rightarrow> main_page \<Rightarrow> STR_EVENT \<Rightarrow> ui \<Rightarrow> ui option" where
  "ModeKey e m event u =
     (if Get_Key_Feature_Flag m \<noteq> 0
      then if evt event = evKeyUP then menuPollButtons e evKeyUP u
           else if evt event = evKeyDown then menuPollButtons e evKeyDown u
           else if evt event = evKeyConfirm then menuPollButtons e evKeyConfirm u
           else if evt event = evKeyCancal then menuPollButtons e evKeyCancal u
           else Some u
      else Some (u\<lparr>event_q := ClearAllEvent (event_q u)\<rparr>))"

text \<open>The turn of the loop after the polls: \<open>powerReset\<close> only prints.\<close>

definition main_event :: "env \<Rightarrow> main_page \<Rightarrow> ui \<Rightarrow> ui option" where
  "main_event e m u =
     (let (event, q) = ReadEvent (event_q u); u = u\<lparr>event_q := q\<rparr> in
      if evt event \<noteq> evNON
      then if GetWorkMode u = MODE_ON then Some u
           else if GetWorkMode u = MODE_REG then Some u
           else if GetWorkMode u = MODE_ERR then Some u
           else if GetWorkMode u = MODE_OFF then Some u
           else if GetWorkMode u = MODE_RESET then Some u
           else if GetWorkMode u = MenuItems.MODE_KEY then ModeKey e m event u
           else Some u
      else Some u)"

text \<open>The calls of \<open>key_Scan\<close>, carried out.\<close>

fun do_key_action :: "key_action \<Rightarrow> ui \<Rightarrow> ui" where
  "do_key_action (key_action.Set_cnt_down cnt) u = MenuItems.Set_cnt_down cnt u"
| "do_key_action (key_action.SetWorkMode mode) u = MenuItems.SetWorkMode mode u"
| "do_key_action (key_action.PushEvt_EvtPar ev p) u = u\<lparr>event_q := EventQueue.PushEvt_EvtPar ev p (event_q u)\<rparr>"
| "do_key_action (key_action.PushEvt_OnlyEvt ev) u = u\<lparr>event_q := EventQueue.PushEvt_OnlyEvt ev (event_q u)\<rparr>"
| "do_key_action (key_action.Set_button_num ch) u = Menu.Set_button_num ch u"

definition do_key_actions :: "key_action list \<Rightarrow> ui \<Rightarrow> ui" where
  "do_key_actions = fold do_key_action"

text \<open>The samples of a key press one after another, then the turn of the loop that finds its event.\<close>

definition key_press_turn ::
  "env \<Rightarrow> main_page \<Rightarrow> key_pins list \<Rightarrow> keypad \<times> ui \<Rightarrow> (keypad \<times> ui) option" where
  "key_press_turn e m ps ku =
     (let (acts, k) = scan_run ps (fst ku)
      in map_option (Pair k) (main_event e m (do_key_actions acts (snd ku))))"

section \<open>A key press reaches the menu\<close>

lemma push_read_empty:
  assumes "event_inv q" "events q = []" "ev \<noteq> evNON"
  obtains q' where "ReadEvent (EventQueue.PushEvt_EvtPar ev p q) = (\<lparr>par = ucast p, evt = ev\<rparr>, q')"
    "event_inv q'" "events q' = []"
proof -
  let ?q = "EventQueue.PushEvt_EvtPar ev p q"
  have i: "event_inv ?q" by (rule PushEvt_inv[OF assms(1)])
  have e: "events ?q = [(ev, p)]" using PushEvt_events[OF assms(1)] assms(2) by (simp add: fifo_put_def EVENTBUFLEN_def)
  then have n: "eventcount ?q = 1" using length_events[of ?q] by simp
  note g = event_get_spec[OF i]
  obtain x q' where r: "ReadEvent ?q = (x, q')" by (cases "ReadEvent ?q")
  have x: "(evt x, ucast (par x)) = (ev, p)" "events q' = []" "event_inv q'"
    using g r n e by (simp_all add: event_get_def)
  have "par x = ucast (parabuffer ?q ! eventrdpos ?q)"
    using r n by (auto simp: ReadEvent_def Let_def)
  then have "par x = ucast p" using x(1) by auto
  then have "x = \<lparr>par = ucast p, evt = ev\<rparr>" using x(1) by (cases x) simp
  then show ?thesis using that[of q'] r x by simp
qed

lemma event_codes: "event_of_code c \<in> {evKeyUP, evKeyDown, evKeyConfirm}" "event_of_code c \<noteq> evNON"
  by (auto simp: event_of_code_def evKeyUP_def evKeyDown_def evKeyConfirm_def evNON_def)

lemma key_press_menu:
  assumes "idle_keypad k" "c \<in> set key_codes" "GetScanCode p = c" "GetScanCode r = 0xff" "4 \<le> n" "n < 53" "4 \<le> l"
    and "event_inv (event_q u)" "events (event_q u) = []" "enable_key_feature m \<noteq> 0"
  obtains k' q' where "idle_keypad k'" "event_inv q'" "events q' = []"
    "key_press_turn e m (replicate n p @ replicate l r) (k, u) =
     map_option (Pair k') (menuPollButtons e (event_of_code c)
       (u\<lparr>cnt_down := 300, workMode := 5, event_q := q'\<rparr>))"
proof -
  obtain k' where k: "scan_run (replicate n p @ replicate l r) k = (key_event (event_of_code c), k')" "idle_keypad k'"
    using press_key[OF assms(1,3,2,4,5,6,7)] by auto
  obtain q' where q: "ReadEvent (EventQueue.PushEvt_EvtPar (event_of_code c) 5 (event_q u)) =
      (\<lparr>par = ucast (5 :: u8), evt = event_of_code c\<rparr>, q')" "event_inv q'" "events q' = []"
    using push_read_empty[OF assms(8,9) event_codes(2)] .
  let ?u = "u\<lparr>cnt_down := 300, workMode := 5, event_q := EventQueue.PushEvt_EvtPar (event_of_code c) 5 (event_q u)\<rparr>"
  have a: "do_key_actions (key_event (event_of_code c)) u = ?u"
    by (simp add: do_key_actions_def key_event_def MenuItems.Set_cnt_down_def MenuItems.SetWorkMode_def
        CNT_DOWN_def Keypad.MODE_KEY_def)
  have "main_event e m ?u = ModeKey e m \<lparr>par = ucast (5 :: u8), evt = event_of_code c\<rparr> (?u\<lparr>event_q := q'\<rparr>)"
    using q(1) event_codes(2)[of c]
    by (simp add: main_event_def GetWorkMode_def MODE_ON_def MODE_REG_def MODE_ERR_def MODE_OFF_def MODE_RESET_def
        MenuItems.MODE_KEY_def)
  also have "\<dots> = menuPollButtons e (event_of_code c) (?u\<lparr>event_q := q'\<rparr>)"
    using event_codes(1)[of c] assms(10) by (auto simp: ModeKey_def Get_Key_Feature_Flag_def)
  finally have "main_event e m ?u = menuPollButtons e (event_of_code c)
     (u\<lparr>cnt_down := 300, workMode := 5, event_q := q'\<rparr>)" by simp
  then show ?thesis
    using that[OF k(2) q(2,3)] k(1) a by (simp add: key_press_turn_def)
qed

section \<open>Waking and timing out\<close>

lemma menuReset_home:
  assumes "menu_inv u"
  obtains u' where "menuReset u = Some u'" "showing u' Home 0" "menus u' = menus u" "cnt_down u' = cnt_down u"
    "event_q u' = event_q u"
proof -
  let ?v = "menuReset_No_RenderMenu u"
  have ok: "menus_ok (menus u)" "levels_ok (menu_states u)" using assms by (simp_all add: menu_inv_def)
  note r = menu_inv_reset[OF ok]
  have v: "menus_ok (menus ?v)" "levels_ok (menu_states ?v)" using r(1) by (simp_all add: menu_inv_def)
  have i: "current_item_idx (current ?v) = 0"
    using levels_ok_nth(1)[OF ok(2)]
    by (simp add: menuReset_No_RenderMenu_def resetState_def setState_def current_def MENU_LEVEL_1_def)
  have "menuReset u = renderMenu ?v" by (simp add: menuReset_def menuReset_No_RenderMenu_def)
  also have "\<dots> = Some (draw (drawn ?v Home) ?v)"
    using renderMenu_chain[OF v, of Home] r(2,3) by (simp add: drawn_def)
  finally have e: "menuReset u = Some (draw (drawn ?v Home) ?v)" .
  have "showing (draw (drawn ?v Home) ?v) Home 0"
    using v r(2,3) i by (simp add: showing_def current_def)
  moreover have "menus ?v = menus u" "cnt_down ?v = cnt_down u" "event_q ?v = event_q u"
    by (simp_all add: menuReset_No_RenderMenu_def resetState_def setState_def)
  ultimately show ?thesis using that[OF e] by (simp add: draw_def)
qed

lemma show_delay_keys: "enable_key_feature (snd (show_delay mode d m)) = enable_key_feature m"
proof -
  have k: "enable_key_feature (snd (show_digit n x k v es dm)) = enable_key_feature (snd dm)" for n x k v es dm
    by (simp add: show_digit_def)
  show ?thesis by (simp add: show_delay_def Let_def k)
qed

lemma piece3_keys: "enable_key_feature (fst (Page0_piece3_Dynamic_Display e lock (m, s))) = enable_key_feature m"
proof -
  obtain d s' where "read_delay e (Get_Config_SRC_clocktype (spi_store s)) lock s = (d, s')" by fastforce
  moreover obtain es m' where "show_delay (Get_Config_Display_mode (spi_store s)) d m = (es, m')" by fastforce
  moreover have "enable_key_feature m' = enable_key_feature m"
    using show_delay_keys[of "Get_Config_Display_mode (spi_store s)" d m] calculation by simp
  ultimately show ?thesis by (simp add: Page0_piece3_Dynamic_Display_def)
qed

lemma Dsp_interface_keys: "enable_key_feature (fst (Dsp_interface e num r (m, g, s))) = enable_key_feature m"
proof -
  have p: "Page0_piece3_Dynamic_Display e l (m', s') = (m'', s'') \<Longrightarrow> enable_key_feature m'' = enable_key_feature m'" for e l m' s' m'' s''
    using piece3_keys[of e l m' s'] by simp
  show ?thesis by (auto simp: Dsp_interface_def Let_def split: prod.splits if_splits dest!: p)
qed

text \<open>Polls of the main page, one every 100 ms, with no key between them.\<close>

fun main_polls :: "page_env \<Rightarrow> nat \<Rightarrow> main_page \<times> gps \<times> spi4 \<times> ui \<Rightarrow> (main_page \<times> gps \<times> spi4 \<times> ui) option" where
  "main_polls e 0 b = Some b"
| "main_polls e (Suc n) b = do { b \<leftarrow> Pollint_Display_Main_menu e b; main_polls e n b }"

lemma main_polls_awake:
  "clear_Oled_Flag m = 1 \<Longrightarrow> enable_key_feature m = 1 \<Longrightarrow> n \<le> unat (cnt_down u) \<Longrightarrow>
   main_polls e (n + k) (m, g, s, u) = main_polls e k (m, g, s, u\<lparr>cnt_down := cnt_down u - of_nat n\<rparr>)"
proof (induction n arbitrary: u)
  case (Suc n)
  have c: "cnt_down u \<noteq> 0" using Suc.prems(3) by (auto simp: unat_eq_0)
  then have d: "unat (cnt_down u) = Suc (unat (cnt_down u - 1))"
    by (metis Suc_pred' unat_gt_0 unat_minus_one)
  have m: "Set_Key_Feature 1 m = m" using Suc.prems(2) by (simp add: Set_Key_Feature_def)
  have "main_polls e (Suc n + k) (m, g, s, u) = main_polls e (n + k) (m, g, s, u\<lparr>cnt_down := cnt_down u - 1\<rparr>)"
    using c Suc.prems(1) m by (simp add: Pollint_Display_Main_menu_def)
  also have "\<dots> = main_polls e k (m, g, s, u\<lparr>cnt_down := cnt_down u - 1 - of_nat n\<rparr>)"
    using Suc.IH[OF Suc.prems(1,2), of "u\<lparr>cnt_down := cnt_down u - 1\<rparr>"] Suc.prems(3) d by simp
  finally show ?case by (simp add: diff_diff_eq)
qed simp

lemma menu_times_out:
  assumes "clear_Oled_Flag m = 1" "enable_key_feature m = 1"
  obtains m' g' s' u' where "main_polls e (unat (cnt_down u) + 1) (m, g, s, u) = Some (m', g', s', u')"
    "enable_key_feature m' = 0" "clear_Oled_Flag m' = 0" "current_state u' = 0" "menus u' = menus u"
proof -
  let ?u = "u\<lparr>cnt_down := 0\<rparr>"
  let ?v = "draw [OLED_Clear] (menuReset_No_RenderMenu ?u)"
  obtain m1 g1 s1 u1 where d: "Dsp_on_ui e 1 (Set_Key_Feature 0 m, g, s, ?v) = (m1, g1, s1, u1)"
    by (metis surj_pair)
  have c0: "cnt_down u - of_nat (unat (cnt_down u)) = 0" by simp
  have e: "enable_key_feature m1 = 0"
    using Dsp_interface_keys[of e 1 "fpga ?v" "Set_Key_Feature 0 m" g "s\<lparr>spi_store := cfg ?v\<rparr>"] d
    by (auto simp: Dsp_on_ui_def Let_def Set_Key_Feature_def split: prod.splits)
  have u1: "current_state u1 = current_state ?v" "menus u1 = menus ?v"
    using d by (auto simp: Dsp_on_ui_def Let_def split: prod.splits)
  have "main_polls e (unat (cnt_down u) + 1) (m, g, s, u) = main_polls e 1 (m, g, s, ?u)"
    using main_polls_awake[OF assms order_refl, where k = 1 and u = u] unfolding c0 .
  also have "\<dots> = Some (m1\<lparr>clear_Oled_Flag := 0\<rparr>, g1, s1, u1)"
    using assms d by (simp add: Pollint_Display_Main_menu_def Set_Key_Feature_def)
  finally show ?thesis
    using that e u1 by (simp add: menuReset_No_RenderMenu_def resetState_def setState_def draw_def MENU_LEVEL_1_def)
qed

lemma asleep_turn:
  assumes "idle_keypad k" "c \<in> set key_codes" "GetScanCode p = c" "GetScanCode r = 0xff" "4 \<le> n" "n < 53" "4 \<le> l"
    and "event_inv (event_q u)" "events (event_q u) = []" "enable_key_feature m = 0"
  obtains k' q' where "idle_keypad k'" "event_inv q'" "events q' = []"
    "key_press_turn e m (replicate n p @ replicate l r) (k, u) =
     Some (k', u\<lparr>cnt_down := 300, workMode := 5, event_q := q'\<rparr>)"
proof -
  obtain k' where k: "scan_run (replicate n p @ replicate l r) k = (key_event (event_of_code c), k')" "idle_keypad k'"
    using press_key[OF assms(1,3,2,4,5,6,7)] by auto
  obtain q' where q: "ReadEvent (EventQueue.PushEvt_EvtPar (event_of_code c) 5 (event_q u)) =
      (\<lparr>par = ucast (5 :: u8), evt = event_of_code c\<rparr>, q')" "event_inv q'" "events q' = []"
    using push_read_empty[OF assms(8,9) event_codes(2)] .
  let ?u = "u\<lparr>cnt_down := 300, workMode := 5, event_q := EventQueue.PushEvt_EvtPar (event_of_code c) 5 (event_q u)\<rparr>"
  have "do_key_actions (key_event (event_of_code c)) u = ?u"
    by (simp add: do_key_actions_def key_event_def MenuItems.Set_cnt_down_def MenuItems.SetWorkMode_def
        CNT_DOWN_def Keypad.MODE_KEY_def)
  moreover have "main_event e m ?u = Some (u\<lparr>cnt_down := 300, workMode := 5, event_q := ClearAllEvent q'\<rparr>)"
    using q(1) event_codes(2)[of c] assms(10)
    by (simp add: main_event_def GetWorkMode_def MODE_ON_def MODE_REG_def MODE_ERR_def MODE_OFF_def MODE_RESET_def
        MenuItems.MODE_KEY_def ModeKey_def Get_Key_Feature_Flag_def)
  moreover have "events (ClearAllEvent q') = []" by (simp add: ClearAllEvent_def events_def)
  ultimately show ?thesis
    using that[OF k(2) ClearAllEvent_inv[OF q(2)]] k(1) by (simp add: key_press_turn_def)
qed

text \<open>C37: The first key pressed while the main page is shown only wakes the menu: its event is thrown
  away, nothing of the menu or the configuration changes, the next poll of the main page draws
  the home menu and the one after it enables the keys.  If no further key comes, 299 polls
  later (the thirty seconds of \<open>CNT_DOWN\<close>) the keys are disabled again, the main page is back and
  the menu stands at its home level, with the entries unchanged.\<close>

theorem first_key_wakes:
  assumes "menu_inv u" "idle_keypad k" "GetScanCode p \<in> {0x04, 0x05, 0x06}" "GetScanCode r = 0xff"
    and "4 \<le> n" "n < 53" "4 \<le> l" "event_inv (event_q u)" "events (event_q u) = []"
    and "enable_key_feature m = 0" "clear_Oled_Flag m = 0"
  shows "\<exists>k' u1 m2 u2 m3 u3.
    key_press_turn e m (replicate n p @ replicate l r) (k, u) = Some (k', u1) \<and>
    idle_keypad k' \<and> cfg u1 = cfg u \<and> menus u1 = menus u \<and> menu_states u1 = menu_states u \<and>
    Pollint_Display_Main_menu pe (m, g, s, u1) = Some (m2, g, s, u2) \<and>
    enable_key_feature m2 = 0 \<and> showing u2 Home 0 \<and>
    Pollint_Display_Main_menu pe (m2, g, s, u2) = Some (m3, g, s, u3) \<and>
    enable_key_feature m3 \<noteq> 0 \<and> showing u3 Home 0 \<and> cnt_down u3 = 298 \<and>
    menus u3 = menus u \<and> event_inv (event_q u3) \<and> events (event_q u3) = [] \<and>
    (\<exists>m4 g4 s4 u4. main_polls pe 299 (m3, g, s, u3) = Some (m4, g4, s4, u4) \<and>
       enable_key_feature m4 = 0 \<and> clear_Oled_Flag m4 = 0 \<and> current_state u4 = 0 \<and> menus u4 = menus u)"
proof -
  have c: "GetScanCode p \<in> set key_codes" using assms(3) by (auto simp: key_codes_def)
  obtain k' q' where t: "idle_keypad k'" "event_inv q'" "events q' = []"
    "key_press_turn e m (replicate n p @ replicate l r) (k, u) =
     Some (k', u\<lparr>cnt_down := 300, workMode := 5, event_q := q'\<rparr>)"
    by (rule asleep_turn[OF assms(2) c refl assms(4-10)])
  let ?u1 = "u\<lparr>cnt_down := 300, workMode := 5, event_q := q'\<rparr>"
  let ?v = "?u1\<lparr>cnt_down := 299, event_q := ClearAllEvent q'\<rparr>"
  have "menus_ok (menus u)" using assms(1) by (simp add: menu_inv_def)
  then have "menu_inv ?v" using menu_inv_cong[OF assms(1), of ?v] by simp
  then obtain u2 where u2: "menuReset ?v = Some u2" "showing u2 Home 0" "menus u2 = menus ?v" "cnt_down u2 = cnt_down ?v"
    "event_q u2 = event_q ?v" by (rule menuReset_home)
  let ?m2 = "Set_Key_Feature 0 (m\<lparr>clear_Oled_Flag := 1\<rparr>)"
  have p2: "Pollint_Display_Main_menu pe (m, g, s, ?u1) = Some (?m2, g, s, u2)"
    using u2(1) assms(11) by (simp add: Pollint_Display_Main_menu_def)
  let ?u3 = "u2\<lparr>cnt_down := 298\<rparr>"
  have p3: "Pollint_Display_Main_menu pe (?m2, g, s, u2) = Some (Set_Key_Feature 1 ?m2, g, s, ?u3)"
    using u2(4) by (simp add: Pollint_Display_Main_menu_def Set_Key_Feature_def)
  have "showing ?u3 Home 0" using u2(2) by (simp add: showing_def current_def)
  moreover have "event_inv (event_q ?u3)" "events (event_q ?u3) = []"
    using u2(5) ClearAllEvent_inv[OF t(2)] by (simp_all add: ClearAllEvent_def events_def)
  moreover have "\<exists>m4 g4 s4 u4. main_polls pe 299 (Set_Key_Feature 1 ?m2, g, s, ?u3) = Some (m4, g4, s4, u4) \<and>
       enable_key_feature m4 = 0 \<and> clear_Oled_Flag m4 = 0 \<and> current_state u4 = 0 \<and> menus u4 = menus u"
    using menu_times_out[of "Set_Key_Feature 1 ?m2" pe ?u3 g s] u2(3)
    by (simp add: Set_Key_Feature_def del: main_polls.simps) metis
  ultimately show ?thesis
    using t(1,4) u2(2,3) p2 p3
    by (intro exI[of _ k'] exI[of _ ?u1] exI[of _ ?m2] exI[of _ u2] exI[of _ "Set_Key_Feature 1 ?m2"] exI[of _ ?u3])
       (simp add: Set_Key_Feature_def del: main_polls.simps)
qed

text \<open>The page as it is while it is shown.\<close>

definition sleeping_page :: main_page where "sleeping_page = main_page0\<lparr>clear_Oled_Flag := 0\<rparr>"

theorem first_key_wakes_witness:
  "\<exists>k' u1 m2 u2 m3 u3.
    key_press_turn demo_env sleeping_page
      (replicate 10 \<lparr>PA10 = True, PA11 = True, PA12 = False\<rparr> @ replicate 5 \<lparr>PA10 = True, PA11 = True, PA12 = True\<rparr>)
      (keypad0, menuInit (ui0 demo_store)) = Some (k', u1) \<and>
    idle_keypad k' \<and> cfg u1 = cfg (menuInit (ui0 demo_store)) \<and>
    Pollint_Display_Main_menu \<lparr>pe_fpga = echo_env, pe_behind = []\<rparr>
      (sleeping_page, \<lparr>Save_Data = replicate 52 0, utc_time = 0, uart4_rx = []\<rparr>, demo_spi demo_store, u1) =
      Some (m2, \<lparr>Save_Data = replicate 52 0, utc_time = 0, uart4_rx = []\<rparr>, demo_spi demo_store, u2) \<and>
    Pollint_Display_Main_menu \<lparr>pe_fpga = echo_env, pe_behind = []\<rparr>
      (m2, \<lparr>Save_Data = replicate 52 0, utc_time = 0, uart4_rx = []\<rparr>, demo_spi demo_store, u2) =
      Some (m3, \<lparr>Save_Data = replicate 52 0, utc_time = 0, uart4_rx = []\<rparr>, demo_spi demo_store, u3) \<and>
    enable_key_feature m3 \<noteq> 0 \<and> showing u3 Home 0 \<and> cnt_down u3 = 298"
proof -
  have q: "event_q (menuInit (ui0 demo_store)) = event_state0"
    by (simp add: menuInit_def menuReset_No_RenderMenu_def ui0_def resetState_def setState_def)
  have e: "event_inv (event_q (menuInit (ui0 demo_store)))" "events (event_q (menuInit (ui0 demo_store))) = []"
    unfolding q by (simp_all add: event_inv_init) (simp add: events_def event_state0_def)
  have k: "idle_keypad keypad0" by (simp add: idle_keypad_def keypad0_def numeral_3_eq_3)
  have m: "enable_key_feature sleeping_page = 0" "clear_Oled_Flag sleeping_page = 0"
    by (simp_all add: sleeping_page_def main_page0_def)
  show ?thesis
    using first_key_wakes[OF menuInit_inv k _ _ _ _ _ e m, of "\<lparr>PA10 = True, PA11 = True, PA12 = False\<rparr>"
        "\<lparr>PA10 = True, PA11 = True, PA12 = True\<rparr>" 10 5 demo_env "\<lparr>pe_fpga = echo_env, pe_behind = []\<rparr>"
        "\<lparr>Save_Data = replicate 52 0, utc_time = 0, uart4_rx = []\<rparr>" "demo_spi demo_store"]
    by (simp add: GetScanCode_def) blast
qed

end
