(* ===== verification/Scheduler.thy ===== *)
theory Scheduler
  imports Prelude
begin

text \<open>
  \<open>app/pollint.c\<close>: the millisecond counters the tick interrupt drives, the calls the main loop
  makes on each of their values, and the two delays.  A poll returns the calls it makes, in
  order; the conditions it asks other components for are in the record \<open>asked\<close>.  \<open>__WFI\<close>
  sleeps until some interrupt and changes nothing; which polls found a tick is the list of
  booleans the delays take.
\<close>

section \<open>The counters\<close>

record STR_POLLINT =
  msCountDown :: u16
  msCount :: nat
  c10msCount :: nat
  c100msCount :: nat
  Pollintack :: bool

definition count_ms :: "STR_POLLINT \<Rightarrow> STR_POLLINT" where
  "count_ms p =
     (let p = p\<lparr>Pollintack := False\<rparr>;
          p = (if msCountDown p > 0 then p\<lparr>msCountDown := msCountDown p - 1\<rparr> else p);
          p = p\<lparr>msCount := (msCount p + 1) mod 10\<rparr>
      in if msCount p = 0
         then (let p = p\<lparr>c10msCount := (c10msCount p + 1) mod 10\<rparr>
               in if c10msCount p = 0 then p\<lparr>c100msCount := (c100msCount p + 1) mod 10\<rparr> else p)
         else p)"

definition ChangeTime1mSec :: "STR_POLLINT \<Rightarrow> STR_POLLINT" where "ChangeTime1mSec = count_ms"

definition ChangeTimeUs :: "STR_POLLINT \<Rightarrow> STR_POLLINT" where "ChangeTimeUs = count_ms"

definition ChangeTimeCount_OK :: "STR_POLLINT \<Rightarrow> bool \<times> STR_POLLINT" where
  "ChangeTimeCount_OK p = (if Pollintack p then (True, ChangeTime1mSec p) else (False, p))"

definition ChangeTimeUsCount_OK :: "STR_POLLINT \<Rightarrow> bool \<times> STR_POLLINT" where
  "ChangeTimeUsCount_OK p = (if Pollintack p then (True, ChangeTimeUs p) else (False, p))"

definition Timer3_irq_fun :: "STR_POLLINT \<Rightarrow> STR_POLLINT" where
  "Timer3_irq_fun p = p\<lparr>Pollintack := True\<rparr>"

definition pollintTim3 :: "STR_POLLINT \<Rightarrow> STR_POLLINT" where
  "pollintTim3 p = snd (ChangeTimeUsCount_OK p)"

text \<open>The interrupt also counts \<open>cpuclk_cnt\<close> of \<open>gps_pps.c\<close> up.\<close>

definition TimerTickNproc :: "STR_POLLINT \<times> u32 \<Rightarrow> STR_POLLINT \<times> u32" where
  "TimerTickNproc pc = ((fst pc)\<lparr>Pollintack := True\<rparr>, snd pc + 1)"

section \<open>The calls\<close>

datatype job =
    Pollint_eth_send | Pollint_spi_transmit | USART3_RxReaddy | USART3_CheckSerial | Config_CheckStatus
  | Key_Scan | Do_Send_GPS_info | Do_Send_Dirft | Do_Power_On_Read_Reg_Once
  | Do_Pollint_Display_Main_menu | Update_Flash
  | Poll_Reg_0x83 | Poll_Reg_0x8d | Poll_Reg_0x84 | Do_IWDG_Refresh | Do_set_blink_flag
  | Poll_Reg_0x87 | Poll_Reg_0x82
  | MX_LWIP_Process

record asked =
  ask_Status :: u8
  ask_clocktype :: u8
  ask_Dirft_Flag :: u8
  ask_Update_Flash_Flag :: u8

definition Pollint1Sec :: "STR_POLLINT \<Rightarrow> job list" where
  "Pollint1Sec p =
     (let n = c100msCount p in
      if n = 2 then [Poll_Reg_0x83] else if n = 3 then [Poll_Reg_0x8d] else if n = 4 then [Poll_Reg_0x84]
      else if n = 5 then [Do_IWDG_Refresh] else if n = 6 then [Do_set_blink_flag]
      else if n = 7 then [Poll_Reg_0x87] else if n = 9 then [Poll_Reg_0x82] else [])"

text \<open>\<open>Update_Flash\<close> is the three calls that clear the flag, copy the configuration into the menus
  and save it.\<close>

definition Pollint100mSec :: "asked \<Rightarrow> STR_POLLINT \<Rightarrow> job list" where
  "Pollint100mSec a p =
     (let n = c10msCount p in
      if n = 2 then [Do_Pollint_Display_Main_menu]
      else if n = 9 then (if ask_Update_Flash_Flag a \<noteq> 0 then [Update_Flash] else [])
      else if n \<in> {1, 3, 4, 5, 6, 7, 8} then []
      else Pollint1Sec p)"

definition Pollint10mSec :: "asked \<Rightarrow> STR_POLLINT \<Rightarrow> job list" where
  "Pollint10mSec a p =
     (let n = msCount p in
      if n = 2 then [Key_Scan]
      else if n = 5 then (if ask_Status a = 0 \<and> ask_clocktype a = 0x03 then [Do_Send_GPS_info] else [])
      else if n = 6 then (if ask_Status a = 0 \<and> ask_Dirft_Flag a \<noteq> 0 then [Do_Send_Dirft] else [])
      else if n = 9 then [Do_Power_On_Read_Reg_Once]
      else if n \<in> {1, 3, 4, 7, 8} then []
      else Pollint100mSec a p)"

definition pollint :: "asked \<Rightarrow> STR_POLLINT \<Rightarrow> job list \<times> STR_POLLINT" where
  "pollint a p =
     (let (ok, p) = ChangeTimeCount_OK p in
      ([Pollint_eth_send, Pollint_spi_transmit] @
       (if ok then [USART3_RxReaddy, USART3_CheckSerial, Config_CheckStatus] @ Pollint10mSec a p @ [MX_LWIP_Process]
        else []), p))"

section \<open>The delays\<close>

text \<open>One boolean for each turn of the loop: whether the interrupt came before it.  None: the list
  ended and the loop still waits.\<close>

fun lock_loop :: "bool list \<Rightarrow> STR_POLLINT \<Rightarrow> STR_POLLINT option" where
  "lock_loop bs p =
     (if msCountDown p = 0 then Some p
      else case bs of
             [] \<Rightarrow> None
           | b # bs \<Rightarrow> lock_loop bs (snd (ChangeTimeCount_OK (if b then p\<lparr>Pollintack := True\<rparr> else p))))"

definition delayms_Lock :: "bool list \<Rightarrow> u16 \<Rightarrow> STR_POLLINT \<Rightarrow> STR_POLLINT option" where
  "delayms_Lock bs v p = lock_loop bs (p\<lparr>msCountDown := v + 1\<rparr>)"

fun nolock_loop :: "(bool \<times> asked) list \<Rightarrow> STR_POLLINT \<Rightarrow> (job list \<times> STR_POLLINT) option" where
  "nolock_loop bs p =
     (if msCountDown p = 0 then Some ([], p)
      else case bs of
             [] \<Rightarrow> None
           | (b, a) # bs \<Rightarrow>
               (let (js, p) = pollint a (if b then p\<lparr>Pollintack := True\<rparr> else p)
                in case nolock_loop bs p of None \<Rightarrow> None | Some (ks, p) \<Rightarrow> Some (js @ ks, p)))"

definition delay_NoLock :: "(bool \<times> asked) list \<Rightarrow> u16 \<Rightarrow> STR_POLLINT \<Rightarrow> (job list \<times> STR_POLLINT) option" where
  "delay_NoLock bs v p = nolock_loop bs (p\<lparr>msCountDown := v + 1\<rparr>)"

declare lock_loop.simps [simp del] nolock_loop.simps [simp del]

section \<open>The delays return\<close>

lemma count_ms_fields [simp]:
  "Pollintack (count_ms p) = False"
  "msCountDown (count_ms p) = (if msCountDown p = 0 then 0 else msCountDown p - 1)"
  by (simp_all add: count_ms_def Let_def word_gt_0)

lemma lock_loop_ticks:
  "\<not> Pollintack p \<Longrightarrow>
   (lock_loop bs p \<noteq> None) = (unat (msCountDown p) \<le> count_list bs True)"
proof (induction bs arbitrary: p)
  case Nil
  then show ?case by (subst lock_loop.simps) (simp add: unat_eq_0)
next
  case (Cons b bs)
  show ?case
  proof (cases "msCountDown p = 0")
    case True
    then show ?thesis by (subst lock_loop.simps) simp
  next
    case False
    then have d: "unat (msCountDown p) = Suc (unat (msCountDown p - 1))"
      by (metis Suc_pred' unat_gt_0 unat_minus_one)
    let ?q = "snd (ChangeTimeCount_OK (if b then p\<lparr>Pollintack := True\<rparr> else p))"
    have "\<not> Pollintack ?q" "msCountDown ?q = (if b then msCountDown p - 1 else msCountDown p)"
      using Cons.prems False by (auto simp: ChangeTimeCount_OK_def ChangeTime1mSec_def)
    then show ?thesis
      using Cons.IH[of ?q] False d by (subst lock_loop.simps) auto
  qed
qed

lemma nolock_loop_ticks:
  "\<not> Pollintack p \<Longrightarrow>
   (nolock_loop bs p \<noteq> None) = (unat (msCountDown p) \<le> count_list (map fst bs) True)"
proof (induction bs arbitrary: p)
  case Nil
  then show ?case by (subst nolock_loop.simps) (simp add: unat_eq_0)
next
  case (Cons ba bs)
  obtain b a where ba: "ba = (b, a)" by (cases ba)
  show ?case
  proof (cases "msCountDown p = 0")
    case True
    then show ?thesis by (subst nolock_loop.simps) simp
  next
    case False
    then have d: "unat (msCountDown p) = Suc (unat (msCountDown p - 1))"
      by (metis Suc_pred' unat_gt_0 unat_minus_one)
    let ?p = "if b then p\<lparr>Pollintack := True\<rparr> else p"
    obtain js q where q: "pollint a ?p = (js, q)" by (cases "pollint a ?p")
    then have "q = snd (ChangeTimeCount_OK ?p)"
      by (auto simp: pollint_def split: prod.splits)
    then have "\<not> Pollintack q" "msCountDown q = (if b then msCountDown p - 1 else msCountDown p)"
      using Cons.prems False by (auto simp: ChangeTimeCount_OK_def ChangeTime1mSec_def)
    then show ?thesis
      using Cons.IH[of q] False d q by (subst nolock_loop.simps) (auto simp: ba split: option.splits)
  qed
qed

text \<open>Both delays of \<open>n\<close> milliseconds return as soon as the interrupt has come \<open>n + 1\<close> times
  since they were entered, however often they poll in between, and not before; the count is
  taken in 16 bits, so the longest delay, 65535, does not wait for a single tick.\<close>

theorem delays_return:
  "(delayms_Lock bs v (p\<lparr>Pollintack := False\<rparr>) \<noteq> None) = (unat (v + 1) \<le> count_list bs True) \<and>
   (delay_NoLock cs v (p\<lparr>Pollintack := False\<rparr>) \<noteq> None) = (unat (v + 1) \<le> count_list (map fst cs) True) \<and>
   delayms_Lock [] 0xffff p = Some (p\<lparr>msCountDown := 0\<rparr>)"
proof -
  have "delayms_Lock [] 0xffff p = Some (p\<lparr>msCountDown := 0\<rparr>)"
    unfolding delayms_Lock_def by (subst lock_loop.simps) simp
  then show ?thesis
    using lock_loop_ticks[of "p\<lparr>Pollintack := False, msCountDown := v + 1\<rparr>" bs]
      nolock_loop_ticks[of "p\<lparr>Pollintack := False, msCountDown := v + 1\<rparr>" cs]
    by (simp add: delayms_Lock_def delay_NoLock_def)
qed

section \<open>The periods\<close>

definition counters_ok :: "STR_POLLINT \<Rightarrow> bool" where
  "counters_ok p \<longleftrightarrow> msCount p < 10 \<and> c10msCount p < 10 \<and> c100msCount p < 10"

text \<open>The three counters as the millisecond of the second.\<close>

definition ms_of_second :: "STR_POLLINT \<Rightarrow> nat" where
  "ms_of_second p = msCount p + 10 * c10msCount p + 100 * c100msCount p"

text \<open>The period of a job, its place within it, and its condition.\<close>

fun job_slot :: "job \<Rightarrow> (nat \<times> nat) option" where
  "job_slot Key_Scan = Some (10, 2)"
| "job_slot Do_Send_GPS_info = Some (10, 5)"
| "job_slot Do_Send_Dirft = Some (10, 6)"
| "job_slot Do_Power_On_Read_Reg_Once = Some (10, 9)"
| "job_slot Do_Pollint_Display_Main_menu = Some (100, 20)"
| "job_slot Update_Flash = Some (100, 90)"
| "job_slot Poll_Reg_0x83 = Some (1000, 200)"
| "job_slot Poll_Reg_0x8d = Some (1000, 300)"
| "job_slot Poll_Reg_0x84 = Some (1000, 400)"
| "job_slot Do_IWDG_Refresh = Some (1000, 500)"
| "job_slot Do_set_blink_flag = Some (1000, 600)"
| "job_slot Poll_Reg_0x87 = Some (1000, 700)"
| "job_slot Poll_Reg_0x82 = Some (1000, 900)"
| "job_slot _ = None"

fun job_wanted :: "asked \<Rightarrow> job \<Rightarrow> bool" where
  "job_wanted a Do_Send_GPS_info = (ask_Status a = 0 \<and> ask_clocktype a = 0x03)"
| "job_wanted a Do_Send_Dirft = (ask_Status a = 0 \<and> ask_Dirft_Flag a \<noteq> 0)"
| "job_wanted a Update_Flash = (ask_Update_Flash_Flag a \<noteq> 0)"
| "job_wanted a _ = True"

text \<open>The polls of a stretch of time, one tick before each.\<close>

fun ticks :: "asked list \<Rightarrow> STR_POLLINT \<Rightarrow> job list \<times> STR_POLLINT" where
  "ticks [] p = ([], p)"
| "ticks (a # as) p =
     (let (js, p) = pollint a (p\<lparr>Pollintack := True\<rparr>); (ks, p) = ticks as p in (js @ ks, p))"

lemma count_ms_second:
  assumes "counters_ok p"
  shows "counters_ok (count_ms p)" "ms_of_second (count_ms p) = (ms_of_second p + 1) mod 1000"
proof -
  have b: "msCount p < 10" "c10msCount p < 10" "c100msCount p < 10" using assms by (simp_all add: counters_ok_def)
  show "counters_ok (count_ms p)" using b by (simp add: counters_ok_def count_ms_def Let_def)
  consider "msCount p < 9" | "msCount p = 9" "c10msCount p < 9" | "msCount p = 9" "c10msCount p = 9" "c100msCount p < 9"
    | "msCount p = 9" "c10msCount p = 9" "c100msCount p = 9"
    using b by linarith
  then show "ms_of_second (count_ms p) = (ms_of_second p + 1) mod 1000"
    by cases (use b in \<open>simp_all add: ms_of_second_def count_ms_def Let_def\<close>)
qed

lemma job_slot_ok: "job_slot j = Some (d, r) \<Longrightarrow> d dvd 1000 \<and> r < d"
  by (cases j) (auto simp: dvd_def)

lemma second_mod:
  assumes "counters_ok p"
  shows "ms_of_second p mod 10 = msCount p" "ms_of_second p mod 100 = msCount p + 10 * c10msCount p"
    "ms_of_second p mod 1000 = ms_of_second p"
proof -
  have b: "msCount p < 10" "c10msCount p < 10" "c100msCount p < 10" using assms by (simp_all add: counters_ok_def)
  have e: "ms_of_second p = msCount p + 10 * (c10msCount p + 10 * c100msCount p)"
      "ms_of_second p = (msCount p + 10 * c10msCount p) + 100 * c100msCount p"
    by (simp_all add: ms_of_second_def)
  show "ms_of_second p mod 10 = msCount p" using b unfolding e(1) mod_mult_self2 by simp
  show "ms_of_second p mod 100 = msCount p + 10 * c10msCount p" using b unfolding e(2) mod_mult_self2 by simp
  show "ms_of_second p mod 1000 = ms_of_second p" using b by (simp add: ms_of_second_def)
qed

lemma digit_ten: "a < 10 \<Longrightarrow> (a + 10 * b = 10 * c) = (a = 0 \<and> b = (c :: nat))"
proof
  assume a: "a < 10" and e: "a + 10 * b = 10 * c"
  then have "(a + 10 * b) mod 10 = (10 * c) mod 10" by simp
  then have "a = 0" using a by simp
  then show "a = 0 \<and> b = c" using e by simp
qed simp

lemma due:
  assumes "counters_ok p" "job_slot j = Some (d, r)"
  shows "count_list (Pollint10mSec a p) j = (if job_wanted a j \<and> ms_of_second p mod d = r then 1 else 0)"
proof -
  have b: "msCount p < 10" "c10msCount p < 10" "c100msCount p < 10" using assms by (simp_all add: counters_ok_def)
  have m10: "ms_of_second p mod 10 = msCount p" by (rule second_mod(1)[OF assms(1)])
  have m100: "(ms_of_second p mod 100 = 20) = (msCount p = 0 \<and> c10msCount p = 2)"
      "(ms_of_second p mod 100 = 90) = (msCount p = 0 \<and> c10msCount p = 9)"
    using digit_ten[OF b(1), of "c10msCount p" 2] digit_ten[OF b(1), of "c10msCount p" 9]
    unfolding second_mod(2)[OF assms(1)] by simp_all
  have "(ms_of_second p mod 1000 = 100 * k) = (msCount p = 0 \<and> c10msCount p = 0 \<and> c100msCount p = k)" for k
    using digit_ten[OF b(1), of "c10msCount p + 10 * c100msCount p" "10 * k"] digit_ten[OF b(2), of "c100msCount p" k]
    unfolding second_mod(3)[OF assms(1)] unfolding ms_of_second_def by (simp add: add.assoc)
  from this[of 2] this[of 3] this[of 4] this[of 5] this[of 6] this[of 7] this[of 9]
  have m1000: "(ms_of_second p mod 1000 = 200) = (msCount p = 0 \<and> c10msCount p = 0 \<and> c100msCount p = 2)"
    "(ms_of_second p mod 1000 = 300) = (msCount p = 0 \<and> c10msCount p = 0 \<and> c100msCount p = 3)"
    "(ms_of_second p mod 1000 = 400) = (msCount p = 0 \<and> c10msCount p = 0 \<and> c100msCount p = 4)"
    "(ms_of_second p mod 1000 = 500) = (msCount p = 0 \<and> c10msCount p = 0 \<and> c100msCount p = 5)"
    "(ms_of_second p mod 1000 = 600) = (msCount p = 0 \<and> c10msCount p = 0 \<and> c100msCount p = 6)"
    "(ms_of_second p mod 1000 = 700) = (msCount p = 0 \<and> c10msCount p = 0 \<and> c100msCount p = 7)"
    "(ms_of_second p mod 1000 = 900) = (msCount p = 0 \<and> c10msCount p = 0 \<and> c100msCount p = 9)"
    by simp_all
  have z: "msCount p \<in> {1, 3, 4, 7, 8} \<or> msCount p = 0 \<or> msCount p = 2 \<or> msCount p = 5 \<or> msCount p = 6 \<or> msCount p = 9"
    "c10msCount p \<in> {1, 3, 4, 5, 6, 7, 8} \<or> c10msCount p = 0 \<or> c10msCount p = 2 \<or> c10msCount p = 9"
    using b by auto
  have none: "count_list (if x then [k] else []) j = (if x \<and> j = k then 1 else 0)" for x k
    by simp
  show ?thesis
  proof (cases "msCount p = 0")
    case True
    have t: "Pollint10mSec a p = Pollint100mSec a p" using True by (simp add: Pollint10mSec_def)
    have h: "count_list (Pollint100mSec a p) j = (if job_wanted a j \<and> 
       (job_slot j = Some (100, 10 * c10msCount p) \<or> c10msCount p = 0 \<and> job_slot j = Some (1000, 100 * c100msCount p)) then 1 else 0)"
      using z(2)
    proof (elim disjE)
      assume "c10msCount p = 0"
      then show ?thesis unfolding Pollint100mSec_def Pollint1Sec_def Let_def by (cases j; simp)
    next
      assume "c10msCount p = 2"
      then show ?thesis unfolding Pollint100mSec_def Let_def by (cases j; simp)
    next
      assume "c10msCount p = 9"
      then show ?thesis unfolding Pollint100mSec_def Let_def by (cases j; simp)
    next
      assume "c10msCount p \<in> {1, 3, 4, 5, 6, 7, 8}"
      then show ?thesis unfolding Pollint100mSec_def Let_def
        by (cases "job_slot j = Some (100, 10 * c10msCount p)"; cases j; auto)
    qed
    show ?thesis unfolding t h
      using assms(2) True by (cases j) (auto simp: m10 m100 m1000)
  next
    case False
    have "count_list (Pollint10mSec a p) j = (if job_wanted a j \<and> job_slot j = Some (10, msCount p) then 1 else 0)"
      using z(1)
    proof (elim disjE)
      assume "msCount p \<in> {1, 3, 4, 7, 8}"
      then show ?thesis unfolding Pollint10mSec_def Let_def by (cases j; auto)
    qed (use False in \<open>unfold Pollint10mSec_def Let_def; cases j; simp\<close>)+
    moreover have "job_slot j = Some (10, msCount p) \<longleftrightarrow> ms_of_second p mod d = r"
      using assms(2) False by (cases j) (auto simp: m10 m100 m1000)
    ultimately show ?thesis by simp
  qed
qed

text \<open>How often place \<open>r\<close> of a period \<open>d\<close> comes in the \<open>n\<close> milliseconds after \<open>s\<close>.\<close>

fun slots :: "nat \<Rightarrow> nat \<Rightarrow> nat \<Rightarrow> nat \<Rightarrow> nat" where
  "slots d r s 0 = 0"
| "slots d r s (Suc n) = (if (s + 1) mod d = r then 1 else 0) + slots d r (s + 1) n"

lemma slots_mod: "d dvd m \<Longrightarrow> slots d r (s mod m) n = slots d r s n"
proof (induction n arbitrary: s)
  case (Suc n)
  have "(s mod m + 1) mod m mod d = (s + 1) mod d" "(s mod m + 1) mod d = (s + 1) mod d"
    using Suc.prems by (metis mod_add_left_eq mod_mod_cancel)+
  moreover have "slots d r (s mod m + 1) n = slots d r (s + 1) n"
    using Suc.IH[OF Suc.prems, of "s mod m + 1"] Suc.IH[OF Suc.prems, of "s + 1"]
    by (metis mod_add_left_eq)
  ultimately show ?case by simp
qed simp

lemma slots_closed: "r < d \<Longrightarrow> slots d r s n + (s + (d - r)) div d = (s + n + (d - r)) div d"
proof (induction n arbitrary: s)
  case (Suc n)
  have "((s + 1) mod d = r) = (Suc (s + (d - r)) mod d = 0)"
  proof -
    have "Suc (s + (d - r)) + r = (s + 1) + d" using Suc.prems by simp
    then have "(Suc (s + (d - r)) + r) mod d = (s + 1) mod d" by (simp only: mod_add_self2)
    moreover have "((x + r) mod d = r) = (x mod d = 0)" for x
      using mod_eq_dvd_iff_nat[of r "x + r" d] Suc.prems by (auto simp: mod_eq_0_iff_dvd)
    ultimately show ?thesis by metis
  qed
  moreover have "(s + 1 + (d - r)) div d = (if Suc (s + (d - r)) mod d = 0 then Suc ((s + (d - r)) div d) else (s + (d - r)) div d)"
    using div_Suc[of "s + (d - r)" d] by simp
  ultimately show ?case using Suc.IH[OF Suc.prems, of "s + 1"] by (simp split: if_splits)
qed simp

lemma slots_periods: "r < d \<Longrightarrow> slots d r s (k * d) = k"
proof -
  assume r: "r < d"
  define x where "x = s + (d - r)"
  have "s + k * d + (d - r) = x + k * d" by (simp add: x_def)
  then have "slots d r s (k * d) + x div d = (x + k * d) div d"
    using slots_closed[OF r, of s "k * d"] by (simp only: x_def)
  then show ?thesis using r by simp
qed

lemma poll_count:
  assumes "counters_ok p" "job_slot j = Some (d, r)"
  shows "count_list (fst (pollint a (p\<lparr>Pollintack := True\<rparr>))) j =
      (if job_wanted a j \<and> (ms_of_second p + 1) mod d = r then 1 else 0)"
    "counters_ok (snd (pollint a (p\<lparr>Pollintack := True\<rparr>)))"
    "ms_of_second (snd (pollint a (p\<lparr>Pollintack := True\<rparr>))) = (ms_of_second p + 1) mod 1000"
proof -
  let ?q = "count_ms (p\<lparr>Pollintack := True\<rparr>)"
  have c: "counters_ok (p\<lparr>Pollintack := True\<rparr>)" "ms_of_second (p\<lparr>Pollintack := True\<rparr>) = ms_of_second p"
    using assms(1) by (simp_all add: counters_ok_def ms_of_second_def)
  have q: "counters_ok ?q" "ms_of_second ?q = (ms_of_second p + 1) mod 1000"
    using count_ms_second[OF c(1)] c(2) by simp_all
  have "d dvd 1000" using job_slot_ok[OF assms(2)] by simp
  then have m: "ms_of_second ?q mod d = (ms_of_second p + 1) mod d" by (simp only: q(2) mod_mod_cancel)
  have e: "pollint a (p\<lparr>Pollintack := True\<rparr>) =
     ([Pollint_eth_send, Pollint_spi_transmit, USART3_RxReaddy, USART3_CheckSerial, Config_CheckStatus] @
      Pollint10mSec a ?q @ [MX_LWIP_Process], ?q)"
    by (simp add: pollint_def ChangeTimeCount_OK_def ChangeTime1mSec_def)
  have o: "j \<notin> {Pollint_eth_send, Pollint_spi_transmit, USART3_RxReaddy, USART3_CheckSerial, Config_CheckStatus, MX_LWIP_Process}"
    using assms(2) by auto
  show "count_list (fst (pollint a (p\<lparr>Pollintack := True\<rparr>))) j =
      (if job_wanted a j \<and> (ms_of_second p + 1) mod d = r then 1 else 0)"
    using o due[OF q(1) assms(2), of a] unfolding e m by auto
  show "counters_ok (snd (pollint a (p\<lparr>Pollintack := True\<rparr>)))"
    "ms_of_second (snd (pollint a (p\<lparr>Pollintack := True\<rparr>))) = (ms_of_second p + 1) mod 1000"
    using q by (simp_all add: e)
qed

lemma ticks_count:
  assumes "counters_ok p" "job_slot j = Some (d, r)" "list_all (\<lambda>a. job_wanted a j) as"
  shows "count_list (fst (ticks as p)) j = slots d r (ms_of_second p) (length as)"
  using assms(1,3)
proof (induction as arbitrary: p)
  case (Cons a as)
  obtain js q where q: "pollint a (p\<lparr>Pollintack := True\<rparr>) = (js, q)" by (cases "pollint a (p\<lparr>Pollintack := True\<rparr>)")
  obtain ks q' where k: "ticks as q = (ks, q')" by (cases "ticks as q")
  note pc = poll_count[OF Cons.prems(1) assms(2), of a, unfolded q fst_conv snd_conv]
  have "d dvd 1000" using job_slot_ok[OF assms(2)] by simp
  then have "slots d r ((ms_of_second p + 1) mod 1000) (length as) = slots d r (ms_of_second p + 1) (length as)"
    by (rule slots_mod)
  then show ?case
    using Cons.IH[OF pc(2)] Cons.prems(2) pc(1,3) by (simp add: q k)
qed simp

text \<open>C11: Every periodic job of the firmware keeps its period: from any state of the counters, in
  any stretch of \<open>n\<close> of its periods (10 ms for the keys, the second pulse, the drift and the
  power-on sweep, 100 ms for the main page and the flash, one second for the status registers,
  the watchdog and the blinking) it is called exactly \<open>n\<close> times, if its condition holds.\<close>

theorem jobs_keep_period:
  assumes "counters_ok p" "job_slot j = Some (d, r)" "list_all (\<lambda>a. job_wanted a j) as" "length as = n * d"
  shows "count_list (fst (ticks as p)) j = n"
  using ticks_count[OF assms(1-3)] slots_periods job_slot_ok[OF assms(2)] assms(4) by simp

definition asked0 :: asked where
  "asked0 = \<lparr>ask_Status = 0, ask_clocktype = 3, ask_Dirft_Flag = 1, ask_Update_Flash_Flag = 0\<rparr>"

definition pollint0 :: STR_POLLINT where
  "pollint0 = \<lparr>msCountDown = 0, msCount = 0, c10msCount = 0, c100msCount = 0, Pollintack = False\<rparr>"

theorem jobs_keep_period_witness:
  "count_list (fst (ticks (replicate 3000 asked0) pollint0)) Do_IWDG_Refresh = 3 \<and>
   job_wanted asked0 Do_IWDG_Refresh \<and> counters_ok pollint0"
  using jobs_keep_period[of pollint0 Do_IWDG_Refresh 1000 500 "replicate 3000 asked0" 3]
  by (simp add: counters_ok_def pollint0_def list_all_iff)

end
