(* ===== verification/Uart3.thy ===== *)
theory Uart3
  imports Checksum RomFlash "HOL-Library.Monad_Syntax"
begin

text \<open>
  \<open>driver/usart/uart3.c\<close>: the serial port for downloads.  Bytes to send wait in a ring of 512
  places that the transmit interrupt empties; \<open>sent\<close> records the bytes handed to the
  transmitter.  A received byte is stored where the last \<open>HAL_UART_Receive_IT\<close> pointed
  (\<open>armed\<close>), and ten milliseconds of silence end a packet.  The busy waits go on until interrupts
  have changed the state; waiting for ever is \<open>None\<close>.
\<close>

definition usart3_buf_Number :: nat where "usart3_buf_Number = 0x200"

definition RBUF_NEXT_PT :: "nat \<Rightarrow> nat" where
  "RBUF_NEXT_PT dat = (dat + 1) mod usart3_buf_Number"

record uart3 =
  tx_buf :: bytes
  tx_Write :: nat
  tx_Read :: nat
  HaveData :: bool
  sent :: bytes
  rx_buf :: bytes
  rxcount :: nat
  timeout :: u8
  busy :: bool
  armed :: "nat option"

text \<open>After \<open>MX_USART3_UART_Init\<close>; the buffers are static.\<close>

definition MX_USART3_UART_Init :: uart3 where
  "MX_USART3_UART_Init =
     \<lparr>tx_buf = replicate usart3_buf_Number 0, tx_Write = 0, tx_Read = 0, HaveData = False, sent = [],
      rx_buf = replicate usart3_buf_Number 0, rxcount = RBUF_NEXT_PT 0, timeout = 0, busy = False, armed = Some 0\<rparr>"

section \<open>Sending\<close>

text \<open>\<open>HAL_UART_Transmit_IT\<close> of the byte at \<open>Read\<close>, and the next place.\<close>

definition transmit_next :: "uart3 \<Rightarrow> uart3" where
  "transmit_next u = u\<lparr>sent := sent u @ [tx_buf u ! tx_Read u], tx_Read := RBUF_NEXT_PT (tx_Read u)\<rparr>"

definition HAL_UART_TxCpltCallback :: "uart3 \<Rightarrow> uart3" where
  "HAL_UART_TxCpltCallback u =
     (if tx_Write u = tx_Read u then u\<lparr>HaveData := False\<rparr> else transmit_next u)"

text \<open>The interrupt comes only while a byte is on the line.\<close>

definition tx_interrupt :: "uart3 \<Rightarrow> uart3" where
  "tx_interrupt u = (if HaveData u then HAL_UART_TxCpltCallback u else u)"

partial_function (option) wait_room :: "uart3 \<Rightarrow> uart3 option" where
  "wait_room u =
     (if RBUF_NEXT_PT (tx_Write u) = tx_Read u
      then (if HaveData u then wait_room (HAL_UART_TxCpltCallback u) else wait_room u)
      else Some u)"

partial_function (option) WaitTxBufEmpty :: "uart3 \<Rightarrow> uart3 option" where
  "WaitTxBufEmpty u = (if HaveData u then WaitTxBufEmpty (HAL_UART_TxCpltCallback u) else Some u)"

definition put_byte :: "u8 \<Rightarrow> uart3 \<Rightarrow> uart3" where
  "put_byte ch u =
     (let u = u\<lparr>tx_buf := (tx_buf u)[tx_Write u := ch], tx_Write := RBUF_NEXT_PT (tx_Write u)\<rparr>
      in if HaveData u then u else transmit_next (u\<lparr>HaveData := True\<rparr>))"

definition USART3_Putchar :: "u8 \<Rightarrow> uart3 \<Rightarrow> uart3 option" where
  "USART3_Putchar ch u = map_option (put_byte ch) (wait_room u)"

fun USART3_Putbuf :: "bytes \<Rightarrow> uart3 \<Rightarrow> uart3 option" where
  "USART3_Putbuf [] u = Some u"
| "USART3_Putbuf (b # bs) u = (case USART3_Putchar b u of None \<Rightarrow> None | Some u \<Rightarrow> USART3_Putbuf bs u)"

section \<open>Receiving\<close>

definition RXTIMEOUT :: u8 where "RXTIMEOUT = 10"

definition HAL_UART_RxCpltCallback :: "uart3 \<Rightarrow> uart3" where
  "HAL_UART_RxCpltCallback u =
     (if \<not> busy u
      then u\<lparr>timeout := 0, armed := Some (rxcount u), rxcount := RBUF_NEXT_PT (rxcount u)\<rparr>
      else u)"

definition receive_byte :: "u8 \<Rightarrow> uart3 \<Rightarrow> uart3" where
  "receive_byte b u =
     (case armed u of
        None \<Rightarrow> u
      | Some i \<Rightarrow> HAL_UART_RxCpltCallback (u\<lparr>rx_buf := (rx_buf u)[i := b], armed := None\<rparr>))"

definition USART3_RxReaddy :: "uart3 \<Rightarrow> uart3" where
  "USART3_RxReaddy u =
     (if \<not> busy u \<and> rxcount u \<noteq> 0
      then (let u = u\<lparr>timeout := timeout u + 1\<rparr>
            in if timeout u > RXTIMEOUT then u\<lparr>busy := True\<rparr> else u)
      else u)"

text \<open>\<open>buf\<close> is the caller's array.\<close>

definition USART3_GetRxBufDat :: "bytes \<Rightarrow> uart3 \<Rightarrow> nat \<times> bytes \<times> uart3" where
  "USART3_GetRxBufDat buf u =
     (rxcount u, mem_write buf 0 (take (rxcount u) (rx_buf u)), u\<lparr>rxcount := 0, timeout := 0, busy := False\<rparr>)"

section \<open>The ring empties in order\<close>

definition tx_ok :: "uart3 \<Rightarrow> bool" where
  "tx_ok u \<longleftrightarrow> length (tx_buf u) = 0x200 \<and> tx_Write u < 0x200 \<and> tx_Read u < 0x200 \<and>
     (HaveData u \<or> tx_Write u = tx_Read u)"

definition tx_waiting :: "uart3 \<Rightarrow> nat" where
  "tx_waiting u = (tx_Write u + 0x200 - tx_Read u) mod 0x200"

definition tx_pending :: "uart3 \<Rightarrow> bytes" where
  "tx_pending u = ring_slice (tx_buf u) (tx_Read u) (tx_waiting u)"

definition tx_all :: "uart3 \<Rightarrow> bytes" where
  "tx_all u = sent u @ tx_pending u"

lemma tx_next: "tx_Read u < 0x200 \<Longrightarrow> RBUF_NEXT_PT i < 0x200"
  by (simp add: RBUF_NEXT_PT_def usart3_buf_Number_def)

lemma tx_init_ok: "tx_ok MX_USART3_UART_Init"
  by (simp add: tx_ok_def MX_USART3_UART_Init_def usart3_buf_Number_def)

lemma tx_waiting_0: "tx_ok u \<Longrightarrow> tx_waiting u = 0 \<longleftrightarrow> tx_Write u = tx_Read u"
  by (auto simp: tx_ok_def tx_waiting_def mod_if split: if_splits)

lemma tx_full: "tx_ok u \<Longrightarrow> RBUF_NEXT_PT (tx_Write u) = tx_Read u \<longleftrightarrow> tx_waiting u = 0x1ff"
  by (auto simp: tx_ok_def tx_waiting_def RBUF_NEXT_PT_def usart3_buf_Number_def mod_if split: if_splits)

lemma tx_waiting_bound: "tx_waiting u < 0x200"
  by (simp add: tx_waiting_def)

lemma transmit_next_spec:
  assumes "tx_ok u" "tx_waiting u = Suc n"
  shows "tx_waiting (transmit_next u) = n" "tx_all (transmit_next u) = tx_all u"
    and "HaveData u \<Longrightarrow> tx_ok (transmit_next u)"
proof -
  note o = assms(1)[unfolded tx_ok_def]
  have w: "tx_Write (transmit_next u) = tx_Write u" "tx_buf (transmit_next u) = tx_buf u"
    "tx_Read (transmit_next u) = RBUF_NEXT_PT (tx_Read u)" "HaveData (transmit_next u) = HaveData u"
    "sent (transmit_next u) = sent u @ [tx_buf u ! tx_Read u]"
    by (simp_all add: transmit_next_def)
  show n: "tx_waiting (transmit_next u) = n"
    using assms(2) o by (auto simp: tx_waiting_def w RBUF_NEXT_PT_def usart3_buf_Number_def mod_if split: if_splits)
  have "tx_pending u = tx_buf u ! tx_Read u # tx_pending (transmit_next u)"
    using o ring_slice_Suc[of "tx_Read u" "tx_buf u" n]
    by (simp add: tx_pending_def n assms(2) w RBUF_NEXT_PT_def usart3_buf_Number_def)
  then show "tx_all (transmit_next u) = tx_all u" by (simp add: tx_all_def w)
  show "HaveData u \<Longrightarrow> tx_ok (transmit_next u)"
    using o by (simp add: tx_ok_def w RBUF_NEXT_PT_def usart3_buf_Number_def)
qed

lemma tx_complete_spec:
  assumes "tx_ok u" "HaveData u"
  shows "tx_ok (HAL_UART_TxCpltCallback u)" "tx_all (HAL_UART_TxCpltCallback u) = tx_all u"
    "tx_waiting (HAL_UART_TxCpltCallback u) = tx_waiting u - 1"
    "HaveData (HAL_UART_TxCpltCallback u) \<longleftrightarrow> tx_waiting u \<noteq> 0"
proof -
  have "tx_ok (HAL_UART_TxCpltCallback u) \<and> tx_all (HAL_UART_TxCpltCallback u) = tx_all u \<and>
    tx_waiting (HAL_UART_TxCpltCallback u) = tx_waiting u - 1 \<and>
    (HaveData (HAL_UART_TxCpltCallback u) \<longleftrightarrow> tx_waiting u \<noteq> 0)"
  proof (cases "tx_waiting u")
    case 0
    then show ?thesis using assms tx_waiting_0[of u]
      by (simp add: HAL_UART_TxCpltCallback_def tx_ok_def tx_all_def tx_pending_def) (simp add: tx_waiting_def)
  next
    case (Suc n)
    have "HaveData (transmit_next u)" using assms(2) by (simp add: transmit_next_def)
    then show ?thesis using Suc transmit_next_spec[OF assms(1) Suc] assms tx_waiting_0[OF assms(1)]
      by (simp add: HAL_UART_TxCpltCallback_def)
  qed
  then show "tx_ok (HAL_UART_TxCpltCallback u)" "tx_all (HAL_UART_TxCpltCallback u) = tx_all u"
    "tx_waiting (HAL_UART_TxCpltCallback u) = tx_waiting u - 1"
    "HaveData (HAL_UART_TxCpltCallback u) \<longleftrightarrow> tx_waiting u \<noteq> 0" by blast+
qed

lemma put_byte_spec:
  assumes "tx_ok u" "tx_waiting u < 0x1ff"
  shows "tx_ok (put_byte b u)" "tx_all (put_byte b u) = tx_all u @ [b]" "HaveData (put_byte b u)"
proof -
  note o = assms(1)[unfolded tx_ok_def]
  let ?u = "u\<lparr>tx_buf := (tx_buf u)[tx_Write u := b], tx_Write := RBUF_NEXT_PT (tx_Write u), HaveData := True\<rparr>"
  have ok: "tx_ok ?u" using o by (simp add: tx_ok_def RBUF_NEXT_PT_def usart3_buf_Number_def)
  have n: "tx_waiting ?u = Suc (tx_waiting u)"
    using assms(2) o by (auto simp: tx_waiting_def RBUF_NEXT_PT_def usart3_buf_Number_def mod_if split: if_splits)
  have i: "tx_Write u = (tx_Read u + tx_waiting u) mod length (tx_buf u)"
    using o by (auto simp: tx_waiting_def mod_if split: if_splits)
  have "ring_slice ((tx_buf u)[tx_Write u := b]) (tx_Read u) (Suc (tx_waiting u)) =
      ring_slice (tx_buf u) (tx_Read u) (tx_waiting u) @ [b]"
    by (subst i, rule ring_slice_snoc) (use assms(2) o in simp)
  then have "tx_pending ?u = tx_pending u @ [b]"
    unfolding tx_pending_def n by simp
  then have a: "tx_all ?u = tx_all u @ [b]" by (simp add: tx_all_def)
  have "tx_ok (put_byte b u) \<and> tx_all (put_byte b u) = tx_all u @ [b] \<and> HaveData (put_byte b u)"
  proof (cases "HaveData u")
    case True
    then have "put_byte b u = ?u" by (simp add: put_byte_def)
    then show ?thesis using ok a by simp
  next
    case False
    then have "put_byte b u = transmit_next ?u" by (simp add: put_byte_def)
    then show ?thesis using transmit_next_spec[OF ok n] a by (simp add: transmit_next_def)
  qed
  then show "tx_ok (put_byte b u)" "tx_all (put_byte b u) = tx_all u @ [b]" "HaveData (put_byte b u)" by blast+
qed

lemma wait_room_returns:
  assumes "tx_ok u"
  obtains u' where "wait_room u = Some u'" "tx_ok u'" "tx_all u' = tx_all u" "tx_waiting u' < 0x1ff"
proof (cases "tx_waiting u = 0x1ff")
  case False
  then have "wait_room u = Some u" using tx_full[OF assms] by (subst wait_room.simps) simp
  then show ?thesis using that[of u] assms False tx_waiting_bound[of u] by simp
next
  case True
  then have h: "HaveData u" using assms tx_waiting_0[OF assms] by (auto simp: tx_ok_def)
  let ?u = "HAL_UART_TxCpltCallback u"
  note c = tx_complete_spec[OF assms h]
  have "wait_room u = wait_room ?u" using tx_full[OF assms] True h by (subst wait_room.simps) simp
  also have "\<dots> = Some ?u" using tx_full[OF c(1)] c(3) True by (subst wait_room.simps) simp
  finally show ?thesis using that[of ?u] c True by simp
qed

lemma Putchar_returns:
  assumes "tx_ok u"
  obtains u' where "USART3_Putchar b u = Some u'" "tx_ok u'" "tx_all u' = tx_all u @ [b]"
proof -
  obtain v where "wait_room u = Some v" "tx_ok v" "tx_all v = tx_all u" "tx_waiting v < 0x1ff"
    using wait_room_returns[OF assms] .
  then show ?thesis using that[of "put_byte b v"] put_byte_spec[of v b] by (simp add: USART3_Putchar_def)
qed

lemma WaitTxBufEmpty_returns:
  assumes "tx_ok u"
  shows "\<exists>u'. WaitTxBufEmpty u = Some u' \<and> tx_ok u' \<and> \<not> HaveData u' \<and> sent u' = tx_all u"
  using assms
proof (induction "if HaveData u then Suc (tx_waiting u) else 0" arbitrary: u)
  case 0
  then have "\<not> HaveData u" by (simp split: if_splits)
  moreover from this have "tx_waiting u = 0" using 0 tx_waiting_0 by (auto simp: tx_ok_def)
  ultimately show ?case using 0 by (subst WaitTxBufEmpty.simps) (simp add: tx_all_def tx_pending_def)
next
  case (Suc n)
  then have h: "HaveData u" "n = tx_waiting u" by (simp_all split: if_splits)
  note c = tx_complete_spec[OF Suc.prems h(1)]
  have "WaitTxBufEmpty u = WaitTxBufEmpty (HAL_UART_TxCpltCallback u)"
    using h by (subst WaitTxBufEmpty.simps) simp
  moreover have "n = (if HaveData (HAL_UART_TxCpltCallback u) then Suc (tx_waiting (HAL_UART_TxCpltCallback u)) else 0)"
    using c(3,4) h(2) by simp
  note Suc.hyps(1)[OF this c(1)]
  ultimately show ?case using c(2) by simp
qed

text \<open>Sending leaves the receiving side alone.\<close>

definition rx_side :: "uart3 \<Rightarrow> bytes \<times> nat \<times> u8 \<times> bool \<times> nat option" where
  "rx_side u = (rx_buf u, rxcount u, timeout u, busy u, armed u)"

lemma rx_side_complete: "rx_side (HAL_UART_TxCpltCallback u) = rx_side u"
  by (simp add: HAL_UART_TxCpltCallback_def transmit_next_def rx_side_def)

lemma rx_side_put: "rx_side (put_byte b u) = rx_side u"
  by (cases "HaveData u") (simp_all add: put_byte_def transmit_next_def Let_def rx_side_def)

lemma rx_side_wait: "wait_room u = Some u' \<Longrightarrow> rx_side u' = rx_side u"
  by (erule wait_room.raw_induct[where P = "\<lambda>u u'. rx_side u' = rx_side u", rotated])
    (auto simp: rx_side_complete split: if_splits)

lemma rx_side_empty: "WaitTxBufEmpty u = Some u' \<Longrightarrow> rx_side u' = rx_side u"
  by (erule WaitTxBufEmpty.raw_induct[where P = "\<lambda>u u'. rx_side u' = rx_side u", rotated])
    (auto simp: rx_side_complete split: if_splits)

lemma rx_side_Putchar: "USART3_Putchar b u = Some u' \<Longrightarrow> rx_side u' = rx_side u"
  using rx_side_wait[of u] by (auto simp: USART3_Putchar_def rx_side_put)

lemma Putchar_keeps_rx:
  "USART3_Putchar b u = Some u' \<Longrightarrow> busy u' = busy u \<and> rxcount u' = rxcount u"
  using rx_side_Putchar[of b u u'] by (simp add: rx_side_def)

text \<open>Anything between writes: an interrupt may come at any point.\<close>

datatype tx_step = Put_char u8 | Tx_complete

fun tx_run :: "tx_step list \<Rightarrow> uart3 \<Rightarrow> uart3 option" where
  "tx_run [] u = Some u"
| "tx_run (Put_char b # ops) u = (case USART3_Putchar b u of None \<Rightarrow> None | Some u \<Rightarrow> tx_run ops u)"
| "tx_run (Tx_complete # ops) u = tx_run ops (tx_interrupt u)"

fun put_chars :: "tx_step list \<Rightarrow> bytes" where
  "put_chars [] = []"
| "put_chars (Put_char b # ops) = b # put_chars ops"
| "put_chars (Tx_complete # ops) = put_chars ops"

lemma tx_run_all:
  assumes "tx_ok u"
  shows "\<exists>u'. tx_run ops u = Some u' \<and> tx_ok u' \<and> tx_all u' = tx_all u @ put_chars ops"
  using assms
proof (induction ops arbitrary: u rule: put_chars.induct)
  case (2 b ops)
  obtain v where v: "USART3_Putchar b u = Some v" "tx_ok v" "tx_all v = tx_all u @ [b]"
    using Putchar_returns[OF 2(2)] .
  show ?case using 2(1)[OF v(2)] v by auto
next
  case (3 ops)
  have "tx_ok (tx_interrupt u)" "tx_all (tx_interrupt u) = tx_all u"
    using tx_complete_spec[OF 3(2)] 3(2) by (simp_all add: tx_interrupt_def)
  then show ?case using 3(1)[of "tx_interrupt u"] by simp
qed simp

text \<open>C15: Serial output is lossless and in order, and its waits end: whatever the interleaving of
  writes and transmit interrupts, and even when the 511 places of the ring are full, every
  write returns; \<open>WaitTxBufEmpty\<close> then returns with the transmitter idle, having sent what was
  waiting followed by the bytes written, each once.\<close>

theorem serial_output_in_order:
  assumes "tx_ok u"
  shows "\<exists>u' u''. tx_run ops u = Some u' \<and> tx_ok u' \<and> WaitTxBufEmpty u' = Some u'' \<and>
    tx_ok u'' \<and> \<not> HaveData u'' \<and> sent u'' = sent u @ tx_pending u @ put_chars ops"
proof -
  obtain u' where u': "tx_run ops u = Some u'" "tx_ok u'" "tx_all u' = tx_all u @ put_chars ops"
    using tx_run_all[OF assms] by blast
  then show ?thesis using WaitTxBufEmpty_returns[OF u'(2)] by (auto simp: tx_all_def)
qed

theorem serial_output_in_order_witness:
  "\<exists>u' u''. tx_run [Put_char 1, Put_char 2, Tx_complete, Put_char 3] MX_USART3_UART_Init = Some u' \<and> tx_ok u' \<and>
    WaitTxBufEmpty u' = Some u'' \<and> tx_ok u'' \<and> \<not> HaveData u'' \<and> sent u'' = [1, 2, 3]"
  using serial_output_in_order[OF tx_init_ok, of "[Put_char 1, Put_char 2, Tx_complete, Put_char 3]"]
  by (simp add: MX_USART3_UART_Init_def tx_pending_def tx_waiting_def)

end
