(* ===== verification/SerialDownload.thy ===== *)
theory SerialDownload
  imports Uart3
begin

text \<open>
  \<open>app/mboot.c\<close>, \<open>DownloadConfig\<close> of \<open>app/config_env.c\<close> and the packet handling of
  \<open>driver/usart/uart3.c\<close>: the download of a program or a configuration over the serial port.
  What the stack held before a call is an argument.  \<open>None\<close> is a wait that never ends or a write
  through the null pointer \<open>f16kinfo\<close>.
\<close>

section \<open>The packet\<close>

definition PRO_STX :: u8 where "PRO_STX = 0xfe"
definition PRO_MSGID :: u8 where "PRO_MSGID = 0x1e"
definition PRO_EXTRA_CRC :: u8 where "PRO_EXTRA_CRC = 39"

definition PROG_FILE_DAT :: u8 where "PROG_FILE_DAT = 2"
definition PROG_FILE_END :: u8 where "PROG_FILE_END = 3"
definition PROG_FILE_CNFG_DAT :: u8 where "PROG_FILE_CNFG_DAT = 4"
definition PROG_FILE_CNFG_END :: u8 where "PROG_FILE_CNFG_END = 5"

definition PROG_CORE_HEADER_LEN :: nat where "PROG_CORE_HEADER_LEN = 5"
definition PROG_NUM_HEADER_BYTES :: nat where "PROG_NUM_HEADER_BYTES = PROG_CORE_HEADER_LEN + 1"
definition PROG_NUM_CHECKSUM_BYTES :: nat where "PROG_NUM_CHECKSUM_BYTES = 2"
definition PROG_MAX_PAYLOAD_LEN :: nat where "PROG_MAX_PAYLOAD_LEN = 256"

definition NET_ERR :: u8 where "NET_ERR = 0"
definition NET_ACK :: u8 where "NET_ACK = 1"
definition NET_DownPrg :: u8 where "NET_DownPrg = 2"
definition NET_DownConfigPrg :: u8 where "NET_DownConfigPrg = 3"

definition LAN_ACK :: u8 where "LAN_ACK = 0x02"
definition LAN_ERR :: u8 where "LAN_ERR = 0x03"
definition LAN_ETX :: u8 where "LAN_ETX = 0x04"

lemmas prog_defs = PRO_STX_def PRO_MSGID_def PROG_CORE_HEADER_LEN_def PROG_NUM_HEADER_BYTES_def
  PROG_NUM_CHECKSUM_BYTES_def PROG_MAX_PAYLOAD_LEN_def
lemmas cmd_defs = PROG_FILE_DAT_def PROG_FILE_END_def PROG_FILE_CNFG_DAT_def PROG_FILE_CNFG_END_def
lemmas net_defs = NET_ERR_def NET_ACK_def NET_DownPrg_def NET_DownConfigPrg_def LAN_ACK_def LAN_ERR_def LAN_ETX_def

text \<open>\<open>STR_PECRPORTOCOL\<close>: \<open>wire_part\<close> is the memory from \<open>magic\<close> on: the six header bytes, the 256
  bytes of \<open>buf\<close> and the six bytes that follow the structure on the stack.\<close>

record STR_PECRPORTOCOL =
  type_ :: u8
  command :: u8
  lan_length :: u16
  addr :: u32
  wire_part :: bytes

definition lan_buf :: "STR_PECRPORTOCOL \<Rightarrow> bytes" where
  "lan_buf lan = drop PROG_NUM_HEADER_BYTES (wire_part lan)"

definition package_checksum :: "bytes \<Rightarrow> bytes \<Rightarrow> u16" where
  "package_checksum header payload =
     crc_accumulate PRO_EXTRA_CRC (crc_accumulate_buffer (crc_calculate header) payload)"

definition Decode_OK :: "bytes \<Rightarrow> STR_PECRPORTOCOL \<Rightarrow> nat \<Rightarrow> STR_PECRPORTOCOL option" where
  "Decode_OK buf lan len =
     (let l = (if buf ! 1 = 0 then PROG_MAX_PAYLOAD_LEN else unat (buf ! 1)) in
      if len \<noteq> l + PROG_NUM_HEADER_BYTES + PROG_NUM_CHECKSUM_BYTES then None
      else (let checksum = package_checksum (mem_read buf 1 PROG_CORE_HEADER_LEN) (mem_read buf PROG_NUM_HEADER_BYTES l);
                w = mem_write (wire_part lan) PROG_NUM_HEADER_BYTES (mem_read buf PROG_NUM_HEADER_BYTES l)
            in if buf ! (PROG_NUM_HEADER_BYTES + l) = ucast checksum \<and>
                  buf ! (PROG_NUM_HEADER_BYTES + l + 1) = ucast (drop_bit 8 checksum)
               then (let l = l + PROG_NUM_HEADER_BYTES; w = mem_write w 0 (mem_read buf 0 l)
                     in Some \<lparr>type_ = 0, command = w ! 2, lan_length = of_nat l,
                          addr = (ucast (w ! 4) * 0x100 + ucast (w ! 3)) * 0x100, wire_part = w\<rparr>)
               else None))"

section \<open>The boot loader\<close>

definition F16KProgramAddr :: nat where "F16KProgramAddr = 0x08000000"
definition F16KFileLen :: nat where "F16KFileLen = 0x4000"
definition EnvLen :: nat where "EnvLen = 0x4000"
definition VectorLen :: nat where "VectorLen = 0x400"
definition ApplicationAddress :: nat where "ApplicationAddress = F16KProgramAddr + F16KFileLen + EnvLen"
definition Soft_Key :: u32 where "Soft_Key = 0x55aa33cc"
definition HARD_VER :: u32 where "HARD_VER = 0x00030001"

lemmas boot_addr_defs = F16KProgramAddr_def F16KFileLen_def EnvLen_def VectorLen_def ApplicationAddress_def

text \<open>A field of \<open>STR_Filestr\<close> in a buffer: a little-endian word.\<close>

definition word_at :: "nat \<Rightarrow> bytes \<Rightarrow> u32" where
  "word_at i b = ucast (b ! i) OR push_bit 8 (ucast (b ! (i + 1))) OR
     push_bit 16 (ucast (b ! (i + 2))) OR push_bit 24 (ucast (b ! (i + 3)))"

definition WriteOnePackage :: "hal_flash \<Rightarrow> bytes \<Rightarrow> u32 \<Rightarrow> nat \<Rightarrow> flash \<Rightarrow> u8 \<times> flash" where
  "WriteOnePackage hal buf address len fl =
     (if unat address = VectorLen div 0x100 \<and> (word_at 0 buf \<noteq> Soft_Key \<or> word_at 12 buf \<noteq> HARD_VER)
      then (NET_ERR, fl)
      else (let (ok, fl) = romflash_clean_pages hal (unat address) fl in
            if ok
            then (let (ok, fl) = romflash_pages_write hal (unat address + ApplicationAddress) (take len buf) fl
                  in (if ok then NET_ACK else NET_ERR, fl))
            else (NET_ERR, fl)))"

definition DownloadProgram :: "hal_flash \<Rightarrow> STR_PECRPORTOCOL \<Rightarrow> flash \<Rightarrow> u8 \<times> flash" where
  "DownloadProgram hal lan fl = WriteOnePackage hal (lan_buf lan) (addr lan) (unat (lan_length lan)) fl"

text \<open>\<open>FATY_ADDR\<close> of \<open>config_env.c\<close> is the start of sector 7.\<close>

definition FATY_ADDR :: nat where "FATY_ADDR = ADDR_FLASH_SECTOR_7"

definition DownloadConfig :: "hal_flash \<Rightarrow> STR_PECRPORTOCOL \<Rightarrow> flash \<Rightarrow> u8 \<times> flash" where
  "DownloadConfig hal lan fl =
     (let (ok, fl) = romflash_clean_pages hal (unat (addr lan)) fl in
      if ok
      then (let (ok, fl) = romflash_pages_write hal (unat (addr lan) + FATY_ADDR)
              (take (unat (lan_length lan)) (lan_buf lan)) fl
            in (if ok then NET_ACK else NET_ERR, fl))
      else (NET_ERR, fl))"

definition LAN_FUN_DoPackage :: "hal_flash \<Rightarrow> STR_PECRPORTOCOL \<Rightarrow> flash \<Rightarrow> u8 \<times> flash" where
  "LAN_FUN_DoPackage hal lan fl =
     (if command lan = PROG_FILE_DAT then DownloadProgram hal lan fl
      else if command lan = PROG_FILE_END then (NET_DownPrg, fl)
      else if command lan = PROG_FILE_CNFG_DAT then DownloadConfig hal lan fl
      else if command lan = PROG_FILE_CNFG_END then (NET_DownConfigPrg, fl)
      else (NET_ERR, fl))"

text \<open>The statics of \<open>mboot.c\<close>: \<open>f16kinfo\<close> is null until \<open>SetUpdataFlag\<close>; \<open>info_Flag\<close> is the word at
  0x20000000, which survives the jump from the application.\<close>

record boot =
  UpDataFlag :: u32
  WaitATime :: u32
  f16kinfo_set :: bool
  info_Flag :: u32

definition boot0 :: "u32 \<Rightarrow> boot" where
  "boot0 flag = \<lparr>UpDataFlag = 0, WaitATime = 0, f16kinfo_set = False, info_Flag = flag\<rparr>"

definition SetUpdataFlag :: "boot \<Rightarrow> boot" where
  "SetUpdataFlag b =
     b\<lparr>f16kinfo_set := True, UpDataFlag := (if info_Flag b \<noteq> 0x12345678 then 0 else 1),
       info_Flag := 0, WaitATime := 0\<rparr>"

definition SetSwitchFlag :: "boot \<Rightarrow> boot option" where
  "SetSwitchFlag b = (if f16kinfo_set b then Some (b\<lparr>info_Flag := 0\<rparr>) else None)"

definition GoToUpdate :: "boot \<Rightarrow> boot" where "GoToUpdate b = b\<lparr>UpDataFlag := 1\<rparr>"

definition cfi_checkSw :: "nat \<Rightarrow> flash \<Rightarrow> bool" where
  "cfi_checkSw baseadr fl =
     (let fileinfo = baseadr + VectorLen;
          ckSum = crc_calculate [cells fl baseadr];
          ckSum = crc_accumulate_buffer ckSum
            (romflash_pages_read (baseadr + 1) (unat (romflash_word_read (fileinfo + 4) fl) - 1) fl)
      in romflash_word_read fileinfo fl = Soft_Key \<and> ucast ckSum = romflash_word_read (fileinfo + 8) fl)"

text \<open>The result carries the address jumped to, if any.\<close>

definition TimeOutToChkSW :: "flash \<Rightarrow> boot \<Rightarrow> u32 option \<times> boot" where
  "TimeOutToChkSW fl b =
     (if UpDataFlag b = 0
      then (let b = b\<lparr>WaitATime := WaitATime b + 1\<rparr> in
            if WaitATime b = 20
            then if cfi_checkSw ApplicationAddress fl
                 then (Some (romflash_word_read (ApplicationAddress + 4) fl), b)
                 else (None, GoToUpdate b)
            else (None, b))
      else (None, b))"

definition ReceiveAGotoUpd :: "uart3 \<times> boot \<Rightarrow> (uart3 \<times> boot) option" where
  "ReceiveAGotoUpd ub = map_option (\<lambda>u. (u, GoToUpdate (snd ub))) (USART3_Putchar 0x61 (fst ub))"

section \<open>The serial port in the main loop\<close>

record serial =
  uart :: uart3
  prog_flash :: flash
  boot_state :: boot
  restarted :: bool

definition reply :: "u8 \<Rightarrow> serial \<Rightarrow> serial option" where
  "reply ch s = map_option (\<lambda>u. s\<lparr>uart := u\<rparr>) (USART3_Putchar ch (uart s))"

definition ProgramSwitch :: "serial \<Rightarrow> serial option" where
  "ProgramSwitch s =
     do {
       s \<leftarrow> reply LAN_ETX s;
       u \<leftarrow> WaitTxBufEmpty (uart s);
       b \<leftarrow> SetSwitchFlag (boot_state s);
       Some (s\<lparr>uart := u, boot_state := b, restarted := True\<rparr>)
     }"

text \<open>\<open>rxbuf\<close> and \<open>lan\<close> are the uninitialised locals.\<close>

definition USART3_CheckSerial :: "hal_flash \<Rightarrow> bytes \<Rightarrow> STR_PECRPORTOCOL \<Rightarrow> serial \<Rightarrow> serial option" where
  "USART3_CheckSerial hal rxbuf lan s =
     (if \<not> busy (uart s) then Some s
      else (let (len, rxbuf, u) = USART3_GetRxBufDat rxbuf (uart s); s = s\<lparr>uart := u\<rparr> in
            if rxbuf ! 0 = PRO_STX \<and> rxbuf ! 5 = PRO_MSGID \<and> len > 9
            then (case Decode_OK rxbuf lan len of
                    None \<Rightarrow> Some s
                  | Some lan \<Rightarrow>
                      (let (r, fl) = LAN_FUN_DoPackage hal lan (prog_flash s); s = s\<lparr>prog_flash := fl\<rparr> in
                       if r = NET_ACK then reply LAN_ACK s
                       else if r = NET_DownPrg then ProgramSwitch s
                       else if r = NET_DownConfigPrg then reply LAN_ETX s
                       else reply LAN_ERR s))
            else Some s))"

text \<open>What happens to the port: a byte arrives, or a millisecond passes and the main loop polls.\<close>

datatype serial_input = Byte u8 | Tick bytes STR_PECRPORTOCOL

fun serial_step :: "hal_flash \<Rightarrow> serial_input \<Rightarrow> serial \<Rightarrow> serial option" where
  "serial_step hal (Byte b) s = Some (s\<lparr>uart := receive_byte b (uart s)\<rparr>)"
| "serial_step hal (Tick rxbuf lan) s = USART3_CheckSerial hal rxbuf lan (s\<lparr>uart := USART3_RxReaddy (uart s)\<rparr>)"

fun serial_run :: "hal_flash \<Rightarrow> serial_input list \<Rightarrow> serial \<Rightarrow> serial option" where
  "serial_run hal [] s = Some s"
| "serial_run hal (x # xs) s =
     (if restarted s then Some s
      else case serial_step hal x s of None \<Rightarrow> None | Some s \<Rightarrow> serial_run hal xs s)"

section \<open>Packing and unpacking\<close>

text \<open>The packet a sender builds.\<close>

definition package :: "u8 \<Rightarrow> u8 \<Rightarrow> u8 \<Rightarrow> u8 \<Rightarrow> bytes \<Rightarrow> bytes" where
  "package cmd para1 para2 msgid payload =
     (let header = [of_nat (length payload), cmd, para1, para2, msgid]; ck = package_checksum header payload
      in PRO_STX # header @ payload @ [ucast ck, ucast (drop_bit 8 ck)])"

lemma length_package [simp]: "length (package cmd p1 p2 m payload) = length payload + 8"
  by (simp add: package_def Let_def)

lemma package_header [simp]:
  "package cmd p1 p2 m payload ! 0 = PRO_STX" "package cmd p1 p2 m payload ! Suc 0 = of_nat (length payload)"
  "package cmd p1 p2 m payload ! 2 = cmd" "package cmd p1 p2 m payload ! 3 = p1"
  "package cmd p1 p2 m payload ! 4 = p2" "package cmd p1 p2 m payload ! 5 = m"
  by (simp_all add: package_def Let_def)

lemma package_nth_payload:
  "i < length payload \<Longrightarrow> package cmd p1 p2 m payload ! (6 + i) = payload ! i"
  by (simp add: package_def Let_def nth_append)

lemma package_nth_checksum:
  "package cmd p1 p2 m payload ! (6 + length payload) =
     ucast (package_checksum [of_nat (length payload), cmd, p1, p2, m] payload)"
  "package cmd p1 p2 m payload ! (6 + length payload + 1) =
     ucast (drop_bit 8 (package_checksum [of_nat (length payload), cmd, p1, p2, m] payload))"
  by (simp_all add: package_def Let_def nth_append)

lemma byte_length:
  assumes "1 \<le> n" "n \<le> 256"
  shows "(if (of_nat n :: u8) = 0 then 256 else unat (of_nat n :: u8)) = n"
proof (cases "n = 256")
  case False
  then have "unat (of_nat n :: u8) = n" using assms by (simp add: unat_of_nat)
  then show ?thesis using assms by auto
qed simp

lemma mem_read_nth_list: "off + n \<le> length b \<Longrightarrow> mem_read b off n = map (\<lambda>i. b ! (off + i)) [0..<n]"
  by (rule nth_equalityI) simp_all

lemma mem_read_take: "off + n \<le> k \<Longrightarrow> mem_read (take k b) off n = mem_read b off n"
  by (simp add: mem_read_def drop_take min_def)

lemma package_reads:
  "mem_read (package cmd p1 p2 m payload) 1 5 = [of_nat (length payload), cmd, p1, p2, m]"
  "mem_read (package cmd p1 p2 m payload) 6 (length payload) = payload"
  by (simp_all add: mem_read_def package_def Let_def)

text \<open>The parts of a buffer that decide the decoding.\<close>

lemma Decode_OK_parts:
  assumes "(if buf ! 1 = 0 then 256 else unat (buf ! 1)) = n"
    and "mem_read buf 1 5 = h" "mem_read buf 6 n = p" "mem_read buf 0 (n + 6) = q"
    and "mem_write (mem_write (wire_part lan) 6 p) 0 q = w" "buf ! (6 + n) = c" "buf ! (6 + n + 1) = d"
  shows "Decode_OK buf lan (n + 8) =
    (if c = ucast (package_checksum h p) \<and> d = ucast (drop_bit 8 (package_checksum h p))
     then Some \<lparr>type_ = 0, command = w ! 2, lan_length = of_nat (n + 6),
       addr = (ucast (w ! 4) * 0x100 + ucast (w ! 3)) * 0x100, wire_part = w\<rparr>
     else None)"
proof -
  have e: "(5 :: nat) + 1 = 6" "n + 6 + 2 = n + 8" by simp_all
  show ?thesis
    unfolding Decode_OK_def prog_defs Let_def e assms by simp
qed

text \<open>A buffer whose first \<open>n\<close> bytes are a package is decoded to its fields.\<close>

definition unpacked :: "u8 \<Rightarrow> u8 \<Rightarrow> u8 \<Rightarrow> u8 \<Rightarrow> bytes \<Rightarrow> bytes \<Rightarrow> STR_PECRPORTOCOL" where
  "unpacked cmd p1 p2 m payload w =
     \<lparr>type_ = 0, command = cmd, lan_length = of_nat (length payload + 6),
      addr = (ucast p2 * 0x100 + ucast p1) * 0x100,
      wire_part = take (6 + length payload) (package cmd p1 p2 m payload) @ drop (6 + length payload) w\<rparr>"

lemma Decode_package:
  assumes "1 \<le> length payload" "length payload \<le> 256" "length (wire_part lan) = 268"
    and "take (length payload + 8) buf = package cmd p1 p2 m payload"
  shows "Decode_OK buf lan (length payload + 8) = Some (unpacked cmd p1 p2 m payload (wire_part lan))"
proof -
  let ?p = "package cmd p1 p2 m payload" and ?n = "length payload"
  have nth: "buf ! i = ?p ! i" if "i < ?n + 8" for i
    using assms(4) that by (metis nth_take)
  have b: "buf ! 1 = of_nat ?n" "buf ! (6 + ?n) = ?p ! (6 + ?n)" "buf ! (6 + ?n + 1) = ?p ! (6 + ?n + 1)"
    using nth[of 1] nth[of "6 + ?n"] nth[of "6 + ?n + 1"] by simp_all
  have l: "(if buf ! 1 = 0 then 256 else unat (buf ! 1)) = ?n"
    unfolding b(1) by (rule byte_length[OF assms(1,2)])
  have r: "mem_read buf 1 5 = [of_nat ?n, cmd, p1, p2, m]" "mem_read buf 6 ?n = payload"
    "mem_read buf 0 (?n + 6) = take (6 + ?n) ?p"
    using package_reads[of cmd p1 p2 m payload]
      mem_read_take[of 1 5 "?n + 8" buf] mem_read_take[of 6 ?n "?n + 8" buf] mem_read_take[of 0 "?n + 6" "?n + 8" buf] assms(4)
    by (simp_all add: mem_read_def add.commute)
  have w: "mem_write (mem_write (wire_part lan) 6 payload) 0 (take (6 + ?n) ?p) =
      take (6 + ?n) ?p @ drop (6 + ?n) (wire_part lan)"
    using assms(2,3) by (simp add: mem_write_take_drop)
  have h: "(take (6 + ?n) ?p @ drop (6 + ?n) (wire_part lan)) ! i = ?p ! i" if "i < 6" for i
    using that by (simp add: nth_append)
  note d = Decode_OK_parts[OF l r w b(2,3)]
  show ?thesis
    unfolding d package_nth_checksum unpacked_def by (simp add: h)
qed

lemma take_parts:
  assumes "n + 8 \<le> length buf"
  shows "take (n + 8) buf =
    buf ! 0 # mem_read buf 1 5 @ mem_read buf 6 n @ [buf ! (6 + n), buf ! (6 + n + 1)]"
proof (rule nth_equalityI)
  fix i assume "i < length (take (n + 8) buf)"
  then have "i < n + 8" using assms by simp
  then consider "i = 0" | "1 \<le> i \<and> i < 6" | "6 \<le> i \<and> i < 6 + n" | "i = 6 + n" | "i = 6 + n + 1" by linarith
  then show "take (n + 8) buf ! i =
    (buf ! 0 # mem_read buf 1 5 @ mem_read buf 6 n @ [buf ! (6 + n), buf ! (6 + n + 1)]) ! i"
    using assms by cases (auto simp: nth_Cons' nth_append)
qed (use assms in simp)

lemma header_parts:
  fixes buf :: bytes
  assumes "6 \<le> length buf" "(if buf ! 1 = 0 then 256 else unat (buf ! 1)) = n"
  shows "mem_read buf 1 5 = [of_nat n, buf ! 2, buf ! 3, buf ! 4, buf ! 5]"
proof -
  have b: "buf ! 1 = of_nat n" using assms(2) by (auto split: if_splits)
  have "mem_read buf 1 5 = map (\<lambda>i. buf ! (1 + i)) [0..<5]" using assms(1) by (simp add: mem_read_nth_list)
  then show ?thesis using b by (simp add: upt_rec eval_nat_numeral)
qed

text \<open>C14: The serial protocol: \<open>Decode_OK\<close> accepts a received buffer exactly when its bytes are the
  package of some payload of 1 to 256 bytes (length 256 sent as 0) with the checksum of header, payload
  and extra byte, and then delivers the command, the address, 256 times the two parameter bytes,
  and the payload; the length it reports is six more than the payload's.\<close>

theorem serial_package_roundtrip:
  assumes "n \<le> length buf" "6 \<le> length buf" "length (wire_part lan) = 268" "buf ! 0 = PRO_STX"
  shows "Decode_OK buf lan n = Some l \<longleftrightarrow>
    (\<exists>payload. 1 \<le> length payload \<and> length payload \<le> 256 \<and> n = length payload + 8 \<and>
       take n buf = package (buf ! 2) (buf ! 3) (buf ! 4) (buf ! 5) payload \<and>
       l = unpacked (buf ! 2) (buf ! 3) (buf ! 4) (buf ! 5) payload (wire_part lan))"
    (is "_ \<longleftrightarrow> (\<exists>payload. ?P payload)")
proof
  assume d: "Decode_OK buf lan n = Some l"
  define k where "k = (if buf ! 1 = 0 then 256 else unat (buf ! 1))"
  have k: "1 \<le> k" "k \<le> 256" "(if buf ! 1 = 0 then 256 else unat (buf ! 1)) = k"
    using order_less_imp_le[OF unsigned_less[of "buf ! 1", where 'a = nat]] unat_eq_0[of "buf ! 1"] by (auto simp: k_def)
  have n: "n = k + 8"
    using d k(3) by (auto simp: Decode_OK_def prog_defs Let_def k_def split: if_splits)
  define payload where "payload = mem_read buf 6 k"
  have lp: "length payload = k" using assms(1) n by (simp add: payload_def)
  note h = header_parts[OF assms(2) k(3)]
  note parts = Decode_OK_parts[OF k(3) h payload_def[symmetric] refl refl refl refl, of lan, folded n, unfolded d]
  have "take n buf = package (buf ! 2) (buf ! 3) (buf ! 4) (buf ! 5) payload"
    using take_parts[of k buf] assms(1,4) parts n lp
    by (simp add: h[unfolded One_nat_def] payload_def[symmetric] package_def Let_def split: if_splits)
  moreover from this have "l = unpacked (buf ! 2) (buf ! 3) (buf ! 4) (buf ! 5) payload (wire_part lan)"
    using Decode_package[of payload lan buf] d n lp k assms(3) by simp
  ultimately show "\<exists>payload. ?P payload" using k(1,2) lp n by (intro exI[of _ payload]) simp
next
  assume "\<exists>payload. ?P payload"
  then show "Decode_OK buf lan n = Some l" using Decode_package[OF _ _ assms(3)] by auto
qed

definition demo_lan :: STR_PECRPORTOCOL where
  "demo_lan = \<lparr>type_ = 0, command = 0, lan_length = 0, addr = 0, wire_part = replicate 268 0\<rparr>"

theorem serial_package_roundtrip_witness:
  "Decode_OK (package 2 0 0x10 0x1e [1, 2, 3]) demo_lan 11 = Some (unpacked 2 0 0x10 0x1e [1, 2, 3] (replicate 268 0))"
proof -
  let ?b = "package 2 0 0x10 0x1e [1, 2, 3]"
  have l: "length ?b = 11" by simp
  have "take 11 ?b = ?b" using l by (intro take_all) simp
  then have "Decode_OK ?b demo_lan 11 = Some (unpacked (?b ! 2) (?b ! 3) (?b ! 4) (?b ! 5) [1, 2, 3] (wire_part demo_lan))"
    using l by (intro iffD2[OF serial_package_roundtrip] exI[of _ "[1, 2, 3]"]) (simp_all add: demo_lan_def)
  then show ?thesis by (simp add: demo_lan_def)
qed

section \<open>What a packet does\<close>

lemma unat_lan_addr:
  "unat ((ucast (p2 :: u8) * 0x100 + ucast (p1 :: u8)) * 0x100 :: u32) = (unat p2 * 256 + unat p1) * 256"
proof -
  have b: "unat p1 < 256" "unat p2 < 256" using unsigned_less[of p1, where 'a = nat] unsigned_less[of p2, where 'a = nat] by simp_all
  have "((ucast p2 * 0x100 + ucast p1) * 0x100 :: u32) = of_nat ((unat p2 * 256 + unat p1) * 256)"
    by (simp add: of_nat_unat)
  moreover have "(unat p2 * 256 + unat p1) * 256 < 2 ^ 32" using b by simp
  ultimately show ?thesis by (simp add: unat_of_nat del: of_nat_mult of_nat_add)
qed

lemma sector_of_offset: "a < 0x08000000 \<Longrightarrow> GetSector a = FLASH_SECTOR_NULL"
  by (simp add: GetSector_def)

lemma clean_offset:
  "a < 0x08000000 \<Longrightarrow> romflash_clean_pages hal a fl = (True, fl\<lparr>flash_locked := True\<rparr>)"
  by (simp add: romflash_clean_pages_def sector_of_offset Let_def)

lemma take_package:
  "take (6 + length payload) (package cmd p1 p2 m payload) =
    [PRO_STX, of_nat (length payload), cmd, p1, p2, m] @ payload"
  by (simp add: package_def Let_def eval_nat_numeral)

text \<open>Where the data of a command goes.\<close>

definition data_base :: "u8 \<Rightarrow> nat" where
  "data_base cmd = (if cmd = PROG_FILE_DAT then ApplicationAddress else FATY_ADDR)"

lemma DoPackage_data:
  assumes "hal_laws hal" "cmd = PROG_FILE_DAT \<or> cmd = PROG_FILE_CNFG_DAT"
    and "1 \<le> length payload" "length payload \<le> 256" "length w = 268"
    and "a = data_base cmd + (unat p2 * 256 + unat p1) * 256" "erased (cells fl) a (length payload + 6)"
  shows "LAN_FUN_DoPackage hal (unpacked cmd p1 p2 m payload w) fl =
    (NET_ACK, fl\<lparr>cells := block_at (cells fl) a (payload @ mem_read w (6 + length payload) 6), flash_locked := True\<rparr>)"
proof -
  let ?u = "unpacked cmd p1 p2 m payload w" and ?d = "payload @ mem_read w (6 + length payload) 6"
  have f: "command ?u = cmd" "unat (lan_length ?u) = length payload + 6"
    "unat (addr ?u) = (unat p2 * 256 + unat p1) * 256" "unat (addr ?u) < 0x08000000"
    using assms(4) unat_lan_addr[of p2 p1] unsigned_less[of p1, where 'a = nat] unsigned_less[of p2, where 'a = nat]
    by (simp_all add: unpacked_def unat_of_nat del: of_nat_add of_nat_Suc)
  have "take (length payload + 6) (lan_buf ?u) = ?d"
    using assms(5) by (simp add: lan_buf_def unpacked_def take_package PROG_NUM_HEADER_BYTES_def PROG_CORE_HEADER_LEN_def mem_read_def)
  then have d: "take (unat (lan_length ?u)) (lan_buf ?u) = ?d" using f(2) by simp
  have e: "unat (addr ?u) + data_base cmd = a" "erased (cells (fl\<lparr>flash_locked := True\<rparr>)) a (length ?d)"
    using assms(4-7) f(3) by (simp_all add: add.commute)
  have v: "unat (addr ?u) \<noteq> VectorLen div 0x100"
  proof
    assume "unat (addr ?u) = VectorLen div 0x100"
    then have "((unat p2 * 256 + unat p1) * 256) mod 256 = (4 :: nat) mod 256" by (simp add: f(3) VectorLen_def)
    then show False by simp
  qed
  note wr = romflash_pages_write_erased[OF assms(1) e(2)]
  from assms(2) show ?thesis
  proof
    assume "cmd = PROG_FILE_DAT"
    then have "command ?u = PROG_FILE_DAT" "unat (addr ?u) + ApplicationAddress = a"
      using f(1) e(1) by (simp_all add: data_base_def)
    then show ?thesis
      using wr v by (simp add: LAN_FUN_DoPackage_def DownloadProgram_def WriteOnePackage_def d clean_offset[OF f(4)] Let_def)
  next
    assume "cmd = PROG_FILE_CNFG_DAT"
    then have "command ?u = PROG_FILE_CNFG_DAT" "unat (addr ?u) + FATY_ADDR = a"
      using f(1) e(1) by (simp_all add: data_base_def cmd_defs)
    then show ?thesis
      using wr by (simp add: LAN_FUN_DoPackage_def DownloadConfig_def d clean_offset[OF f(4)] cmd_defs Let_def)
  qed
qed

text \<open>A complete packet in the receive buffer, the port about to look at it.\<close>

definition packet_ready :: "bytes \<Rightarrow> uart3 \<Rightarrow> bool" where
  "packet_ready pkg u \<longleftrightarrow> busy u \<and> rxcount u = length pkg \<and> length (rx_buf u) = 0x200 \<and>
     take (length pkg) (rx_buf u) = pkg"

lemma fetch_ready:
  assumes "packet_ready pkg u" "length pkg \<le> 0x200" "length rxbuf = 0x200"
  obtains buf where "USART3_GetRxBufDat rxbuf u = (length pkg, buf, u\<lparr>rxcount := 0, timeout := 0, busy := False\<rparr>)"
    "take (length pkg) buf = pkg" "length buf = 0x200"
  using assms that[of "mem_write rxbuf 0 pkg"]
  by (simp add: packet_ready_def USART3_GetRxBufDat_def mem_write_take_drop)

text \<open>C39: A data packet the port has received whole is programmed: into erased flash at the
  program's (or the configuration's) base plus 256 times the packet's two parameter bytes goes the payload, and after it
  six bytes of the caller's stack, because the length handed over still counts the header; no sector is erased, and the
  port answers with one acknowledge byte after what was waiting.\<close>

theorem download_data_written:
  assumes "hal_laws hal" "cmd = PROG_FILE_DAT \<or> cmd = PROG_FILE_CNFG_DAT"
    and "2 \<le> length payload" "length payload \<le> 256" "length (wire_part lan) = 268" "length rxbuf = 0x200"
    and "packet_ready (package cmd p1 p2 PRO_MSGID payload) (uart s)" "tx_ok (uart s)"
    and "a = data_base cmd + (unat p2 * 256 + unat p1) * 256"
    and "erased (cells (prog_flash s)) a (length payload + 6)"
  shows "\<exists>s'. USART3_CheckSerial hal rxbuf lan s = Some s' \<and> \<not> busy (uart s') \<and> rxcount (uart s') = 0 \<and>
    tx_ok (uart s') \<and> tx_all (uart s') = tx_all (uart s) @ [LAN_ACK] \<and>
    cells (prog_flash s') = block_at (cells (prog_flash s)) a (payload @ mem_read (wire_part lan) (6 + length payload) 6)"
proof -
  let ?p = "package cmd p1 p2 PRO_MSGID payload" and ?u = "uart s\<lparr>rxcount := 0, timeout := 0, busy := False\<rparr>"
  obtain buf where buf: "USART3_GetRxBufDat rxbuf (uart s) = (length ?p, buf, ?u)" "take (length ?p) buf = ?p" "length buf = 0x200"
    using fetch_ready[OF assms(7) _ assms(6)] assms(4) by auto
  have nth: "buf ! i = ?p ! i" if "i < length ?p" for i using buf(2) that by (metis nth_take)
  have h: "buf ! 0 = PRO_STX" "buf ! 5 = PRO_MSGID" using nth[of 0] nth[of 5] by simp_all
  have d: "Decode_OK buf lan (length ?p) = Some (unpacked cmd p1 p2 PRO_MSGID payload (wire_part lan))"
    using Decode_package[OF _ assms(4,5)] buf(2) assms(3) by simp
  note w = DoPackage_data[OF assms(1,2) _ assms(4,5,9,10), of PRO_MSGID]
  have ok: "tx_ok ?u" "tx_all ?u = tx_all (uart s)"
    using assms(8) by (simp_all add: tx_ok_def tx_all_def tx_pending_def tx_waiting_def)
  obtain u' where u': "USART3_Putchar LAN_ACK ?u = Some u'" "tx_ok u'" "tx_all u' = tx_all ?u @ [LAN_ACK]"
    using Putchar_returns[OF ok(1)] .
  have r: "busy u' = busy ?u" "rxcount u' = rxcount ?u"
    using Putchar_keeps_rx[OF u'(1)] by simp_all
  have b: "busy (uart s)" using assms(7) by (simp add: packet_ready_def)
  show ?thesis
    using b h u' ok w r assms(3) by (simp add: USART3_CheckSerial_def buf(1) d[unfolded length_package] reply_def Let_def)
qed

definition demo_serial :: serial where
  "demo_serial = \<lparr>uart = MX_USART3_UART_Init\<lparr>rx_buf := package 2 0 0x10 0x1e [1, 2, 3] @ replicate 501 0,
       rxcount := 11, busy := True\<rparr>,
     prog_flash = \<lparr>cells = (\<lambda>_. 0xff), flash_locked = True\<rparr>, boot_state = boot0 0, restarted = False\<rparr>"

theorem download_data_written_witness:
  "\<exists>s'. USART3_CheckSerial nor_flash (replicate 0x200 7) demo_lan demo_serial = Some s' \<and>
    \<not> busy (uart s') \<and> rxcount (uart s') = 0 \<and> tx_ok (uart s') \<and>
    tx_all (uart s') = tx_all (uart demo_serial) @ [LAN_ACK] \<and>
    cells (prog_flash s') = block_at (cells (prog_flash demo_serial)) (data_base PROG_FILE_DAT + (unat (0x10 :: u8) * 256 + unat (0 :: u8)) * 256)
      ([1, 2, 3] @ mem_read (wire_part demo_lan) (6 + length [1, 2, 3 :: u8]) 6)"
proof (rule download_data_written[OF nor_flash_laws])
  show "packet_ready (package PROG_FILE_DAT 0 0x10 PRO_MSGID [1, 2, 3]) (uart demo_serial)"
    by (simp add: packet_ready_def demo_serial_def PROG_FILE_DAT_def PRO_MSGID_def)
  show "tx_ok (uart demo_serial)"
    by (simp add: tx_ok_def demo_serial_def MX_USART3_UART_Init_def usart3_buf_Number_def)
qed (simp_all add: demo_lan_def erased_def demo_serial_def)

section \<open>How a packet is received\<close>

text \<open>The bytes of a packet, each followed by some milliseconds of silence.\<close>

type_synonym locals = "bytes \<times> STR_PECRPORTOCOL"

definition ticks :: "locals list \<Rightarrow> serial_input list" where
  "ticks ts = map (\<lambda>(rxbuf, lan). Tick rxbuf lan) ts"

definition paced :: "(u8 \<times> locals list) list \<Rightarrow> serial_input list" where
  "paced bs = concat (map (\<lambda>(b, ts). Byte b # ticks ts) bs)"

definition brief :: "(u8 \<times> locals list) list \<Rightarrow> bool" where
  "brief bs \<longleftrightarrow> list_all (\<lambda>(b, ts). length ts \<le> 10) bs"

lemma ticks_Cons [simp]: "ticks [] = []" "ticks (t # ts) = Tick (fst t) (snd t) # ticks ts"
  by (simp_all add: ticks_def split_def)

lemma paced_simps [simp]:
  "paced [] = []" "paced ((b, ts) # bs) = Byte b # ticks ts @ paced bs"
  "brief []" "brief ((b, ts) # bs) \<longleftrightarrow> length ts \<le> 10 \<and> brief bs"
  by (simp_all add: paced_def brief_def)

lemma serial_run_append:
  "serial_run hal xs s = Some s' \<Longrightarrow> serial_run hal (xs @ ys) s = serial_run hal ys s'"
proof (induction xs arbitrary: s)
  case (Cons x xs)
  show ?case
  proof (cases "restarted s")
    case True
    then show ?thesis using Cons.prems by (cases ys) simp_all
  next
    case False
    then show ?thesis using Cons by (cases "serial_step hal x s") simp_all
  qed
qed simp

lemma ticks_before_timeout:
  assumes "\<not> busy (uart s)" "rxcount (uart s) \<noteq> 0" "unat (timeout (uart s)) + length ts \<le> 10" "\<not> restarted s"
  shows "serial_run hal (ticks ts) s =
    Some (s\<lparr>uart := uart s\<lparr>timeout := timeout (uart s) + of_nat (length ts)\<rparr>\<rparr>)"
  using assms
proof (induction ts arbitrary: s)
  case (Cons t ts)
  let ?u = "uart s\<lparr>timeout := timeout (uart s) + 1\<rparr>"
  have n: "unat (timeout (uart s) + 1) = unat (timeout (uart s)) + 1"
    using Cons.prems(3) by (simp add: unat_word_ariths)
  then have "\<not> timeout ?u > RXTIMEOUT"
    using Cons.prems(3) by (simp add: word_less_nat_alt RXTIMEOUT_def)
  then have "serial_step hal (Tick (fst t) (snd t)) s = Some (s\<lparr>uart := ?u\<rparr>)"
    using Cons.prems(1,2) by (simp add: USART3_RxReaddy_def USART3_CheckSerial_def Let_def)
  then show ?case
    using Cons.IH[of "s\<lparr>uart := ?u\<rparr>"] Cons.prems n by (simp add: add.assoc)
qed simp

text \<open>A byte and the silence after it.\<close>

definition take_in :: "u8 \<Rightarrow> nat \<Rightarrow> uart3 \<Rightarrow> uart3" where
  "take_in b k u =
     u\<lparr>rx_buf := (rx_buf u)[the (armed u) := b], armed := Some (rxcount u),
       rxcount := RBUF_NEXT_PT (rxcount u), timeout := of_nat k\<rparr>"

lemma paced_byte:
  assumes "\<not> busy (uart s)" "armed (uart s) = Some i" "rxcount (uart s) < 0x1ff" "length ts \<le> 10" "\<not> restarted s"
  shows "serial_run hal (Byte b # ticks ts) s = Some (s\<lparr>uart := take_in b (length ts) (uart s)\<rparr>)"
proof -
  have b: "serial_step hal (Byte b) s = Some (s\<lparr>uart := take_in b 0 (uart s)\<rparr>)"
    using assms(1,2) by (simp add: receive_byte_def HAL_UART_RxCpltCallback_def take_in_def)
  have "serial_run hal (ticks ts) (s\<lparr>uart := take_in b 0 (uart s)\<rparr>) =
      Some (s\<lparr>uart := take_in b (length ts) (uart s)\<rparr>)"
    using assms ticks_before_timeout[of "s\<lparr>uart := take_in b 0 (uart s)\<rparr>" ts hal]
    by (simp add: take_in_def RBUF_NEXT_PT_def usart3_buf_Number_def)
  then show ?thesis using b assms(5) by simp
qed

text \<open>From the second byte on, a byte lands one place below the count.\<close>

lemma paced_bytes:
  assumes "\<not> busy (uart s)" "armed (uart s) = Some j" "rxcount (uart s) = j + 1" "j + 1 + length bs < 0x200"
    and "brief bs" "\<not> restarted s" "unat (timeout (uart s)) \<le> 10"
  shows "\<exists>t. unat t \<le> 10 \<and> serial_run hal (paced bs) s =
    Some (s\<lparr>uart := uart s\<lparr>rx_buf := mem_write (rx_buf (uart s)) j (map fst bs), armed := Some (j + length bs),
      rxcount := j + 1 + length bs, timeout := t\<rparr>\<rparr>)"
  using assms
proof (induction bs arbitrary: s j)
  case Nil
  then show ?case by (intro exI[of _ "timeout (uart s)"]) simp
next
  case (Cons x bs)
  obtain b ts where x: "x = (b, ts)" by (cases x)
  let ?s = "s\<lparr>uart := take_in b (length ts) (uart s)\<rparr>"
  have r: "serial_run hal (Byte b # ticks ts) s = Some ?s"
    using Cons.prems x by (intro paced_byte) simp_all
  have u: "armed (uart ?s) = Some (j + 1)" "rxcount (uart ?s) = j + 1 + 1" "\<not> busy (uart ?s)"
    "rx_buf (uart ?s) = (rx_buf (uart s))[j := b]" "unat (timeout (uart ?s)) \<le> 10"
    using Cons.prems x by (simp_all add: take_in_def RBUF_NEXT_PT_def usart3_buf_Number_def unat_of_nat)
  obtain t where t: "unat t \<le> 10" "serial_run hal (paced bs) ?s =
    Some (?s\<lparr>uart := uart ?s\<lparr>rx_buf := mem_write (rx_buf (uart ?s)) (j + 1) (map fst bs), armed := Some (j + 1 + length bs),
      rxcount := j + 1 + 1 + length bs, timeout := t\<rparr>\<rparr>)"
    using Cons.IH[OF u(3,1,2)] Cons.prems x u(5) by auto
  have "serial_run hal (paced (x # bs)) s = serial_run hal (paced bs) ?s"
    using serial_run_append[OF r, of "paced bs"] x by simp
  then show ?case
    using t u(4) x by (intro exI[of _ t]) (simp add: take_in_def)
qed

section \<open>The download never gets a packet\<close>

lemma idle_ticks:
  assumes "\<not> busy (uart s)" "rxcount (uart s) = 0"
  shows "serial_run hal (ticks ts) s = Some s"
  using assms by (induction ts) (simp_all add: USART3_RxReaddy_def USART3_CheckSerial_def)

text \<open>A packet the port will not act on, whatever the rest of it holds.\<close>

definition foreign :: "bytes \<Rightarrow> bool" where
  "foreign pkg \<longleftrightarrow> length pkg \<le> 9 \<or> pkg ! 0 \<noteq> PRO_STX \<or>
     length pkg \<noteq> (if pkg ! 1 = 0 then 256 else unat (pkg ! 1)) + 8"

lemma CheckSerial_foreign:
  assumes "packet_ready pkg (uart s)" "foreign pkg" "length pkg \<le> 0x200" "length rxbuf = 0x200"
  shows "USART3_CheckSerial hal rxbuf lan s =
    Some (s\<lparr>uart := uart s\<lparr>rxcount := 0, timeout := 0, busy := False\<rparr>\<rparr>)"
proof -
  obtain buf where buf: "USART3_GetRxBufDat rxbuf (uart s) = (length pkg, buf, uart s\<lparr>rxcount := 0, timeout := 0, busy := False\<rparr>)"
    "take (length pkg) buf = pkg"
    using fetch_ready[OF assms(1,3,4)] .
  have nth: "buf ! i = pkg ! i" if "i < length pkg" for i using buf(2) that by (metis nth_take)
  have "Decode_OK buf lan (length pkg) = None" if "length pkg > 9" "buf ! 0 = PRO_STX"
  proof -
    have "0 < length pkg" "1 < length pkg" using that(1) by linarith+
    then have "buf ! 0 = pkg ! 0" "buf ! 1 = pkg ! 1" by (simp_all only: nth)
    then show ?thesis using assms(2) that by (auto simp: foreign_def Decode_OK_def prog_defs Let_def)
  qed
  moreover have "busy (uart s)" using assms(1) by (simp add: packet_ready_def)
  ultimately show ?thesis by (simp add: USART3_CheckSerial_def buf(1) Let_def)
qed

text \<open>Ten milliseconds of silence, and the packet is looked at and dropped.\<close>

definition silence :: "locals list \<Rightarrow> bool" where
  "silence ts \<longleftrightarrow> 11 \<le> length ts \<and> list_all (\<lambda>(rxbuf, lan). length rxbuf = 0x200) ts"

lemma silence_drops:
  assumes "\<not> busy (uart s)" "rxcount (uart s) = length pkg" "take (length pkg) (rx_buf (uart s)) = pkg"
    and "length (rx_buf (uart s)) = 0x200" "unat (timeout (uart s)) \<le> 10" "silence ts" "\<not> restarted s"
    and "foreign pkg" "pkg \<noteq> []"
  shows "serial_run hal (ticks ts) s = Some (s\<lparr>uart := uart s\<lparr>rxcount := 0, timeout := 0\<rparr>\<rparr>)"
proof -
  define k where "k = 10 - unat (timeout (uart s))"
  have k: "k < length ts" "unat (timeout (uart s)) + k = 10" using assms(5,6) by (auto simp: k_def silence_def)
  have ts: "ticks ts = ticks (take k ts) @ Tick (fst (ts ! k)) (snd (ts ! k)) # ticks (drop (Suc k) ts)"
    using id_take_nth_drop[OF k(1)] by (metis ticks_Cons(2) ticks_def map_append)
  have lp: "length pkg \<le> 0x200" using assms(3,4) by (metis length_take min.bounded_iff order_refl)
  have rx: "length (fst (ts ! k)) = 0x200"
    using assms(6) k(1) by (auto simp: silence_def list_all_length split_def)
  let ?s = "s\<lparr>uart := uart s\<lparr>timeout := timeout (uart s) + of_nat k\<rparr>\<rparr>"
  have r1: "serial_run hal (ticks (take k ts)) s = Some ?s"
    using ticks_before_timeout[of s "take k ts" hal] assms(1,2,7,9) k by simp
  have "timeout (uart s) + of_nat k = of_nat (unat (timeout (uart s)) + k)" by simp
  then have t10: "timeout (uart s) + of_nat k = 10" unfolding k(2) by simp
  let ?b = "s\<lparr>uart := uart s\<lparr>timeout := 11, busy := True\<rparr>\<rparr>"
  have rr: "USART3_RxReaddy (uart ?s) = uart ?b"
    using assms(1,2,9) t10 by (simp add: USART3_RxReaddy_def RXTIMEOUT_def Let_def)
  have "packet_ready pkg (uart ?b)" using assms(2-4) by (simp add: packet_ready_def)
  note c = CheckSerial_foreign[OF this assms(8) lp rx, of hal "snd (ts ! k)"]
  have "serial_step hal (Tick (fst (ts ! k)) (snd (ts ! k))) ?s = Some (s\<lparr>uart := uart s\<lparr>rxcount := 0, timeout := 0\<rparr>\<rparr>)"
    using c rr assms(1) by simp
  then have r2: "serial_run hal (Tick (fst (ts ! k)) (snd (ts ! k)) # ticks (drop (Suc k) ts)) ?s =
      Some (s\<lparr>uart := uart s\<lparr>rxcount := 0, timeout := 0\<rparr>\<rparr>)"
    using idle_ticks[of "s\<lparr>uart := uart s\<lparr>rxcount := 0, timeout := 0\<rparr>\<rparr>" hal] assms(1,7) by simp
  show ?thesis unfolding ts serial_run_append[OF r1] by (rule r2)
qed

text \<open>Between packets the next byte still goes where the last request pointed, not to the start of the buffer.\<close>

definition between_packets :: "uart3 \<Rightarrow> bool" where
  "between_packets u \<longleftrightarrow> \<not> busy u \<and> rxcount u = 0 \<and> timeout u = 0 \<and> length (rx_buf u) = 0x200 \<and>
     (\<exists>i < 0x200. armed u = Some i)"

text \<open>So a packet is seen from its second byte on.\<close>

lemma packet_shifted:
  assumes "between_packets (uart s)" "\<not> restarted s" "brief bs" "2 \<le> length bs" "length bs < 0x1ff" "map fst bs = frame"
  shows "\<exists>t last. unat t \<le> 10 \<and> serial_run hal (paced bs) s = Some (s\<lparr>uart := uart s\<lparr>
      rx_buf := last, armed := Some (length frame - 1), rxcount := length frame, timeout := t\<rparr>\<rparr>) \<and>
    length last = 0x200 \<and> take (length frame - 1) last = tl frame"
proof -
  obtain b ts cs where bs: "bs = (b, ts) # cs" using assms(4) by (cases bs) auto
  obtain i where i: "armed (uart s) = Some i" "i < 0x200" using assms(1) by (auto simp: between_packets_def)
  note idle = assms(1)[unfolded between_packets_def]
  let ?s = "s\<lparr>uart := take_in b (length ts) (uart s)\<rparr>"
  have r: "serial_run hal (Byte b # ticks ts) s = Some ?s"
    using paced_byte[of s i ts hal b] idle i assms(2,3) bs by simp
  have l: "length frame = Suc (length cs)" "tl frame = map fst cs" using assms(6) bs by auto
  have u: "\<not> busy (uart ?s)" "armed (uart ?s) = Some 0" "rxcount (uart ?s) = 0 + 1"
    "unat (timeout (uart ?s)) \<le> 10" "\<not> restarted ?s" "length (rx_buf (uart ?s)) = 0x200"
    using idle assms(2,3) bs by (simp_all add: take_in_def RBUF_NEXT_PT_def usart3_buf_Number_def unat_of_nat)
  obtain t where t: "unat t \<le> 10" "serial_run hal (paced cs) ?s =
    Some (?s\<lparr>uart := uart ?s\<lparr>rx_buf := mem_write (rx_buf (uart ?s)) 0 (map fst cs), armed := Some (0 + length cs),
      rxcount := 0 + 1 + length cs, timeout := t\<rparr>\<rparr>)"
    using paced_bytes[OF u(1-3) _ _ u(5,4), of cs hal] assms(3,5) bs by auto
  have "serial_run hal (paced bs) s = serial_run hal (paced cs) ?s"
    using serial_run_append[OF r, of "paced cs"] bs by simp
  moreover have "take (length cs) (mem_write (rx_buf (uart ?s)) 0 (map fst cs)) = map fst cs"
    using u(6) assms(5) bs by (simp add: mem_write_take_drop)
  ultimately show ?thesis
    using t u(6) l by (intro exI[of _ t] exI[of _ "mem_write (rx_buf (uart ?s)) 0 (map fst cs)"]) (simp add: take_in_def)
qed

definition tx_side :: "uart3 \<Rightarrow> bytes \<times> nat \<times> nat \<times> bool \<times> bytes" where
  "tx_side u = (tx_buf u, tx_Write u, tx_Read u, HaveData u, sent u)"

definition untouched :: "serial \<Rightarrow> serial \<Rightarrow> bool" where
  "untouched s s' \<longleftrightarrow> prog_flash s' = prog_flash s \<and> boot_state s' = boot_state s \<and>
     restarted s' = restarted s \<and> tx_side (uart s') = tx_side (uart s)"

lemma shifted_foreign:
  assumes "take (length f - 1) pkg = tl f" "length pkg = length f" "f = package cmd p1 p2 m payload"
    and "1 \<le> length payload" "length payload \<le> 256" "cmd \<noteq> 0xfe"
  shows "foreign pkg"
proof (rule ccontr)
  assume a: "\<not> foreign pkg"
  have n: "pkg ! i = f ! Suc i" if "i < 3" for i
  proof -
    have "take (length f - 1) pkg ! i = pkg ! i" using that assms(3,4) by (intro nth_take) simp
    moreover have "tl f ! i = f ! Suc i" using that assms(3,4) by (intro nth_tl) simp
    ultimately show ?thesis using assms(1) by simp
  qed
  have h: "pkg ! 0 = of_nat (length payload)" "pkg ! 1 = cmd"
    using n[of 0] n[of 1] assms(3) by (simp_all add: numeral_2_eq_2[symmetric])
  have "unat (of_nat (length payload) :: u8) = unat (0xfe :: u8)" using a h(1) by (simp add: foreign_def PRO_STX_def)
  then have "length payload mod 256 = 254" by (simp add: unat_of_nat)
  moreover have "length payload mod 256 = (if length payload = 256 then 0 else length payload)"
    using assms(5) by auto
  ultimately have l: "length payload = 254" by (simp split: if_splits)
  have "unat cmd = unat (0xfe :: u8)"
    using a h(2) l assms(2,3) by (simp add: foreign_def split: if_splits)
  then show False using assms(6) by (simp only: word_unat_eq_iff)
qed

text \<open>A packet on the line: its bytes at the sender's pace, then silence.\<close>

definition packet_on_line :: "(u8 \<times> locals list) list \<times> locals list \<Rightarrow> bool" where
  "packet_on_line x \<longleftrightarrow> brief (fst x) \<and> silence (snd x) \<and>
     (\<exists>cmd p1 p2 m payload. map fst (fst x) = package cmd p1 p2 m payload \<and>
        1 \<le> length payload \<and> length payload \<le> 256 \<and> cmd \<noteq> 0xfe)"

definition on_line :: "(u8 \<times> locals list) list \<times> locals list \<Rightarrow> serial_input list" where
  "on_line x = paced (fst x) @ ticks (snd x)"

lemma packet_lost:
  assumes "between_packets (uart s)" "\<not> restarted s" "packet_on_line x"
  shows "\<exists>s'. serial_run hal (on_line x) s = Some s' \<and> between_packets (uart s') \<and> untouched s s'"
proof -
  obtain bs quiet where x: "x = (bs, quiet)" by (cases x)
  obtain cmd p1 p2 m payload where f: "map fst bs = package cmd p1 p2 m payload" "1 \<le> length payload"
    "length payload \<le> 256" "cmd \<noteq> 0xfe" "brief bs" "silence quiet"
    using assms(3) by (auto simp: packet_on_line_def x)
  let ?f = "package cmd p1 p2 m payload"
  have lb: "length bs = length ?f" using f(1) by (metis length_map)
  obtain t last where t: "unat t \<le> 10" "length last = 0x200" "take (length ?f - 1) last = tl ?f"
    "serial_run hal (paced bs) s = Some (s\<lparr>uart := uart s\<lparr>
      rx_buf := last, armed := Some (length ?f - 1), rxcount := length ?f, timeout := t\<rparr>\<rparr>)"
    using packet_shifted[OF assms(1,2) f(5) _ _ f(1), of hal] lb f(2,3) by auto
  let ?s = "s\<lparr>uart := uart s\<lparr>rx_buf := last, armed := Some (length ?f - 1), rxcount := length ?f, timeout := t\<rparr>\<rparr>"
  let ?p = "take (length ?f) last"
  have lp: "length ?p = length ?f" using t(2) f(3) by simp
  have "take (length ?f - 1) ?p = tl ?f" using t(3) by simp
  note fo = shifted_foreign[OF this lp refl f(2-4)]
  have "serial_run hal (ticks quiet) ?s = Some (?s\<lparr>uart := uart ?s\<lparr>rxcount := 0, timeout := 0\<rparr>\<rparr>)"
    using assms(1,2) t(1,2) lp f(6)
    by (intro silence_drops[OF _ _ _ _ _ _ _ fo]) (auto simp: between_packets_def)
  then have "serial_run hal (on_line x) s = Some (?s\<lparr>uart := uart ?s\<lparr>rxcount := 0, timeout := 0\<rparr>\<rparr>)"
    using serial_run_append[OF t(4), of "ticks quiet"] by (simp add: on_line_def x)
  then show ?thesis
    using assms(1) t(2) f(3) by (simp add: between_packets_def untouched_def tx_side_def)
qed

text \<open>C13: The serial download cannot work: from power-up, with the line quiet for the first 11 ms, no
  sequence of download packets, however paced (gaps of at most 10 ms inside a packet, at least 11 ms
  between packets), whatever the stack holds, is acted upon: flash, boot flags and
  transmitter stay as they are.  The receive request armed before the buffer is emptied keeps its old
  place, so the first byte of the next packet is not stored at the start of the buffer and the
  handler sees the packet shifted by one.\<close>

theorem serial_download_never_received:
  assumes "uart s = MX_USART3_UART_Init" "\<not> restarted s" "silence quiet" "list_all packet_on_line xs"
  shows "\<exists>s'. serial_run hal (ticks quiet @ concat (map on_line xs)) s = Some s' \<and> untouched s s'"
proof -
  let ?s = "s\<lparr>uart := uart s\<lparr>rxcount := 0, timeout := 0\<rparr>\<rparr>"
  have start: "serial_run hal (ticks quiet) s = Some ?s"
    using assms(1-3) by (intro silence_drops[of s "[0]"])
      (simp_all add: MX_USART3_UART_Init_def RBUF_NEXT_PT_def usart3_buf_Number_def foreign_def take_Suc_conv_app_nth)
  have b: "between_packets (uart ?s)" using assms(1)
    by (simp add: between_packets_def MX_USART3_UART_Init_def usart3_buf_Number_def)
  have u: "untouched s ?s" "\<not> restarted ?s" using assms(2) by (simp_all add: untouched_def tx_side_def)
  have "\<exists>s'. serial_run hal (concat (map on_line xs)) v = Some s' \<and> untouched s s'"
    if "between_packets (uart v)" "untouched s v" "\<not> restarted v" for v
    using assms(4) that
  proof (induction xs arbitrary: v)
    case (Cons x xs)
    obtain w where w: "serial_run hal (on_line x) v = Some w" "between_packets (uart w)" "untouched v w"
      using packet_lost[OF Cons.prems(2,4), of x hal] Cons.prems(1) by auto
    then have "untouched s w" "\<not> restarted w" using Cons.prems(3,4) by (simp_all add: untouched_def)
    then show ?case using Cons.IH[of w] Cons.prems(1) w serial_run_append[OF w(1)] by simp
  qed simp
  from this[OF b u] show ?thesis using serial_run_append[OF start] by simp
qed

text \<open>Two packets sent without a pause between their bytes.\<close>

definition demo_locals :: locals where "demo_locals = (replicate 0x200 0, demo_lan)"

definition demo_packet :: "(u8 \<times> locals list) list \<times> locals list" where
  "demo_packet = (map (\<lambda>b. (b, [])) (package PROG_FILE_DAT 0 0x10 PRO_MSGID [1, 2, 3]), replicate 11 demo_locals)"

definition powered_up :: serial where
  "powered_up = demo_serial\<lparr>uart := MX_USART3_UART_Init\<rparr>"

theorem serial_download_never_received_witness:
  "\<exists>s'. serial_run nor_flash (ticks (replicate 11 demo_locals) @ concat (map on_line [demo_packet, demo_packet])) powered_up =
     Some s' \<and> untouched powered_up s'"
proof (rule serial_download_never_received)
  have q: "silence (replicate 11 demo_locals)" by (simp add: silence_def demo_locals_def list_all_length)
  then show "silence (replicate 11 demo_locals)" .
  have "map fst (fst demo_packet) = package PROG_FILE_DAT 0 0x10 PRO_MSGID [1, 2, 3]"
    by (simp add: demo_packet_def comp_def)
  moreover have "brief (fst demo_packet)" by (simp add: demo_packet_def brief_def list_all_length)
  ultimately have "packet_on_line demo_packet"
    using q unfolding packet_on_line_def
    by (intro conjI exI[of _ PROG_FILE_DAT] exI[of _ 0] exI[of _ "0x10"] exI[of _ PRO_MSGID] exI[of _ "[1, 2, 3]"])
      (simp_all add: demo_packet_def PROG_FILE_DAT_def)
  then show "list_all packet_on_line [demo_packet, demo_packet]" by simp
qed (simp_all add: powered_up_def demo_serial_def)

end
