(* ===== verification/ConfigEnv.thy ===== *)
theory ConfigEnv
  imports SerialDownload ConfigStore EventQueue
begin

text \<open>
  \<open>app/config_env.c\<close>: the register file a PC may read and write over the serial port (two banks
  of 512 bytes, factory and user, and 256 FPGA bytes, kept in flash sector 7), the packets
  that do so, and the network parameters the firmware starts with.  The structure \<open>REG_Data\<close> is its
  32 bytes; \<open>None\<close> is an access outside an array or a wait that never ends.
\<close>

definition REG_BUF_LEN :: nat where "REG_BUF_LEN = 0x200"
definition FPGA_REG_BUF_LEN :: nat where "FPGA_REG_BUF_LEN = 0x100"
definition CFG_INFO_LEN :: nat where "CFG_INFO_LEN = 0x100"
definition ENV_START_ADDR :: nat where "ENV_START_ADDR = ADDR_FLASH_SECTOR_7"
definition USER_ADDR :: nat where "USER_ADDR = FATY_ADDR + CFG_INFO_LEN + REG_BUF_LEN"
definition FPGA_ADDR :: nat where "FPGA_ADDR = USER_ADDR + CFG_INFO_LEN + REG_BUF_LEN"
definition SoftKey1_VAL :: u32 where "SoftKey1_VAL = 0xa5a5a5a5"
definition SoftKey2_VAL :: u32 where "SoftKey2_VAL = 0x5a5a5a5a"

definition sizeof_REG_Data :: nat where "sizeof_REG_Data = 32"

lemmas env_addr_defs = REG_BUF_LEN_def FPGA_REG_BUF_LEN_def CFG_INFO_LEN_def ENV_START_ADDR_def
  USER_ADDR_def FPGA_ADDR_def FATY_ADDR_def ADDR_FLASH_SECTOR_7_def sizeof_REG_Data_def

text \<open>Offsets of the fields of \<open>REG_Data\<close>: control byte and counters, MAC, source address,
  gateway, netmask, transmit port, receive port, remote address.\<close>

definition reg_sRxSum :: nat where "reg_sRxSum = 1"
definition reg_sRxCorrupt :: nat where "reg_sRxCorrupt = 2"
definition reg_ethRxSum :: nat where "reg_ethRxSum = 3"
definition reg_ethRxCorrupt :: nat where "reg_ethRxCorrupt = 4"

definition FACTORY_IP :: bytes where "FACTORY_IP = [192, 168, 0, 188]"
definition FACTORY_NETMASK :: bytes where "FACTORY_NETMASK = [255, 255, 255, 0]"
definition FACTORY_GATEWAY :: bytes where "FACTORY_GATEWAY = [192, 168, 0, 1]"
definition FACTORY_MAC :: bytes where "FACTORY_MAC = [0x00, 0x80, 0xE1, 0x00, 0x00, 0x00]"
definition FACTORY_UDP_IN_PORT :: u16 where "FACTORY_UDP_IN_PORT = 0x5004"
definition FACTORY_REMOTE_IP :: bytes where "FACTORY_REMOTE_IP = [192, 168, 0, 190]"
definition FACTORY_UDP_OUT_PORT :: u16 where "FACTORY_UDP_OUT_PORT = 0x5003"

definition le16 :: "u16 \<Rightarrow> bytes" where "le16 x = [ucast x, ucast (drop_bit 8 x)]"
definition le32 :: "u32 \<Rightarrow> bytes" where
  "le32 x = [ucast x, ucast (drop_bit 8 x), ucast (drop_bit 16 x), ucast (drop_bit 24 x)]"

definition factory_data :: bytes where
  "factory_data = replicate 6 0 @ FACTORY_MAC @ FACTORY_IP @ FACTORY_GATEWAY @ FACTORY_NETMASK @
     le16 FACTORY_UDP_OUT_PORT @ le16 FACTORY_UDP_IN_PORT @ FACTORY_REMOTE_IP"

record NETIF_PAR =
  np_ip :: bytes
  np_netmask :: bytes
  np_gateway :: bytes
  np_mac :: bytes
  np_port :: u16

record NETIF_REMOTE_PAR =
  rp_ip :: bytes
  rp_port :: u16
  rp_mac :: bytes
  rp_link :: u8

record config_env =
  FactoryReg :: bytes
  UserReg :: bytes
  FPGADatBuf :: bytes
  current_tx_seq :: u8
  env_flash :: flash
  env_uart :: uart3
  env_events :: event_state

text \<open>\<open>CFG_Filestr\<close>.\<close>

definition cfg_file :: "u32 \<Rightarrow> u16 \<Rightarrow> bytes" where
  "cfg_file key ck = le32 key @ le32 (ucast ck)"

abbreviation env_write :: "hal_flash \<Rightarrow> nat \<Rightarrow> bytes \<Rightarrow> config_env \<Rightarrow> config_env" where
  "env_write hal a bs c \<equiv> c\<lparr>env_flash := snd (romflash_pages_write hal a bs (env_flash c))\<rparr>"

abbreviation env_clean :: "hal_flash \<Rightarrow> config_env \<Rightarrow> config_env" where
  "env_clean hal c \<equiv> c\<lparr>env_flash := snd (romflash_clean_pages hal ENV_START_ADDR (env_flash c))\<rparr>"

section \<open>The banks in flash\<close>

definition romflash_Factory_reg_get :: "hal_flash \<Rightarrow> config_env \<Rightarrow> config_env" where
  "romflash_Factory_reg_get hal c =
     (let c = c\<lparr>FactoryReg := replicate REG_BUF_LEN 0\<rparr> in
      if romflash_word_read FATY_ADDR (env_flash c) \<noteq> SoftKey1_VAL
      then (let c = env_clean hal c;
                c = c\<lparr>FactoryReg := mem_write (FactoryReg c) 0 factory_data\<rparr>;
                ck = crc_calculate (mem_read (FactoryReg c) 0 sizeof_REG_Data);
                c = env_write hal FATY_ADDR (cfg_file SoftKey1_VAL ck) c
            in env_write hal (FATY_ADDR + CFG_INFO_LEN) (mem_read (FactoryReg c) 0 sizeof_REG_Data) c)
      else c\<lparr>FactoryReg := mem_write (FactoryReg c) 0
             (romflash_pages_read (FATY_ADDR + CFG_INFO_LEN) sizeof_REG_Data (env_flash c))\<rparr>)"

definition romflash_user_reg_get :: "hal_flash \<Rightarrow> config_env \<Rightarrow> config_env" where
  "romflash_user_reg_get hal c =
     (let c = c\<lparr>UserReg := replicate REG_BUF_LEN 0\<rparr> in
      if romflash_word_read USER_ADDR (env_flash c) \<noteq> SoftKey2_VAL
      then (let c = c\<lparr>UserReg := mem_write (UserReg c) 0 (mem_read (FactoryReg c) 0 sizeof_REG_Data)\<rparr>;
                ck = crc_calculate (mem_read (UserReg c) 0 sizeof_REG_Data);
                c = env_write hal USER_ADDR (cfg_file SoftKey2_VAL ck) c
            in env_write hal (USER_ADDR + CFG_INFO_LEN) (mem_read (UserReg c) 0 sizeof_REG_Data) c)
      else c\<lparr>UserReg := mem_write (UserReg c) 0
             (romflash_pages_read (USER_ADDR + CFG_INFO_LEN) sizeof_REG_Data (env_flash c))\<rparr>)"

definition romflash_reg_refresh :: "hal_flash \<Rightarrow> config_env \<Rightarrow> config_env" where
  "romflash_reg_refresh hal c = romflash_user_reg_get hal (romflash_Factory_reg_get hal (env_clean hal c))"

text \<open>The checksums read back are compared only to print a message.\<close>

definition romflash_FPGA_reg_save :: "hal_flash \<Rightarrow> config_env \<Rightarrow> config_env" where
  "romflash_FPGA_reg_save hal c =
     (if romflash_word_read FATY_ADDR (env_flash c) = SoftKey1_VAL
      then (let fenvfile = romflash_pages_read FATY_ADDR 8 (env_flash c);
                tmpFactoryReg = romflash_pages_read (FATY_ADDR + CFG_INFO_LEN) REG_BUF_LEN (env_flash c);
                uenvfile = romflash_pages_read USER_ADDR 8 (env_flash c);
                tmpUserReg = romflash_pages_read (USER_ADDR + CFG_INFO_LEN) REG_BUF_LEN (env_flash c);
                c = env_clean hal c;
                c = env_write hal FATY_ADDR fenvfile c;
                c = env_write hal (FATY_ADDR + CFG_INFO_LEN) tmpFactoryReg c;
                c = env_write hal USER_ADDR uenvfile c;
                c = env_write hal (USER_ADDR + CFG_INFO_LEN) tmpUserReg c
            in env_write hal FPGA_ADDR (FPGADatBuf c) c)
      else c)"

definition romflash_user_reg_save :: "hal_flash \<Rightarrow> config_env \<Rightarrow> config_env" where
  "romflash_user_reg_save hal c =
     (if romflash_word_read FATY_ADDR (env_flash c) = SoftKey1_VAL
      then (let tmpFactoryReg = romflash_pages_read (FATY_ADDR + CFG_INFO_LEN) REG_BUF_LEN (env_flash c);
                fenvfile = cfg_file SoftKey1_VAL (crc_calculate tmpFactoryReg);
                uenvfile = cfg_file SoftKey2_VAL (crc_calculate (UserReg c));
                tmpFpgaReg = romflash_pages_read FPGA_ADDR FPGA_REG_BUF_LEN (env_flash c);
                c = env_clean hal c;
                c = env_write hal FATY_ADDR fenvfile c;
                c = env_write hal (FATY_ADDR + CFG_INFO_LEN) tmpFactoryReg c;
                c = env_write hal USER_ADDR uenvfile c;
                c = env_write hal (USER_ADDR + CFG_INFO_LEN) (UserReg c) c
            in env_write hal FPGA_ADDR tmpFpgaReg c)
      else c)"

section \<open>Reading and writing registers by packet\<close>

definition MAVLINK_STX :: u8 where "MAVLINK_STX = 254"
definition MAVLINK_SYSID :: u8 where "MAVLINK_SYSID = 0x88"
definition MAVLINK_TYPE_UART :: u8 where "MAVLINK_TYPE_UART = 0x23"
definition MAVLINK_TYPE_ETH :: u8 where "MAVLINK_TYPE_ETH = 0x24"
definition MAVLINK_CONFIG_EXTRA_CRC :: u8 where "MAVLINK_CONFIG_EXTRA_CRC = 0x20"

datatype parse_result = PAR_FALSE | PAR_OK | PAR_IGNORE

definition config_user_reg_set :: "u16 \<Rightarrow> bytes \<Rightarrow> u16 \<Rightarrow> config_env \<Rightarrow> bool \<times> config_env" where
  "config_user_reg_set address buf len c =
     (if unat address + unat len \<le> REG_BUF_LEN
      then (True, c\<lparr>UserReg := mem_write (UserReg c) (unat address) (take (unat len) buf)\<rparr>)
      else (False, c))"

definition config_fpga_reg_set :: "u16 \<Rightarrow> bytes \<Rightarrow> u16 \<Rightarrow> config_env \<Rightarrow> bool \<times> config_env" where
  "config_fpga_reg_set address buf len c =
     (if unat address + unat len < FPGA_REG_BUF_LEN
      then (True, c\<lparr>FPGADatBuf := mem_write (FPGADatBuf c) (unat address) (take (unat len) buf)\<rparr>)
      else (False, c))"

text \<open>\<open>ureg\<close> is the local packet buffer of 263 bytes; \<open>len\<close> an 8-bit length.\<close>

definition Pack_mavlink_and_Send :: "bytes \<Rightarrow> nat \<Rightarrow> config_env \<Rightarrow> config_env option" where
  "Pack_mavlink_and_Send buf len c =
     (let buf = buf[2 := current_tx_seq c]; c = c\<lparr>current_tx_seq := current_tx_seq c + 1\<rparr>;
          checksum = crc_calculate (mem_read buf 1 (len + 5));
          buf = buf[len + 1 := ucast checksum, len + 2 := ucast (drop_bit 8 checksum)];
          sumLen = 6 + 2 + len + 2
      in if buf ! 4 = MAVLINK_TYPE_UART
         then map_option (\<lambda>u. c\<lparr>env_uart := u\<rparr>) (USART3_Putbuf (take sumLen buf) (env_uart c))
         else Some c)"

definition config_reg_get :: "bytes \<Rightarrow> u16 \<Rightarrow> bytes \<Rightarrow> u16 \<Rightarrow> bytes \<Rightarrow> config_env \<Rightarrow> (bool \<times> config_env) option" where
  "config_reg_get regs address buf len stk c =
     (if unat len \<le> 253
      then if unat address + unat len \<le> length regs
           then map_option (Pair True)
             (Pack_mavlink_and_Send (mem_write (mem_write stk 0 (take 8 buf)) 8 (mem_read regs (unat address) (unat len)))
                (unat len) c)
           else None
      else Some (False, c))"

definition config_user_reg_get :: "u16 \<Rightarrow> bytes \<Rightarrow> u16 \<Rightarrow> bytes \<Rightarrow> config_env \<Rightarrow> (bool \<times> config_env) option" where
  "config_user_reg_get address buf len stk c = config_reg_get (UserReg c) address buf len stk c"

definition config_fpga_reg_get :: "u16 \<Rightarrow> bytes \<Rightarrow> u16 \<Rightarrow> bytes \<Rightarrow> config_env \<Rightarrow> (bool \<times> config_env) option" where
  "config_fpga_reg_get address buf len stk c = config_reg_get (FPGADatBuf c) address buf len stk c"

definition env_putbuf :: "bytes \<Rightarrow> config_env \<Rightarrow> config_env option" where
  "env_putbuf bs c = map_option (\<lambda>u. c\<lparr>env_uart := u\<rparr>) (USART3_Putbuf bs (env_uart c))"

text \<open>The echo loop counts in eight bits: from 256 bytes on it never ends.\<close>

definition echo_packet :: "bytes \<Rightarrow> nat \<Rightarrow> config_env \<Rightarrow> config_env option" where
  "echo_packet buf len c = (if len \<le> 255 then env_putbuf (take len buf) c else None)"

definition register_access :: "bytes \<Rightarrow> u16 \<Rightarrow> bytes \<Rightarrow> config_env \<Rightarrow> (parse_result \<times> config_env) option" where
  "register_access buf len stk c =
     (let address = ucast (buf ! 6) * 0x100 + ucast (buf ! 7); regBuf = drop 8 buf; regType = buf ! 5;
          result = (\<lambda>(ok, c). (if ok then PAR_OK else PAR_FALSE, c))
      in if regType = 0 then Some (PAR_IGNORE, c)
         else if regType = 1
         then (let (ok, c) = config_user_reg_set address regBuf len c
               in map_option (\<lambda>c. result (ok, c)) (env_putbuf [ucast len] c))
         else if regType = 2 then map_option result (config_user_reg_get address buf len stk c)
         else if regType = 3 then Some (result (config_fpga_reg_set address regBuf len c))
         else if regType = 4 then map_option result (config_fpga_reg_get address buf len stk c)
         else Some (PAR_FALSE, c))"

definition mavlink_parse_config :: "bytes \<Rightarrow> nat \<Rightarrow> bytes \<Rightarrow> config_env \<Rightarrow> (parse_result \<times> config_env) option" where
  "mavlink_parse_config buf plen stk c =
     (if buf ! 0 = MAVLINK_STX \<and> buf ! 3 = MAVLINK_SYSID \<and> plen \<ge> 8
      then (let len = unat (buf ! 1) in
            if plen \<noteq> len + 6 + 2 then Some (PAR_FALSE, c)
            else do {
              let ck0 = crc_accumulate_buffer (crc_calculate (mem_read buf 1 5)) (mem_read buf 6 len);
              c \<leftarrow> env_putbuf (le16 ck0) c;
              let checksum = crc_accumulate MAVLINK_CONFIG_EXTRA_CRC ck0;
              c \<leftarrow> echo_packet buf plen c;
              c \<leftarrow> env_putbuf (le16 checksum) c;
              if buf ! (6 + len) = ucast checksum \<and> buf ! (6 + len + 1) = ucast (drop_bit 8 checksum)
              then register_access buf (of_nat len - 2) stk c
              else Some (PAR_FALSE, c)
            })
      else Some (PAR_FALSE, c))"

definition bump :: "nat \<Rightarrow> config_env \<Rightarrow> config_env" where
  "bump i c = c\<lparr>UserReg := (UserReg c)[i := UserReg c ! i + 1]\<rparr>"

definition AddParseCorruptCnt :: "u8 \<Rightarrow> config_env \<Rightarrow> config_env" where
  "AddParseCorruptCnt typePort c =
     (if typePort = MAVLINK_TYPE_UART then bump reg_sRxCorrupt c
      else if typePort = MAVLINK_TYPE_ETH then bump reg_ethRxCorrupt c else c)"

definition AddParseRightCnt :: "u8 \<Rightarrow> config_env \<Rightarrow> config_env" where
  "AddParseRightCnt typePort c =
     (if typePort = MAVLINK_TYPE_UART then bump reg_sRxSum c
      else if typePort = MAVLINK_TYPE_ETH then bump reg_ethRxSum c else c)"

text \<open>The bits of the control byte: 7 write, 6 read, 5 load the factory values; \<open>evURegSave\<close>,
  \<open>evGUserReg\<close>, \<open>evGFctyReg\<close>.\<close>

definition evURegSave :: u8 where "evURegSave = 0x21"
definition evGUserReg :: u8 where "evGUserReg = 0x22"
definition evGFctyReg :: u8 where "evGFctyReg = 0x24"

definition config_CheckStatus :: "config_env \<Rightarrow> config_env" where
  "config_CheckStatus c =
     (let ctr = UserReg c ! 0; w = bit ctr 7; r = bit ctr 6; f = bit ctr 5;
          push = (\<lambda>b ev q. if b then PushEvt_OnlyEvt ev q else q)
      in c\<lparr>UserReg := (UserReg c)[0 := ctr AND 0x1f],
           env_events := push f evGFctyReg (push r evGUserReg (push w evURegSave (env_events c)))\<rparr>)"

section \<open>The network parameters at start-up\<close>

definition load_Factory_ipPar :: "store \<Rightarrow> NETIF_PAR" where
  "load_Factory_ipPar s =
     \<lparr>np_ip = map (\<lambda>i. Get_IP_Fragment i s) [0..<4], np_netmask = FACTORY_NETMASK, np_gateway = FACTORY_GATEWAY,
      np_mac = map (\<lambda>i. Get_MAC_Fragment i s) [0..<6], np_port = FACTORY_UDP_IN_PORT\<rparr>"

text \<open>The static structure is zero before; only address and port are set.\<close>

definition load_Factory_remote_ipPar :: NETIF_REMOTE_PAR where
  "load_Factory_remote_ipPar =
     \<lparr>rp_ip = FACTORY_REMOTE_IP, rp_port = FACTORY_UDP_OUT_PORT, rp_mac = replicate 6 0, rp_link = 0\<rparr>"

section \<open>The banks survive a save\<close>

lemma le32_word:
  "ucast (ucast k :: u8) OR push_bit 8 (ucast (ucast (drop_bit 8 k) :: u8)) OR
     push_bit 16 (ucast (ucast (drop_bit 16 k) :: u8)) OR push_bit 24 (ucast (ucast (drop_bit 24 k) :: u8)) = (k :: u32)"
proof (rule bit_word_eqI)
  fix n assume "n < LENGTH(32)"
  then have "n < 8 \<or> 8 \<le> n \<and> n < 16 \<or> 16 \<le> n \<and> n < 24 \<or> 24 \<le> n \<and> n < 32" by auto
  then show "bit (ucast (ucast k :: u8) OR push_bit 8 (ucast (ucast (drop_bit 8 k) :: u8)) OR
     push_bit 16 (ucast (ucast (drop_bit 16 k) :: u8)) OR push_bit 24 (ucast (ucast (drop_bit 24 k) :: u8)) :: u32) n = bit k n"
    by (elim disjE) (auto simp: bit_simps)
qed

lemma word_read_key:
  assumes "romflash_pages_read a 8 fl = cfg_file key ck"
  shows "romflash_word_read a fl = key"
proof -
  have "cells fl (a + i) = cfg_file key ck ! i" if "i < 8" for i
    using arg_cong[OF assms, of "\<lambda>l. l ! i"] that by (simp add: romflash_pages_read_def)
  from this[of 0] this[of 1] this[of 2] this[of 3] show ?thesis
    by (simp add: romflash_word_read_def cfg_file_def le32_def le32_word)
qed

definition env_blocks :: "bytes \<Rightarrow> bytes \<Rightarrow> bytes \<Rightarrow> bytes \<Rightarrow> bytes \<Rightarrow> (nat \<times> bytes) list" where
  "env_blocks ff f uf u g =
     [(FATY_ADDR, ff), (FATY_ADDR + CFG_INFO_LEN, f), (USER_ADDR, uf), (USER_ADDR + CFG_INFO_LEN, u), (FPGA_ADDR, g)]"

lemma length_cfg_file [simp]: "length (cfg_file key ck) = 8"
  by (simp add: cfg_file_def le32_def)

lemma length_pages_read [simp]: "length (romflash_pages_read a n fl) = n"
  by (simp add: romflash_pages_read_def)

lemma env_blocks_read:
  assumes "hal_laws hal" "length ff = 8" "length f = 512" "length uf = 8" "length u = 512" "length g = 256"
    and "fl' = write_all hal (env_blocks ff f uf u g) (snd (romflash_clean_pages hal ENV_START_ADDR fl))"
  shows "romflash_pages_read FATY_ADDR 8 fl' = ff" "romflash_pages_read (FATY_ADDR + CFG_INFO_LEN) 512 fl' = f"
    "romflash_pages_read USER_ADDR 8 fl' = uf" "romflash_pages_read (USER_ADDR + CFG_INFO_LEN) 512 fl' = u"
    "romflash_pages_read FPGA_ADDR 256 fl' = g"
proof -
  let ?e = "snd (romflash_clean_pages hal ENV_START_ADDR fl)"
  have c: "cells ?e = (\<lambda>a. if in_sector 7 a then 0xff else cells fl a)"
    by (subst romflash_clean_pages_erases[OF assms(1), of _ 7]) (simp_all add: GetSector_def env_addr_defs)
  have s: "in_sector 7 a" if "0x080C0000 \<le> a" "a < 0x08100000" for a
    using that by (simp add: in_sector_def ADDR_FLASH_SECTORS_def)
  have er1: "erased (cells ?e) a n" if "0x080C0000 \<le> a" "a + n \<le> 0x08100000" for a n
    unfolding erased_def c using that s by auto
  have er: "list_all (\<lambda>q. erased (cells ?e) (fst q) (length (snd q))) (env_blocks ff f uf u g)"
    using assms(2-6) er1 by (simp add: env_blocks_def env_addr_defs)
  have ap: "all_apart (env_blocks ff f uf u g)"
    using assms(2-6) by (simp add: env_blocks_def apart_def env_addr_defs)
  have b: "list_all (block_is (cells fl')) (env_blocks ff f uf u g)"
    using write_all_blocks[OF assms(1) ap er] assms(7) by blast
  show "romflash_pages_read FATY_ADDR 8 fl' = ff" "romflash_pages_read (FATY_ADDR + CFG_INFO_LEN) 512 fl' = f"
    "romflash_pages_read USER_ADDR 8 fl' = uf" "romflash_pages_read (USER_ADDR + CFG_INFO_LEN) 512 fl' = u"
    "romflash_pages_read FPGA_ADDR 256 fl' = g"
    using b assms(2-6) by (simp_all add: env_blocks_def read_block_is)
qed

lemma env_writes:
  "env_flash (env_write hal FPGA_ADDR g (env_write hal (USER_ADDR + CFG_INFO_LEN) u (env_write hal USER_ADDR uf
     (env_write hal (FATY_ADDR + CFG_INFO_LEN) f (env_write hal FATY_ADDR ff (env_clean hal c)))))) =
   write_all hal (env_blocks ff f uf u g) (snd (romflash_clean_pages hal ENV_START_ADDR (env_flash c)))"
  by (simp add: write_all_def env_blocks_def)

lemma read_prefix: "n \<le> k \<Longrightarrow> romflash_pages_read a n fl = take n (romflash_pages_read a k fl)"
  by (simp add: romflash_pages_read_def take_map)

text \<open>The flash after each of the two saving routines.\<close>

lemma user_reg_save_flash:
  assumes "romflash_word_read FATY_ADDR (env_flash c) = SoftKey1_VAL"
  shows "env_flash (romflash_user_reg_save hal c) =
    write_all hal (env_blocks (cfg_file SoftKey1_VAL (crc_calculate (romflash_pages_read (FATY_ADDR + CFG_INFO_LEN) 512 (env_flash c))))
        (romflash_pages_read (FATY_ADDR + CFG_INFO_LEN) 512 (env_flash c))
        (cfg_file SoftKey2_VAL (crc_calculate (UserReg c))) (UserReg c)
        (romflash_pages_read FPGA_ADDR 256 (env_flash c)))
      (snd (romflash_clean_pages hal ENV_START_ADDR (env_flash c)))"
  unfolding romflash_user_reg_save_def if_P[OF assms] Let_def REG_BUF_LEN_def FPGA_REG_BUF_LEN_def
  by (subst env_writes[symmetric]) simp

lemma FPGA_reg_save_flash:
  assumes "romflash_word_read FATY_ADDR (env_flash c) = SoftKey1_VAL"
  shows "env_flash (romflash_FPGA_reg_save hal c) =
    write_all hal (env_blocks (romflash_pages_read FATY_ADDR 8 (env_flash c))
        (romflash_pages_read (FATY_ADDR + CFG_INFO_LEN) 512 (env_flash c))
        (romflash_pages_read USER_ADDR 8 (env_flash c)) (romflash_pages_read (USER_ADDR + CFG_INFO_LEN) 512 (env_flash c))
        (FPGADatBuf c))
      (snd (romflash_clean_pages hal ENV_START_ADDR (env_flash c)))"
  unfolding romflash_FPGA_reg_save_def if_P[OF assms] Let_def REG_BUF_LEN_def
  by (subst env_writes[symmetric]) simp

lemma mem_write_32:
  "length x = 512 \<Longrightarrow> mem_write (replicate 512 0) 0 (take 32 x) = take 32 x @ replicate 480 (0 :: u8)"
  by (simp add: mem_write_take_drop)

text \<open>C40: The flash routines of the register file agree with one another.  With a factory bank in flash,
  \<open>romflash_user_reg_save\<close> stores all 512 bytes of the user bank and keeps the factory bank and the FPGA bytes,
  although it erases the sector; a later \<open>romflash_FPGA_reg_save\<close> stores new FPGA bytes and keeps both
  banks in full.  The routines that load a bank then find it valid, leave the flash alone and take over
  the 32 bytes of the structure, so \<open>romflash_user_reg_get\<close> gives the registers as they were saved
  and zeros in the other 480 bytes.  (In this build only \<open>ModeOn\<close> calls any of them,
  which the main loop does not call; the start-up that would load the banks is compiled out.)\<close>

theorem user_registers_survive:
  assumes "hal_laws hal" "romflash_word_read FATY_ADDR (env_flash c) = SoftKey1_VAL" "length (UserReg c) = 512"
    and "env_flash c' = env_flash (romflash_user_reg_save hal c)" "length (FPGADatBuf c') = 256"
    and "env_flash d = env_flash (romflash_FPGA_reg_save hal c')"
  shows "let user = \<lambda>c. romflash_pages_read (USER_ADDR + CFG_INFO_LEN) 512 (env_flash c);
      factory = \<lambda>c. romflash_pages_read (FATY_ADDR + CFG_INFO_LEN) 512 (env_flash c);
      fpga = \<lambda>c. romflash_pages_read FPGA_ADDR 256 (env_flash c)
    in user c' = UserReg c \<and> factory c' = factory c \<and> fpga c' = fpga c \<and>
       user d = UserReg c \<and> factory d = factory c \<and> fpga d = FPGADatBuf c' \<and>
       romflash_user_reg_get hal d = d\<lparr>UserReg := take 32 (UserReg c) @ replicate 480 0\<rparr> \<and>
       romflash_Factory_reg_get hal d = d\<lparr>FactoryReg := take 32 (factory c) @ replicate 480 0\<rparr>"
proof -
  note r = env_blocks_read[OF assms(1) length_cfg_file length_pages_read length_cfg_file assms(3) length_pages_read
      assms(4)[unfolded user_reg_save_flash[OF assms(2)]]]
  note k = word_read_key[OF r(1)]
  note q = env_blocks_read[OF assms(1) length_pages_read length_pages_read length_pages_read length_pages_read assms(5)
      assms(6)[unfolded FPGA_reg_save_flash[OF k]], unfolded r]
  have "romflash_user_reg_get hal d = d\<lparr>UserReg := take 32 (UserReg c) @ replicate 480 0\<rparr>"
    using word_read_key[OF q(3)] q(4) mem_write_32[OF assms(3)]
    by (simp add: romflash_user_reg_get_def REG_BUF_LEN_def sizeof_REG_Data_def read_prefix[of 32 512])
  moreover have "romflash_Factory_reg_get hal d =
      d\<lparr>FactoryReg := take 32 (romflash_pages_read (FATY_ADDR + CFG_INFO_LEN) 512 (env_flash c)) @ replicate 480 0\<rparr>"
    using word_read_key[OF q(1)] q(2) mem_write_32[OF length_pages_read]
    by (simp add: romflash_Factory_reg_get_def REG_BUF_LEN_def sizeof_REG_Data_def read_prefix[of 32 512])
  ultimately show ?thesis using r q by (simp add: Let_def)
qed

definition demo_config_env :: config_env where
  "demo_config_env = \<lparr>FactoryReg = replicate 512 0, UserReg = replicate 512 3, FPGADatBuf = replicate 256 0,
     current_tx_seq = 0, env_flash = \<lparr>cells = (\<lambda>a. if FATY_ADDR \<le> a \<and> a < FATY_ADDR + 4 then 0xa5 else 0xff), flash_locked = True\<rparr>,
     env_uart = MX_USART3_UART_Init, env_events = event_state0\<rparr>"

theorem user_registers_survive_witness:
  "let c' = (romflash_user_reg_save nor_flash demo_config_env)\<lparr>FPGADatBuf := replicate 256 7\<rparr>;
       d = (romflash_FPGA_reg_save nor_flash c')\<lparr>UserReg := [], FactoryReg := []\<rparr>
   in UserReg (romflash_user_reg_get nor_flash d) = replicate 32 3 @ replicate 480 0 \<and>
      romflash_pages_read FPGA_ADDR 256 (env_flash d) = replicate 256 7"
proof -
  have k: "romflash_word_read FATY_ADDR (env_flash demo_config_env) = SoftKey1_VAL"
    by (simp add: romflash_word_read_def demo_config_env_def SoftKey1_VAL_def)
  have l: "length (UserReg demo_config_env) = 512" by (simp add: demo_config_env_def)
  let ?c = "(romflash_user_reg_save nor_flash demo_config_env)\<lparr>FPGADatBuf := replicate 256 7\<rparr>"
  let ?d = "(romflash_FPGA_reg_save nor_flash ?c)\<lparr>UserReg := [], FactoryReg := []\<rparr>"
  have "take 32 (UserReg demo_config_env) = replicate 32 3" by (simp add: demo_config_env_def)
  then show ?thesis
    using user_registers_survive[OF nor_flash_laws k l, of ?c ?d] by (simp add: Let_def)
qed

end
