(* ===== verification/Network.thy ===== *)
theory Network
  imports ConfigEnv FpgaLink
begin

text \<open>
  \<open>app/udp_api.c\<close>, the parameters of \<open>app/lwip.c\<close> and the output side of \<open>app/ethernetif.c\<close>: the UDP
  frames with which the box answers the PC.  The headers live in a static packet that is filled in at
  start-up and patched for every frame; LwIP only supplies the partner's MAC address.  Whether the
  DMA still owns the descriptor and whether the HAL accepts the frame are arguments.
\<close>

section \<open>State\<close>

text \<open>\<open>NETPACKA_TYPE\<close> is its bytes: Ethernet, IP and UDP header (14, 20, 8 bytes), then the data.\<close>

definition off_dest_mac :: nat where "off_dest_mac = 0"
definition off_src_mac :: nat where "off_src_mac = 6"
definition off_type :: nat where "off_type = 12"
definition off_V_H_T :: nat where "off_V_H_T = 14"
definition off_totlen :: nat where "off_totlen = 16"
definition off_idtf :: nat where "off_idtf = 18"
definition off_FLA_OFS :: nat where "off_FLA_OFS = 20"
definition off_LIVE_PTC :: nat where "off_LIVE_PTC = 22"
definition off_ip_chksum :: nat where "off_ip_chksum = 24"
definition off_socip :: nat where "off_socip = 26"
definition off_dstip :: nat where "off_dstip = 30"
definition off_socpot :: nat where "off_socpot = 34"
definition off_dstpot :: nat where "off_dstpot = 36"
definition off_len :: nat where "off_len = 38"
definition off_udp_chksum :: nat where "off_udp_chksum = 40"
definition off_dt :: nat where "off_dt = 42"

lemmas off_defs = off_dest_mac_def off_src_mac_def off_type_def off_V_H_T_def off_totlen_def off_idtf_def
  off_FLA_OFS_def off_LIVE_PTC_def off_ip_chksum_def off_socip_def off_dstip_def off_socpot_def off_dstpot_def
  off_len_def off_udp_chksum_def off_dt_def

definition sizeof_NETPACKA :: nat where "sizeof_NETPACKA = 1358"

definition LINK_HLEN :: u16 where "LINK_HLEN = 14"
definition IP_HLEN :: u16 where "IP_HLEN = 20"
definition UDP_HLEN :: u16 where "UDP_HLEN = 8"
definition ETH_RX_BUF_SIZE :: nat where "ETH_RX_BUF_SIZE = 1524"
definition UDP_BUF_SIZE :: nat where "UDP_BUF_SIZE = 0x4000"
definition NET_LINKED :: u8 where "NET_LINKED = 1"
definition NET_UNLINK :: u8 where "NET_UNLINK = 0"

text \<open>\<open>sent_frames\<close> are the frames handed to \<open>HAL_ETH_TransmitFrame\<close>, with what it answered.\<close>

record net =
  netif_par :: NETIF_PAR
  netif_remote_par :: NETIF_REMOTE_PAR
  net_ipaddr :: bytes
  net_netmask :: bytes
  net_gw :: bytes
  remoteipaddr :: bytes
  MACAddr :: bytes
  netUdpPack :: bytes
  port_len :: u16
  port_tot_len :: u16
  ip_id :: u16
  destPort :: u16
  sinkPort :: u16
  udp_state :: u16
  sent_frames :: "(bytes \<times> bool) list"

section \<open>Parameters\<close>

definition ethernetif_mac_conf :: "bytes \<Rightarrow> net \<Rightarrow> net" where
  "ethernetif_mac_conf macadr n = n\<lparr>MACAddr := macadr\<rparr>"

definition Lwip_Par_conf :: "NETIF_PAR \<Rightarrow> net \<Rightarrow> net" where
  "Lwip_Par_conf mypar n =
     ethernetif_mac_conf (np_mac mypar)
       (n\<lparr>netif_par := mypar, net_ipaddr := np_ip mypar, net_netmask := np_netmask mypar, net_gw := np_gateway mypar\<rparr>)"

definition remoteLwip_Par_conf :: "NETIF_REMOTE_PAR \<Rightarrow> net \<Rightarrow> net" where
  "remoteLwip_Par_conf p n =
     n\<lparr>netif_remote_par := (netif_remote_par n)\<lparr>rp_ip := rp_ip p, rp_port := rp_port p, rp_link := NET_UNLINK\<rparr>,
       remoteipaddr := rp_ip p\<rparr>"

definition config_env_init :: "store \<Rightarrow> net \<Rightarrow> net" where
  "config_env_init s n =
     remoteLwip_Par_conf load_Factory_remote_ipPar (Lwip_Par_conf (load_Factory_ipPar s) n)"

definition get_Lwip_port :: "net \<Rightarrow> u16" where "get_Lwip_port n = np_port (netif_par n)"
definition get_remoteLwip_port :: "net \<Rightarrow> u16" where "get_remoteLwip_port n = rp_port (netif_remote_par n)"

definition set_remoteLwip_udp_link :: "u8 \<Rightarrow> net \<Rightarrow> net" where
  "set_remoteLwip_udp_link link n =
     n\<lparr>netif_remote_par := (netif_remote_par n)\<lparr>rp_link := (if link \<noteq> 0 then NET_LINKED else NET_UNLINK)\<rparr>\<rparr>"

definition get_remoteLwip_udp_link :: "net \<Rightarrow> u8" where
  "get_remoteLwip_udp_link n = rp_link (netif_remote_par n)"

definition ap_udp_set_mac :: "bytes \<Rightarrow> net \<Rightarrow> net" where
  "ap_udp_set_mac mac n = n\<lparr>netUdpPack := mem_write (netUdpPack n) off_dest_mac (take 6 mac)\<rparr>"

text \<open>Called by LwIP when it learns the hardware address of \<open>address\<close> (\<open>None\<close>: a null pointer).\<close>

definition remoteLwip_mac_conf :: "bytes option \<Rightarrow> bytes \<Rightarrow> net \<Rightarrow> net" where
  "remoteLwip_mac_conf address ethaddr n =
     (case address of
        None \<Rightarrow> n
      | Some a \<Rightarrow>
          if a = remoteipaddr n \<and> get_remoteLwip_udp_link n = NET_UNLINK
          then (let n = set_remoteLwip_udp_link NET_LINKED n;
                    n = n\<lparr>netif_remote_par := (netif_remote_par n)\<lparr>rp_mac := ethaddr\<rparr>\<rparr>
                in ap_udp_set_mac (rp_mac (netif_remote_par n)) n)
          else n)"

definition Link_Callback :: "u32 \<Rightarrow> net \<Rightarrow> net" where
  "Link_Callback regvalue n =
     (let n = (if regvalue AND 0x0004 \<noteq> 0 then set_remoteLwip_udp_link NET_UNLINK n else n)
      in if regvalue AND 0x0001 \<noteq> 0 then set_remoteLwip_udp_link NET_LINKED n else n)"

section \<open>The packet\<close>

definition HexBuf_To_U16 :: "bytes \<Rightarrow> nat \<Rightarrow> u16" where
  "HexBuf_To_U16 src i = ucast (src ! i) * 0x100 + ucast (src ! (i + 1))"

definition U16_To_HexBuf :: "nat \<Rightarrow> u16 \<Rightarrow> bytes \<Rightarrow> bytes" where
  "U16_To_HexBuf dest bin b = mem_write b dest [ucast (drop_bit 8 bin), ucast bin]"

definition udp_pack_init :: "net \<Rightarrow> net" where
  "udp_pack_init n =
     (let len = 1316 + UDP_HLEN;
          b = netUdpPack n;
          b = U16_To_HexBuf off_socpot (np_port (netif_par n)) b;
          b = U16_To_HexBuf off_dstpot (rp_port (netif_remote_par n)) b;
          b = U16_To_HexBuf off_len len b;
          b = mem_write b off_udp_chksum [0, 0];
          len = len + IP_HLEN;
          b = mem_write b off_V_H_T [0x45, 0x00];
          b = U16_To_HexBuf off_totlen len b;
          b = U16_To_HexBuf off_idtf (ip_id n) b;
          b = U16_To_HexBuf off_FLA_OFS 0x0000 b;
          b = mem_write b off_LIVE_PTC [0xFF, 0x11];
          b = mem_write b off_socip (take 4 (np_ip (netif_par n)));
          b = mem_write b off_dstip (take 4 (rp_ip (netif_remote_par n)));
          b = mem_write b off_ip_chksum [0, 0];
          b = mem_write b off_dest_mac (take 6 (rp_mac (netif_remote_par n)));
          b = mem_write b off_src_mac (take 6 (np_mac (netif_par n)));
          b = U16_To_HexBuf off_type 0x0800 b
      in n\<lparr>netUdpPack := b\<rparr>)"

text \<open>The control block LwIP is given here takes no part in the answers.\<close>

definition udp_echoclient_connect :: "net \<Rightarrow> net" where
  "udp_echoclient_connect n =
     (let n = n\<lparr>sinkPort := get_Lwip_port n, destPort := get_remoteLwip_port n,
               netUdpPack := mem_write (netUdpPack n) off_dt (replicate 1316 0x55)\<rparr>
      in (udp_pack_init n)\<lparr>udp_state := 0\<rparr>)"

text \<open>\<open>own\<close>: the descriptor belongs to the DMA; \<open>ok\<close>: the answer of \<open>HAL_ETH_TransmitFrame\<close>.  The
  data are read from a ring of \<open>UDP_BUF_SIZE\<close> bytes from \<open>pos\<close> on.  The 16-bit total does not wrap below
  65494 data bytes.\<close>

fun ring_read :: "bytes \<Rightarrow> nat \<Rightarrow> nat \<Rightarrow> bytes \<times> nat" where
  "ring_read dat rd 0 = ([], rd)"
| "ring_read dat rd (Suc k) = (let (bs, r) = ring_read dat ((rd + 1) mod UDP_BUF_SIZE) k in (dat ! rd # bs, r))"

definition udp_ts_output :: "bool \<Rightarrow> bool \<Rightarrow> bytes \<Rightarrow> nat \<Rightarrow> net \<Rightarrow> nat \<times> net" where
  "udp_ts_output own ok buf pos n =
     (let framelength = unat (port_tot_len n); datlen = unat (port_len n); hearlength = framelength - datlen in
      if framelength > ETH_RX_BUF_SIZE \<or> own then (0, n)
      else (let (dat, rd) = ring_read buf pos datlen;
                frame = take hearlength (netUdpPack n) @ dat;
                n = n\<lparr>sent_frames := sent_frames n @ [(frame, ok)]\<rparr>
            in (if ok then rd else pos, n)))"

definition eth_send :: "bool \<Rightarrow> bool \<Rightarrow> bytes \<Rightarrow> u8 \<Rightarrow> u8 \<Rightarrow> u16 \<Rightarrow> net \<Rightarrow> net" where
  "eth_send own ok pstr dstpot1 dstpot2 data_len n =
     (let i = data_len;
          n = n\<lparr>port_len := i, ip_id := ip_id n + 1\<rparr>;
          b = U16_To_HexBuf off_idtf (ip_id n) (netUdpPack n);
          i = i + UDP_HLEN;
          b = U16_To_HexBuf off_len i b;
          i = i + IP_HLEN;
          b = U16_To_HexBuf off_totlen i b;
          n = n\<lparr>port_tot_len := i + LINK_HLEN\<rparr>;
          b = mem_write b off_dstpot [dstpot1, dstpot2]
      in snd (udp_ts_output own ok pstr 0 (n\<lparr>netUdpPack := b\<rparr>)))"

text \<open>\<open>Eth_Send_api\<close> sends to the port of the request seen last.\<close>

definition Eth_Send_api :: "bool \<Rightarrow> bool \<Rightarrow> eth_ring \<Rightarrow> bytes \<Rightarrow> u16 \<Rightarrow> net \<Rightarrow> net" where
  "Eth_Send_api own ok r Data Data_Len n = eth_send own ok Data (dstpot_1 r) (dstpot_2 r) Data_Len n"

section \<open>What a frame says\<close>

record udp_view =
  to_mac :: bytes
  from_mac :: bytes
  from_ip :: bytes
  to_ip :: bytes
  from_port :: u16
  to_port :: u16
  udp_data :: bytes

definition be16 :: "nat \<Rightarrow> bytes \<Rightarrow> nat" where "be16 i b = unat (b ! i) * 256 + unat (b ! (i + 1))"

text \<open>The reader of a UDP datagram: Ethernet type IP, version 4 without options, protocol UDP, and both
  length fields have to fit the frame.\<close>

definition parse_udp :: "bytes \<Rightarrow> udp_view option" where
  "parse_udp f =
     (if 42 \<le> length f \<and> f ! 12 = 0x08 \<and> f ! 13 = 0x00 \<and> f ! 14 = 0x45 \<and> f ! 23 = 0x11 \<and>
         be16 16 f + 14 = length f \<and> be16 38 f + 34 = length f
      then Some \<lparr>to_mac = mem_read f 0 6, from_mac = mem_read f 6 6, from_ip = mem_read f 26 4, to_ip = mem_read f 30 4,
             from_port = HexBuf_To_U16 f 34, to_port = HexBuf_To_U16 f 36, udp_data = drop 42 f\<rparr>
      else None)"

lemma unat_hi_lo: "unat (ucast (drop_bit 8 x) :: u8) * 256 + unat (ucast x :: u8) = unat (x :: u16)"
proof -
  have "unat (drop_bit 8 x) = unat x div 256" by (simp only: unat_drop_bit_eq) (simp add: drop_bit_eq_div)
  moreover have "unat x div 256 < 256" using unsigned_less[of x, where 'a = nat] by (simp add: less_mult_imp_div_less)
  moreover have "unat (ucast y :: u8) = unat y mod 256" for y :: u16
    by (simp only: unsigned_ucast_eq unsigned_take_bit_eq) (simp add: take_bit_eq_mod)
  ultimately show ?thesis by (simp del: drop_bit_eq_div)
qed

lemma ucast_hi_lo: "ucast (ucast (drop_bit 8 x) :: u8) * 0x100 + ucast (ucast x :: u8) = (x :: u16)"
proof -
  have "(of_nat (unat (ucast (drop_bit 8 x) :: u8) * 256 + unat (ucast x :: u8)) :: u16) = of_nat (unat x)"
    by (simp only: unat_hi_lo)
  then show ?thesis by (simp add: of_nat_unat)
qed

lemma be16_U16: "d + 2 \<le> length b \<Longrightarrow> be16 d (U16_To_HexBuf d x b) = unat x"
  by (simp add: be16_def U16_To_HexBuf_def nth_mem_write unat_hi_lo)

lemma HexBuf_U16: "d + 2 \<le> length b \<Longrightarrow> HexBuf_To_U16 (U16_To_HexBuf d x b) d = x"
  by (simp add: HexBuf_To_U16_def U16_To_HexBuf_def nth_mem_write ucast_hi_lo)

lemma U16_other:
  "length (U16_To_HexBuf d x b) = length b"
  "i < length b \<Longrightarrow> i < d \<or> d + 2 \<le> i \<Longrightarrow> U16_To_HexBuf d x b ! i = b ! i"
  by (auto simp: U16_To_HexBuf_def nth_mem_write)

text \<open>The static packet after start-up: its fixed fields and the addresses of both ends.\<close>

definition packed :: "net \<Rightarrow> bool" where
  "packed n \<longleftrightarrow> length (netUdpPack n) = sizeof_NETPACKA \<and>
     netUdpPack n ! 12 = 0x08 \<and> netUdpPack n ! 13 = 0x00 \<and> netUdpPack n ! 14 = 0x45 \<and> netUdpPack n ! 23 = 0x11 \<and>
     mem_read (netUdpPack n) 0 6 = rp_mac (netif_remote_par n) \<and> mem_read (netUdpPack n) 6 6 = np_mac (netif_par n) \<and>
     mem_read (netUdpPack n) 26 4 = np_ip (netif_par n) \<and> mem_read (netUdpPack n) 30 4 = rp_ip (netif_remote_par n) \<and>
     HexBuf_To_U16 (netUdpPack n) 34 = np_port (netif_par n)"

lemma mem_read_cong:
  assumes "length a = length b" "\<And>i. k \<le> i \<Longrightarrow> i < k + m \<Longrightarrow> a ! i = b ! i" "k + m \<le> length b"
  shows "mem_read a k m = mem_read b k m"
  using assms by (intro nth_equalityI) simp_all

text \<open>Patching the variable fields leaves the others.\<close>

definition patched :: "u16 \<Rightarrow> u16 \<Rightarrow> u8 \<Rightarrow> u8 \<Rightarrow> bytes \<Rightarrow> bytes" where
  "patched ident len p1 p2 b =
     mem_write (U16_To_HexBuf off_totlen (len + 8 + 20) (U16_To_HexBuf off_len (len + 8) (U16_To_HexBuf off_idtf ident b)))
       off_dstpot [p1, p2]"

lemma patched_fields:
  assumes "length b = sizeof_NETPACKA"
  shows "length (patched ident len p1 p2 b) = sizeof_NETPACKA"
    and "i < sizeof_NETPACKA \<Longrightarrow> i \<notin> {16, 17, 18, 19, 36, 37, 38, 39} \<Longrightarrow> patched ident len p1 p2 b ! i = b ! i"
    and "be16 16 (patched ident len p1 p2 b) = unat (len + 8 + 20)"
    and "be16 38 (patched ident len p1 p2 b) = unat (len + 8)"
    and "patched ident len p1 p2 b ! 36 = p1" "patched ident len p1 p2 b ! 37 = p2"
proof -
  let ?a = "U16_To_HexBuf off_idtf ident b"
  let ?b = "U16_To_HexBuf off_len (len + 8) ?a"
  let ?c = "U16_To_HexBuf off_totlen (len + 8 + 20) ?b"
  have l: "length ?a = 1358" "length ?b = 1358" "length ?c = 1358"
    using assms by (simp_all add: U16_other sizeof_NETPACKA_def)
  show "length (patched ident len p1 p2 b) = sizeof_NETPACKA"
    using l by (simp add: patched_def sizeof_NETPACKA_def)
  have n: "patched ident len p1 p2 b ! i = ?c ! i" if "i < 1358" "i \<notin> {36, 37}" for i
    using that l by (auto simp: patched_def off_defs nth_mem_write)
  have c: "?c ! i = ?b ! i" if "i < 1358" "i \<notin> {16, 17}" for i
    using that l by (intro U16_other(2)) (auto simp: off_defs)
  have b: "?b ! i = ?a ! i" if "i < 1358" "i \<notin> {38, 39}" for i
    using that l by (intro U16_other(2)) (auto simp: off_defs)
  have a: "?a ! i = b ! i" if "i < 1358" "i \<notin> {18, 19}" for i
    using that assms by (intro U16_other(2)) (auto simp: off_defs sizeof_NETPACKA_def)
  show "i < sizeof_NETPACKA \<Longrightarrow> i \<notin> {16, 17, 18, 19, 36, 37, 38, 39} \<Longrightarrow> patched ident len p1 p2 b ! i = b ! i"
    using n[of i] c[of i] b[of i] a[of i] by (simp add: sizeof_NETPACKA_def)
  show "be16 16 (patched ident len p1 p2 b) = unat (len + 8 + 20)"
    using be16_U16[of 16 ?b "len + 8 + 20"] l n[of 16] n[of 17] by (simp add: be16_def off_totlen_def)
  show "be16 38 (patched ident len p1 p2 b) = unat (len + 8)"
    using be16_U16[of 38 ?a "len + 8"] l n[of 38] n[of 39] c[of 38] c[of 39] by (simp add: be16_def off_len_def)
  show "patched ident len p1 p2 b ! 36 = p1" "patched ident len p1 p2 b ! 37 = p2"
    using l by (simp_all add: patched_def off_defs nth_mem_write)
qed

lemma ring_read_take:
  "rd + k \<le> length dat \<Longrightarrow> rd + k < UDP_BUF_SIZE \<Longrightarrow> ring_read dat rd k = (take k (drop rd dat), rd + k)"
proof (induction k arbitrary: rd)
  case (Suc k)
  then have "drop rd dat = dat ! rd # drop (Suc rd) dat" by (intro Cons_nth_drop_Suc[symmetric]) simp
  then show ?case using Suc by simp
qed simp

lemma eth_send_patched:
  "eth_send own ok dat p1 p2 len n =
     snd (udp_ts_output own ok dat 0 (n\<lparr>port_len := len, ip_id := ip_id n + 1, port_tot_len := len + 8 + 20 + 14,
       netUdpPack := patched (ip_id n + 1) len p1 p2 (netUdpPack n)\<rparr>))"
  by (simp add: eth_send_def patched_def UDP_HLEN_def IP_HLEN_def LINK_HLEN_def Let_def)

lemma parse_header:
  assumes "42 \<le> length b"
  shows "parse_udp (take 42 b @ d) =
    (if b ! 12 = 0x08 \<and> b ! 13 = 0x00 \<and> b ! 14 = 0x45 \<and> b ! 23 = 0x11 \<and>
        be16 16 b = length d + 28 \<and> be16 38 b = length d + 8
     then Some \<lparr>to_mac = mem_read b 0 6, from_mac = mem_read b 6 6, from_ip = mem_read b 26 4, to_ip = mem_read b 30 4,
            from_port = HexBuf_To_U16 b 34, to_port = HexBuf_To_U16 b 36, udp_data = d\<rparr>
     else None)"
proof -
  let ?f = "take 42 b @ d"
  have n: "?f ! i = b ! i" if "i < 42" for i using that assms by (simp add: nth_append)
  have m: "mem_read ?f k j = mem_read b k j" if "k + j \<le> 42" for k j
    using that assms by (intro nth_equalityI) (simp_all add: n)
  have l: "length ?f = 42 + length d" "drop 42 ?f = d" using assms by simp_all
  show ?thesis
    unfolding parse_udp_def l by (simp add: n m be16_def HexBuf_To_U16_def add.commute)
qed

text \<open>The view a receiver has of an answer.\<close>

definition answer_view :: "net \<Rightarrow> u8 \<Rightarrow> u8 \<Rightarrow> bytes \<Rightarrow> udp_view" where
  "answer_view n p1 p2 d =
     \<lparr>to_mac = rp_mac (netif_remote_par n), from_mac = np_mac (netif_par n), from_ip = np_ip (netif_par n),
      to_ip = rp_ip (netif_remote_par n), from_port = np_port (netif_par n), to_port = ucast p1 * 0x100 + ucast p2,
      udp_data = d\<rparr>"

lemma patched_packed:
  assumes "packed n" "netUdpPack m = patched ident len p1 p2 (netUdpPack n)"
    and "netif_par m = netif_par n" "netif_remote_par m = netif_remote_par n"
  shows "packed m"
proof -
  note p = assms(1)[unfolded packed_def]
  note f = patched_fields[where b = "netUdpPack n" and ident = ident and len = len and ?p1.0 = p1 and ?p2.0 = p2]
  have l: "length (netUdpPack n) = 1358" "length (netUdpPack m) = 1358"
    using p f(1) assms(2) by (simp_all add: sizeof_NETPACKA_def)
  have e: "netUdpPack m ! i = netUdpPack n ! i" if "i < 16 \<or> 20 \<le> i \<and> i < 36" for i
    using f(2)[where i = i] p that unfolding assms(2) sizeof_NETPACKA_def by auto
  have r: "mem_read (netUdpPack m) k j = mem_read (netUdpPack n) k j" if "k + j \<le> 16 \<or> 20 \<le> k \<and> k + j \<le> 36" for k j
    using that l by (intro mem_read_cong) (auto intro: e)
  show ?thesis
    using p l unfolding packed_def assms(3,4)
    by (simp add: e r HexBuf_To_U16_def sizeof_NETPACKA_def)
qed

lemma unat_small_add: "unat len \<le> 1482 \<Longrightarrow> unat (len + 8 :: u16) = unat len + 8 \<and> unat (len + 8 + 20 :: u16) = unat len + 28 \<and>
    unat (len + 8 + 20 + 14 :: u16) = unat len + 42"
  by (simp add: unat_word_ariths)

text \<open>Every answer is a well-formed UDP datagram: with the header packet set up and a free descriptor,
  \<open>eth_send\<close> hands the MAC one frame whose headers a receiver reads back as a version 4 datagram of
  the right lengths carrying exactly the data; the packet stays set up for the next answer.\<close>

lemma eth_answer_frame:
  assumes "packed n" "unat len = length dat" "length dat \<le> 1482"
  shows "\<exists>f. sent_frames (eth_send False ok dat p1 p2 len n) = sent_frames n @ [(f, ok)] \<and>
      parse_udp f = Some (answer_view n p1 p2 dat)"
    and "sent_frames (eth_send True ok dat p1 p2 len n) = sent_frames n"
    and "packed (eth_send own ok dat p1 p2 len n) \<and> netif_par (eth_send own ok dat p1 p2 len n) = netif_par n \<and>
    netif_remote_par (eth_send own ok dat p1 p2 len n) = netif_remote_par n"
proof -
  let ?b = "patched (ip_id n + 1) len p1 p2 (netUdpPack n)"
  let ?n = "n\<lparr>port_len := len, ip_id := ip_id n + 1, port_tot_len := len + 8 + 20 + 14, netUdpPack := ?b\<rparr>"
  have pk: "packed ?n" by (rule patched_packed[OF assms(1), of _ "ip_id n + 1" len p1 p2]) simp_all
  note p = pk[unfolded packed_def]
  have lb: "length (netUdpPack n) = sizeof_NETPACKA" using assms(1) by (simp add: packed_def)
  note f = patched_fields[OF lb, where ident = "ip_id n + 1" and len = len and ?p1.0 = p1 and ?p2.0 = p2]
  have u: "unat (len + 8) = length dat + 8" "unat (len + 8 + 20) = length dat + 28" "unat (len + 8 + 20 + 14) = length dat + 42"
    using unat_small_add[of len] assms(2,3) by simp_all
  have rr: "ring_read dat 0 (length dat) = (dat, length dat)"
    using ring_read_take[of 0 "length dat" dat] assms(3) by (simp add: UDP_BUF_SIZE_def)
  have o: "udp_ts_output own ok dat 0 ?n = (if own then (0, ?n)
      else (if ok then length dat else 0, ?n\<lparr>sent_frames := sent_frames n @ [(take 42 ?b @ dat, ok)]\<rparr>))" for own
    using assms(2,3) u(3) rr by (simp add: udp_ts_output_def ETH_RX_BUF_SIZE_def)
  have v: "parse_udp (take 42 ?b @ dat) = Some (answer_view n p1 p2 dat)"
    using p f(3-6) u lb f(1)
    by (subst parse_header) (simp_all add: sizeof_NETPACKA_def answer_view_def HexBuf_To_U16_def add.commute)
  have k: "packed (?n\<lparr>sent_frames := x\<rparr>)" for x using pk by (simp add: packed_def)
  show "\<exists>f. sent_frames (eth_send False ok dat p1 p2 len n) = sent_frames n @ [(f, ok)] \<and>
      parse_udp f = Some (answer_view n p1 p2 dat)"
    "sent_frames (eth_send True ok dat p1 p2 len n) = sent_frames n"
    "packed (eth_send own ok dat p1 p2 len n) \<and> netif_par (eth_send own ok dat p1 p2 len n) = netif_par n \<and>
    netif_remote_par (eth_send own ok dat p1 p2 len n) = netif_remote_par n"
    unfolding eth_send_patched o using pk k v by simp_all
qed

section \<open>Start-up\<close>

definition net0 :: net where
  "net0 = \<lparr>netif_par = \<lparr>np_ip = replicate 4 0, np_netmask = replicate 4 0, np_gateway = replicate 4 0, np_mac = replicate 6 0, np_port = 0\<rparr>,
     netif_remote_par = \<lparr>rp_ip = replicate 4 0, rp_port = 0, rp_mac = replicate 6 0, rp_link = 0\<rparr>,
     net_ipaddr = replicate 4 0, net_netmask = replicate 4 0, net_gw = replicate 4 0, remoteipaddr = replicate 4 0,
     MACAddr = replicate 6 0, netUdpPack = replicate sizeof_NETPACKA 0, port_len = 0, port_tot_len = 0, ip_id = 0,
     destPort = 0, sinkPort = 0, udp_state = 0, sent_frames = []\<rparr>"

lemma mem_write_keeps:
  "i < length b \<Longrightarrow> i < off \<or> off + length xs \<le> i \<Longrightarrow> mem_write b off xs ! i = b ! i"
  by (auto simp: nth_mem_write)

lemma mem_read_update_other: "i < k \<or> k + m \<le> i \<Longrightarrow> k + m \<le> length b \<Longrightarrow> mem_read (b[i := x]) k m = mem_read b k m"
  by (rule mem_read_cong) (auto simp: nth_list_update)

lemma packed_init:
  assumes "length (netUdpPack n) = sizeof_NETPACKA" "length (np_mac (netif_par n)) = 6" "length (np_ip (netif_par n)) = 4"
    and "length (rp_mac (netif_remote_par n)) = 6" "length (rp_ip (netif_remote_par n)) = 4"
  shows "packed (udp_pack_init n)"
proof -
  have t: "take 6 (np_mac (netif_par n)) = np_mac (netif_par n)" "take 4 (np_ip (netif_par n)) = np_ip (netif_par n)"
    "take 6 (rp_mac (netif_remote_par n)) = rp_mac (netif_remote_par n)" "take 4 (rp_ip (netif_remote_par n)) = rp_ip (netif_remote_par n)"
    using assms by simp_all
  have same: "mem_read (mem_write b off xs) off k = xs" if "length xs = k" "off + k \<le> length b" for b off k and xs :: bytes
    using mem_read_write_same[of off xs b] that by simp
  show ?thesis
    using assms unfolding packed_def udp_pack_init_def Let_def U16_To_HexBuf_def HexBuf_To_U16_def t off_defs
    by (simp add: nth_mem_write sizeof_NETPACKA_def ucast_hi_lo mem_read_write_other mem_read_update_other same)
qed

lemma packed_connect:
  assumes "length (netUdpPack n) = sizeof_NETPACKA" "length (np_mac (netif_par n)) = 6" "length (np_ip (netif_par n)) = 4"
    and "length (rp_mac (netif_remote_par n)) = 6" "length (rp_ip (netif_remote_par n)) = 4"
  shows "packed (udp_echoclient_connect n)" "netif_par (udp_echoclient_connect n) = netif_par n"
    "netif_remote_par (udp_echoclient_connect n) = netif_remote_par n"
proof -
  have "packed (m\<lparr>udp_state := x\<rparr>) = packed m" for m x by (simp add: packed_def)
  then show "packed (udp_echoclient_connect n)"
    unfolding udp_echoclient_connect_def Let_def using assms by (simp add: packed_init)
  show "netif_par (udp_echoclient_connect n) = netif_par n"
    "netif_remote_par (udp_echoclient_connect n) = netif_remote_par n"
    by (simp_all add: udp_echoclient_connect_def udp_pack_init_def Let_def)
qed

text \<open>The software part of \<open>HardWare_Init\<close> and \<open>main\<close> that concerns the network.\<close>

definition network_start :: "store \<Rightarrow> net \<Rightarrow> store \<times> net" where
  "network_start s n =
     (let s = Read_Flash_IP_MAC s in (s, udp_echoclient_connect (config_env_init s n)))"

lemma saved_address:
  assumes "saved (store_flash t) (config_of s) [1]" "map length (config_of s) = config_lengths"
  shows "Ip_Arr (Read_Flash_IP_MAC t) = Ip_Arr s" "Mac_Arr (Read_Flash_IP_MAC t) = Mac_Arr s"
proof -
  have l: "length (Ip_Arr s) = 4" "length (Mac_Arr s) = 6" using assms(2) by (auto simp: config_of_def config_lengths_def)
  have b: "block_is (cells (store_flash t)) (IP_NUM_ADDR, Ip_Arr s)" "block_is (cells (store_flash t)) (MAC_ARR_NUM_ADDR, Mac_Arr s)"
    using assms(1) by (simp_all add: saved_def config_of_def config_addrs_def)
  note r = saved_restore[OF assms]
  show "Ip_Arr (Read_Flash_IP_MAC t) = Ip_Arr s" "Mac_Arr (Read_Flash_IP_MAC t) = Mac_Arr s"
    using r read_block_is[OF b(1) l(1)] read_block_is[OF b(2) l(2)]
    by (simp_all add: Read_Flash_IP_MAC_def Let_def IP_NUM_def MAC_ARR_NUM_def)
qed

text \<open>C7: The address set in the menu or by the PC is the box's address on the wire after a restart: once
  \<open>Write2Flash\<close> has saved a configuration, the start-up, whatever RAM held, sets up the answer packet
  so that every answer comes from the saved IP and MAC address and port 0x5004; until LwIP reports the
  partner's MAC address answers go to the all-zero one, afterwards to that one, always to the fixed partner
  address 192.168.0.190.\<close>

theorem saved_address_on_wire:
  assumes "hal_laws hal" "store_wf s" "unat len = length dat" "length dat \<le> 1482" "length mac = 6"
    and "(s', n) = network_start (ram\<lparr>store_flash := store_flash (Write2Flash hal v s)\<rparr>) net0"
    and "m = remoteLwip_mac_conf (Some FACTORY_REMOTE_IP) mac n"
  shows "packed n \<and> packed m \<and>
    answer_view n p1 p2 dat = \<lparr>to_mac = replicate 6 0, from_mac = Mac_Arr s, from_ip = Ip_Arr s, to_ip = FACTORY_REMOTE_IP,
      from_port = 0x5004, to_port = ucast p1 * 0x100 + ucast p2, udp_data = dat\<rparr> \<and>
    (\<exists>f. sent_frames (eth_send False ok dat p1 p2 len m) = sent_frames m @ [(f, ok)] \<and>
       parse_udp f = Some \<lparr>to_mac = mac, from_mac = Mac_Arr s, from_ip = Ip_Arr s, to_ip = FACTORY_REMOTE_IP,
         from_port = 0x5004, to_port = ucast p1 * 0x100 + ucast p2, udp_data = dat\<rparr>)"
proof -
  let ?t = "ram\<lparr>store_flash := store_flash (Write2Flash hal v s)\<rparr>"
  have l: "map length (config_of s) = config_lengths" using assms(2) by (simp add: store_wf_def)
  then have la: "length (Ip_Arr s) = 4" "length (Mac_Arr s) = 6" by (auto simp: config_of_def config_lengths_def)
  have "saved (store_flash ?t) (config_of s) [1]" using Write2Flash_saved(1)[OF assms(1,2)] by simp
  note a = saved_address[OF this l]
  have ipmac: "map (\<lambda>i. Get_IP_Fragment i (Read_Flash_IP_MAC ?t)) [0..<4] = Ip_Arr s"
    "map (\<lambda>i. Get_MAC_Fragment i (Read_Flash_IP_MAC ?t)) [0..<6] = Mac_Arr s"
    unfolding Get_IP_Fragment_def Get_MAC_Fragment_def a using la map_nth[of "Ip_Arr s"] map_nth[of "Mac_Arr s"] by simp_all
  let ?c = "config_env_init (Read_Flash_IP_MAC ?t) net0"
  have c: "np_ip (netif_par ?c) = Ip_Arr s" "np_mac (netif_par ?c) = Mac_Arr s" "np_port (netif_par ?c) = 0x5004"
    "netif_remote_par ?c = \<lparr>rp_ip = FACTORY_REMOTE_IP, rp_port = FACTORY_UDP_OUT_PORT, rp_mac = replicate 6 0, rp_link = 0\<rparr>"
    "netUdpPack ?c = replicate sizeof_NETPACKA 0" "remoteipaddr ?c = FACTORY_REMOTE_IP"
    by (simp_all add: config_env_init_def load_Factory_ipPar_def load_Factory_remote_ipPar_def Lwip_Par_conf_def
        ethernetif_mac_conf_def remoteLwip_Par_conf_def ipmac net0_def FACTORY_UDP_IN_PORT_def NET_UNLINK_def)
  have n: "n = udp_echoclient_connect ?c" using assms(6) by (simp add: network_start_def Let_def)
  have pn: "packed n" "netif_par n = netif_par ?c" "netif_remote_par n = netif_remote_par ?c"
    unfolding n by (rule packed_connect; simp add: c la FACTORY_REMOTE_IP_def)+
  have rn: "remoteipaddr n = FACTORY_REMOTE_IP"
    using c(6) by (simp add: n udp_echoclient_connect_def udp_pack_init_def Let_def)
  have m: "m = n\<lparr>netif_remote_par := (netif_remote_par n)\<lparr>rp_link := 1, rp_mac := mac\<rparr>,
      netUdpPack := mem_write (netUdpPack n) 0 mac\<rparr>"
    using assms(5) pn(3) c(4)
    by (simp add: assms(7) remoteLwip_mac_conf_def rn get_remoteLwip_udp_link_def NET_UNLINK_def NET_LINKED_def
        set_remoteLwip_udp_link_def ap_udp_set_mac_def off_dest_mac_def Let_def)
  have pm: "packed m"
    using pn(1) assms(5) mem_read_write_same[of 0 mac "netUdpPack n"]
    unfolding packed_def m
    by (simp add: mem_write_keeps HexBuf_To_U16_def sizeof_NETPACKA_def mem_read_write_other)
  have v: "answer_view n p1 p2 dat = \<lparr>to_mac = replicate 6 0, from_mac = Mac_Arr s, from_ip = Ip_Arr s, to_ip = FACTORY_REMOTE_IP,
      from_port = 0x5004, to_port = ucast p1 * 0x100 + ucast p2, udp_data = dat\<rparr>"
    "answer_view m p1 p2 dat = \<lparr>to_mac = mac, from_mac = Mac_Arr s, from_ip = Ip_Arr s, to_ip = FACTORY_REMOTE_IP,
      from_port = 0x5004, to_port = ucast p1 * 0x100 + ucast p2, udp_data = dat\<rparr>"
    using c pn by (simp_all add: answer_view_def m)
  show ?thesis
    using pn(1) pm v eth_answer_frame(1)[OF pm assms(3,4), where ok = ok and ?p1.0 = p1 and ?p2.0 = p2] by simp
qed

text \<open>The demo configuration saved, then a restart with other RAM.\<close>

definition saved_demo :: store where
  "saved_demo = demo_store\<lparr>Ip_Arr := [], Mac_Arr := [], store_flash := store_flash (Write2Flash nor_flash demo_versions demo_store)\<rparr>"

theorem saved_address_on_wire_witness:
  "\<exists>f. sent_frames (eth_send False True [2, 0x10, 5] 0x12 0x34 3
       (remoteLwip_mac_conf (Some FACTORY_REMOTE_IP) [1, 2, 3, 4, 5, 6] (snd (network_start saved_demo net0)))) =
     sent_frames (remoteLwip_mac_conf (Some FACTORY_REMOTE_IP) [1, 2, 3, 4, 5, 6] (snd (network_start saved_demo net0))) @ [(f, True)] \<and>
     parse_udp f = Some \<lparr>to_mac = [1, 2, 3, 4, 5, 6], from_mac = [2, 4, 6, 8, 10, 12], from_ip = [10, 0, 0, 7], to_ip = FACTORY_REMOTE_IP,
       from_port = 0x5004, to_port = 0x1234, udp_data = [2, 0x10, 5]\<rparr>"
proof -
  note w = demo_store_wf
  have st: "(fst (network_start saved_demo net0), snd (network_start saved_demo net0)) =
      network_start ((demo_store\<lparr>Ip_Arr := [], Mac_Arr := []\<rparr>)\<lparr>store_flash := store_flash (Write2Flash nor_flash demo_versions demo_store)\<rparr>) net0"
    by (simp add: saved_demo_def)
  have l: "unat (3 :: u16) = length [2, 0x10, 5 :: u8]" "length [2, 0x10, 5 :: u8] \<le> 1482" "length [1, 2, 3, 4, 5, 6 :: u8] = 6"
    by simp_all
  have ip: "Ip_Arr demo_store = [10, 0, 0, 7]" "Mac_Arr demo_store = [2, 4, 6, 8, 10, 12]" by (simp_all add: demo_store_def)
  show ?thesis
    using saved_address_on_wire[OF nor_flash_laws w l st refl, where ok = True and ?p1.0 = "0x12" and ?p2.0 = "0x34"]
    unfolding ip by simp
qed

section \<open>From a request to the answer\<close>

lemma setter_effects:
  "effects (Set_Config_Format v s) = effects s" "effects (Set_Config_Video_Input v s) = effects s"
  "effects (Set_Config_Video_Output v s) = effects s" "effects (Set_UTCoffset_Num v s) = effects s"
  "effects (Set_SRC_MODE v s) = effects s" "effects (Set_Config_SRC_synctype v s) = effects s"
  "effects (Set_Config_SRC_clocktype v s) = effects s" "effects (Set_Config_SRC_syncframe v s) = effects s"
  "effects (Set_Config_Display_mode v s) = effects s"
  by (simp_all add: Set_Config_Format_def Set_Config_Video_Input_def Set_Config_Video_Output_def Set_UTCoffset_Num_def
      Set_SRC_MODE_def Set_Config_SRC_synctype_def Set_Config_SRC_clocktype_def Set_Config_SRC_syncframe_def
      Set_Config_Display_mode_def)

definition grows :: "store \<Rightarrow> store \<Rightarrow> bool" where
  "grows s t \<longleftrightarrow> (\<exists>es. effects t = effects s @ es)"

lemma Update_Flash_Arr_effects: "grows s (Update_Flash_Arr pos s)"
proof -
  have g: "grows s t \<Longrightarrow> grows s (set_brightness t)" "grows s t \<Longrightarrow> grows s (emit es t)" for t es
    by (auto simp: grows_def set_brightness_def)
  have e: "effects t = effects s \<Longrightarrow> grows s t" for t by (simp add: grows_def)
  let ?v = "User_Arr s ! pos"
  define a where "a = En_Or_Dis_UpData (if pos < 5
      then (if ?v = 1 then s\<lparr>System_Feature_Arr := (System_Feature_Arr s)[pos := MENU_SET]\<rparr>
            else if ?v = 0 then s\<lparr>System_Feature_Arr := (System_Feature_Arr s)[pos := MENU_RESET]\<rparr> else s)
      else s)"
  define b where "b = (if pos = 0x0f then set_brightness a else a)"
  have "grows s a" by (rule e) (simp add: a_def)
  then have b: "grows s b" using g(1) by (simp add: b_def)
  then have k: "effects t = effects b \<Longrightarrow> grows s t" for t by (simp add: grows_def)
  show ?thesis
    unfolding Update_Flash_Arr_def Let_def a_def[symmetric] b_def[symmetric]
    using b g(2)[OF b] k by (auto simp: setter_effects)
qed

lemma Send_User_Data_answers:
  assumes "q ! 0 = 2 \<or> q ! 0 = 3"
  shows "\<exists>es. effects (Send_User_Data q s) =
    effects s @ es @ [effect.Eth_Send_api [q ! 0, q ! 1, if q ! 0 = 2 then User_Arr s ! unat (q ! 1) else q ! 2]]"
proof (cases "q ! 0 = 2")
  case True
  then show ?thesis by (simp add: Send_User_Data_def Let_def)
next
  case False
  then have q: "q ! 0 = 3" using assms by simp
  obtain es where "effects (Update_Flash_Arr (unat (q ! 1)) (s\<lparr>User_Arr := (User_Arr s)[unat (q ! 1) := q ! 2]\<rparr>)) = effects s @ es"
    using Update_Flash_Arr_effects[of "s\<lparr>User_Arr := (User_Arr s)[unat (q ! 1) := q ! 2]\<rparr>" "unat (q ! 1)"]
    by (auto simp: grows_def)
  then show ?thesis using q by (simp add: Send_User_Data_def Let_def Set_Update_Flash_Flag_def)
qed

text \<open>A request of the PC: a UDP frame to port 0x5004 with three bytes of data, read or write; the write that
  restarts the box is excluded.\<close>

definition pc_request :: "bytes \<Rightarrow> bool" where
  "pc_request f \<longleftrightarrow> 45 \<le> length f \<and> eth_accepts f \<and> (f ! 42 = 2 \<or> f ! 42 = 3 \<and> (f ! 43 \<noteq> 0xff \<or> f ! 44 \<noteq> 0xff))"

text \<open>C6: From the network and back: a request frame that arrives while none waits is queued by the
  receive interrupt, and the next poll answers it: the last call it makes is \<open>Eth_Send_api\<close>, which sends one
  UDP datagram from the box to the partner, to the port the request came from, that echoes command and
  position and carries the value read or written; the ring is empty again.\<close>

theorem pc_request_answered:
  assumes "packed n" "eth_ring_ok r" "eth_pending r = []" "pc_request f"
    and "(r', s') = pollint_eth_send e (eth_irq_input f r, s)"
  shows "eth_pending r' = [] \<and> eth_ring_ok r' \<and>
    (\<exists>es answer frame. effects (spi_store s') = effects (spi_store s) @ es @ [effect.Eth_Send_api answer] \<and>
       sent_frames (Eth_Send_api False ok r' answer 3 n) = sent_frames n @ [(frame, ok)] \<and>
       parse_udp frame = Some (answer_view n (f ! 34) (f ! 35)
         [f ! 42, f ! 43, if f ! 42 = 2 then User_Arr (spi_store s) ! unat (f ! 43) else f ! 44]))"
proof -
  have a: "eth_accepts f" and l: "45 \<le> length f" and c: "f ! 42 = 2 \<or> f ! 42 = 3"
    using assms(4) by (auto simp: pc_request_def eth_accepts_def)
  let ?r = "eth_irq_input f r" and ?q = "mem_read f 42 3"
  have ok': "eth_ring_ok ?r" by (rule eth_irq_ok[OF assms(2)])
  have pe: "eth_pending ?r = [?q]"
    using eth_irq_pending[OF assms(2) a] assms(3) by simp
  have r': "r' = fst (pollint_eth_send e (?r, s))" "s' = snd (pollint_eth_send e (?r, s))"
    using assms(5) by (metis fst_conv, metis snd_conv)
  have pend: "eth_pending r' = []" "eth_ring_ok r'"
    unfolding r' using eth_poll_pending(1)[OF ok', of e s] eth_poll_ok[OF ok'] pe by simp_all
  have q: "?q ! 0 = f ! 42" "?q ! 1 = f ! 43" "?q ! 2 = f ! 44" using l by (simp_all add: mem_read_def)
  have s': "spi_store s' = Send_User_Data ?q (spi_store s)"
    unfolding r' eth_poll_pending(2)[OF ok', of e s] pe using c q by (auto simp: eth_dispatch_def)
  have ports: "dstpot_1 r' = f ! 34" "dstpot_2 r' = f ! 35"
    using a unfolding r' by (simp_all add: pollint_eth_send_def Let_def eth_irq_input_def eth_accepts_def)
  let ?d = "[f ! 42, f ! 43, if f ! 42 = 2 then User_Arr (spi_store s) ! unat (f ! 43) else f ! 44]"
  obtain es where es: "effects (spi_store s') = effects (spi_store s) @ es @ [effect.Eth_Send_api ?d]"
    using Send_User_Data_answers[of ?q "spi_store s"] c q unfolding s' by auto
  obtain frame where "sent_frames (Eth_Send_api False ok r' ?d 3 n) = sent_frames n @ [(frame, ok)]"
    "parse_udp frame = Some (answer_view n (f ! 34) (f ! 35) ?d)"
    using eth_answer_frame(1)[OF assms(1), where len = 3 and dat = ?d and ok = ok and ?p1.0 = "f ! 34" and ?p2.0 = "f ! 35"]
    by (auto simp: Eth_Send_api_def ports)
  then show ?thesis using pend es by blast
qed

definition demo_request :: bytes where
  "demo_request = replicate 34 0 @ [0x12, 0x34, 0x50, 0x04, 0, 0, 0, 0, 0x02, 0x10, 0x00]"

definition demo_spi4 :: spi4 where
  "demo_spi4 = \<lparr>Write_Data = replicate 16 0, Read_Data = replicate 16 0, spi_lock = 0, retry_flag = 0, NSS = 1,
     jit_reg_num_1 = 0, jit_reg_num_2 = 0, fw_reg_num = replicate 5 0, config_r82_num = 0, config_r83_num = 0,
     config_r84_num = 0, config_r87_num = 0, config_r88_num = 0, config_r89_num = 0, config_r8a_num = 0,
     config_r8b_num = 0, config_r8c_num = 0, config_r8d_num = 0, config_r8e_num = 0, spi_bus = [], spi_store = demo_store\<rparr>"

definition demo_fpga_env :: fpga_env where
  "demo_fpga_env = \<lparr>phy_link_reg = 0x784d, fpga_reply = (\<lambda>_ q. q)\<rparr>"

theorem pc_request_answered_witness:
  "\<exists>es answer frame. effects (spi_store (snd (pollint_eth_send demo_fpga_env (eth_irq_input demo_request eth_ring0, demo_spi4)))) =
      effects demo_store @ es @ [effect.Eth_Send_api answer] \<and>
    sent_frames (Eth_Send_api False True (fst (pollint_eth_send demo_fpga_env (eth_irq_input demo_request eth_ring0, demo_spi4)))
      answer 3 (udp_echoclient_connect net0)) = [(frame, True)] \<and>
    parse_udp frame = Some (answer_view (udp_echoclient_connect net0) 0x12 0x34 [0x02, 0x10, 0x00])"
proof -
  have n: "packed (udp_echoclient_connect net0)" by (rule packed_connect) (simp_all add: net0_def)
  have r: "eth_ring_ok eth_ring0" "eth_pending eth_ring0 = []"
    by (simp_all add: eth_ring_ok_def eth_ring0_def eth_pending_def eth_waiting_def)
  have f: "pc_request demo_request" by (simp add: pc_request_def eth_accepts_def demo_request_def nth_append)
  have v: "User_Arr demo_store ! 16 = 0" "spi_store demo_spi4 = demo_store" by (simp_all add: demo_store_def demo_spi4_def)
  have d: "demo_request ! 34 = 0x12" "demo_request ! 35 = 0x34" "demo_request ! 42 = 2" "demo_request ! 43 = 0x10"
    by (simp_all add: demo_request_def nth_append)
  have s: "sent_frames (udp_echoclient_connect net0) = []"
    by (simp add: udp_echoclient_connect_def udp_pack_init_def Let_def net0_def)
  show ?thesis
    using pc_request_answered[OF n r f prod.collapse[of "pollint_eth_send demo_fpga_env (eth_irq_input demo_request eth_ring0, demo_spi4)"], where ok = True]
    by (simp add: v d s)
qed

end
