(* ===== verification/Spec2Isabelle.thy ===== *)
theory Spec2Isabelle
  imports Checksum EventQueue TsMux StoreTypes MenuEdit MainLoop Scheduler Network
begin

text \<open>
  Verification development for the firmware of an STM32F7 video and GPS synchronisation box
  (\<open>src/f765_0127_test_ok1\<close>; file names below are relative to it).

  \<^bold>\<open>The program.\<close>  The box has a 128 x 64 display, three keys, a GPS receiver, an FPGA behind an
  SPI link and an Ethernet interface.  The main loop (\<open>app/main.c\<close>) alternates two things: it
  takes one event from a queue and hands it to the handler of the current work mode
  (\<open>app/power.c\<close>), and it polls (\<open>app/pollint.c\<close>): every millisecond the serial port, every 10 ms
  the keys, every 100 ms the status registers of the FPGA and a pending flash write, every second
  the display.  Keys become events; in the menu an event is a key for the state machine of
  \<open>menu.c\<close>, whose entries call back into \<open>menu_items.c\<close>, which changes the configuration
  (\<open>meau_flash.c\<close>), redraws the display (\<open>oled.c\<close>), writes the configuration to flash
  (\<open>romflash.c\<close>) and its registers to the FPGA (\<open>spi4.c\<close>).  A PC reads and writes the same
  configuration over the network (\<open>ethernetif.c\<close>, \<open>udp_api.c\<close>).

  \<^bold>\<open>Theories and code.\<close>
  \<^item> \<open>Prelude\<close>: machine integers, C strings, buffers (in-place writes, slices, rings);
    \<open>Interfaces\<close>: the bounded queue as a locale, interpreted by the event queue.
  \<^item> \<open>EventQueue\<close>: \<open>app/eventManage.c\<close>, the record \<open>event_state\<close> holds its statics; refines a list
    of at most 32 pairs.  \<open>Checksum\<close>: \<open>include/checksum.h\<close>, equal to the bit-serial register.
  \<^item> \<open>Rescale\<close>, \<open>TsMux\<close>: \<open>app/tsmux.c\<close>.  64-bit rescaling in three branches; the packet writers
    and the polling state machine over explicit output buffers.
  \<^item> \<open>RomFlash\<close>: \<open>driver/romflash/romflash.c\<close> over a record \<open>hal_flash\<close> of the vendor's erase and
    program routines.  \<open>ConfigStore\<close>: \<open>meau_flash.c\<close>; the record \<open>store\<close> is the configuration arrays,
    the mirror for the PC, the flash, and a trace \<open>effects\<close> of the calls into the drivers, in their
    order.  \<open>StatusList\<close>: \<open>meau_status_list.c\<close>, \<open>meau_system_list.c\<close>.
  \<^item> \<open>MenuItems\<close>, \<open>Menu\<close>: \<open>menu_items.c\<close>, \<open>menu.c\<close>.  The record \<open>ui\<close> is the store, the 22 menu
    tables, the editors' variables, the queue and the stack of menu states; an operation answers
    \<open>None\<close> where C would follow a null pointer, call a null callback or leave a table.
    \<open>MenuSafety\<close>: the invariant; \<open>MenuProps\<close>, \<open>MenuEdit\<close>: what the menu does for its user.
    \<open>StoreTypes\<close>: keys, network commands, saves, resets and power cycles as one transition relation on menu and
    store, and the value types (which entries may be set or disabled) that RAM, menus and flash keep under it.
  \<^item> \<open>FpgaLink\<close>: \<open>spi4.c\<close>, \<open>uart2.c\<close> and the ring of requests in \<open>ethernetif.c\<close>; the FPGA's replies
    are an argument.  \<open>Gps\<close>: \<open>uart4.c\<close>, \<open>gps_pps.c\<close>, \<open>rtc.c\<close>.  \<open>Keypad\<close>: \<open>key.c\<close>, the pins are an argument.
  \<^item> \<open>OledFont\<close>, \<open>Oled\<close>: \<open>oledfont.h\<close>, \<open>oled.c\<close>; a routine is the sequence of its pin accesses, read back
    by a model of the display controller's serial port and memory.  \<open>Display\<close>: the frames of the
    menu carried out by that driver.
  \<^item> \<open>Scheduler\<close>: \<open>app/pollint.c\<close>.  \<open>MainPage\<close>: \<open>main_meau.c\<close>.  \<open>MainLoop\<close>: \<open>power.c\<close>, \<open>main.c\<close>; composes
    keypad, queue, menu and main page.
  \<^item> \<open>Uart3\<close>, \<open>SerialDownload\<close>: \<open>uart3.c\<close>, \<open>mboot.c\<close>: the transmit ring, the reception of packets, the download
    of a program or configuration.  \<open>ConfigEnv\<close>: \<open>config_env.c\<close>, a register file in flash sector 7
    (present, but not loaded at start-up: \<open>config_data_init\<close> is compiled out and \<open>ModeOn\<close> is not called).
  \<^item> \<open>Network\<close>: \<open>udp_api.c\<close>, the parameters of \<open>lwip.c\<close>, the output side of \<open>ethernetif.c\<close>: the answers to
    the PC, read back by a parser of UDP datagrams.
  \<^bold>\<open>What the lemmas show.\<close>  For every component an invariant or layout that its operations keep
  (\<open>menu_inv\<close>, \<open>typed_box\<close>, \<open>event_inv\<close>, \<open>eth_ring_ok\<close>), the behaviour of each branch, and the promise made
  to its clients: what is saved is restored, what is chosen takes effect and reaches the FPGA, the
  queue is a queue, a frame cut into packets is recovered, a byte sent to the display arrives.
  The theorems at the top compose them: \<open>key_to_glass\<close> goes from the pins of a key to the memory
  of the display, \<open>pc_request_answered\<close> from a frame of the PC to the frame that answers it, and
  \<open>saved_address_on_wire\<close> from an address saved in flash to the sender of the frames after a restart.
  Where the code does not do what it means to, the theorem states what it does
  (the home menu's Exit entry, abandoned edits, settings lost between PC and menu, retries of
  FPGA writes, the date handed to the clock, the serial download).

  \<^bold>\<open>Conventions, bounds and fuel.\<close>  C integers are words of their width, wrap-around included; \<open>int\<close> with
  explicit wrapping where the code mixes signed widths (\<open>Rescale\<close>, \<open>TsMux\<close>).  Array indices and
  addresses are naturals, with the bound in the invariant.  Loops are structural recursion, or
  \<open>function\<close> with a measure (\<open>mpegts_normal_packet\<close>, \<open>find_comma\<close>, \<open>hour_down\<close>).  Busy waits take
  the interrupts that end them as an argument; that enough of them end the wait is a theorem
  (\<open>delays_return\<close>, \<open>power_on_sweep\<close>, \<open>serial_output_in_order\<close>, over \<open>partial_function (option)\<close>).  No definition needs fuel.
  Interrupts happen between operations, not inside them, but for the waits; the scheduler counts
  the ticks its poll notices, one per poll, and a tick lost in a turn longer than a millisecond is outside the model.

  \<^bold>\<open>Not modelled.\<close>  The vendor's HAL and CMSIS, LwIP and Mavlink are not part of the program: what
  the code relies on is an argument (\<open>hal_laws\<close>, the replies of \<open>fpga_env\<close>, the readings of the
  PHY).  Peripheral set-up (\<open>MX_*_Init\<close>, \<open>HardWare_Init\<close>, clocks, \<open>HAL_*_MspInit\<close>, interrupt vectors) only
  writes registers of the chip.  The chip drivers \<open>adv7619.c\<close>, \<open>si5324.c\<close>, \<open>sii9136-3\<close>, \<open>sdi\<close>
  are register tables for chips whose behaviour is not in the repository; \<open>spi1.c\<close>, \<open>spi5.c\<close>, \<open>spi6.c\<close> are not polled,
  \<open>i2c\<close>, \<open>i2s\<close>, \<open>dma\<close>, \<open>iwdg\<close>, \<open>led\<close> are start-up code and single calls of the HAL.  \<open>printf\<close> output and
  code disabled by the preprocessor or by comments are left out, as are files the project does not
  build (\<open>app/oled.c\<close>, \<open>FFmpegMux.cpp\<close>).
\<close>

section \<open>From the keys to the display\<close>

text \<open>C3: From the pins of the keys to the pixels: with a menu shown and the keys enabled, an Up or
  Down key held for 4 to 52 samples and released posts its event, the next turn of the main
  loop takes it from the queue and hands it to the menu, the neighbouring entry of the ring is
  chosen, and the pin accesses of the frame drawn leave the menu, with that entry and only it
  inverse, in the display memory.  The keypad and the queue are idle again, ready for the next
  key.\<close>

theorem key_to_glass:
  assumes "showing u m i" "list_all title_fits (menus u m)"
    and "idle_keypad k" "event_inv (event_q u)" "events (event_q u) = []" "enable_key_feature mp \<noteq> 0"
    and "GetScanCode p = (if key = evKeyUP then 0x04 else 0x05)" "key = evKeyUP \<or> key = evKeyDown"
    and "GetScanCode r = 0xff" "4 \<le> n" "n < 53" "4 \<le> l"
  shows "\<exists>k' u' frame c ps.
    key_press_turn e mp (replicate n p @ replicate l r) (k, u) = Some (k', u') \<and>
    idle_keypad k' \<and> events (event_q u') = [] \<and> showing u' m (arrow_target key m i) \<and>
    effects (cfg u') = effects (cfg u) @ frame \<and> c < 8 \<and> c \<le> arrow_target key m i \<and>
    screen_pins frame = Some ps \<and>
    ram (panel_run (receive w ps) P) = frame_memory (menus u m) c (arrow_target key m i) (ram P)"
proof -
  have code: "GetScanCode p \<in> set key_codes" "event_of_code (GetScanCode p) = key"
    using assms(7,8) by (auto simp: key_codes_def event_of_code_def)
  obtain k' q' where t: "idle_keypad k'" "event_inv q'" "events q' = []"
    "key_press_turn e mp (replicate n p @ replicate l r) (k, u) =
     map_option (Pair k') (menuPollButtons e (event_of_code (GetScanCode p))
       (u\<lparr>cnt_down := 300, workMode := 5, event_q := q'\<rparr>))"
    by (rule key_press_menu[OF assms(3) code(1) refl assms(9-12,4-6)])
  let ?u = "u\<lparr>cnt_down := 300, workMode := 5, event_q := q'\<rparr>"
  have s: "showing ?u m i" "list_all title_fits (menus ?u m)"
    using assms(1,2) by (simp_all add: showing_def current_def)
  obtain u' frame c ps where "menuPollButtons e key ?u = Some u'" "showing u' m (arrow_target key m i)"
    "event_q u' = event_q ?u" "menus u' = menus ?u" "effects (cfg u') = effects (cfg ?u) @ frame"
    "c < 8" "c \<le> arrow_target key m i" "screen_pins frame = Some ps"
    "\<And>w P. ram (panel_run (receive w ps) P) = frame_memory (menus ?u m) c (arrow_target key m i) (ram P)"
    using arrow_frame[OF s(1) assms(8) s(2), of e] by metis
  then show ?thesis
    using t unfolding code(2) by (intro exI[of _ k'] exI[of _ u'] exI[of _ frame] exI[of _ c] exI[of _ ps]) simp
qed

text \<open>The main page with the keys enabled.\<close>

definition awake_page :: main_page where "awake_page = Set_Key_Feature 1 main_page0"

theorem key_to_glass_witness:
  "\<exists>k' u' frame c ps.
    key_press_turn demo_env awake_page
      (replicate 10 \<lparr>PA10 = True, PA11 = False, PA12 = True\<rparr> @ replicate 5 \<lparr>PA10 = True, PA11 = True, PA12 = True\<rparr>)
      (keypad0, menuInit (ui0 demo_store)) = Some (k', u') \<and>
    idle_keypad k' \<and> events (event_q u') = [] \<and> showing u' Home (arrow_target evKeyDown Home 0) \<and>
    effects (cfg u') = effects (cfg (menuInit (ui0 demo_store))) @ frame \<and> c < 8 \<and> c \<le> arrow_target evKeyDown Home 0 \<and>
    screen_pins frame = Some ps \<and>
    ram (panel_run (receive wire0 ps) panel0) =
      frame_memory (menus (menuInit (ui0 demo_store)) Home) c (arrow_target evKeyDown Home 0) (ram panel0)"
proof (rule key_to_glass[OF menuInit_showing home_titles])
  have q: "event_q (menuInit (ui0 demo_store)) = event_state0"
    by (simp add: menuInit_def menuReset_No_RenderMenu_def ui0_def resetState_def setState_def)
  show "idle_keypad keypad0" by (simp add: idle_keypad_def keypad0_def numeral_3_eq_3)
  show "event_inv (event_q (menuInit (ui0 demo_store)))" "events (event_q (menuInit (ui0 demo_store))) = []"
    unfolding q by (simp_all add: event_inv_init) (simp add: events_def event_state0_def)
qed (simp_all add: awake_page_def Set_Key_Feature_def GetScanCode_def evKeyDown_def evKeyUP_def)

end
